(* ===== verification/Prelude.thy ===== *)
theory Prelude
  imports Main "HOL-Library.AList" "HOL-Library.Char_ord" "HOL-Library.List_Lexorder"
    "HOL-Library.Sublist"
begin

text \<open>
  Shared vocabulary of the development: the crate's \<open>Error\<close> and \<open>Result\<close> (error.rs), with
  a panic as a third outcome; machine integers as naturals with their bounds written out; the
  functions of Rust's standard library on strings that the sources call; hash maps and ordered
  maps as association lists. A \<open>char\<close> is a byte, so a \<open>string\<close> is the UTF-8 byte
  sequence of a Rust string, and byte arrays have the same type.
\<close>

named_theorems res_simps \<open>how results compose\<close>
named_theorems hmap_simps \<open>lookup after an update of a map\<close>
named_theorems std_simps \<open>arithmetic and string functions of the standard library\<close>

section \<open>Errors and results\<close>

datatype error_kind =
    InvalidArgument
  | AlreadyExists
  | FailedPrecondition
  | Unauthenticated
  | PermissionDenied
  | NotFound
  | Unavailable
  | ResourceExhausted
  | DeadlineExceeded

record error =
  err_kind :: error_kind
  err_message :: string
  err_path :: "string option"
  err_line :: "nat option"
  err_column :: "nat option"

definition error_new :: "error_kind \<Rightarrow> string \<Rightarrow> error" where
  "error_new k m =
     \<lparr>err_kind = k, err_message = m, err_path = None, err_line = None, err_column = None\<rparr>"

definition invalid :: "string \<Rightarrow> error" where
  "invalid m = error_new InvalidArgument m"

definition at_path :: "error \<Rightarrow> string \<Rightarrow> error" where
  "at_path e p = e\<lparr>err_path := Some p\<rparr>"

definition at_span :: "error \<Rightarrow> nat \<Rightarrow> nat \<Rightarrow> error" where
  "at_span e l c = e\<lparr>err_line := Some l, err_column := Some c\<rparr>"

text \<open>
  \<open>Result<T>\<close> of the sources. \<open>Panic\<close> is the outcome of \<open>unwrap\<close> or \<open>expect\<close> on an
  absent value, of \<open>unreachable!\<close> and of an index out of range.
\<close>

datatype 'a res = Ok 'a | Err error | Panic

fun rbind :: "'a res \<Rightarrow> ('a \<Rightarrow> 'b res) \<Rightarrow> 'b res" where
  "rbind (Ok x) f = f x"
| "rbind (Err e) f = Err e"
| "rbind Panic f = Panic"

definition rmap :: "('a \<Rightarrow> 'b) \<Rightarrow> 'a res \<Rightarrow> 'b res" where
  "rmap f r = rbind r (\<lambda>x. Ok (f x))"

text \<open>\<open>ok_or\<close> is \<open>Option::ok_or_else\<close>, \<open>unwrap_opt\<close> is \<open>Option::unwrap\<close>,
  \<open>unwrap_res\<close> is \<open>Result::unwrap\<close> and \<open>res_ok\<close> is \<open>Result::ok\<close>.\<close>

definition ok_or :: "error \<Rightarrow> 'a option \<Rightarrow> 'a res" where
  "ok_or e x = (case x of None \<Rightarrow> Err e | Some v \<Rightarrow> Ok v)"

definition unwrap_opt :: "'a option \<Rightarrow> 'a res" where
  "unwrap_opt x = (case x of None \<Rightarrow> Panic | Some v \<Rightarrow> Ok v)"

fun unwrap_res :: "'a res \<Rightarrow> 'a res" where
  "unwrap_res (Ok x) = Ok x"
| "unwrap_res (Err e) = Panic"
| "unwrap_res Panic = Panic"

fun res_ok :: "'a res \<Rightarrow> 'a option res" where
  "res_ok (Ok x) = Ok (Some x)"
| "res_ok (Err e) = Ok None"
| "res_ok Panic = Panic"

definition guard_err :: "bool \<Rightarrow> error \<Rightarrow> unit res" where
  "guard_err b e = (if b then Err e else Ok ())"

text \<open>A loop that pushes results and stops at the first failure.\<close>

fun rseq :: "'a res list \<Rightarrow> 'a list res" where
  "rseq [] = Ok []"
| "rseq (r # rs) = rbind r (\<lambda>x. rbind (rseq rs) (\<lambda>xs. Ok (x # xs)))"

fun is_ok :: "'a res \<Rightarrow> bool" where
  "is_ok (Ok x) = True"
| "is_ok _ = False"

lemma rbind_eq_Ok [res_simps]: "rbind m f = Ok y \<longleftrightarrow> (\<exists>x. m = Ok x \<and> f x = Ok y)"
  by (cases m) auto

lemma rbind_eq_Panic [res_simps]:
  "rbind m f = Panic \<longleftrightarrow> m = Panic \<or> (\<exists>x. m = Ok x \<and> f x = Panic)"
  by (cases m) auto

lemma rbind_eq_Err [res_simps]:
  "rbind m f = Err e \<longleftrightarrow> m = Err e \<or> (\<exists>x. m = Ok x \<and> f x = Err e)"
  by (cases m) auto

lemma rbind_assoc: "rbind (rbind m f) g = rbind m (\<lambda>x. rbind (f x) g)"
  by (cases m) auto

lemma rbind_cong [fundef_cong]:
  "m = m' \<Longrightarrow> (\<And>x. m' = Ok x \<Longrightarrow> f x = f' x) \<Longrightarrow> rbind m f = rbind m' f'"
  by (cases m') auto

lemma rbind_Ok_right [simp]: "rbind m Ok = m"
  by (cases m) auto

lemma rmap_eq_Ok [res_simps]: "rmap f r = Ok y \<longleftrightarrow> (\<exists>x. r = Ok x \<and> y = f x)"
  by (cases r) (auto simp: rmap_def)

lemma rmap_eq_Panic [res_simps]: "rmap f r = Panic \<longleftrightarrow> r = Panic"
  by (cases r) (auto simp: rmap_def)

lemma rmap_simps [simp]: "rmap f (Ok x) = Ok (f x)" "rmap f (Err e) = Err e" "rmap f Panic = Panic"
  by (simp_all add: rmap_def)

lemma ok_or_simps [simp]: "ok_or e (Some v) = Ok v" "ok_or e None = Err e"
  by (simp_all add: ok_or_def)

lemma ok_or_eq_Ok [res_simps]: "ok_or e x = Ok v \<longleftrightarrow> x = Some v"
  by (cases x) auto

lemma ok_or_not_Panic [simp]: "ok_or e x \<noteq> Panic"
  by (cases x) auto

lemma unwrap_opt_simps [simp]: "unwrap_opt (Some v) = Ok v" "unwrap_opt None = Panic"
  by (simp_all add: unwrap_opt_def)

lemma unwrap_opt_eq_Ok [res_simps]: "unwrap_opt x = Ok v \<longleftrightarrow> x = Some v"
  by (cases x) auto

lemma unwrap_opt_eq_Panic [res_simps]: "unwrap_opt x = Panic \<longleftrightarrow> x = None"
  by (cases x) auto

lemma unwrap_opt_not_Err [simp]: "unwrap_opt x \<noteq> Err e"
  by (cases x) auto

lemma unwrap_res_eq_Ok [res_simps]: "unwrap_res r = Ok v \<longleftrightarrow> r = Ok v"
  by (cases r) auto

lemma guard_err_simps [simp]: "guard_err True e = Err e" "guard_err False e = Ok ()"
  by (simp_all add: guard_err_def)

lemma guard_err_eq_Ok [res_simps]: "guard_err b e = Ok u \<longleftrightarrow> \<not> b"
  by (simp add: guard_err_def)

lemma guard_err_not_Panic [simp]: "guard_err b e \<noteq> Panic"
  by (simp add: guard_err_def)

lemma case_option_Ok_Some [res_simps]:
  "(case x of None \<Rightarrow> Ok None | Some v \<Rightarrow> f v) = Ok (Some y) \<longleftrightarrow> (\<exists>v. x = Some v \<and> f v = Ok (Some y))"
  by (cases x) auto

lemma is_ok_iff: "is_ok r \<longleftrightarrow> (\<exists>x. r = Ok x)"
  by (cases r) auto

lemma rseq_length: "rseq rs = Ok xs \<Longrightarrow> length xs = length rs"
  by (induction rs arbitrary: xs) (auto simp: res_simps)

lemma rseq_nth: "rseq rs = Ok xs \<Longrightarrow> i < length rs \<Longrightarrow> rs ! i = Ok (xs ! i)"
  by (induction rs arbitrary: xs i) (auto simp: res_simps less_Suc_eq_0_disj)

lemma rseq_map_Ok: "(\<And>x. x \<in> set xs \<Longrightarrow> f x = Ok (g x)) \<Longrightarrow> rseq (map f xs) = Ok (map g xs)"
  by (induction xs) auto

lemma rseq_eq_Panic: "rseq rs = Panic \<Longrightarrow> Panic \<in> set rs"
  by (induction rs) (auto simp: res_simps)

section \<open>Machine integers\<close>

text \<open>
  Unsigned integers are naturals. Saturating operations stop at the bound, casts keep the low
  bits, and \<open>+ 1\<close> on a \<open>u32\<close> or \<open>u64\<close> wraps as it does in a release build.
\<close>

definition u32_max :: nat where
  "u32_max = 2 ^ 32 - 1"

definition u64_max :: nat where
  "u64_max = 2 ^ 64 - 1"

definition sat_add64 :: "nat \<Rightarrow> nat \<Rightarrow> nat" where
  "sat_add64 a b = min (a + b) u64_max"

definition sat_mul64 :: "nat \<Rightarrow> nat \<Rightarrow> nat" where
  "sat_mul64 a b = min (a * b) u64_max"

definition sat_add32 :: "nat \<Rightarrow> nat \<Rightarrow> nat" where
  "sat_add32 a b = min (a + b) u32_max"

definition as_u32 :: "int \<Rightarrow> nat" where
  "as_u32 v = nat (v mod 2 ^ 32)"

definition wrap32 :: "nat \<Rightarrow> nat" where
  "wrap32 n = n mod 2 ^ 32"

definition wrap64 :: "nat \<Rightarrow> nat" where
  "wrap64 n = n mod 2 ^ 64"

lemma u64_max_val: "u64_max = 18446744073709551615"
  by (simp add: u64_max_def)

lemma u32_max_val: "u32_max = 4294967295"
  by (simp add: u32_max_def)

lemma sat_add64_le [std_simps]: "sat_add64 a b \<le> u64_max"
  by (simp add: sat_add64_def)

lemma sat_add64_ge: "a \<le> u64_max \<Longrightarrow> a \<le> sat_add64 a b"
  by (simp add: sat_add64_def)

lemma sat_add64_mono: "a \<le> a' \<Longrightarrow> sat_add64 a b \<le> sat_add64 a' b"
  by (auto simp: sat_add64_def)

lemma sat_add64_exact: "a + b \<le> u64_max \<Longrightarrow> sat_add64 a b = a + b"
  by (simp add: sat_add64_def)

lemma sat_add64_gt: "a < u64_max \<Longrightarrow> 0 < b \<Longrightarrow> a < sat_add64 a b"
  by (simp add: sat_add64_def)

lemma wrap32_id: "n \<le> u32_max \<Longrightarrow> wrap32 n = n"
  by (simp add: wrap32_def u32_max_def)

section \<open>Strings of the standard library\<close>

definition in_range :: "char \<Rightarrow> char \<Rightarrow> char \<Rightarrow> bool" where
  "in_range lo hi c \<longleftrightarrow> lo \<le> c \<and> c \<le> hi"

definition is_ascii_digit :: "char \<Rightarrow> bool" where
  "is_ascii_digit c \<longleftrightarrow> in_range (CHR ''0'') (CHR ''9'') c"

definition is_ascii_lower :: "char \<Rightarrow> bool" where
  "is_ascii_lower c \<longleftrightarrow> in_range (CHR ''a'') (CHR ''z'') c"

definition is_ascii_upper :: "char \<Rightarrow> bool" where
  "is_ascii_upper c \<longleftrightarrow> in_range (CHR ''A'') (CHR ''Z'') c"

definition is_ascii_alphanumeric :: "char \<Rightarrow> bool" where
  "is_ascii_alphanumeric c \<longleftrightarrow> is_ascii_digit c \<or> is_ascii_lower c \<or> is_ascii_upper c"

definition strip_prefix :: "string \<Rightarrow> string \<Rightarrow> string option" where
  "strip_prefix p s = (if prefix p s then Some (drop (length p) s) else None)"

definition strip_suffix :: "string \<Rightarrow> string \<Rightarrow> string option" where
  "strip_suffix p s = (if suffix p s then Some (take (length s - length p) s) else None)"

text \<open>\<open>str::trim().is_empty()\<close>: every character is white space. The non-ASCII white space
  characters of Unicode are matched by their UTF-8 bytes.\<close>

fun blank :: "string \<Rightarrow> bool" where
  "blank [] = True"
| "blank (c # cs) =
     (if in_range (CHR 0x09) (CHR 0x0D) c \<or> c = CHR '' '' then blank cs
      else case cs of
        d # ds \<Rightarrow>
          if c = CHR 0xC2 \<and> (d = CHR 0x85 \<or> d = CHR 0xA0) then blank ds
          else (case ds of
            e # es \<Rightarrow>
              if (c, d, e) \<in> {(CHR 0xE1, CHR 0x9A, CHR 0x80), (CHR 0xE2, CHR 0x81, CHR 0x9F),
                                (CHR 0xE3, CHR 0x80, CHR 0x80)}
                 \<or> (c = CHR 0xE2 \<and> d = CHR 0x80
                    \<and> (in_range (CHR 0x80) (CHR 0x8A) e \<or> e \<in> {CHR 0xA8, CHR 0xA9, CHR 0xAF}))
              then blank es else False
          | [] \<Rightarrow> False)
      | [] \<Rightarrow> False)"

text \<open>\<open>str::rsplit_once\<close>: split at the last occurrence of the pattern.\<close>

fun rsplit_once :: "string \<Rightarrow> string \<Rightarrow> (string \<times> string) option" where
  "rsplit_once p [] = (if p = [] then Some ([], []) else None)"
| "rsplit_once p (c # cs) =
     (case rsplit_once p cs of
        Some (a, b) \<Rightarrow> Some (c # a, b)
      | None \<Rightarrow> if prefix p (c # cs) then Some ([], drop (length p) (c # cs)) else None)"

text \<open>\<open>str::split\<close> on one character: always at least one part.\<close>

fun split_on :: "char \<Rightarrow> string \<Rightarrow> string list" where
  "split_on d [] = [[]]"
| "split_on d (c # cs) =
     (if c = d then [] # split_on d cs
      else case split_on d cs of [] \<Rightarrow> [[c]] | p # ps \<Rightarrow> (c # p) # ps)"

text \<open>\<open>str::replace\<close> of a two-byte pattern by one byte, left to right without overlap.\<close>

fun replace2 :: "char \<Rightarrow> char \<Rightarrow> char \<Rightarrow> string \<Rightarrow> string" where
  "replace2 a b r [] = []"
| "replace2 a b r [x] = [x]"
| "replace2 a b r (x # y # zs) =
     (if x = a \<and> y = b then r # replace2 a b r zs else x # replace2 a b r (y # zs))"

definition digit_val :: "char \<Rightarrow> nat" where
  "digit_val c = of_char c - of_char (CHR ''0'')"

definition digit_char :: "nat \<Rightarrow> char" where
  "digit_char n = char_of (n + of_char (CHR ''0''))"

fun digits_val :: "nat \<Rightarrow> string \<Rightarrow> nat" where
  "digits_val acc [] = acc"
| "digits_val acc (c # cs) = digits_val (10 * acc + digit_val c) cs"

text \<open>\<open>str::parse\<close> into an unsigned integer type with the given maximum: an optional plus
  sign, at least one digit, no overflow.\<close>

definition parse_uint :: "nat \<Rightarrow> string \<Rightarrow> nat option" where
  "parse_uint bound s =
     (let ds = (case s of c # cs \<Rightarrow> if c = CHR ''+'' then cs else s | [] \<Rightarrow> [])
      in if ds \<noteq> [] \<and> list_all is_ascii_digit ds \<and> digits_val 0 ds \<le> bound
         then Some (digits_val 0 ds) else None)"

text \<open>\<open>to_string\<close> of an unsigned integer, and of a signed one.\<close>

fun show_nat :: "nat \<Rightarrow> string" where
  "show_nat n = (if n < 10 then [digit_char n] else show_nat (n div 10) @ [digit_char (n mod 10)])"

declare show_nat.simps [simp del]

definition show_int :: "int \<Rightarrow> string" where
  "show_int i = (if i < 0 then CHR ''-'' # show_nat (nat (- i)) else show_nat (nat i))"

lemma split_on_nonempty [simp]: "split_on d s \<noteq> []"
  by (induction s) (auto split: list.splits)

lemma split_on_append:
  "split_on d (s @ d # t) = split_on d s @ split_on d t"
  by (induction s) (auto split: list.splits simp: neq_Nil_conv)

lemma split_on_no_sep: "d \<notin> set s \<Longrightarrow> split_on d s = [s]"
  by (induction s) auto

lemma digit_char_props:
  assumes "n < 10"
  shows "is_ascii_digit (digit_char n)" and "digit_val (digit_char n) = n"
proof -
  have "n = 0 \<or> n = 1 \<or> n = 2 \<or> n = 3 \<or> n = 4 \<or> n = 5 \<or> n = 6 \<or> n = 7 \<or> n = 8 \<or> n = 9"
    using assms by arith
  then show "is_ascii_digit (digit_char n)" and "digit_val (digit_char n) = n"
    by (auto simp: digit_char_def digit_val_def is_ascii_digit_def in_range_def less_eq_char_def)
qed

lemma digits_val_append: "digits_val acc (xs @ ys) = digits_val (digits_val acc xs) ys"
  by (induction xs arbitrary: acc) auto

lemma show_nat_digits: "list_all is_ascii_digit (show_nat n) \<and> show_nat n \<noteq> []
    \<and> digits_val 0 (show_nat n) = n"
proof (induction n rule: show_nat.induct)
  case (1 n)
  show ?case
  proof (cases "n < 10")
    case True
    then show ?thesis
      by (simp add: show_nat.simps [of n] digit_char_props)
  next
    case False
    with "1.IH" show ?thesis
      by (simp add: show_nat.simps [of n] digits_val_append digit_char_props)
  qed
qed

lemma digit_not_special:
  "is_ascii_digit c \<Longrightarrow> c \<noteq> CHR ''+'' \<and> c \<noteq> CHR ''/'' \<and> c \<noteq> CHR ''v''"
  by (auto simp: is_ascii_digit_def in_range_def less_eq_char_def)

lemma parse_show_nat [std_simps]: "n \<le> bound \<Longrightarrow> parse_uint bound (show_nat n) = Some n"
  using show_nat_digits [of n] digit_not_special
  by (cases "show_nat n") (auto simp: parse_uint_def Let_def)

lemma parse_uint_le: "parse_uint bound s = Some n \<Longrightarrow> n \<le> bound"
  by (auto simp: parse_uint_def Let_def split: if_splits)

lemma parse_uint_no_slash:
  assumes "parse_uint bound s = Some n"
  shows "CHR ''/'' \<notin> set s"
proof -
  from assms have "list_all is_ascii_digit (case s of c # cs \<Rightarrow> if c = CHR ''+'' then cs else s | [] \<Rightarrow> [])"
    unfolding parse_uint_def Let_def by (metis option.distinct(1))
  moreover have "\<not> is_ascii_digit (CHR ''/'')" using digit_not_special by blast
  ultimately show ?thesis by (cases s) (auto simp: list_all_iff split: if_split_asm)
qed

lemma rsplit_once_Some: "rsplit_once p s = Some (a, b) \<Longrightarrow> s = a @ p @ b"
proof (induction s arbitrary: a)
  case (Cons c s)
  show ?case
  proof (cases "rsplit_once p s")
    case None
    with Cons.prems have "prefix p (c # s)" "a = []" "b = drop (length p) (c # s)"
      by (simp_all split: if_split_asm)
    then show ?thesis by (metis append_Nil append_eq_conv_conj prefixE)
  next
    case (Some ab)
    with Cons.prems obtain a' where "a = c # a'" "rsplit_once p s = Some (a', b)" by (cases ab) simp
    with Cons.IH show ?thesis by simp
  qed
qed (simp split: if_split_asm)

lemma rsplit_once_none:
  "c \<notin> set s \<Longrightarrow> rsplit_once (c # p) s = None"
  by (induction s) auto

lemma rsplit_once_last:
  assumes "c \<notin> set p" and "c \<notin> set t"
  shows "rsplit_once (c # p) (s @ c # p @ t) = Some (s, t)"
proof (induction s)
  case Nil
  have "rsplit_once (c # p) (p @ t) = None"
    using assms by (intro rsplit_once_none) auto
  then show ?case by simp
next
  case (Cons x s)
  then show ?case by simp
qed

section \<open>Maps\<close>

text \<open>
  A \<open>HashMap\<close> is an association list with distinct keys: the order of the list stands for
  the iteration order, which Rust leaves open and which differs between processes. A
  \<open>BTreeMap\<close> iterates in key order, so \<open>bput\<close> inserts at the key's place.
\<close>

type_synonym ('k, 'v) hmap = "('k \<times> 'v) list"
type_synonym ('k, 'v) bmap = "('k \<times> 'v) list"

abbreviation hget :: "('k, 'v) hmap \<Rightarrow> 'k \<Rightarrow> 'v option" where
  "hget m k \<equiv> map_of m k"

abbreviation hput :: "'k \<Rightarrow> 'v \<Rightarrow> ('k, 'v) hmap \<Rightarrow> ('k, 'v) hmap" where
  "hput k v m \<equiv> AList.update k v m"

abbreviation hmod :: "'k \<Rightarrow> ('v \<Rightarrow> 'v) \<Rightarrow> ('k, 'v) hmap \<Rightarrow> ('k, 'v) hmap" where
  "hmod k f m \<equiv> AList.map_entry k f m"

definition hvals :: "('k, 'v) hmap \<Rightarrow> 'v list" where
  "hvals m = map snd m"

definition hhas :: "('k, 'v) hmap \<Rightarrow> 'k \<Rightarrow> bool" where
  "hhas m k \<longleftrightarrow> map_of m k \<noteq> None"

text \<open>Iterating with \<open>values_mut\<close>.\<close>

definition hmap_vals :: "('v \<Rightarrow> 'v) \<Rightarrow> ('k, 'v) hmap \<Rightarrow> ('k, 'v) hmap" where
  "hmap_vals f m = map (\<lambda>(k, v). (k, f v)) m"

fun bput :: "'k::linorder \<Rightarrow> 'v \<Rightarrow> ('k, 'v) bmap \<Rightarrow> ('k, 'v) bmap" where
  "bput k v [] = [(k, v)]"
| "bput k v ((k', v') # m) =
     (if k < k' then (k, v) # (k', v') # m
      else if k = k' then (k, v) # m
      else (k', v') # bput k v m)"

lemma hget_hput [hmap_simps, simp]: "hget (hput k v m) k' = (if k' = k then Some v else hget m k')"
  by (simp add: update_conv')

lemma hget_hmod [hmap_simps, simp]:
  "hget (hmod k f m) k' = (if k' = k then map_option f (hget m k) else hget m k')"
  by (induction m) auto

lemma hget_hmap_vals [hmap_simps, simp]: "hget (hmap_vals f m) k = map_option f (hget m k)"
  by (induction m) (auto simp: hmap_vals_def)

lemma hmap_vals_keys [simp]: "map fst (hmap_vals f m) = map fst m"
  by (induction m) (auto simp: hmap_vals_def)

lemma hmod_keys [simp]: "map fst (hmod k f m) = map fst m"
  by (induction m) auto

lemma hput_distinct: "distinct (map fst m) \<Longrightarrow> distinct (map fst (hput k v m))"
  by (rule distinct_update)

lemma hput_fst: "fst ` set (hput k v m) = insert k (fst ` set m)"
  by (simp add: dom_update)

lemma hhas_hput [simp]: "hhas (hput k v m) k' \<longleftrightarrow> k' = k \<or> hhas m k'"
  by (simp add: hhas_def)

lemma hhas_hmod [simp]: "hhas (hmod k f m) k' \<longleftrightarrow> hhas m k'"
  by (auto simp: hhas_def)

lemma hhas_hmap_vals [simp]: "hhas (hmap_vals f m) k \<longleftrightarrow> hhas m k"
  by (auto simp: hhas_def)

lemma hvals_hmap_vals [simp]: "hvals (hmap_vals f m) = map f (hvals m)"
  by (auto simp: hvals_def hmap_vals_def)

lemma in_hvals_iff:
  "distinct (map fst m) \<Longrightarrow> v \<in> set (hvals m) \<longleftrightarrow> (\<exists>k. hget m k = Some v)"
  by (force simp: hvals_def)

lemma hget_in_hvals: "hget m k = Some v \<Longrightarrow> v \<in> set (hvals m)"
  by (auto simp: hvals_def dest: map_of_SomeD intro: rev_image_eqI)

lemma bget_bput [hmap_simps, simp]:
  "map_of (bput k v m) k' = (if k' = k then Some v else map_of m k')"
  by (induction m) auto

lemma bput_entries: "x \<in> set (bput k v m) \<Longrightarrow> x = (k, v) \<or> x \<in> set m"
  by (induction m) (auto split: if_splits)

lemma bput_keys: "fst ` set (bput k v m) = insert k (fst ` set m)"
proof (rule set_eqI)
  fix x
  show "x \<in> fst ` set (bput k v m) \<longleftrightarrow> x \<in> insert k (fst ` set m)"
    using map_of_eq_None_iff [of "bput k v m" x] map_of_eq_None_iff [of m x]
    by (metis bget_bput insert_iff option.distinct(1))
qed

lemma bput_sorted:
  "sorted_wrt (<) (map fst m) \<Longrightarrow> sorted_wrt (<) (map fst (bput k v m))"
proof (induction m)
  case Nil
  then show ?case by simp
next
  case (Cons a m)
  obtain k' v' where a: "a = (k', v')" by (cases a)
  from Cons.prems a have below: "\<And>x. x \<in> fst ` set m \<Longrightarrow> k' < x" and rest: "sorted_wrt (<) (map fst m)"
    by auto
  have "\<And>x. x \<in> fst ` set (bput k v m) \<Longrightarrow> k' < x" if "k' < k"
    using below that by (auto simp: bput_keys)
  with Cons.IH [OF rest] below rest show ?case
    by (force simp: a not_less)
qed

section \<open>Lists\<close>

lemma find_Some_iff_split:
  "List.find P xs = Some x \<longleftrightarrow> (\<exists>ys zs. xs = ys @ x # zs \<and> P x \<and> (\<forall>y\<in>set ys. \<not> P y))"
proof (induction xs)
  case Nil
  then show ?case by simp
next
  case (Cons a xs)
  show ?case
  proof (cases "P a")
    case True
    then show ?thesis
      by (auto simp: Cons_eq_append_conv)
  next
    case False
    with Cons show ?thesis
      by (auto simp: Cons_eq_append_conv) (metis append_Cons set_ConsD)
  qed
qed

lemma find_SomeD: "List.find P xs = Some x \<Longrightarrow> x \<in> set xs \<and> P x"
  by (induction xs) (auto split: if_splits)

lemma find_None_iff': "List.find P xs = None \<longleftrightarrow> (\<forall>x\<in>set xs. \<not> P x)"
  by (induction xs) auto

text \<open>Update of the first element with a property, \<open>iter_mut().find(..)\<close> of the sources.\<close>

fun update_first :: "('a \<Rightarrow> bool) \<Rightarrow> ('a \<Rightarrow> 'a) \<Rightarrow> 'a list \<Rightarrow> 'a list" where
  "update_first P f [] = []"
| "update_first P f (x # xs) = (if P x then f x # xs else x # update_first P f xs)"

lemma update_first_length [simp]: "length (update_first P f xs) = length xs"
  by (induction xs) auto

lemma update_first_none: "\<forall>x\<in>set xs. \<not> P x \<Longrightarrow> update_first P f xs = xs"
  by (induction xs) auto

lemma update_first_map: "(\<And>x. g (f x) = g x) \<Longrightarrow> map g (update_first P f xs) = map g xs"
  by (induction xs) auto

lemma update_first_split:
  "\<lbrakk>P x; \<forall>y\<in>set ys. \<not> P y\<rbrakk> \<Longrightarrow> update_first P f (ys @ x # zs) = ys @ f x # zs"
  by (induction ys) auto

lemma set_update_first: "y \<in> set (update_first P f xs) \<Longrightarrow> y \<in> set xs \<or> (\<exists>x\<in>set xs. P x \<and> y = f x)"
  by (induction xs) (auto split: if_splits)

lemma subseq_distinct: "subseq xs ys \<Longrightarrow> distinct ys \<Longrightarrow> distinct xs"
  by (induction rule: list_emb.induct) (auto dest: list_emb_set)

lemma in_map_filter: "y \<in> set (List.map_filter f xs) \<longleftrightarrow> (\<exists>x\<in>set xs. f x = Some y)"
  by (induction xs) (auto simp: map_filter_simps split: option.splits)

lemma map_filter_cong_set: "(\<And>x. x \<in> set xs \<Longrightarrow> f x = g x) \<Longrightarrow> List.map_filter f xs = List.map_filter g xs"
  by (induction xs) (auto simp: map_filter_simps split: option.split)

end
