(* ===== verification/Values.thy ===== *)
theory Values
  imports Prelude "HOL-Library.Multiset"
begin

text \<open>
  The dynamic values of the engine (value.rs): the \<open>Value\<close> enum, its conversion from and to
  JSON with the nesting limit, JSON Pointer projection, and the canonical JSON encoding that
  every digest is taken over. \<open>serde_json::Value\<close> is the type \<open>json\<close>; a number is
  classified by its \<open>as_i64\<close> view, \<open>JNum\<close> for one that has it and \<open>JOtherNum\<close>, with its
  printed form, for one that has not. The string encoder of \<open>serde_json\<close> is a parameter.
\<close>

section \<open>Values and JSON\<close>

datatype val =
    VNull
  | VBool bool
  | VInt int
  | VStr string
  | VArr "val list"
  | VObj "(string \<times> val) list"

datatype json =
    JNull
  | JBool bool
  | JNum int
  | JOtherNum string
  | JStr string
  | JArr "json list"
  | JObj "(string \<times> json) list"

definition MAX_DATA_DEPTH :: nat where
  "MAX_DATA_DEPTH = 32"

fun as_i64 :: "val \<Rightarrow> int option" where
  "as_i64 (VInt v) = Some v"
| "as_i64 _ = None"

fun as_str :: "val \<Rightarrow> string option" where
  "as_str (VStr s) = Some s"
| "as_str _ = None"

text \<open>Inserting fields one after the other into an empty \<open>BTreeMap\<close>.\<close>

definition obj_of :: "(string \<times> 'v) list \<Rightarrow> (string \<times> 'v) list" where
  "obj_of kvs = fold (\<lambda>(k, v) m. bput k v m) kvs []"

lemma size_snd_lt:
  "(k, v) \<in> set kvs \<Longrightarrow> f v < Suc (size_list (size_prod g f) kvs)"
  by (induction kvs) auto

fun to_json :: "val \<Rightarrow> json" where
  "to_json VNull = JNull"
| "to_json (VBool b) = JBool b"
| "to_json (VInt i) = JNum i"
| "to_json (VStr s) = JStr s"
| "to_json (VArr items) = JArr (map to_json items)"
| "to_json (VObj fs) = JObj (obj_of (map (\<lambda>(k, v). (k, to_json v)) fs))"

fun from_json_at :: "json \<Rightarrow> nat \<Rightarrow> val res" where
  "from_json_at json depth =
     (if depth > MAX_DATA_DEPTH then Err (invalid ''value exceeds maximum nesting depth'')
      else case json of
        JNull \<Rightarrow> Ok VNull
      | JBool b \<Rightarrow> Ok (VBool b)
      | JNum i \<Rightarrow> Ok (VInt i)
      | JOtherNum n \<Rightarrow> Err (invalid (''non-integer number '' @ n @ '' is not supported''))
      | JStr s \<Rightarrow> Ok (VStr s)
      | JArr items \<Rightarrow> rmap VArr (rseq (map (\<lambda>item. from_json_at item (depth + 1)) items))
      | JObj fs \<Rightarrow>
          rmap (\<lambda>kvs. VObj (obj_of kvs))
            (rseq (map (\<lambda>(k, item). rmap (Pair k) (from_json_at item (depth + 1))) fs)))"

declare from_json_at.simps [simp del]

definition from_json :: "json \<Rightarrow> val res" where
  "from_json j = from_json_at j 0"

section \<open>JSON Pointer\<close>

definition unescape_pointer :: "string \<Rightarrow> string" where
  "unescape_pointer token =
     replace2 (CHR ''~'') (CHR ''0'') (CHR ''~'')
       (replace2 (CHR ''~'') (CHR ''1'') (CHR ''/'') token)"

definition pointer_step :: "string \<Rightarrow> val \<Rightarrow> string \<Rightarrow> val res" where
  "pointer_step path current raw =
     (let token = unescape_pointer raw in
      case current of
        VObj fs \<Rightarrow>
          ok_or (invalid (''missing object field '' @ token @ '' at '' @ path)) (map_of fs token)
      | VArr items \<Rightarrow>
          rbind (ok_or (invalid (''array index '' @ token @ '' is not an integer''))
                   (parse_uint u64_max token))
            (\<lambda>index. if index < length items then Ok (items ! index)
                     else Err (invalid (''array index '' @ show_nat index @ '' is out of range'')))
      | _ \<Rightarrow> Err (invalid (''cannot project '' @ token @ '' through a scalar'')))"

fun pointer_walk :: "string \<Rightarrow> val \<Rightarrow> string list \<Rightarrow> val res" where
  "pointer_walk path current [] = Ok current"
| "pointer_walk path current (raw # raws) =
     rbind (pointer_step path current raw) (\<lambda>next. pointer_walk path next raws)"

definition pointer :: "val \<Rightarrow> string \<Rightarrow> val res" where
  "pointer v path =
     (if path = [] then Ok v
      else if \<not> prefix ''/'' path
      then Err (invalid (''JSON Pointer '' @ path @ '' must start with /''))
      else pointer_walk path v (tl (split_on (CHR ''/'') path)))"

section \<open>Canonical encoding\<close>

fun join_with :: "string \<Rightarrow> string list \<Rightarrow> string" where
  "join_with sep [] = []"
| "join_with sep [x] = x"
| "join_with sep (x # y # zs) = x @ sep @ join_with sep (y # zs)"

text \<open>The encoder writes the fields of an object in the order of their keys: the encodings of
  the fields are sorted by key before they are sequenced.\<close>

fun write_canonical :: "(string \<Rightarrow> string) \<Rightarrow> json \<Rightarrow> nat \<Rightarrow> string res" where
  "write_canonical enc value depth =
     (if depth > MAX_DATA_DEPTH then Err (invalid ''canonical JSON exceeds maximum depth'')
      else case value of
        JNull \<Rightarrow> Ok ''null''
      | JBool b \<Rightarrow> Ok (if b then ''true'' else ''false'')
      | JNum i \<Rightarrow> Ok (show_int i)
      | JOtherNum n \<Rightarrow>
          Err (invalid (''non-integer number '' @ n @ '' cannot be canonicalized''))
      | JStr s \<Rightarrow> Ok (enc s)
      | JArr items \<Rightarrow>
          rmap (\<lambda>parts. ''['' @ join_with '','' parts @ '']'')
            (rseq (map (\<lambda>item. write_canonical enc item (depth + 1)) items))
      | JObj fs \<Rightarrow>
          rmap (\<lambda>parts. ''{'' @ join_with '','' parts @ ''}'')
            (rseq (map (\<lambda>(k, r). rmap (\<lambda>body. enc k @ '':'' @ body) r)
               (sort_key fst (map (\<lambda>(k, item). (k, write_canonical enc item (depth + 1))) fs)))))"

declare write_canonical.simps [simp del]

definition canonical_json :: "(string \<Rightarrow> string) \<Rightarrow> json \<Rightarrow> string res" where
  "canonical_json enc value = write_canonical enc value 0"

section \<open>Well-formed values\<close>

text \<open>A value as the engine builds it keeps object fields in strict key order. The depth counts
  the levels of arrays and objects below a value.\<close>

fun wf_val :: "val \<Rightarrow> bool" where
  "wf_val (VArr items) \<longleftrightarrow> (\<forall>v\<in>set items. wf_val v)"
| "wf_val (VObj fs) \<longleftrightarrow> sorted_wrt (<) (map fst fs) \<and> (\<forall>(k, v)\<in>set fs. wf_val v)"
| "wf_val _ \<longleftrightarrow> True"

fun vdepth :: "val \<Rightarrow> nat" where
  "vdepth (VArr items) = foldr max (map (\<lambda>v. Suc (vdepth v)) items) 0"
| "vdepth (VObj fs) = foldr max (map (\<lambda>(k, v). Suc (vdepth v)) fs) 0"
| "vdepth _ = 0"

lemma foldr_max_le_iff: "foldr max xs (0::nat) \<le> n \<longleftrightarrow> (\<forall>x\<in>set xs. x \<le> n)"
  by (induction xs) auto

lemma add_foldr_max_le:
  "d \<le> n \<Longrightarrow> d + foldr max xs 0 \<le> n \<longleftrightarrow> (\<forall>x\<in>set xs. d + x \<le> (n::nat))"
  by (induction xs) auto

lemma bput_append:
  "\<forall>x\<in>fst ` set m. x < k \<Longrightarrow> bput k v m = m @ [(k, v)]"
  by (induction m) (auto dest: order.strict_implies_not_eq order.asym)

lemma fold_bput_sorted:
  "sorted_wrt (<) (map fst (m @ kvs)) \<Longrightarrow> fold (\<lambda>(k, v) m. bput k v m) kvs m = m @ kvs"
proof (induction kvs arbitrary: m)
  case Nil
  then show ?case by simp
next
  case (Cons a kvs)
  obtain k v where a: "a = (k, v)" by (cases a)
  from Cons.prems have "\<forall>x\<in>fst ` set m. x < k"
    by (auto simp: a sorted_wrt_append)
  then have put: "bput k v m = m @ [(k, v)]"
    by (rule bput_append)
  have "fold (\<lambda>(k, v) m. bput k v m) kvs (m @ [(k, v)]) = (m @ [(k, v)]) @ kvs"
    using Cons.prems by (intro Cons.IH) (simp add: a)
  with put show ?case by (simp add: a)
qed

lemma obj_of_sorted: "sorted_wrt (<) (map fst kvs) \<Longrightarrow> obj_of kvs = kvs"
  using fold_bput_sorted [of "[]" kvs] by (simp add: obj_of_def)

lemma fold_bput_props:
  "sorted_wrt (<) (map fst m) \<Longrightarrow>
     sorted_wrt (<) (map fst (fold (\<lambda>(k, v) m. bput k v m) kvs m))"
  by (induction kvs arbitrary: m) (auto intro: bput_sorted)

lemma set_bput: "set (bput k v m) \<subseteq> insert (k, v) (set m)"
  by (induction m) (auto split: if_splits)

lemma set_fold_bput: "set (fold (\<lambda>(k, v) m. bput k v m) kvs m) \<subseteq> set kvs \<union> set m"
proof (induction kvs arbitrary: m)
  case Nil
  then show ?case by simp
next
  case (Cons a kvs)
  then show ?case
    using set_bput [of "fst a" "snd a" m] by (cases a) fastforce
qed

lemma obj_of_props: "sorted_wrt (<) (map fst (obj_of kvs))" "set (obj_of kvs) \<subseteq> set kvs"
  using fold_bput_props [of "[]" kvs] set_fold_bput [of kvs "[]"] by (simp_all add: obj_of_def)

lemma map_fst_pairs [simp]:
  "map fst (map (\<lambda>(k, v). (k, f v)) kvs) = map fst kvs"
  "map (fst \<circ> (\<lambda>(k, v). (k, f v))) kvs = map fst kvs"
  by (induction kvs) auto

lemma from_json_at_to_json:
  "wf_val v \<Longrightarrow> d + vdepth v \<le> MAX_DATA_DEPTH \<Longrightarrow> from_json_at (to_json v) d = Ok v"
proof (induction v arbitrary: d rule: wf_val.induct)
  case (1 items)
  have "rseq (map (\<lambda>v. from_json_at (to_json v) (Suc d)) items) = Ok (map id items)"
  proof (rule rseq_map_Ok)
    fix v assume v: "v \<in> set items"
    with "1.prems" have "vdepth (VArr items) \<le> MAX_DATA_DEPTH - d" by simp
    with v have "Suc (vdepth v) \<le> MAX_DATA_DEPTH - d"
      by (auto simp: foldr_max_le_iff)
    with "1.IH" [OF v] "1.prems" v show "from_json_at (to_json v) (Suc d) = Ok (id v)"
      by simp
  qed
  with "1.prems" show ?case
    by (simp add: from_json_at.simps [of "JArr _"] comp_def)
next
  case (2 fs)
  have "rseq (map (\<lambda>kv. rmap (Pair (fst kv)) (from_json_at (to_json (snd kv)) (Suc d))) fs)
      = Ok (map id fs)"
  proof (rule rseq_map_Ok)
    fix kv assume kv: "kv \<in> set fs"
    obtain k v where kv_eq: "kv = (k, v)" by (cases kv)
    from "2.prems" have "vdepth (VObj fs) \<le> MAX_DATA_DEPTH - d" by simp
    with kv have "Suc (vdepth v) \<le> MAX_DATA_DEPTH - d"
      by (auto simp: foldr_max_le_iff kv_eq)
    with "2.IH" [OF kv kv_eq [symmetric]] "2.prems" kv
    have "from_json_at (to_json v) (Suc d) = Ok v"
      by (auto simp: kv_eq)
    then show "rmap (Pair (fst kv)) (from_json_at (to_json (snd kv)) (Suc d)) = Ok (id kv)"
      by (simp add: kv_eq)
  qed
  moreover have "obj_of (map (\<lambda>(k, v). (k, to_json v)) fs) = map (\<lambda>(k, v). (k, to_json v)) fs"
    using "2.prems" by (intro obj_of_sorted) simp
  ultimately show ?case
    using "2.prems" by (simp add: from_json_at.simps [of "JObj _"] comp_def split_def obj_of_sorted)
qed (auto simp: from_json_at.simps)

lemma from_json_at_bounded:
  "from_json_at j d = Ok v \<Longrightarrow> wf_val v \<and> d + vdepth v \<le> MAX_DATA_DEPTH"
proof (induction j d arbitrary: v rule: from_json_at.induct)
  case (1 j d)
  then have d: "d \<le> MAX_DATA_DEPTH"
    by (auto simp: from_json_at.simps [of j] split: if_splits)
  show ?case
  proof (cases j)
    case (JArr items)
    with 1(3) d obtain vs where v: "v = VArr vs"
      and vs: "rseq (map (\<lambda>item. from_json_at item (d + 1)) items) = Ok vs"
      by (auto simp: from_json_at.simps [of "JArr items"] res_simps)
    have "wf_val w \<and> (d + 1) + vdepth w \<le> MAX_DATA_DEPTH" if w: "w \<in> set vs" for w
    proof -
      from w obtain i where i: "i < length vs" "w = vs ! i" by (auto simp: in_set_conv_nth)
      with rseq_nth [OF vs, of i] rseq_length [OF vs]
      have "from_json_at (items ! i) (d + 1) = Ok w" and "items ! i \<in> set items" by auto
      with 1(1) d JArr show ?thesis by simp
    qed
    with d show ?thesis
      by (auto simp: v add_foldr_max_le)
  next
    case (JObj fs)
    with 1(3) d obtain kvs where v: "v = VObj (obj_of kvs)"
      and kvs: "rseq (map (\<lambda>(k, item). rmap (Pair k) (from_json_at item (d + 1))) fs) = Ok kvs"
      by (auto simp: from_json_at.simps [of "JObj fs"] res_simps)
    have "wf_val w \<and> (d + 1) + vdepth w \<le> MAX_DATA_DEPTH" if w: "(k, w) \<in> set kvs" for k w
    proof -
      from w obtain i where i: "i < length kvs" "(k, w) = kvs ! i" by (auto simp: in_set_conv_nth)
      obtain k' item where item: "fs ! i = (k', item)" by (cases "fs ! i")
      with i rseq_nth [OF kvs, of i] rseq_length [OF kvs]
      have "from_json_at item (d + 1) = Ok w" and "(k', item) \<in> set fs"
        by (auto simp: res_simps in_set_conv_nth)
      with 1(2) d JObj show ?thesis by fastforce
    qed
    moreover have "(k, w) \<in> set kvs" if "(k, w) \<in> set (obj_of kvs)" for k w
      using obj_of_props(2) that by blast
    ultimately show ?thesis
      using d obj_of_props(1) by (fastforce simp: v add_foldr_max_le)
  qed (use 1(3) d in \<open>auto simp: from_json_at.simps\<close>)
qed

section \<open>Projection\<close>

text \<open>The escaping of RFC 6901, which \<open>unescape_pointer\<close> undoes.\<close>

fun escape_token :: "string \<Rightarrow> string" where
  "escape_token [] = []"
| "escape_token (c # cs) =
     (if c = CHR ''~'' then ''~0'' else if c = CHR ''/'' then ''~1'' else [c]) @ escape_token cs"

fun escape_tilde :: "string \<Rightarrow> string" where
  "escape_tilde [] = []"
| "escape_tilde (c # cs) = (if c = CHR ''~'' then ''~0'' else [c]) @ escape_tilde cs"

lemma replace2_skip: "c \<noteq> a \<Longrightarrow> replace2 a b r (c # zs) = c # replace2 a b r zs"
  by (cases zs) auto

lemma replace_slash: "replace2 (CHR ''~'') (CHR ''1'') (CHR ''/'') (escape_token t) = escape_tilde t"
  by (induction t) (auto simp: replace2_skip)

lemma replace_tilde: "replace2 (CHR ''~'') (CHR ''0'') (CHR ''~'') (escape_tilde t) = t"
  by (induction t) (auto simp: replace2_skip)

lemma unescape_escape: "unescape_pointer (escape_token t) = t"
  by (simp add: unescape_pointer_def replace_slash replace_tilde)

lemma escape_no_slash: "CHR ''/'' \<notin> set (escape_token t)"
  by (induction t) auto

lemma pointer_single:
  "pointer v (CHR ''/'' # escape_token k) = pointer_step (CHR ''/'' # escape_token k) v (escape_token k)"
  by (simp add: pointer_def split_on_no_sep escape_no_slash)

lemma pointer_step_path: "pointer_step p v raw = Ok w \<longleftrightarrow> pointer_step q v raw = Ok w"
  by (cases v) (auto simp: pointer_step_def Let_def res_simps)

lemma pointer_walk_path: "pointer_walk p v raws = Ok w \<longleftrightarrow> pointer_walk q v raws = Ok w"
  by (induction raws arbitrary: v) (auto simp: res_simps pointer_step_path [of p _ _ _ q])

lemma pointer_walk_append:
  "pointer_walk p v (xs @ ys) = rbind (pointer_walk p v xs) (\<lambda>u. pointer_walk p u ys)"
  by (induction xs arbitrary: v) (auto simp: rbind_assoc)

lemma pointer_slash:
  "pointer v (CHR ''/'' # s) = Ok w \<longleftrightarrow> pointer_walk q v (split_on (CHR ''/'') s) = Ok w"
  by (simp add: pointer_def pointer_walk_path [of "CHR ''/'' # s" _ _ _ q])

definition is_pointer :: "string \<Rightarrow> bool" where
  "is_pointer p \<longleftrightarrow> p = [] \<or> prefix ''/'' p"

lemma is_pointer_cases: "is_pointer p \<Longrightarrow> p = [] \<or> (\<exists>s. p = CHR ''/'' # s)"
  by (auto simp: is_pointer_def prefix_def)

lemma pointer_compose:
  assumes "is_pointer p" and "is_pointer q"
  shows "pointer v (p @ q) = Ok w \<longleftrightarrow> (\<exists>u. pointer v p = Ok u \<and> pointer u q = Ok w)"
proof -
  consider "p = []" | "q = []" | s t where "p = CHR ''/'' # s" "q = CHR ''/'' # t"
    using is_pointer_cases [OF assms(1)] is_pointer_cases [OF assms(2)] by blast
  then show ?thesis
  proof cases
    case 3
    then show ?thesis
      by (simp add: pointer_slash [where q = "[]"] split_on_append pointer_walk_append res_simps)
  qed (simp_all add: pointer_def)
qed

section \<open>Key order and the canonical encoding\<close>

text \<open>Two documents are the same up to the order of object fields.\<close>

inductive same_json :: "json \<Rightarrow> json \<Rightarrow> bool" where
  same_refl: "same_json j j"
| same_arr: "list_all2 same_json xs ys \<Longrightarrow> same_json (JArr xs) (JArr ys)"
| same_obj: "\<lbrakk>list_all2 (rel_prod (=) same_json) xs ys; set ys = set zs;
     distinct (map fst ys); distinct (map fst zs)\<rbrakk> \<Longrightarrow> same_json (JObj xs) (JObj zs)"

lemma sort_key_fst_unique:
  assumes "set xs = set ys" and "distinct (map fst xs)" and "distinct (map fst ys)"
  shows "sort_key fst xs = sort_key fst (ys :: ('k::linorder \<times> 'v) list)"
proof (rule sort_key_inj_key_eq)
  have "distinct xs" and "distinct ys"
    using assms(2,3) by (auto simp: distinct_map)
  with assms(1) show "mset xs = mset (sort_key fst ys)"
    by (simp add: set_eq_iff_mset_eq_distinct)
  show "inj_on fst (set xs)"
    using assms(2) by (simp add: distinct_map)
  show "sorted (map fst (sort_key fst ys))"
    by simp
qed

lemma write_canonical_same:
  "same_json j j' \<Longrightarrow> write_canonical enc j d = write_canonical enc j' d"
proof (induction arbitrary: d rule: same_json.induct)
  case (same_refl j)
  then show ?case by simp
next
  case (same_arr xs ys)
  then have "map (\<lambda>item. write_canonical enc item (d + 1)) xs
      = map (\<lambda>item. write_canonical enc item (d + 1)) ys"
    by (auto simp: list_all2_conv_all_nth intro: nth_equalityI)
  then show ?case
    by (simp add: write_canonical.simps [of _ "JArr _"])
next
  case (same_obj xs ys zs)
  define f where "f = (\<lambda>(k :: string, item). (k, write_canonical enc item (Suc d)))"
  from same_obj(1) have "map f xs = map f ys"
    by (auto simp: list_all2_conv_all_nth f_def split_def rel_prod_sel intro!: nth_equalityI)
  moreover have "sort_key fst (map f ys) = sort_key fst (map f zs)"
  proof (rule sort_key_fst_unique)
    show "set (map f ys) = set (map f zs)" using same_obj(2) by simp
    show "distinct (map fst (map f ys))" and "distinct (map fst (map f zs))"
      using same_obj(3,4) by (simp_all add: f_def split_def comp_def)
  qed
  ultimately show ?case
    by (simp add: write_canonical.simps [of _ "JObj _"] flip: f_def)
qed

text \<open>Property C1: the canonical encoding does not depend on the order in which the fields of an
  object were written, at any depth.\<close>

theorem canonical_json_key_order:
  "same_json j j' \<Longrightarrow> canonical_json enc j = canonical_json enc j'"
  by (simp add: canonical_json_def write_canonical_same)

end
