(* ===== verification/Ids.thy ===== *)
theory Ids
  imports Prelude
begin

text \<open>
  Identities (ids.rs) and schema references (schema.rs). The branded 16-byte identities are
  byte strings, compared and ordered bytewise; the branded counters are naturals whose
  successor saturates. Keys of the form \<open>name/vN\<close> are parsed and printed here.
\<close>

type_synonym bytes = string
type_synonym run_id = bytes
type_synonym scope_id = bytes
type_synonym activation_id = bytes
type_synonym worker_session_id = bytes
type_synonym wait_id = bytes
type_synonym command_id = bytes
type_synonym event_id = bytes
type_synonym effect_key = bytes

type_synonym owner_generation = nat
type_synonym attempt_no = nat
type_synonym run_sequence = nat
type_synonym lease_revision = nat

text \<open>\<open>LeaseRevision::next\<close> and its kin.\<close>

definition next_u64 :: "nat \<Rightarrow> nat" where
  "next_u64 n = sat_add64 n 1"

datatype execution_role = Forward | Compensation | Reconciliation

section \<open>Names\<close>

definition valid_ascii_name :: "string \<Rightarrow> bool" where
  "valid_ascii_name raw \<longleftrightarrow>
     raw \<noteq> [] \<and> length raw \<le> 64
     \<and> list_all (\<lambda>ch. is_ascii_alphanumeric ch \<or> ch = CHR ''_'' \<or> ch = CHR ''.'' \<or> ch = CHR ''-'') raw"

type_synonym node_key = string

definition node_key_char :: "char \<Rightarrow> bool" where
  "node_key_char ch \<longleftrightarrow> is_ascii_lower ch \<or> is_ascii_digit ch \<or> ch = CHR ''_''"

definition node_key_parse :: "string \<Rightarrow> string + node_key" where
  "node_key_parse raw =
     (if length raw > 64 then Inl ''node key longer than 64 characters''
      else case raw of
        [] \<Rightarrow> Inl (''invalid node key '' @ raw)
      | c # cs \<Rightarrow>
          if is_ascii_lower c then
            if list_all node_key_char cs then Inr raw else Inl (''invalid node key '' @ raw)
          else Inl (''invalid node key '' @ raw))"

section \<open>Activity keys\<close>

datatype activity_key = ActivityKey (ak_name: string) (ak_version: nat)

definition activity_key_new :: "string \<Rightarrow> nat \<Rightarrow> activity_key" where
  "activity_key_new n v = ActivityKey n v"

definition activity_key_stable_name :: "activity_key \<Rightarrow> string" where
  "activity_key_stable_name k = ak_name k @ ''/v'' @ show_nat (ak_version k)"

definition activity_key_parse :: "string \<Rightarrow> string + activity_key" where
  "activity_key_parse raw =
     (case rsplit_once ''/v'' raw of
        None \<Rightarrow> Inl (''activity '' @ raw @ '' must look like name/vN'')
      | Some (name, version) \<Rightarrow>
          (case parse_uint u32_max version of
             None \<Rightarrow> Inl (''activity '' @ raw @ '' has a non-integer version'')
           | Some v \<Rightarrow> Inr (activity_key_new name v)))"

text \<open>The derived order: by name, then by version.\<close>

instantiation activity_key :: linorder
begin

definition less_eq_activity_key :: "activity_key \<Rightarrow> activity_key \<Rightarrow> bool" where
  "less_eq_activity_key a b \<longleftrightarrow>
     ak_name a < ak_name b \<or> (ak_name a = ak_name b \<and> ak_version a \<le> ak_version b)"

definition less_activity_key :: "activity_key \<Rightarrow> activity_key \<Rightarrow> bool" where
  "less_activity_key a b \<longleftrightarrow>
     ak_name a < ak_name b \<or> (ak_name a = ak_name b \<and> ak_version a < ak_version b)"

instance
  by standard (auto simp: less_eq_activity_key_def less_activity_key_def intro: activity_key.expand)

end

section \<open>Schema keys and references\<close>

datatype schema_key = SchemaKey (sk_name: string) (sk_version: nat)

instantiation schema_key :: linorder
begin

definition less_eq_schema_key :: "schema_key \<Rightarrow> schema_key \<Rightarrow> bool" where
  "less_eq_schema_key a b \<longleftrightarrow>
     sk_name a < sk_name b \<or> (sk_name a = sk_name b \<and> sk_version a \<le> sk_version b)"

definition less_schema_key :: "schema_key \<Rightarrow> schema_key \<Rightarrow> bool" where
  "less_schema_key a b \<longleftrightarrow>
     sk_name a < sk_name b \<or> (sk_name a = sk_name b \<and> sk_version a < sk_version b)"

instance
  by standard (auto simp: less_eq_schema_key_def less_schema_key_def intro: schema_key.expand)

end

definition schema_key_new :: "string \<Rightarrow> nat \<Rightarrow> schema_key res" where
  "schema_key_new name version =
     (if \<not> valid_ascii_name name then Err (invalid (''invalid schema name '' @ name))
      else if version = 0 then Err (invalid ''schema version must be positive'')
      else Ok (SchemaKey name version))"

definition schema_key_parse :: "string \<Rightarrow> schema_key res" where
  "schema_key_parse raw =
     rbind (ok_or (invalid (''schema '' @ raw @ '' must look like name/vN'')) (rsplit_once ''/v'' raw))
       (\<lambda>(name, version).
          rbind (ok_or (invalid (''schema '' @ raw @ '' has a non-integer version''))
                   (parse_uint u32_max version))
            (\<lambda>v. schema_key_new name v))"

definition schema_key_stable_name :: "schema_key \<Rightarrow> string" where
  "schema_key_stable_name k = sk_name k @ ''/v'' @ show_nat (sk_version k)"

datatype schema_ref =
    SNamed schema_key
  | SArray schema_ref
  | STuple "schema_ref list"
  | SInteger
  | SString
  | SBoolean
  | SNull

definition schema_ref_named :: "string \<Rightarrow> nat \<Rightarrow> schema_ref res" where
  "schema_ref_named name version = rmap SNamed (schema_key_new name version)"

definition schema_ref_tuple :: "schema_ref list \<Rightarrow> schema_ref res" where
  "schema_ref_tuple elements =
     (if elements = [] \<or> length elements > 16
      then Err (invalid ''tuple schemas must have 1 to 16 elements'')
      else Ok (STuple elements))"

fun is_scalar :: "schema_ref \<Rightarrow> bool" where
  "is_scalar SInteger = True"
| "is_scalar SString = True"
| "is_scalar SBoolean = True"
| "is_scalar SNull = True"
| "is_scalar _ = False"

section \<open>Parsing and printing\<close>

lemma rsplit_version: "rsplit_once ''/v'' (name @ ''/v'' @ show_nat v) = Some (name, show_nat v)"
proof -
  have "CHR ''/'' \<notin> set (show_nat v)"
    using show_nat_digits [of v] digit_not_special by (auto simp: list_all_iff)
  then show ?thesis
    using rsplit_once_last [of "CHR ''/''" "''v''" "show_nat v" name] by simp
qed

lemma schema_key_parse_iff:
  "schema_key_parse raw = Ok k \<longleftrightarrow>
     (\<exists>digits. raw = sk_name k @ ''/v'' @ digits \<and> parse_uint u32_max digits = Some (sk_version k)
        \<and> valid_ascii_name (sk_name k) \<and> 0 < sk_version k)" (is "?l \<longleftrightarrow> ?r")
proof
  assume ?l
  then obtain name digits v where split: "rsplit_once ''/v'' raw = Some (name, digits)"
    and v: "parse_uint u32_max digits = Some v" and k: "schema_key_new name v = Ok k"
    by (auto simp: schema_key_parse_def res_simps)
  from rsplit_once_Some [OF split] v k show ?r by (auto simp: schema_key_new_def split: if_splits)
next
  assume ?r
  then obtain digits where raw: "raw = sk_name k @ ''/v'' @ digits"
    and v: "parse_uint u32_max digits = Some (sk_version k)" and k: "valid_ascii_name (sk_name k)" "0 < sk_version k"
    by blast
  have "rsplit_once ''/v'' raw = Some (sk_name k, digits)"
    using rsplit_once_last [of "CHR ''/''" "''v''" digits "sk_name k"] parse_uint_no_slash [OF v] raw by simp
  with v k show ?l by (simp add: schema_key_parse_def schema_key_new_def)
qed

text \<open>Property C37: the parser of schema keys accepts exactly the texts that are a valid name, \<open>/v\<close> and a
  positive version that is an unsigned integer of 32 bits, and returns that name and that version. So a key
  prints to a text that parses back to it exactly when its name is valid and its version is
  positive and fits 32 bits.\<close>

theorem schema_key_roundtrip:
  "(schema_key_parse raw = Ok key \<longleftrightarrow>
      (\<exists>digits. raw = sk_name key @ ''/v'' @ digits \<and> parse_uint u32_max digits = Some (sk_version key)
         \<and> valid_ascii_name (sk_name key) \<and> 0 < sk_version key))
   \<and> (schema_key_parse (schema_key_stable_name k) = Ok k
        \<longleftrightarrow> valid_ascii_name (sk_name k) \<and> 0 < sk_version k \<and> sk_version k \<le> u32_max)"
proof (intro conjI)
  have "schema_key_stable_name k = sk_name k @ ''/v'' @ digits \<longleftrightarrow> digits = show_nat (sk_version k)" for digits
    unfolding schema_key_stable_name_def same_append_eq by (rule eq_commute)
  moreover have "parse_uint u32_max (show_nat (sk_version k)) = Some (sk_version k) \<longleftrightarrow> sk_version k \<le> u32_max"
    by (rule iffI) (erule parse_uint_le, erule parse_show_nat)
  ultimately show "schema_key_parse (schema_key_stable_name k) = Ok k
      \<longleftrightarrow> valid_ascii_name (sk_name k) \<and> 0 < sk_version k \<and> sk_version k \<le> u32_max"
    by (simp only: schema_key_parse_iff) blast
qed (rule schema_key_parse_iff)

lemma activity_key_roundtrip:
  "ak_version k \<le> u32_max \<Longrightarrow> activity_key_parse (activity_key_stable_name (k :: activity_key)) = Inr k"
  by (simp add: activity_key_parse_def activity_key_stable_name_def rsplit_version [simplified]
      parse_show_nat activity_key_new_def)

lemma node_key_parse_Inr:
  "node_key_parse raw = Inr k \<longleftrightarrow>
     k = raw \<and> length raw \<le> 64 \<and> raw \<noteq> [] \<and> is_ascii_lower (hd raw) \<and> list_all node_key_char (tl raw)"
  by (auto simp: node_key_parse_def split: list.splits if_splits)

lemma node_key_no_dot: "node_key_parse raw = Inr k \<Longrightarrow> CHR ''.'' \<notin> set k"
proof -
  have "\<not> node_key_char (CHR ''.'')" and "\<not> is_ascii_lower (CHR ''.'')"
    by (simp_all add: node_key_char_def is_ascii_lower_def is_ascii_digit_def in_range_def
        less_eq_char_def)
  then show "node_key_parse raw = Inr k \<Longrightarrow> CHR ''.'' \<notin> set k"
    by (cases raw) (auto simp: node_key_parse_Inr list_all_iff)
qed

end
