(* ===== verification/Bindings.thy ===== *)
theory Bindings
  imports Values Ids
begin

text \<open>
  References, bindings and conditions (binding.rs): the language in which a workflow names its
  data, with the parser and printer of references and the static measures the compiler uses.
\<close>

datatype reference =
    WorkflowInput
  | ScopeInput
  | ScopeIdRef
  | NodeOutput node_key
  | LoopState
  | LoopIndex
  | ItemValue
  | ItemIndex
  | ForwardInput
  | ForwardOutput

definition reference_parse :: "string \<Rightarrow> reference res" where
  "reference_parse raw =
     (if raw = ''workflow.input'' then Ok WorkflowInput
      else if raw = ''scope.input'' then Ok ScopeInput
      else if raw = ''scope.id'' then Ok ScopeIdRef
      else if raw = ''loop.state'' then Ok LoopState
      else if raw = ''loop.index'' then Ok LoopIndex
      else if raw = ''item.value'' then Ok ItemValue
      else if raw = ''item.index'' then Ok ItemIndex
      else if raw = ''forward.input'' then Ok ForwardInput
      else if raw = ''forward.output'' then Ok ForwardOutput
      else case strip_prefix ''nodes.'' raw of
        Some node \<Rightarrow>
          rbind (ok_or (invalid (''invalid node reference '' @ raw)) (strip_suffix ''.output'' node))
            (\<lambda>key. case node_key_parse key of
                      Inl m \<Rightarrow> Err (invalid m)
                    | Inr k \<Rightarrow> Ok (NodeOutput k))
      | None \<Rightarrow> Err (invalid (''unknown reference '' @ raw)))"

fun reference_as_stable :: "reference \<Rightarrow> string" where
  "reference_as_stable WorkflowInput = ''workflow.input''"
| "reference_as_stable ScopeInput = ''scope.input''"
| "reference_as_stable ScopeIdRef = ''scope.id''"
| "reference_as_stable (NodeOutput node) = ''nodes.'' @ node @ ''.output''"
| "reference_as_stable LoopState = ''loop.state''"
| "reference_as_stable LoopIndex = ''loop.index''"
| "reference_as_stable ItemValue = ''item.value''"
| "reference_as_stable ItemIndex = ''item.index''"
| "reference_as_stable ForwardInput = ''forward.input''"
| "reference_as_stable ForwardOutput = ''forward.output''"

datatype binding =
    BFrom reference "string option"
  | BLiteral val
  | BObject "(string \<times> binding) list"
  | BArray "binding list"

fun binding_depth :: "binding \<Rightarrow> nat" where
  "binding_depth (BFrom r p) = 1"
| "binding_depth (BLiteral v) = 1"
| "binding_depth (BObject fs) = 1 + foldr max (map (\<lambda>(k, b). binding_depth b) fs) 0"
| "binding_depth (BArray items) = 1 + foldr max (map binding_depth items) 0"

fun references :: "binding \<Rightarrow> reference list" where
  "references (BFrom r p) = [r]"
| "references (BLiteral v) = []"
| "references (BObject fs) = concat (map (\<lambda>(k, b). references b) fs)"
| "references (BArray items) = concat (map references items)"

datatype condition =
    CEq binding binding
  | CNe binding binding
  | CLt binding binding
  | CLe binding binding
  | CGt binding binding
  | CGe binding binding
  | CAll "condition list"
  | CAny "condition list"
  | CNot condition
  | CExists binding

fun operator_count :: "condition \<Rightarrow> nat" where
  "operator_count (CAll items) = 1 + sum_list (map operator_count items)"
| "operator_count (CAny items) = 1 + sum_list (map operator_count items)"
| "operator_count (CNot inner) = 1 + operator_count inner"
| "operator_count _ = 1"

fun condition_bindings :: "condition \<Rightarrow> binding list" where
  "condition_bindings (CEq l r) = [l, r]"
| "condition_bindings (CNe l r) = [l, r]"
| "condition_bindings (CLt l r) = [l, r]"
| "condition_bindings (CLe l r) = [l, r]"
| "condition_bindings (CGt l r) = [l, r]"
| "condition_bindings (CGe l r) = [l, r]"
| "condition_bindings (CAll items) = concat (map condition_bindings items)"
| "condition_bindings (CAny items) = concat (map condition_bindings items)"
| "condition_bindings (CNot inner) = condition_bindings inner"
| "condition_bindings (CExists b) = [b]"

definition eq_input :: "string \<Rightarrow> val \<Rightarrow> condition" where
  "eq_input path value = CEq (BFrom WorkflowInput (Some path)) (BLiteral value)"

definition lt_loop :: "string \<Rightarrow> int \<Rightarrow> condition" where
  "lt_loop path value = CLt (BFrom LoopState (Some path)) (BLiteral (VInt value))"

definition flag_true :: "string \<Rightarrow> condition" where
  "flag_true path = CAll [CExists (BFrom WorkflowInput (Some path)), eq_input path (VBool True)]"

fun infer_literal_schema :: "val \<Rightarrow> schema_ref" where
  "infer_literal_schema VNull = SNull"
| "infer_literal_schema (VBool b) = SBoolean"
| "infer_literal_schema (VInt i) = SInteger"
| "infer_literal_schema (VStr s) = SString"
| "infer_literal_schema (VArr items) =
     (case items of [] \<Rightarrow> SArray SNull | v # vs \<Rightarrow> SArray (infer_literal_schema v))"
| "infer_literal_schema (VObj fs) =
     (case schema_ref_named ''object'' 1 of Ok s \<Rightarrow> s | _ \<Rightarrow> SNull)"

section \<open>References\<close>

definition wf_reference :: "reference \<Rightarrow> bool" where
  "wf_reference r \<longleftrightarrow> (\<forall>n. r = NodeOutput n \<longrightarrow> node_key_parse n = Inr n)"

lemma strip_suffix_append: "strip_suffix p (s @ p) = Some s"
  by (simp add: strip_suffix_def suffix_def)

lemma reference_parse_node:
  "node_key_parse n = Inr n \<Longrightarrow> reference_parse (''nodes.'' @ n @ ''.output'') = Ok (NodeOutput n)"
  using strip_suffix_append [of "''.output''" n]
  by (simp add: reference_parse_def strip_prefix_def)

text \<open>Property C36: every reference the language has prints to a text that parses back to it, and
  whatever the parser accepts prints to exactly the text that was read.\<close>

theorem reference_roundtrip:
  "(wf_reference r \<longleftrightarrow> reference_parse (reference_as_stable r) = Ok r)
   \<and> (reference_parse raw = Ok r \<longrightarrow> reference_as_stable r = raw \<and> wf_reference r)"
proof -
  have printed: "reference_as_stable r = raw \<and> wf_reference r" if "reference_parse raw = Ok r" for raw
    using that
    by (auto simp: reference_parse_def strip_prefix_def strip_suffix_def wf_reference_def prefix_def
        suffix_def node_key_parse_Inr res_simps split: if_splits sum.splits)
  moreover have "reference_parse (reference_as_stable r) = Ok r" if "wf_reference r"
  proof (cases r)
    case (NodeOutput n)
    with that show ?thesis
      by (simp only: reference_as_stable.simps) (rule reference_parse_node, simp add: wf_reference_def)
  qed (simp_all add: reference_parse_def)
  ultimately show ?thesis by blast
qed

theorem reference_roundtrip_witness:
  "reference_as_stable (NodeOutput ''charge'') = ''nodes.charge.output''
   \<and> wf_reference (NodeOutput ''charge'')"
proof -
  have "reference_parse ''nodes.charge.output'' = Ok (NodeOutput ''charge'')"
    by code_simp
  then show ?thesis
    using reference_roundtrip [of "NodeOutput ''charge''" "''nodes.charge.output''"] by blast
qed

end
