(* ===== verification/Policies.thy ===== *)
theory Policies
  imports Prelude
begin

text \<open>
  Engine policy and time: the limits (limits.rs), the retry and backoff policies with their
  validation (policy.rs), durations and the clock comparison (time.rs). A \<open>Duration\<close> is a
  natural number of milliseconds: every duration of the sources is a whole number of them.
\<close>

section \<open>Limits\<close>

definition MAX_NESTING :: nat where "MAX_NESTING = 8"
definition MAX_LOOP_ITERATIONS :: nat where "MAX_LOOP_ITERATIONS = 1000"
definition MAX_PARALLEL_BRANCHES :: nat where "MAX_PARALLEL_BRANCHES = 16"
definition MAX_PAYLOAD_BYTES :: nat where "MAX_PAYLOAD_BYTES = 256 * 1024"
definition MAX_ACTIVE_LEAVES_PER_RUN :: nat where "MAX_ACTIVE_LEAVES_PER_RUN = 32"
definition MAX_ACTIVE_LEAVES_PER_WORKER :: nat where "MAX_ACTIVE_LEAVES_PER_WORKER = 128"
definition DEFAULT_FOREACH_CONCURRENCY :: nat where "DEFAULT_FOREACH_CONCURRENCY = 8"
definition MAX_FOREACH_CONCURRENCY :: nat where "MAX_FOREACH_CONCURRENCY = 32"
definition MAX_ACTIVATIONS_PER_RUN :: nat where "MAX_ACTIVATIONS_PER_RUN = 10000"
definition MAX_ACTIVE_RUNS :: nat where "MAX_ACTIVE_RUNS = 10000"
definition CLAIM_BATCH :: nat where "CLAIM_BATCH = 16"
definition MAX_BUFFERED_EVENTS_PER_RUN :: nat where "MAX_BUFFERED_EVENTS_PER_RUN = 1000"
definition MAX_EVENTS_PER_ADDRESS :: nat where "MAX_EVENTS_PER_ADDRESS = 100"
definition MAX_START_KEY_BYTES :: nat where "MAX_START_KEY_BYTES = 128"
definition PROGRESS_BATCH :: nat where "PROGRESS_BATCH = 32"

section \<open>Policies\<close>

type_synonym duration = nat

definition from_secs :: "nat \<Rightarrow> duration" where
  "from_secs n = n * 1000"

definition FORWARD_ATTEMPT_TIMEOUT :: duration where "FORWARD_ATTEMPT_TIMEOUT = from_secs (5 * 60)"
definition COMPENSATION_ATTEMPT_TIMEOUT :: duration where
  "COMPENSATION_ATTEMPT_TIMEOUT = from_secs (5 * 60)"
definition RECONCILIATION_ATTEMPT_TIMEOUT :: duration where
  "RECONCILIATION_ATTEMPT_TIMEOUT = from_secs 30"
definition FORWARD_ATTEMPT_BUDGET :: nat where "FORWARD_ATTEMPT_BUDGET = 5"
definition COMPENSATION_ATTEMPT_BUDGET :: nat where "COMPENSATION_ATTEMPT_BUDGET = 10"
definition MAX_ATTEMPT_BUDGET :: nat where "MAX_ATTEMPT_BUDGET = 10"
definition OPERATOR_EXTENSION :: nat where "OPERATOR_EXTENSION = 10"
definition INITIAL_BACKOFF :: duration where "INITIAL_BACKOFF = from_secs 1"
definition FORWARD_BACKOFF_CAP :: duration where "FORWARD_BACKOFF_CAP = from_secs 60"
definition COMPENSATION_BACKOFF_CAP :: duration where "COMPENSATION_BACKOFF_CAP = from_secs (5 * 60)"
definition BACKOFF_MULTIPLIER_MILLIS :: nat where "BACKOFF_MULTIPLIER_MILLIS = 2000"
definition RECONCILIATION_PROBES :: nat where "RECONCILIATION_PROBES = 3"
definition RECONCILIATION_GAP :: duration where "RECONCILIATION_GAP = from_secs 30"
definition TERMINAL_HISTORY_DAYS :: nat where "TERMINAL_HISTORY_DAYS = 30"
definition TERMINAL_SUMMARY_DAYS :: nat where "TERMINAL_SUMMARY_DAYS = 90"
definition COMMAND_RESULT_HOURS :: nat where "COMMAND_RESULT_HOURS = 24"
definition UNRESERVED_EVENT_DAYS :: nat where "UNRESERVED_EVENT_DAYS = 7"
definition CHECKPOINT_EVENT_CADENCE :: nat where "CHECKPOINT_EVENT_CADENCE = 256"
definition SESSION_LEASE :: duration where "SESSION_LEASE = from_secs 30"
definition MIN_ATTEMPT_TIMEOUT :: duration where "MIN_ATTEMPT_TIMEOUT = from_secs 1"
definition MAX_ATTEMPT_TIMEOUT :: duration where "MAX_ATTEMPT_TIMEOUT = from_secs (24 * 60 * 60)"
definition MAX_RUN_TIMEOUT :: duration where "MAX_RUN_TIMEOUT = from_secs (365 * 24 * 60 * 60)"

record backoff =
  initial_ms :: nat
  multiplier_millis :: nat
  max_ms :: nat

definition backoff_forward_default :: backoff where
  "backoff_forward_default =
     \<lparr>initial_ms = INITIAL_BACKOFF, multiplier_millis = BACKOFF_MULTIPLIER_MILLIS,
      max_ms = FORWARD_BACKOFF_CAP\<rparr>"

definition backoff_compensation_default :: backoff where
  "backoff_compensation_default =
     \<lparr>initial_ms = INITIAL_BACKOFF, multiplier_millis = BACKOFF_MULTIPLIER_MILLIS,
      max_ms = COMPENSATION_BACKOFF_CAP\<rparr>"

definition backoff_validate :: "backoff \<Rightarrow> unit res" where
  "backoff_validate b =
     (if initial_ms b = 0 \<or> max_ms b = 0 then Err (invalid ''backoff durations must be positive'')
      else if initial_ms b > max_ms b then Err (invalid ''backoff initial exceeds max'')
      else if max_ms b > from_secs (60 * 60) then Err (invalid ''backoff max exceeds one hour'')
      else if \<not> (1000 \<le> multiplier_millis b \<and> multiplier_millis b \<le> 10000)
      then Err (invalid ''backoff multiplier must be between 1 and 10'')
      else Ok ())"

record retry_policy =
  rp_errors :: "string list"
  max_attempts :: nat
  rp_backoff :: backoff

definition retry_forward_default :: retry_policy where
  "retry_forward_default =
     \<lparr>rp_errors = [], max_attempts = FORWARD_ATTEMPT_BUDGET, rp_backoff = backoff_forward_default\<rparr>"

definition retry_compensation_default :: "string list \<Rightarrow> retry_policy" where
  "retry_compensation_default codes =
     \<lparr>rp_errors = codes, max_attempts = COMPENSATION_ATTEMPT_BUDGET,
      rp_backoff = backoff_compensation_default\<rparr>"

definition retry_validate :: "retry_policy \<Rightarrow> unit res" where
  "retry_validate p =
     (if max_attempts p = 0 \<or> max_attempts p > MAX_ATTEMPT_BUDGET
      then Err (invalid ''max_attempts is out of range'')
      else backoff_validate (rp_backoff p))"

record captured_run_policy =
  forward_attempt_timeout_ms :: nat
  compensation_attempt_timeout_ms :: nat
  reconciliation_attempt_timeout_ms :: nat
  crp_run_timeout_ms :: "nat option"
  terminal_history_days :: nat
  terminal_summary_days :: nat
  command_result_hours :: nat
  unreserved_event_days :: nat
  checkpoint_event_cadence :: nat

definition captured_defaults :: "nat option \<Rightarrow> captured_run_policy" where
  "captured_defaults timeout =
     \<lparr>forward_attempt_timeout_ms = FORWARD_ATTEMPT_TIMEOUT,
      compensation_attempt_timeout_ms = COMPENSATION_ATTEMPT_TIMEOUT,
      reconciliation_attempt_timeout_ms = RECONCILIATION_ATTEMPT_TIMEOUT,
      crp_run_timeout_ms = timeout,
      terminal_history_days = TERMINAL_HISTORY_DAYS,
      terminal_summary_days = TERMINAL_SUMMARY_DAYS,
      command_result_hours = COMMAND_RESULT_HOURS,
      unreserved_event_days = UNRESERVED_EVENT_DAYS,
      checkpoint_event_cadence = CHECKPOINT_EVENT_CADENCE\<rparr>"

definition validate_attempt_timeout :: "duration \<Rightarrow> unit res" where
  "validate_attempt_timeout timeout =
     (if timeout < MIN_ATTEMPT_TIMEOUT \<or> timeout > MAX_ATTEMPT_TIMEOUT
      then Err (invalid ''attempt timeout must be between 1 second and 24 hours'')
      else Ok ())"

section \<open>Durations\<close>

text \<open>The unit starts at the first byte that is not a digit; seconds from minutes, hours and days
  saturate at the largest \<open>u64\<close>.\<close>

definition parse_duration :: "string \<Rightarrow> duration res" where
  "parse_duration txt =
     (let digits = takeWhile is_ascii_digit txt; unit = dropWhile is_ascii_digit txt in
      if unit = [] then Err (invalid (''duration '' @ txt @ '' is missing a unit''))
      else if digits = [] then Err (invalid (''duration '' @ txt @ '' has no integer''))
      else rbind (ok_or (invalid (''duration '' @ txt @ '' is not a positive integer''))
                    (parse_uint u64_max digits))
        (\<lambda>n. if n = 0 then Err (invalid (''duration '' @ txt @ '' must be positive''))
             else if unit = ''ms'' then Ok n
             else if unit = ''s'' then Ok (from_secs n)
             else if unit = ''m'' then Ok (from_secs (sat_mul64 n 60))
             else if unit = ''h'' then Ok (from_secs (sat_mul64 n (60 * 60)))
             else if unit = ''d'' then Ok (from_secs (sat_mul64 n (60 * 60 * 24)))
             else Err (invalid (''unknown duration unit '' @ unit))))"

definition duration_to_millis :: "duration \<Rightarrow> nat res" where
  "duration_to_millis d =
     (if d = 0 \<or> d > u64_max then Err (invalid ''duration is out of range'') else Ok d)"

section \<open>Clock comparison\<close>

datatype clock_delta_fault_kind = BootReversed | WatchdogGap nat | WallBootSkew nat nat

definition clock_delta_fault :: "nat \<Rightarrow> nat \<Rightarrow> nat \<Rightarrow> nat \<Rightarrow> clock_delta_fault_kind option" where
  "clock_delta_fault previous_wall previous_boot wall boot =
     (if boot < previous_boot then Some BootReversed
      else let elapsed = boot - previous_boot in
        if elapsed > 2000 then Some (WatchdogGap elapsed)
        else let difference = nat \<bar>int wall - int previous_wall - int elapsed\<bar> in
          if difference > 250 + elapsed div 1000 then Some (WallBootSkew difference elapsed)
          else None)"

section \<open>Lemmas\<close>

lemma backoff_validate_iff:
  "backoff_validate b = Ok () \<longleftrightarrow>
     0 < initial_ms b \<and> initial_ms b \<le> max_ms b \<and> max_ms b \<le> 3600000
     \<and> 1000 \<le> multiplier_millis b \<and> multiplier_millis b \<le> 10000"
  by (auto simp: backoff_validate_def from_secs_def)

lemma retry_validate_iff:
  "retry_validate p = Ok () \<longleftrightarrow>
     0 < max_attempts p \<and> max_attempts p \<le> 10 \<and> backoff_validate (rp_backoff p) = Ok ()"
  by (auto simp: retry_validate_def MAX_ATTEMPT_BUDGET_def)

lemma retry_defaults_valid:
  "retry_validate retry_forward_default = Ok ()"
  "retry_validate (retry_compensation_default codes) = Ok ()"
  by (simp_all add: retry_validate_def retry_forward_default_def retry_compensation_default_def
      backoff_validate_def backoff_forward_default_def backoff_compensation_default_def from_secs_def
      FORWARD_ATTEMPT_BUDGET_def COMPENSATION_ATTEMPT_BUDGET_def MAX_ATTEMPT_BUDGET_def
      INITIAL_BACKOFF_def FORWARD_BACKOFF_CAP_def COMPENSATION_BACKOFF_CAP_def
      BACKOFF_MULTIPLIER_MILLIS_def)

lemma takeWhile_digits_append:
  "list_all is_ascii_digit ds \<Longrightarrow> \<not> is_ascii_digit c \<Longrightarrow>
     takeWhile is_ascii_digit (ds @ c # cs) = ds \<and> dropWhile is_ascii_digit (ds @ c # cs) = c # cs"
  by (induction ds) auto

definition unit_ms :: "string \<Rightarrow> nat option" where
  "unit_ms u = map_of [(''ms'', 1), (''s'', 1000), (''m'', 60000), (''h'', 3600000), (''d'', 86400000)] u"

lemma unit_ms_cases:
  "unit_ms u = Some k \<Longrightarrow>
     (u = ''ms'' \<and> k = 1) \<or> (u = ''s'' \<and> k = 1000) \<or> (u = ''m'' \<and> k = 60000)
     \<or> (u = ''h'' \<and> k = 3600000) \<or> (u = ''d'' \<and> k = 86400000)"
  by (simp add: unit_ms_def split: if_splits)

lemma sat_mul64_exact: "a * b \<le> u64_max \<Longrightarrow> sat_mul64 a b = a * b"
  by (simp add: sat_mul64_def)

lemma unit_ms_not_digit: "unit_ms u = Some k \<Longrightarrow> \<exists>c cs. u = c # cs \<and> \<not> is_ascii_digit c"
  by (drule unit_ms_cases)
     (elim disjE; simp add: is_ascii_digit_def in_range_def less_eq_char_def)

definition unit_value :: "string \<Rightarrow> nat \<Rightarrow> duration res" where
  "unit_value u n =
     (if u = ''ms'' then Ok n
      else if u = ''s'' then Ok (from_secs n)
      else if u = ''m'' then Ok (from_secs (sat_mul64 n 60))
      else if u = ''h'' then Ok (from_secs (sat_mul64 n (60 * 60)))
      else if u = ''d'' then Ok (from_secs (sat_mul64 n (60 * 60 * 24)))
      else Err (invalid (''unknown duration unit '' @ u)))"

lemma unit_value_ms:
  assumes "unit_ms u = Some k" and "n * k \<le> u64_max"
  shows "unit_value u n = Ok (n * k)"
proof -
  have le: "n * j \<le> u64_max" if "j \<le> k" for j
    using that assms(2) by (meson le_trans mult_le_mono2)
  from unit_ms_cases [OF assms(1)] show ?thesis
    by (elim disjE conjE) (simp_all add: unit_value_def from_secs_def sat_mul64_exact le)
qed

lemma parse_duration_show:
  assumes "0 < n" and "unit_ms u = Some k" and "n * k \<le> u64_max"
  shows "parse_duration (show_nat n @ u) = Ok (n * k)"
proof -
  from unit_ms_cases [OF assms(2)] have "1 \<le> k" by auto
  then have n: "n \<le> u64_max"
    using assms(3) mult_le_mono2 [of 1 k n] by linarith
  obtain c cs where u: "u = c # cs" and c: "\<not> is_ascii_digit c"
    using unit_ms_not_digit [OF assms(2)] by blast
  have tw: "takeWhile is_ascii_digit (show_nat n @ u) = show_nat n"
    "dropWhile is_ascii_digit (show_nat n @ u) = u"
    using takeWhile_digits_append [OF _ c] show_nat_digits [of n] by (auto simp: u)
  have "parse_duration (show_nat n @ u) = unit_value u n"
    unfolding parse_duration_def Let_def tw parse_show_nat [OF n] unit_value_def
    using show_nat_digits [of n] assms(1) u by simp
  then show ?thesis
    by (simp only: unit_value_ms [OF assms(2,3)])
qed

lemma clock_delta_fault_None_iff:
  "clock_delta_fault pw pb w b = None \<longleftrightarrow>
     pb \<le> b \<and> b - pb \<le> 2000
     \<and> \<bar>(int w - int pw) - (int b - int pb)\<bar> \<le> 250 + (int b - int pb) div 1000"
proof (cases "b < pb")
  case True
  then show ?thesis by (simp add: clock_delta_fault_def)
next
  case False
  define e where "e = b - pb"
  define d where "d = int w - int pw - int e"
  from False have e: "int b - int pb = int e" and pb: "pb \<le> b" by (simp_all add: e_def)
  have div: "250 + int e div 1000 = int (250 + e div 1000)" by (simp add: zdiv_int)
  have "clock_delta_fault pw pb w b = None \<longleftrightarrow> e \<le> 2000 \<and> nat \<bar>d\<bar> \<le> 250 + e div 1000"
    using False by (simp add: clock_delta_fault_def Let_def not_less flip: e_def d_def)
  also have "\<dots> \<longleftrightarrow> e \<le> 2000 \<and> \<bar>d\<bar> \<le> 250 + int e div 1000"
    unfolding div by (simp only: nat_le_iff)
  finally show ?thesis
    using pb unfolding e e_def [symmetric] d_def by blast
qed

end
