(* ===== verification/Ir.thy ===== *)
theory Ir
  imports Bindings Policies
begin

text \<open>
  The normalised workflow definition (ir.rs), the catalog of schemas and activity contracts
  (catalog.rs) and the worker capabilities derived from them (worker_contract.rs). JSON Schema
  validation, hashing, hexadecimal and the encoders of \<open>serde_json\<close> are parameters.
\<close>

section \<open>Definitions and regions\<close>

datatype path_seg = PRoot | PNode string | PBody | PBranch string | PCase string | PDefault

type_synonym region_path = "path_seg list"

definition region_path_root :: region_path where
  "region_path_root = [PRoot]"

definition region_path_child :: "region_path \<Rightarrow> path_seg \<Rightarrow> region_path" where
  "region_path_child p seg = p @ [seg]"

datatype consume_from = Buffered | AfterActivation

datatype compensation =
    CompActivity (comp_activity: activity_key) (comp_input: binding)
      (comp_timeout_ms: "nat option") (comp_retry: "retry_policy option")
  | CompIrreversible (comp_reason: string)

record fail_error =
  fe_code :: string
  fe_message :: string

datatype region =
    Region (region_path: region_path) (region_input_schema: schema_ref)
      (region_output_schema: schema_ref) (region_start: node_key)
      (region_nodes: "(string \<times> node) list")
and node =
    NActivity activity_key binding "nat option" retry_policy "compensation option" node_key
  | NChoose binding "choose_case list" region node_key
  | NDelay binding node_key
  | NWaitUntil binding node_key
  | NWaitSignal string binding "nat option" consume_from node_key "node_key option"
  | NComplete binding
  | NFail fail_error
  | NWhile binding schema_ref condition nat region node_key
  | NDoWhile binding schema_ref condition nat region node_key
  | NRepeat binding binding schema_ref nat region node_key
  | NForeach binding schema_ref nat nat region node_key
  | NParallel "parallel_branch list" node_key
  | NSaga binding region node_key
and choose_case =
    ChooseCase (case_name: string) (case_when: condition) (case_body: region)
and parallel_branch =
    ParallelBranch (branch_name: string) (branch_input: binding) (branch_body: region)

record definition_ir =
  def_format_version :: nat
  def_dsl :: string
  def_id :: string
  def_version :: nat
  def_input_schema :: schema_ref
  def_output_schema :: schema_ref
  def_signals :: "(string, schema_ref) bmap"
  def_run_timeout_ms :: "nat option"
  def_root :: region
  def_digest :: string

fun successors :: "node \<Rightarrow> (string \<times> node_key) list" where
  "successors (NActivity _ _ _ _ _ next) = [(''next'', next)]"
| "successors (NChoose _ _ _ next) = [(''next'', next)]"
| "successors (NDelay _ next) = [(''next'', next)]"
| "successors (NWaitUntil _ next) = [(''next'', next)]"
| "successors (NWhile _ _ _ _ _ next) = [(''next'', next)]"
| "successors (NDoWhile _ _ _ _ _ next) = [(''next'', next)]"
| "successors (NRepeat _ _ _ _ _ next) = [(''next'', next)]"
| "successors (NForeach _ _ _ _ _ next) = [(''next'', next)]"
| "successors (NParallel _ next) = [(''next'', next)]"
| "successors (NSaga _ _ next) = [(''next'', next)]"
| "successors (NWaitSignal _ _ _ _ next on_timeout) =
     (''next'', next) # (case on_timeout of Some t \<Rightarrow> [(''on_timeout'', t)] | None \<Rightarrow> [])"
| "successors (NComplete _) = []"
| "successors (NFail _) = []"

fun child_regions :: "node \<Rightarrow> (string \<times> region) list" where
  "child_regions (NChoose _ cases dflt _) =
     map (\<lambda>c. (''case'', case_body c)) cases @ [(''default'', dflt)]"
| "child_regions (NWhile _ _ _ _ body _) = [(''body'', body)]"
| "child_regions (NDoWhile _ _ _ _ body _) = [(''body'', body)]"
| "child_regions (NRepeat _ _ _ _ body _) = [(''body'', body)]"
| "child_regions (NForeach _ _ _ _ body _) = [(''body'', body)]"
| "child_regions (NSaga _ body _) = [(''body'', body)]"
| "child_regions (NParallel branches _) = map (\<lambda>b. (''branch'', branch_body b)) branches"
| "child_regions _ = []"

fun output_on_success_only :: "node \<Rightarrow> bool" where
  "output_on_success_only (NWaitSignal _ _ _ _ _ _) = True"
| "output_on_success_only _ = False"

fun collect_region_activities :: "region \<Rightarrow> activity_key list"
and collect_node_activities :: "node \<Rightarrow> activity_key list"
and collect_case_activities :: "choose_case \<Rightarrow> activity_key list"
and collect_branch_activities :: "parallel_branch \<Rightarrow> activity_key list" where
  "collect_region_activities (Region _ _ _ _ nodes) =
     concat (map (\<lambda>(k, n). collect_node_activities n) nodes)"
| "collect_node_activities (NActivity activity _ _ _ cmp _) =
     activity # (case cmp of Some (CompActivity handler _ _ _) \<Rightarrow> [handler] | _ \<Rightarrow> [])"
| "collect_node_activities (NChoose _ cases dflt _) =
     concat (map collect_case_activities cases) @ collect_region_activities dflt"
| "collect_node_activities (NWhile _ _ _ _ body _) = collect_region_activities body"
| "collect_node_activities (NDoWhile _ _ _ _ body _) = collect_region_activities body"
| "collect_node_activities (NRepeat _ _ _ _ body _) = collect_region_activities body"
| "collect_node_activities (NForeach _ _ _ _ body _) = collect_region_activities body"
| "collect_node_activities (NSaga _ body _) = collect_region_activities body"
| "collect_node_activities (NParallel branches _) = concat (map collect_branch_activities branches)"
| "collect_node_activities (NDelay _ _) = []"
| "collect_node_activities (NWaitUntil _ _) = []"
| "collect_node_activities (NWaitSignal _ _ _ _ _ _) = []"
| "collect_node_activities (NComplete _) = []"
| "collect_node_activities (NFail _) = []"
| "collect_case_activities (ChooseCase _ _ body) = collect_region_activities body"
| "collect_branch_activities (ParallelBranch _ _ body) = collect_region_activities body"

text \<open>Sorting followed by \<open>dedup\<close>, which drops adjacent repetitions.\<close>

definition activity_keys :: "definition_ir \<Rightarrow> activity_key list" where
  "activity_keys d = remdups_adj (sort (collect_region_activities (def_root d)))"

section \<open>The catalog\<close>

datatype execution_kind = ExecAsync | ExecBlocking
datatype effect_kind = EffectPure | EffectExternal
datatype recovery = RetrySafe | Manual

record error_code =
  ec_code :: string
  ec_retryable :: bool

record activity_contract =
  ac_key :: activity_key
  ac_input_schema :: schema_ref
  ac_output_schema :: schema_ref
  ac_execution :: execution_kind
  ac_effects :: effect_kind
  ac_recovery :: recovery
  ac_error_codes :: "error_code list"
  ac_reconciler :: "activity_key option"

definition retryable_codes :: "activity_contract \<Rightarrow> string list" where
  "retryable_codes c = map ec_code (filter ec_retryable (ac_error_codes c))"

definition known_code :: "activity_contract \<Rightarrow> string \<Rightarrow> error_code option" where
  "known_code c code = find (\<lambda>item. ec_code item = code) (ac_error_codes c)"

record reconciler_contract =
  rc_key :: activity_key
  rc_forward :: activity_key

record catalog =
  cat_schemas :: "(schema_key, json) bmap"
  cat_activities :: "(activity_key, activity_contract) bmap"
  cat_reconcilers :: "(activity_key, reconciler_contract) bmap"

fun require_schema :: "catalog \<Rightarrow> schema_ref \<Rightarrow> unit res" where
  "require_schema c (SNamed key) =
     (if map_of (cat_schemas c) key = None
      then Err (invalid (''unknown schema '' @ schema_key_stable_name key)) else Ok ())"
| "require_schema c (SArray element) = require_schema c element"
| "require_schema c (STuple elements) = rmap (\<lambda>_. ()) (rseq (map (require_schema c) elements))"
| "require_schema c SInteger = Ok ()"
| "require_schema c SString = Ok ()"
| "require_schema c SBoolean = Ok ()"
| "require_schema c SNull = Ok ()"

definition type_schema :: "string \<Rightarrow> json" where
  "type_schema t = JObj [(''type'', JStr t)]"

fun schema_json :: "catalog \<Rightarrow> schema_ref \<Rightarrow> json res" where
  "schema_json c (SNamed key) =
     ok_or (invalid (''unknown schema '' @ schema_key_stable_name key)) (map_of (cat_schemas c) key)"
| "schema_json c (SArray element) =
     rmap (\<lambda>items. JObj [(''items'', items), (''type'', JStr ''array'')]) (schema_json c element)"
| "schema_json c (STuple elements) =
     rmap (\<lambda>items. JObj [(''items'', JArr items), (''type'', JStr ''array'')])
       (rseq (map (schema_json c) elements))"
| "schema_json c SInteger = Ok (type_schema ''integer'')"
| "schema_json c SString = Ok (type_schema ''string'')"
| "schema_json c SBoolean = Ok (type_schema ''boolean'')"
| "schema_json c SNull = Ok (type_schema ''null'')"

definition validate_value ::
    "(json \<Rightarrow> json \<Rightarrow> bool) \<Rightarrow> catalog \<Rightarrow> schema_ref \<Rightarrow> val \<Rightarrow> unit res" where
  "validate_value is_valid c schema value =
     rbind (schema_json c schema)
       (\<lambda>js. if is_valid js (to_json value) then Ok ()
             else Err (invalid ''output does not match activity schema''))"

definition catalog_activity :: "catalog \<Rightarrow> activity_key \<Rightarrow> activity_contract res" where
  "catalog_activity c key =
     ok_or (invalid (''unknown activity '' @ ak_name key @ ''/v'' @ show_nat (ak_version key)))
       (map_of (cat_activities c) key)"

definition check_contract_refs :: "catalog \<Rightarrow> activity_contract \<Rightarrow> unit res" where
  "check_contract_refs c contract =
     rbind (require_schema c (ac_input_schema contract))
       (\<lambda>_. rbind (require_schema c (ac_output_schema contract))
         (\<lambda>_. case ac_reconciler contract of
            None \<Rightarrow> Ok ()
          | Some recon \<Rightarrow>
              if map_of (cat_reconcilers c) recon = None
              then Err (invalid (''activity '' @ activity_key_stable_name (ac_key contract)
                     @ '' refers to missing reconciler '' @ activity_key_stable_name recon))
              else Ok ()))"

definition validate_refs :: "catalog \<Rightarrow> unit res" where
  "validate_refs c =
     rmap (\<lambda>_. ()) (rseq (map (\<lambda>(k, contract). check_contract_refs c contract) (cat_activities c)))"

definition builtin_schemas :: "(schema_key \<times> json) list" where
  "builtin_schemas =
     [(SchemaKey ''integer'' 1, type_schema ''integer''), (SchemaKey ''string'' 1, type_schema ''string''),
      (SchemaKey ''boolean'' 1, type_schema ''boolean''), (SchemaKey ''unit'' 1, type_schema ''null'')]"

definition insert_builtin_schemas :: "catalog \<Rightarrow> catalog" where
  "insert_builtin_schemas c =
     c\<lparr>cat_schemas := fold (\<lambda>(k, s) m. if map_of m k = None then bput k s m else m)
                       builtin_schemas (cat_schemas c)\<rparr>"

definition published_identity_ok :: "activity_key \<Rightarrow> activity_key \<Rightarrow> bool" where
  "published_identity_ok key contract_key \<longleftrightarrow>
     key = contract_key \<and> valid_ascii_name (ak_name key) \<and> ak_version key \<noteq> 0"

definition validate_for_publication :: "catalog \<Rightarrow> unit res" where
  "validate_for_publication c =
     rbind (rseq (map (\<lambda>(key, s). guard_err (\<not> valid_ascii_name (sk_name key) \<or> sk_version key = 0)
                     (invalid (''invalid published schema '' @ schema_key_stable_name key)))
              (cat_schemas c)))
       (\<lambda>_. rbind (rseq (map (\<lambda>(key, contract). guard_err (\<not> published_identity_ok key (ac_key contract))
                     (invalid ''invalid published activity identity''))
              (cat_activities c)))
       (\<lambda>_. rbind (rseq (map (\<lambda>(key, contract).
                     if \<not> published_identity_ok key (rc_key contract)
                     then Err (invalid ''invalid published reconciler identity'')
                     else guard_err (map_of (cat_activities c) (rc_forward contract) = None)
                       (invalid (''reconciler '' @ activity_key_stable_name key
                                 @ '' refers to missing activity'')))
              (cat_reconcilers c)))
       (\<lambda>_. validate_refs c)))"

section \<open>Worker capabilities\<close>

definition CODEC_VERSION :: nat where "CODEC_VERSION = 1"

record worker_capability =
  wc_activity_name :: string
  wc_activity_version :: nat
  wc_role :: execution_role
  wc_codec_version :: nat
  wc_input_schema_digest :: string
  wc_output_schema_digest :: string
  wc_contract_digest :: string

fun role_name :: "execution_role \<Rightarrow> string" where
  "role_name Forward = ''forward''"
| "role_name Compensation = ''compensation''"
| "role_name Reconciliation = ''reconciliation''"

definition parse_role :: "string \<Rightarrow> execution_role res" where
  "parse_role role =
     (if role = ''forward'' then Ok Forward
      else if role = ''compensation'' then Ok Compensation
      else if role = ''reconciliation'' then Ok Reconciliation
      else Err (invalid (''unknown execution role '' @ role)))"

definition contract_schemas ::
    "catalog \<Rightarrow> activity_key \<Rightarrow> execution_role \<Rightarrow> (schema_ref \<times> schema_ref) res" where
  "contract_schemas c key role =
     rbind (if role = Reconciliation
            then rmap rc_forward
                   (ok_or (invalid (''unknown reconciler '' @ activity_key_stable_name key))
                      (map_of (cat_reconcilers c) key))
            else Ok key)
       (\<lambda>activity. rmap (\<lambda>contract. (ac_input_schema contract, ac_output_schema contract))
                     (catalog_activity c activity))"

text \<open>Functions of the crates \<open>sha2\<close>, \<open>hex\<close>, \<open>jsonschema\<close> and \<open>serde_json\<close> that
  the catalog and the capabilities use: the digest, the hexadecimal encoding, the validator, the
  string encoder, and the derived serialisations of the two contracts.\<close>

record ext =
  sha256 :: "bytes \<Rightarrow> bytes"
  hex_encode :: "bytes \<Rightarrow> string"
  json_is_valid :: "json \<Rightarrow> json \<Rightarrow> bool"
  json_string :: "string \<Rightarrow> string"
  ser_contract :: "activity_contract \<Rightarrow> json"
  ser_reconciler :: "reconciler_contract \<Rightarrow> json"

definition worker_digest :: "'x ext_scheme \<Rightarrow> string \<Rightarrow> json \<Rightarrow> string res" where
  "worker_digest E domain value =
     rmap (\<lambda>body. hex_encode E (sha256 E (domain @ [CHR 0x00] @ body)))
       (canonical_json (json_string E) value)"

definition capability_for ::
    "'x ext_scheme \<Rightarrow> catalog \<Rightarrow> activity_key \<Rightarrow> execution_role \<Rightarrow> worker_capability res" where
  "capability_for E c key role =
     rbind (contract_schemas c key role) (\<lambda>(input, output).
     rbind (if role = Reconciliation
            then rbind (ok_or (invalid ''unknown reconciliation contract'') (map_of (cat_reconcilers c) key))
              (\<lambda>recon. rbind (catalog_activity c (rc_forward recon))
              (\<lambda>forward. if ac_reconciler forward \<noteq> Some key
                 then Err (invalid ''reconciler is not bound to its forward contract'')
                 else Ok (JObj [(''activity'', ser_contract E forward),
                                (''reconciler'', ser_reconciler E recon)])))
            else rmap (ser_contract E) (catalog_activity c key)) (\<lambda>contract.
     rbind (schema_json c input) (\<lambda>input_json.
     rbind (worker_digest E ''graphrun.worker-schema/v1'' input_json) (\<lambda>input_digest.
     rbind (schema_json c output) (\<lambda>output_json.
     rbind (worker_digest E ''graphrun.worker-schema/v1'' output_json) (\<lambda>output_digest.
     rbind (worker_digest E ''graphrun.worker-contract/v1'' contract) (\<lambda>contract_digest.
       Ok \<lparr>wc_activity_name = ak_name key, wc_activity_version = ak_version key, wc_role = role,
           wc_codec_version = CODEC_VERSION, wc_input_schema_digest = input_digest,
           wc_output_schema_digest = output_digest, wc_contract_digest = contract_digest\<rparr>)))))))"

section \<open>Lemmas\<close>

lemma parse_role_name: "parse_role raw = Ok r \<longleftrightarrow> raw = role_name r"
  by (cases r) (auto simp: parse_role_def)

lemma require_schema_json: "require_schema c s = Ok () \<Longrightarrow> \<exists>js. schema_json c s = Ok js"
proof (induction s rule: require_schema.induct)
  case (3 c elements)
  have "\<exists>js. rseq (map (schema_json c) es) = Ok js"
    if "set es \<subseteq> set elements" and "rseq (map (require_schema c) es) = Ok us" for es us
    using that
  proof (induction es arbitrary: us)
    case (Cons e es)
    from Cons.prems obtain us' where e: "require_schema c e = Ok ()"
      and es: "rseq (map (require_schema c) es) = Ok us'"
      by (auto simp: res_simps)
    with "3.IH" [of e] Cons show ?case by (auto simp: res_simps)
  qed simp
  with "3.prems" show ?case by (auto simp: res_simps)
qed (auto simp: res_simps split: if_splits)

lemma distinct_remdups_adj_sorted: "sorted xs \<Longrightarrow> distinct (remdups_adj (xs :: 'a::linorder list))"
  by (induction xs rule: remdups_adj.induct) auto

lemma activity_keys_set:
  "set (activity_keys d) = set (collect_region_activities (def_root d))" "sorted (activity_keys d)"
  "distinct (activity_keys d)"
  by (simp_all add: activity_keys_def sorted_remdups_adj distinct_remdups_adj_sorted)

end
