(* ===== verification/Domain_State.thy ===== *)
theory Domain_State
  imports Ir
begin

text \<open>
  The replicated state of the engine and the vocabulary it changes by: the domain events, the
  commands and the records of domain.rs, with the history records of history.rs and the
  publication records of publication.rs that the state holds. Counters of width 32 and 64 are
  naturals. A checkpoint holds a projected state whose own checkpoints are empty, so the
  checkpoints stand beside the state in \<open>replica\<close>.
\<close>

section \<open>Events\<close>

datatype scope_role =
    RoleRoot
  | RoleLoopBody activation_id nat
  | RoleForeachItem activation_id nat
  | RoleParallelBranch activation_id string
  | RoleChooseBody activation_id string
  | RoleSagaBody activation_id

datatype reconcile_outcome = Applied | NotApplied | Unknown

record claim_grant =
  cg_run :: run_id
  cg_scope :: scope_id
  cg_activation :: activation_id
  cg_handler :: string
  cg_handler_version :: nat
  cg_input :: val
  cg_attempt :: nat
  cg_session :: worker_session_id
  cg_generation :: owner_generation
  cg_revision :: lease_revision
  cg_lease_expiry_ms :: nat
  cg_attempt_deadline_ms :: nat
  cg_effect_key :: effect_key
  cg_role :: execution_role

text \<open>The fields of each event are those of the source, in its order.\<close>

datatype domain_event =
    RunAdmitted run_id string nat val scope_id captured_run_policy nat
  | ScopeOpened run_id scope_id "activation_id option" scope_role val
  | ScopeCompleted run_id scope_id val
  | ScopeFailed run_id scope_id fail_error
  | ActivationOpened run_id scope_id activation_id string
  | NodeOutputRecorded run_id scope_id string val
  | GuardRecorded run_id activation_id bool nat val
  | LeafSucceeded run_id activation_id attempt_no val execution_role
  | LeafFailed run_id activation_id attempt_no string string bool
  | WaitOpened run_id wait_id activation_id string string "nat option" consume_from
  | WaitSatisfied run_id wait_id event_id val
  | WaitTimedOut run_id wait_id
  | WaitCancelled run_id wait_id
  | EventAccepted run_id event_id string string val nat nat nat
  | EventReserved wait_id event_id
  | EventExpired run_id event_id
  | ReservationReleased wait_id event_id
  | ObligationRegistered run_id activation_id string nat val
  | ObligationBlocked run_id activation_id string nat string
  | CompensationStarted run_id activation_id activation_id activation_id string nat val fail_error
  | ObligationTransferred activation_id activation_id activation_id
  | ObligationReleased run_id activation_id
  | SessionRegistered worker_session_id "string list" nat nat
  | WorkerRegistered worker_session_id string "worker_capability list" nat nat nat nat
  | WorkerSessionRenewed worker_session_id lease_revision nat
  | ClaimGranted claim_grant
  | ClaimRenewed activation_id worker_session_id owner_generation lease_revision nat
  | ClaimCleared activation_id
  | ReconciliationRecorded run_id activation_id reconcile_outcome "val option" nat
  | ReconciliationFailed run_id activation_id string string
  | InterventionRequired run_id activation_id string
  | RunSucceeded run_id val
  | RunFailed run_id fail_error
  | RecoveryAuthorized string
  | AbortIntent run_id activation_id fail_error
  | CompensationAbandoned run_id string "activation_id list"

section \<open>Publication records\<close>

record command_key =
  ck_cluster_id :: string
  ck_principal_id :: string
  ck_command_id :: command_id

datatype publication_operation =
    PubCatalog nat catalog
  | PubDefinition definition_ir nat
  | PubStart string "nat option" string val

record published_catalog =
  pc_format :: string
  pc_digest :: string
  pc_catalog :: catalog

record published_definition =
  pd_format :: string
  pd_normalized_format_version :: nat
  pd_digest :: string
  pd_catalog_version :: nat
  pd_definition :: definition_ir

record start_key_record =
  sr_run :: run_id
  sr_version :: nat
  sr_input_digest :: string
  sr_admitted_ms :: nat

record pinned_publication =
  pp_definition_format_version :: nat
  pp_definition_digest :: string
  pp_catalog_version :: nat
  pp_catalog_digest :: string
  pp_policy_format :: string

datatype disposition =
    DispApplied "run_id option" "string option" "nat option"
  | DispRejected string string

record event_range =
  er_run :: run_id
  er_first :: nat
  er_last :: nat

record command_result =
  cr_format :: string
  cr_key :: command_key
  cr_request_digest :: string
  cr_operation :: string
  cr_target :: string
  cr_outcome :: disposition
  cr_event_range :: "event_range option"
  cr_recorded_ms :: nat

section \<open>Commands\<close>

datatype worker_result = WrSuccess val | WrError string string

datatype worker_probe = WpObserved reconcile_outcome "val option" | WpError string string

record position =
  pos_term :: nat
  pos_leader_id :: nat
  pos_index :: nat

record reader_proof =
  pf_format :: string
  pf_cluster_id :: string
  pf_member_id :: nat
  pf_roster_log_id :: "position option"
  pf_active_generation :: nat
  pf_applied_log_id :: "position option"
  pf_reader_floor :: nat
  pf_command_readers :: "nat list"
  pf_domain_readers :: "string list"
  pf_graph_readers :: "nat list"
  pf_state_records :: "string list"
  pf_event_readers :: "string list"
  pf_checkpoint_readers :: "string list"
  pf_artifact_readers :: "string list"
  pf_snapshot_readers :: "nat list"

record writer_policy =
  fp_format :: string
  active_writer :: nat
  activation_log_id :: "position option"
  fp_roster_log_id :: "position option"
  prepared :: "(nat, reader_proof) bmap"

record format_receipt =
  fr_format :: string
  fr_cluster_id :: string
  fr_principal_id :: string
  fr_command_id :: command_id
  fr_request_digest :: string
  fr_applied_log_id :: position
  fr_active_writer :: nat
  fr_applied :: bool
  fr_message :: string

definition BASE_FORMAT :: nat where "BASE_FORMAT = 4"
definition NEXT_FORMAT :: nat where "NEXT_FORMAT = 5"
definition POLICY_FORMAT :: string where "POLICY_FORMAT = ''graphrun.writer-policy/v1''"

definition writer_policy_default :: writer_policy where
  "writer_policy_default =
     \<lparr>fp_format = POLICY_FORMAT, active_writer = BASE_FORMAT, activation_log_id = None,
      fp_roster_log_id = None, prepared = []\<rparr>"

datatype command_body =
    CmdPrepareWriterFormat "reader_proof list" "position option"
  | CmdActivateWriterFormat "position option" nat
  | CmdAuthenticated string command_body
  | CmdPublication command_key publication_operation
  | CmdStart run_id definition_ir val catalog
  | CmdReportLeaf run_id activation_id val
  | CmdReportError run_id activation_id string string
  | CmdResolveBlocked run_id activation_id val
  | CmdSignal run_id event_id string string val
  | CmdResolveTimer run_id wait_id
  | CmdProgress run_id
  | CmdCancel run_id string
  | CmdRegisterSession worker_session_id "string list" nat
  | CmdRenewLocalSession worker_session_id
  | CmdRegisterWorker worker_session_id string "worker_capability list" nat nat nat
  | CmdRenewWorkerSession worker_session_id lease_revision
  | CmdClaim worker_session_id nat
  | CmdRenew worker_session_id activation_id owner_generation lease_revision
  | CmdReportAssigned run_id activation_id val worker_session_id owner_generation lease_revision
  | CmdReportWorker run_id activation_id worker_session_id owner_generation lease_revision string
      worker_result
  | CmdReconcile run_id activation_id worker_session_id owner_generation lease_revision
      reconcile_outcome "val option"
  | CmdReconcileWorker run_id activation_id worker_session_id owner_generation lease_revision string
      worker_probe
  | CmdAcknowledgeRecovery string
  | CmdAbandonCompensation run_id string
  | CmdPruneHistory nat

type_synonym engine_time = nat

record command =
  cmd_id :: command_id
  cmd_body :: command_body
  cmd_time :: engine_time

section \<open>The state\<close>

datatype run_status = RunActive | RunDone val | RunBroken fail_error

record run_state =
  rs_id :: run_id
  rs_definition :: definition_ir
  rs_catalog :: catalog
  rs_input :: val
  rs_policy :: captured_run_policy
  rs_status :: run_status
  rs_root :: scope_id
  rs_next_sequence :: run_sequence
  rs_next_ready_order :: nat
  rs_admitted_ms :: nat
  rs_terminal_ms :: nat
  rs_published :: "pinned_publication option"

datatype scope_status = ScopeOpen | ScopeDone val | ScopeBroken fail_error

record scope_state =
  sc_id :: scope_id
  sc_run :: run_id
  sc_parent :: "activation_id option"
  sc_role :: scope_role
  sc_input :: val
  sc_status :: scope_status
  sc_outputs :: "(string, val) bmap"
  sc_current :: "node_key option"

datatype activation_status = ActOpen | ActReady | ActSucceeded | ActFailed

record claim_state =
  cl_session :: worker_session_id
  cl_generation :: owner_generation
  cl_revision :: lease_revision
  cl_lease_expiry_ms :: nat
  cl_attempt_deadline_ms :: nat
  cl_effect_key :: effect_key
  cl_role :: execution_role
  cl_probes :: nat
  cl_unknown_reported :: bool

record activation_state =
  act_id :: activation_id
  act_run :: run_id
  act_scope :: scope_id
  act_node :: node_key
  act_status :: activation_status
  act_role :: execution_role
  act_claim :: "claim_state option"
  act_attempts :: nat
  act_ready_order :: nat

record worker_session =
  ws_id :: worker_session_id
  ws_activities :: "string list"
  ws_capacity :: nat
  ws_expires_ms :: nat
  ws_principal_id :: string
  ws_capabilities :: "worker_capability list"
  ws_revision :: nat
  ws_protocol_min :: nat
  ws_protocol_max :: nat

datatype obligation_status =
    ObOpen
  | ObCompensating activation_id
  | ObCompensated
  | ObReleased
  | ObBlocked string
  | ObIrreversible string
  | ObAbandoned

record obligation =
  ob_forward :: activation_id
  ob_run :: run_id
  ob_owner :: activation_id
  ob_handler :: string
  ob_handler_version :: nat
  ob_input :: val
  ob_status :: obligation_status

record wait_state =
  wt_id :: wait_id
  wt_run :: run_id
  wt_activation :: activation_id
  wt_signal :: string
  wt_key :: string
  wt_deadline_ms :: "nat option"
  wt_consume_from :: consume_from
  wt_opened_sequence :: nat
  wt_pending :: bool

record inbox_entry =
  ib_event_id :: event_id
  ib_signal :: string
  ib_key :: string
  ib_payload :: val
  ib_sequence :: nat
  ib_reserved_wait :: "wait_id option"
  ib_consumed :: bool
  ib_accepted_ms :: nat
  ib_expires_ms :: nat
  ib_run :: "run_id option"

record recovery_hold =
  rh_reason :: string
  rh_authorized :: bool

record artifact_ref =
  ar_cluster_id :: string
  ar_format :: string
  ar_schema :: string
  ar_byte_len :: nat
  ar_sha256 :: string

record required_artifacts =
  ra_definition :: artifact_ref
  ra_catalog :: artifact_ref
  ra_policy :: artifact_ref
  ra_schemas :: "(string, artifact_ref) bmap"
  ra_contracts :: "(string, artifact_ref) bmap"

record history_entry =
  he_format :: string
  he_run :: run_id
  he_sequence :: nat
  he_command_id :: "command_id option"
  he_principal_id :: "string option"
  he_recorded_ms :: nat
  he_payload :: artifact_ref
  he_input_ref :: "artifact_ref option"
  he_output_ref :: "artifact_ref option"

record terminal_summary =
  ts_run :: run_id
  ts_workflow :: string
  ts_version :: nat
  ts_status :: string
  ts_terminal_ms :: nat
  ts_expires_ms :: nat
  ts_history_through :: nat

record signal_tombstone =
  tb_run :: run_id
  tb_event_id :: event_id
  tb_signal :: string
  tb_key :: string
  tb_payload :: artifact_ref

record state =
  format_policy :: writer_policy
  format_receipts :: "(string, format_receipt) bmap"
  current_cluster_id :: string
  artifact_origins :: "string set"
  engine_time_watermark_ms :: nat
  runs :: "(run_id, run_state) hmap"
  scopes :: "(scope_id, scope_state) hmap"
  activations :: "(activation_id, activation_state) hmap"
  waits :: "(wait_id, wait_state) hmap"
  inbox :: "inbox_entry list"
  commands :: "(command_id, domain_event list) hmap"
  command_actors :: "(command_id, string) hmap"
  command_external_ids :: "(command_id, command_id) hmap"
  authenticated_request_digests :: "(command_id, string) hmap"
  legacy_start_digests :: "(command_id, string) hmap"
  worker_command_digests :: "(command_id, string) hmap"
  published_catalogs :: "(nat, published_catalog) bmap"
  published_definitions :: "(string, (nat, published_definition) bmap) bmap"
  start_keys :: "(string, (string, start_key_record) bmap) bmap"
  command_results :: "(string, command_result) bmap"
  loop_carry :: "(activation_id, val \<times> nat) hmap"
  foreach_items :: "(activation_id, val list) hmap"
  foreach_done :: "(activation_id, (nat \<times> val) list) hmap"
  parallel_done :: "(activation_id, (string, val) bmap) hmap"
  history :: "(run_id, domain_event list) hmap"
  history_records :: "(run_id, history_entry list) hmap"
  history_dependencies :: "(run_id, required_artifacts) hmap"
  terminal_summaries :: "(run_id, terminal_summary) hmap"
  signal_tombstones :: "(string, signal_tombstone) hmap"
  command_times :: "(command_id, nat) hmap"
  obligations :: "obligation list"
  saga_errors :: "(activation_id, fail_error) hmap"
  sessions :: "(worker_session_id, worker_session) hmap"
  next_generation :: nat
  fair_cursor :: "run_id option"
  interventions :: "(activation_id, string) hmap"
  recovery :: "recovery_hold option"

record run_checkpoint =
  cp_format :: string
  cp_through_run_sequence :: nat
  cp_required :: required_artifacts
  cp_projection_ref :: artifact_ref
  cp_projection :: state

record replica =
  rep_state :: state
  checkpoints :: "(run_id, run_checkpoint) hmap"

definition state_default :: state where
  "state_default =
     \<lparr>format_policy = writer_policy_default, format_receipts = [],
      current_cluster_id = [], artifact_origins = {}, engine_time_watermark_ms = 0, runs = [],
      scopes = [], activations = [], waits = [], inbox = [], commands = [], command_actors = [],
      command_external_ids = [], authenticated_request_digests = [], legacy_start_digests = [],
      worker_command_digests = [], published_catalogs = [], published_definitions = [],
      start_keys = [], command_results = [], loop_carry = [], foreach_items = [],
      foreach_done = [], parallel_done = [], history = [], history_records = [],
      history_dependencies = [], terminal_summaries = [], signal_tombstones = [],
      command_times = [], obligations = [], saga_errors = [], sessions = [],
      next_generation = 0, fair_cursor = None, interventions = [], recovery = None\<rparr>"

text \<open>The remaining functions of \<open>serde_json\<close> and \<open>hex\<close> the engine calls: the derived
  serialisations, and the hexadecimal decoder.\<close>

record externals = ext +
  hex_decode :: "string \<Rightarrow> string + bytes"
  ser_schema_ref :: "schema_ref \<Rightarrow> json"
  ser_definition :: "definition_ir \<Rightarrow> json"
  ser_catalog :: "catalog \<Rightarrow> json"
  ser_policy :: "captured_run_policy \<Rightarrow> json"
  ser_event :: "domain_event \<Rightarrow> json"
  ser_command_body :: "command_body \<Rightarrow> json"
  ser_operation :: "publication_operation \<Rightarrow> json"
  operation_text :: "publication_operation \<Rightarrow> bytes"
  ser_projection :: "nat \<Rightarrow> state \<Rightarrow> json"

section \<open>Fresh identities\<close>

fun le_bytes :: "nat \<Rightarrow> nat \<Rightarrow> bytes" where
  "le_bytes 0 n = []"
| "le_bytes (Suc k) n = char_of (n mod 256) # le_bytes k (n div 256)"

record id_gen =
  ig_command :: command_id
  ig_n :: nat

definition id_gen_new :: "command_id \<Rightarrow> id_gen" where
  "id_gen_new c = \<lparr>ig_command = c, ig_n = 0\<rparr>"

definition next_bytes :: "'x ext_scheme \<Rightarrow> id_gen \<Rightarrow> bytes \<times> id_gen" where
  "next_bytes E ids =
     (take 16 (sha256 E (ig_command ids @ le_bytes 4 (ig_n ids))),
      ids\<lparr>ig_n := wrap32 (ig_n ids + 1)\<rparr>)"

end
