(* ===== verification/Evaluation.thy ===== *)
theory Evaluation
  imports Domain_State
begin

text \<open>
  Reading the state (domain.rs): the region of a scope along the scope tree, the evaluation of
  bindings and conditions, the saga that owns a scope, and the activity an activation runs.
  The two functions that walk up the scope tree are partial functions: on a cyclic tree the
  source would not return, which the models read as \<open>None\<close>.
\<close>

section \<open>Regions\<close>

text \<open>The body of a container node that a scope with the given role executes.\<close>

fun container_body :: "node \<Rightarrow> region option" where
  "container_body (NWhile _ _ _ _ body _) = Some body"
| "container_body (NDoWhile _ _ _ _ body _) = Some body"
| "container_body (NRepeat _ _ _ _ body _) = Some body"
| "container_body (NForeach _ _ _ _ body _) = Some body"
| "container_body (NSaga _ body _) = Some body"
| "container_body _ = None"

fun body_of_role :: "scope_role \<Rightarrow> node \<Rightarrow> region option" where
  "body_of_role (RoleLoopBody _ _) n = container_body n"
| "body_of_role (RoleForeachItem _ _) n = container_body n"
| "body_of_role (RoleSagaBody _) n = container_body n"
| "body_of_role (RoleParallelBranch _ name) n = (case n of
       NParallel branches _ \<Rightarrow> map_option branch_body (find (\<lambda>b. branch_name b = name) branches)
     | _ \<Rightarrow> None)"
| "body_of_role (RoleChooseBody _ name) n = (case n of
       NChoose _ cases dflt _ \<Rightarrow>
         if name = ''default'' then Some dflt
         else map_option case_body (find (\<lambda>c. case_name c = name) cases)
     | _ \<Rightarrow> None)"
| "body_of_role RoleRoot n = None"

fun role_activation :: "scope_role \<Rightarrow> activation_id option" where
  "role_activation RoleRoot = None"
| "role_activation (RoleLoopBody a _) = Some a"
| "role_activation (RoleForeachItem a _) = Some a"
| "role_activation (RoleParallelBranch a _) = Some a"
| "role_activation (RoleChooseBody a _) = Some a"
| "role_activation (RoleSagaBody a) = Some a"

partial_function (option) lookup_region :: "state \<Rightarrow> scope_id \<Rightarrow> region option" where
  [code]: "lookup_region st scope =
     (case hget (scopes st) scope of
        None \<Rightarrow> None
      | Some scope_state \<Rightarrow>
          (case hget (runs st) (sc_run scope_state) of
             None \<Rightarrow> None
           | Some run \<Rightarrow>
               (case role_activation (sc_role scope_state) of
                  None \<Rightarrow> Some (def_root (rs_definition run))
                | Some activation \<Rightarrow>
                    (case hget (activations st) activation of
                       None \<Rightarrow> None
                     | Some parent \<Rightarrow>
                         Option.bind (lookup_region st (act_scope parent)) (\<lambda>parent_region.
                           (case map_of (region_nodes parent_region) (act_node parent) of
                              None \<Rightarrow> None
                            | Some n \<Rightarrow> body_of_role (sc_role scope_state) n))))))"

definition region_for_scope :: "state \<Rightarrow> scope_id \<Rightarrow> region option" where
  "region_for_scope st scope = lookup_region st scope"

definition node_of :: "state \<Rightarrow> activation_state \<Rightarrow> node option" where
  "node_of st act =
     (case lookup_region st (act_scope act) of
        None \<Rightarrow> None
      | Some region \<Rightarrow> map_of (region_nodes region) (act_node act))"

definition is_activity_node :: "state \<Rightarrow> scope_id \<Rightarrow> string \<Rightarrow> bool" where
  "is_activity_node st scope node =
     (case lookup_region st scope of
        None \<Rightarrow> False
      | Some region \<Rightarrow>
          (case map_of (region_nodes region) node of
             Some (NActivity _ _ _ _ _ _) \<Rightarrow> True
           | _ \<Rightarrow> False))"

section \<open>Bindings and conditions\<close>

record eval_ctx =
  ctx_workflow_input :: val
  ctx_scope_input :: val
  ctx_scope_id :: string
  ctx_node_outputs :: "(string, val) bmap"
  ctx_loop_state :: "val option"
  ctx_loop_index :: "int option"
  ctx_item_value :: "val option"
  ctx_item_index :: "int option"
  ctx_forward_input :: "val option"
  ctx_forward_output :: "val option"

definition loop_item_ctx ::
    "state \<Rightarrow> scope_state \<Rightarrow> val option \<times> int option \<times> val option \<times> int option" where
  "loop_item_ctx st scope =
     (case sc_role scope of
        RoleLoopBody activation index \<Rightarrow>
          (Some (case hget (loop_carry st) activation of Some (v, _) \<Rightarrow> v | None \<Rightarrow> sc_input scope),
           Some (int index), None, None)
      | RoleForeachItem _ index \<Rightarrow> (None, None, Some (sc_input scope), Some (int index))
      | _ \<Rightarrow> (None, None, None, None))"

definition eval_ctx_of :: "externals \<Rightarrow> state \<Rightarrow> scope_state \<Rightarrow> eval_ctx res" where
  "eval_ctx_of E st scope =
     rbind (unwrap_opt (hget (runs st) (sc_run scope))) (\<lambda>run.
     (case loop_item_ctx st scope of (ls, li, iv, ii) \<Rightarrow>
        Ok \<lparr>ctx_workflow_input = rs_input run, ctx_scope_input = sc_input scope,
            ctx_scope_id = hex_encode E (sc_id scope), ctx_node_outputs = sc_outputs scope,
            ctx_loop_state = ls, ctx_loop_index = li, ctx_item_value = iv, ctx_item_index = ii,
            ctx_forward_input = None, ctx_forward_output = None\<rparr>))"

fun eval_ref :: "reference \<Rightarrow> eval_ctx \<Rightarrow> val res" where
  "eval_ref WorkflowInput ctx = Ok (ctx_workflow_input ctx)"
| "eval_ref ScopeInput ctx = Ok (ctx_scope_input ctx)"
| "eval_ref ScopeIdRef ctx = Ok (VStr (ctx_scope_id ctx))"
| "eval_ref (NodeOutput node) ctx =
     ok_or (invalid (''missing output '' @ node)) (map_of (ctx_node_outputs ctx) node)"
| "eval_ref LoopState ctx = ok_or (invalid ''loop.state is not in context'') (ctx_loop_state ctx)"
| "eval_ref LoopIndex ctx =
     rmap VInt (ok_or (invalid ''loop.index is not in context'') (ctx_loop_index ctx))"
| "eval_ref ItemValue ctx = ok_or (invalid ''item.value is not in context'') (ctx_item_value ctx)"
| "eval_ref ItemIndex ctx =
     rmap VInt (ok_or (invalid ''item.index is not in context'') (ctx_item_index ctx))"
| "eval_ref ForwardInput ctx =
     ok_or (invalid ''forward.input is not in context'') (ctx_forward_input ctx)"
| "eval_ref ForwardOutput ctx =
     ok_or (invalid ''forward.output is not in context'') (ctx_forward_output ctx)"

fun eval_binding :: "binding \<Rightarrow> eval_ctx \<Rightarrow> val res" where
  "eval_binding (BLiteral value) ctx = Ok value"
| "eval_binding (BFrom reference path) ctx =
     rbind (eval_ref reference ctx) (\<lambda>value.
       case path of None \<Rightarrow> Ok value | Some p \<Rightarrow> pointer value p)"
| "eval_binding (BObject fs) ctx =
     rmap (\<lambda>kvs. VObj (obj_of kvs)) (rseq (map (\<lambda>(k, b). rmap (Pair k) (eval_binding b ctx)) fs))"
| "eval_binding (BArray items) ctx = rmap VArr (rseq (map (\<lambda>b. eval_binding b ctx) items))"

definition cmp_num :: "binding \<Rightarrow> binding \<Rightarrow> eval_ctx \<Rightarrow> (int \<Rightarrow> int \<Rightarrow> bool) \<Rightarrow> bool res" where
  "cmp_num left right ctx op =
     rbind (eval_binding left ctx) (\<lambda>lv.
     rbind (ok_or (invalid ''numeric comparison requires integers'') (as_i64 lv)) (\<lambda>a.
     rbind (eval_binding right ctx) (\<lambda>rv.
     rbind (ok_or (invalid ''numeric comparison requires integers'') (as_i64 rv)) (\<lambda>b.
       Ok (op a b)))))"

fun eval_condition :: "condition \<Rightarrow> eval_ctx \<Rightarrow> bool res"
and eval_all :: "condition list \<Rightarrow> eval_ctx \<Rightarrow> bool res"
and eval_any :: "condition list \<Rightarrow> eval_ctx \<Rightarrow> bool res" where
  "eval_condition (CEq left right) ctx =
     rbind (eval_binding left ctx) (\<lambda>a. rbind (eval_binding right ctx) (\<lambda>b. Ok (a = b)))"
| "eval_condition (CNe left right) ctx =
     rbind (eval_binding left ctx) (\<lambda>a. rbind (eval_binding right ctx) (\<lambda>b. Ok (a \<noteq> b)))"
| "eval_condition (CLt left right) ctx = cmp_num left right ctx (\<lambda>a b. a < b)"
| "eval_condition (CLe left right) ctx = cmp_num left right ctx (\<lambda>a b. a \<le> b)"
| "eval_condition (CGt left right) ctx = cmp_num left right ctx (\<lambda>a b. a > b)"
| "eval_condition (CGe left right) ctx = cmp_num left right ctx (\<lambda>a b. a \<ge> b)"
| "eval_condition (CAll items) ctx = eval_all items ctx"
| "eval_condition (CAny items) ctx = eval_any items ctx"
| "eval_condition (CNot inner) ctx = rmap Not (eval_condition inner ctx)"
| "eval_condition (CExists b) ctx =
     (case eval_binding b ctx of Ok _ \<Rightarrow> Ok True | Err _ \<Rightarrow> Ok False | Panic \<Rightarrow> Panic)"
| "eval_all [] ctx = Ok True"
| "eval_all (c # cs) ctx =
     rbind (eval_condition c ctx) (\<lambda>holds. if holds then eval_all cs ctx else Ok False)"
| "eval_any [] ctx = Ok False"
| "eval_any (c # cs) ctx =
     rbind (eval_condition c ctx) (\<lambda>holds. if holds then Ok True else eval_any cs ctx)"

definition eval_duration_ms :: "binding \<Rightarrow> eval_ctx \<Rightarrow> nat res" where
  "eval_duration_ms b ctx =
     rbind (eval_binding b ctx) (\<lambda>value.
       case value of
         VInt v \<Rightarrow> if v > 0 then Ok (nat v)
                   else Err (invalid ''duration must be a positive integer ms or string'')
       | VStr txt \<Rightarrow> rbind (parse_duration txt) duration_to_millis
       | _ \<Rightarrow> Err (invalid ''duration must be a positive integer ms or string''))"

section \<open>Sagas and activities\<close>

partial_function (option) saga_owner_from_scope ::
    "state \<Rightarrow> scope_id \<Rightarrow> activation_id option \<Rightarrow> activation_id option" where
  [code]: "saga_owner_from_scope st scope_id skip =
     (case hget (scopes st) scope_id of
        None \<Rightarrow> None
      | Some scope \<Rightarrow>
          if (case sc_role scope of RoleSagaBody activation \<Rightarrow> skip \<noteq> Some activation | _ \<Rightarrow> False)
          then role_activation (sc_role scope)
          else (case sc_parent scope of
                  None \<Rightarrow> None
                | Some parent_act \<Rightarrow>
                    (case hget (activations st) parent_act of
                       None \<Rightarrow> None
                     | Some parent \<Rightarrow> saga_owner_from_scope st (act_scope parent) skip)))"

definition saga_owner :: "state \<Rightarrow> activation_id \<Rightarrow> activation_id option" where
  "saga_owner st forward =
     (case hget (activations st) forward of
        None \<Rightarrow> None
      | Some act \<Rightarrow> saga_owner_from_scope st (act_scope act) None)"

definition parent_saga :: "state \<Rightarrow> activation_id \<Rightarrow> activation_id option" where
  "parent_saga st saga =
     (case hget (activations st) saga of
        None \<Rightarrow> None
      | Some act \<Rightarrow> saga_owner_from_scope st (act_scope act) (Some saga))"

text \<open>The obligation whose compensation runs as the given activation.\<close>

definition compensating :: "activation_id \<Rightarrow> obligation \<Rightarrow> bool" where
  "compensating activation item \<longleftrightarrow> ob_status item = ObCompensating activation"

definition compensated_obligation :: "state \<Rightarrow> activation_id \<Rightarrow> obligation option" where
  "compensated_obligation st activation = find (compensating activation) (obligations st)"

definition bound_input :: "externals \<Rightarrow> state \<Rightarrow> activation_state \<Rightarrow> binding \<Rightarrow> val option res" where
  "bound_input E st act input =
     (case hget (scopes st) (act_scope act) of
        None \<Rightarrow> Ok None
      | Some scope \<Rightarrow> rbind (eval_ctx_of E st scope) (\<lambda>ctx. res_ok (eval_binding input ctx)))"

definition activity_key_of ::
    "externals \<Rightarrow> state \<Rightarrow> activation_id \<Rightarrow> (string \<times> nat \<times> val) option res" where
  "activity_key_of E st activation =
     (case hget (activations st) activation of
        None \<Rightarrow> Ok None
      | Some act \<Rightarrow>
          if (case act_claim act of Some claim \<Rightarrow> cl_role claim = Reconciliation | None \<Rightarrow> False)
          then (case node_of st act of
                  Some (NActivity activity input _ _ _ _) \<Rightarrow>
                    rbind (bound_input E st act input) (\<lambda>bound.
                      case bound of
                        None \<Rightarrow> Ok None
                      | Some v \<Rightarrow>
                          (case hget (runs st) (act_run act) of
                             None \<Rightarrow> Ok None
                           | Some run \<Rightarrow>
                               (case map_of (cat_activities (rs_catalog run)) activity of
                                  None \<Rightarrow> Ok None
                                | Some contract \<Rightarrow>
                                    Ok (map_option (\<lambda>recon. (ak_name recon, ak_version recon, v))
                                          (ac_reconciler contract)))))
                | _ \<Rightarrow> Ok None)
          else if act_role act = Compensation
          then Ok (map_option (\<lambda>item. (ob_handler item, ob_handler_version item, ob_input item))
                     (compensated_obligation st activation))
          else (case node_of st act of
                  Some (NActivity activity input _ _ _ _) \<Rightarrow>
                    rbind (bound_input E st act input) (\<lambda>bound.
                      Ok (map_option (\<lambda>v. (ak_name activity, ak_version activity, v)) bound))
                | _ \<Rightarrow> Ok None))"

end
