(* ===== verification/Evolve.thy ===== *)
theory Evolve
  imports Evaluation
begin

text \<open>
  \<open>evolve\<close> of domain.rs: the one function that changes the workflow state, one branch per
  event, and \<open>event_owner\<close>, the run an event belongs to. \<open>evolve\<close> panics where the source
  calls \<open>expect\<close> on the run of an activation it opens.
\<close>

section \<open>Parts of the branches\<close>

definition set_act_status :: "activation_status \<Rightarrow> activation_state \<Rightarrow> activation_state" where
  "set_act_status v act = act\<lparr>act_status := v\<rparr>"

definition complete_role :: "scope_role \<Rightarrow> val \<Rightarrow> state \<Rightarrow> state" where
  "complete_role role output st =
     (case role of
        RoleForeachItem activation index \<Rightarrow>
          st\<lparr>foreach_done := hput activation
               (AList.update index output
                  (case hget (foreach_done st) activation of Some slot \<Rightarrow> slot | None \<Rightarrow> []))
               (foreach_done st)\<rparr>
      | RoleParallelBranch activation name \<Rightarrow>
          (let done = (case hget (parallel_done st) activation of Some d \<Rightarrow> d | None \<Rightarrow> []) in
           st\<lparr>parallel_done := hput activation
                (if map_of done name = None then bput name output done else done)
                (parallel_done st)\<rparr>)
      | RoleLoopBody activation index \<Rightarrow>
          st\<lparr>loop_carry := hput activation (output, wrap32 (index + 1)) (loop_carry st)\<rparr>
      | _ \<Rightarrow> st)"

definition new_activation ::
    "run_id \<Rightarrow> scope_id \<Rightarrow> activation_id \<Rightarrow> string \<Rightarrow> activation_status \<Rightarrow> execution_role \<Rightarrow> nat
     \<Rightarrow> activation_state" where
  "new_activation run scope activation node status role order =
     \<lparr>act_id = activation, act_run = run, act_scope = scope, act_node = node, act_status = status,
      act_role = role, act_claim = None, act_attempts = 0, act_ready_order = order\<rparr>"

text \<open>Taking the next ready order of a run; the run must exist.\<close>

definition bump_ready_order :: "state \<Rightarrow> run_id \<Rightarrow> (nat \<times> state) res" where
  "bump_ready_order st run =
     rbind (unwrap_opt (hget (runs st) run)) (\<lambda>run_state.
       let order = sat_add64 (rs_next_ready_order run_state) 1 in
       Ok (order, st\<lparr>runs := hmod run (\<lambda>r. r\<lparr>rs_next_ready_order := order\<rparr>) (runs st)\<rparr>))"

definition blocked_status :: "string \<Rightarrow> string \<Rightarrow> obligation_status" where
  "blocked_status handler reason =
     (if handler = ''irreversible'' then ObIrreversible reason else ObBlocked reason)"

definition has_obligation :: "state \<Rightarrow> activation_id \<Rightarrow> bool" where
  "has_obligation st forward \<longleftrightarrow> list_ex (\<lambda>item. ob_forward item = forward) (obligations st)"

definition owner_or_self :: "state \<Rightarrow> activation_id \<Rightarrow> activation_id" where
  "owner_or_self st forward = (case saga_owner st forward of Some saga \<Rightarrow> saga | None \<Rightarrow> forward)"

definition set_obligation_status :: "activation_id \<Rightarrow> obligation_status \<Rightarrow> state \<Rightarrow> state" where
  "set_obligation_status forward status st =
     st\<lparr>obligations := update_first (\<lambda>item. ob_forward item = forward)
                        (\<lambda>item. item\<lparr>ob_status := status\<rparr>) (obligations st)\<rparr>"

definition wait_run :: "state \<Rightarrow> wait_id \<Rightarrow> run_id option" where
  "wait_run st wait = map_option wt_run (hget (waits st) wait)"

definition settle_wait :: "wait_id \<Rightarrow> activation_status \<Rightarrow> state \<Rightarrow> state" where
  "settle_wait wait status st =
     (let st1 = st\<lparr>waits := hmod wait (\<lambda>w. w\<lparr>wt_pending := False\<rparr>) (waits st)\<rparr> in
      case hget (waits st1) wait of
        None \<Rightarrow> st1
      | Some w \<Rightarrow>
          st1\<lparr>activations := hmod (wt_activation w) (set_act_status status) (activations st1)\<rparr>)"

definition grant_claim :: "claim_grant \<Rightarrow> activation_state \<Rightarrow> activation_state" where
  "grant_claim g act =
     act\<lparr>act_claim := Some
           \<lparr>cl_session = cg_session g, cl_generation = cg_generation g, cl_revision = cg_revision g,
            cl_lease_expiry_ms = cg_lease_expiry_ms g,
            cl_attempt_deadline_ms = cg_attempt_deadline_ms g,
            cl_effect_key = cg_effect_key g, cl_role = cg_role g,
            cl_probes = (if cg_role g = Reconciliation
                         then (case act_claim act of Some claim \<Rightarrow> cl_probes claim | None \<Rightarrow> 0)
                         else 0),
            cl_unknown_reported = False\<rparr>,
         act_attempts := sat_add32 (act_attempts act) 1\<rparr>"

section \<open>Evolve\<close>

primrec evolve :: "state \<Rightarrow> domain_event \<Rightarrow> state res" where
  "evolve st (RunAdmitted run _ _ input root policy admitted_ms) =
     Ok (st\<lparr>runs := hmod run (\<lambda>r. r\<lparr>rs_input := input, rs_root := root, rs_policy := policy,
              rs_status := RunActive, rs_admitted_ms := admitted_ms\<rparr>) (runs st)\<rparr>)"
| "evolve st (ScopeOpened run scope parent role input) =
     Ok (let st1 = st\<lparr>scopes := hput scope
                \<lparr>sc_id = scope, sc_run = run, sc_parent = parent, sc_role = role, sc_input = input,
                 sc_status = ScopeOpen, sc_outputs = [], sc_current = None\<rparr> (scopes st)\<rparr> in
         case role of
           RoleLoopBody activation index \<Rightarrow>
             st1\<lparr>loop_carry := hput activation (input, index) (loop_carry st1)\<rparr>
         | _ \<Rightarrow> st1)"
| "evolve st (ScopeCompleted _ scope output) =
     Ok (let st1 = st\<lparr>activations := hmap_vals
                (\<lambda>act. if act_scope act = scope then set_act_status ActSucceeded act else act)
                (activations st)\<rparr> in
         case hget (scopes st1) scope of
           None \<Rightarrow> st1
         | Some scope_state \<Rightarrow>
             complete_role (sc_role scope_state) output
               (st1\<lparr>scopes := hmod scope (\<lambda>s. s\<lparr>sc_status := ScopeDone output\<rparr>) (scopes st1)\<rparr>))"
| "evolve st (ScopeFailed _ scope error) =
     Ok (st\<lparr>scopes := hmod scope (\<lambda>s. s\<lparr>sc_status := ScopeBroken error\<rparr>) (scopes st),
            activations := hmap_vals
              (\<lambda>act. if act_scope act = scope \<and> act_status act \<noteq> ActSucceeded
                     then set_act_status ActFailed act else act) (activations st)\<rparr>)"
| "evolve st (ActivationOpened run scope activation node) =
     (let ready = is_activity_node st scope node in
      rbind (bump_ready_order st run) (\<lambda>(order, st1).
        Ok (st1\<lparr>activations := hput activation
                  (new_activation run scope activation node
                     (if ready then ActReady else ActOpen) Forward order) (activations st1),
                scopes := hmod scope (\<lambda>s. s\<lparr>sc_current := Some node\<rparr>) (scopes st1)\<rparr>)))"
| "evolve st (NodeOutputRecorded _ scope node output) =
     Ok (st\<lparr>scopes := hmod scope (\<lambda>s. s\<lparr>sc_outputs := bput node output (sc_outputs s)\<rparr>) (scopes st),
            activations := hmap_vals
              (\<lambda>act. if act_scope act = scope \<and> act_node act = node
                        \<and> (act_status act = ActOpen \<or> act_status act = ActReady)
                     then set_act_status ActSucceeded act else act) (activations st)\<rparr>)"
| "evolve st (GuardRecorded _ activation _ index carry) =
     Ok (st\<lparr>loop_carry := hput activation (carry, index) (loop_carry st)\<rparr>)"
| "evolve st (LeafSucceeded _ activation _ _ role) =
     Ok (let st1 = st\<lparr>activations := hmod activation (set_act_status ActSucceeded) (activations st)\<rparr> in
         if role = Compensation
         then st1\<lparr>obligations := update_first (compensating activation)
                    (\<lambda>item. item\<lparr>ob_status := ObCompensated\<rparr>) (obligations st1)\<rparr>
         else st1)"
| "evolve st (LeafFailed _ activation _ _ _ retry) =
     Ok (st\<lparr>activations := hmod activation
              (\<lambda>act. if retry then act\<lparr>act_status := ActReady, act_claim := None\<rparr>
                     else set_act_status ActFailed act) (activations st)\<rparr>)"
| "evolve st (WaitOpened run wait activation signal key deadline_ms consume) =
     Ok (let seq = (case hget (runs st) run of Some r \<Rightarrow> rs_next_sequence r | None \<Rightarrow> 0) in
         st\<lparr>waits := hput wait
              \<lparr>wt_id = wait, wt_run = run, wt_activation = activation, wt_signal = signal,
               wt_key = key, wt_deadline_ms = deadline_ms, wt_consume_from = consume,
               wt_opened_sequence = seq, wt_pending = True\<rparr> (waits st),
            activations := hmod activation (set_act_status ActReady) (activations st)\<rparr>)"
| "evolve st (WaitSatisfied run wait event_id _) =
     Ok (let st1 = settle_wait wait ActSucceeded st in
         st1\<lparr>inbox := update_first (\<lambda>entry. ib_run entry = Some run \<and> ib_event_id entry = event_id)
               (\<lambda>entry. entry\<lparr>ib_consumed := True, ib_reserved_wait := Some wait\<rparr>) (inbox st1)\<rparr>)"
| "evolve st (WaitTimedOut _ wait) = Ok (settle_wait wait ActSucceeded st)"
| "evolve st (WaitCancelled _ wait) = Ok (settle_wait wait ActFailed st)"
| "evolve st (EventAccepted run event_id signal key payload sequence accepted_ms expires_ms) =
     Ok (st\<lparr>inbox := inbox st @
              [\<lparr>ib_event_id = event_id, ib_signal = signal, ib_key = key, ib_payload = payload,
                ib_sequence = sequence, ib_reserved_wait = None, ib_consumed = False,
                ib_accepted_ms = accepted_ms, ib_expires_ms = expires_ms, ib_run = Some run\<rparr>],
            runs := hmod run (\<lambda>r. r\<lparr>rs_next_sequence := wrap64 (sequence + 1)\<rparr>) (runs st)\<rparr>)"
| "evolve st (EventReserved wait event_id) =
     Ok (st\<lparr>inbox := update_first (\<lambda>entry. ib_run entry = wait_run st wait \<and> ib_event_id entry = event_id)
              (\<lambda>entry. entry\<lparr>ib_reserved_wait := Some wait\<rparr>) (inbox st)\<rparr>)"
| "evolve st (EventExpired run event_id) =
     Ok (st\<lparr>inbox := filter (\<lambda>entry. ib_run entry \<noteq> Some run \<or> ib_event_id entry \<noteq> event_id) (inbox st)\<rparr>)"
| "evolve st (ReservationReleased wait event_id) =
     Ok (st\<lparr>inbox := update_first (\<lambda>entry. ib_run entry = wait_run st wait \<and> ib_event_id entry = event_id)
              (\<lambda>entry. entry\<lparr>ib_reserved_wait := None\<rparr>) (inbox st)\<rparr>)"
| "evolve st (ObligationRegistered run forward handler handler_version input) =
     Ok (if has_obligation st forward
         then st\<lparr>obligations := update_first (\<lambda>item. ob_forward item = forward)
                   (\<lambda>item. item\<lparr>ob_input := input, ob_status := ObOpen\<rparr>) (obligations st)\<rparr>
         else st\<lparr>obligations := obligations st @
                   [\<lparr>ob_forward = forward, ob_run = run, ob_owner = owner_or_self st forward,
                     ob_handler = handler, ob_handler_version = handler_version, ob_input = input,
                     ob_status = ObOpen\<rparr>]\<rparr>)"
| "evolve st (ObligationBlocked run forward handler handler_version reason) =
     Ok (if has_obligation st forward
         then set_obligation_status forward (blocked_status handler reason) st
         else st\<lparr>obligations := obligations st @
                   [\<lparr>ob_forward = forward, ob_run = run, ob_owner = owner_or_self st forward,
                     ob_handler = handler, ob_handler_version = handler_version, ob_input = VNull,
                     ob_status = blocked_status handler reason\<rparr>]\<rparr>)"
| "evolve st (CompensationStarted run saga forward activation _ _ _ error) =
     (let st1 = set_obligation_status forward (ObCompensating activation)
                  (st\<lparr>saga_errors := hput saga error (saga_errors st)\<rparr>);
          scope = (case hget (activations st1) saga of
                     Some act \<Rightarrow> Some (act_scope act)
                   | None \<Rightarrow> map_option sc_id (find (\<lambda>s. sc_run s = run) (hvals (scopes st1)))) in
      case scope of
        None \<Rightarrow> Ok st1
      | Some sc \<Rightarrow>
          rbind (bump_ready_order st1 run) (\<lambda>(order, st2).
            Ok (st2\<lparr>activations := hput activation
                      (new_activation run sc activation ''__compensate'' ActReady Compensation order)
                      (activations st2)\<rparr>)))"
| "evolve st (ObligationTransferred forward _ to_saga) =
     Ok (st\<lparr>obligations := update_first (\<lambda>item. ob_forward item = forward)
              (\<lambda>item. item\<lparr>ob_owner := to_saga\<rparr>) (obligations st)\<rparr>)"
| "evolve st (ObligationReleased _ forward) = Ok (set_obligation_status forward ObReleased st)"
| "evolve st (SessionRegistered session activities capacity expires_ms) =
     Ok (st\<lparr>sessions := hput session
              \<lparr>ws_id = session, ws_activities = activities, ws_capacity = capacity,
               ws_expires_ms = expires_ms, ws_principal_id = [], ws_capabilities = [],
               ws_revision = 0, ws_protocol_min = 0, ws_protocol_max = 0\<rparr> (sessions st)\<rparr>)"
| "evolve st (WorkerRegistered session principal_id capabilities capacity pmin pmax expires_ms) =
     Ok (st\<lparr>sessions := hput session
              \<lparr>ws_id = session, ws_activities = [], ws_capacity = capacity,
               ws_expires_ms = expires_ms, ws_principal_id = principal_id,
               ws_capabilities = capabilities, ws_revision = 1, ws_protocol_min = pmin,
               ws_protocol_max = pmax\<rparr> (sessions st)\<rparr>)"
| "evolve st (WorkerSessionRenewed session revision expires_ms) =
     Ok (st\<lparr>sessions := hmod session
              (\<lambda>w. w\<lparr>ws_revision := revision, ws_expires_ms := expires_ms\<rparr>) (sessions st)\<rparr>)"
| "evolve st (ClaimGranted g) =
     Ok (st\<lparr>next_generation := sat_add64 (next_generation st) 1, fair_cursor := Some (cg_run g),
            activations := hmod (cg_activation g) (grant_claim g) (activations st)\<rparr>)"
| "evolve st (ClaimRenewed activation _ _ revision lease_expiry_ms) =
     Ok (st\<lparr>activations := hmod activation
              (\<lambda>act. act\<lparr>act_claim := map_option
                 (\<lambda>c. c\<lparr>cl_revision := revision, cl_lease_expiry_ms := lease_expiry_ms\<rparr>) (act_claim act)\<rparr>)
              (activations st)\<rparr>)"
| "evolve st (ClaimCleared activation) =
     Ok (st\<lparr>activations := hmod activation (\<lambda>act. act\<lparr>act_claim := None\<rparr>) (activations st)\<rparr>)"
| "evolve st (ReconciliationRecorded _ activation outcome _ probes) =
     Ok (st\<lparr>activations := hmod activation
              (\<lambda>act. act\<lparr>act_claim := map_option
                 (\<lambda>c. c\<lparr>cl_probes := probes,
                        cl_unknown_reported := cl_unknown_reported c \<or> outcome = Unknown\<rparr>) (act_claim act)\<rparr>)
              (activations st)\<rparr>)"
| "evolve st (ReconciliationFailed _ _ _ _) = Ok st"
| "evolve st (InterventionRequired _ activation reason) =
     Ok (st\<lparr>interventions := hput activation reason (interventions st)\<rparr>)"
| "evolve st (RunSucceeded run output) =
     Ok (st\<lparr>runs := hmod run (\<lambda>r. r\<lparr>rs_status := RunDone output\<rparr>) (runs st)\<rparr>)"
| "evolve st (RunFailed run error) =
     Ok (st\<lparr>runs := hmod run (\<lambda>r. r\<lparr>rs_status := RunBroken error\<rparr>) (runs st),
            scopes := hmap_vals
              (\<lambda>s. if sc_run s = run \<and> sc_status s = ScopeOpen
                   then s\<lparr>sc_status := ScopeBroken error\<rparr> else s) (scopes st),
            activations := hmap_vals
              (\<lambda>act. if act_run act = run \<and> act_status act \<noteq> ActSucceeded
                     then set_act_status ActFailed act else act) (activations st)\<rparr>)"
| "evolve st (RecoveryAuthorized _) =
     Ok (st\<lparr>recovery := map_option (\<lambda>hold. hold\<lparr>rh_authorized := True\<rparr>) (recovery st)\<rparr>)"
| "evolve st (AbortIntent _ saga error) =
     Ok (st\<lparr>saga_errors := hput saga error (saga_errors st)\<rparr>)"
| "evolve st (CompensationAbandoned run _ unresolved) =
     Ok (st\<lparr>obligations := map (\<lambda>item. if ob_run item = run \<and> ob_forward item \<in> set unresolved
                                       then item\<lparr>ob_status := ObAbandoned\<rparr> else item) (obligations st),
            activations := hmap_vals
              (\<lambda>act. if act_run act = run then act\<lparr>act_claim := None\<rparr> else act) (activations st)\<rparr>)"

section \<open>The owner of an event\<close>

definition precondition :: "string \<Rightarrow> error" where
  "precondition m = error_new FailedPrecondition m"

fun event_run :: "domain_event \<Rightarrow> run_id option" where
  "event_run (RunAdmitted run _ _ _ _ _ _) = Some run"
| "event_run (ScopeOpened run _ _ _ _) = Some run"
| "event_run (ScopeCompleted run _ _) = Some run"
| "event_run (ScopeFailed run _ _) = Some run"
| "event_run (ActivationOpened run _ _ _) = Some run"
| "event_run (NodeOutputRecorded run _ _ _) = Some run"
| "event_run (GuardRecorded run _ _ _ _) = Some run"
| "event_run (LeafSucceeded run _ _ _ _) = Some run"
| "event_run (LeafFailed run _ _ _ _ _) = Some run"
| "event_run (WaitOpened run _ _ _ _ _ _) = Some run"
| "event_run (WaitSatisfied run _ _ _) = Some run"
| "event_run (WaitTimedOut run _) = Some run"
| "event_run (WaitCancelled run _) = Some run"
| "event_run (EventAccepted run _ _ _ _ _ _ _) = Some run"
| "event_run (EventExpired run _) = Some run"
| "event_run (ObligationRegistered run _ _ _ _) = Some run"
| "event_run (ObligationBlocked run _ _ _ _) = Some run"
| "event_run (CompensationStarted run _ _ _ _ _ _ _) = Some run"
| "event_run (RunSucceeded run _) = Some run"
| "event_run (RunFailed run _) = Some run"
| "event_run (ObligationReleased run _) = Some run"
| "event_run (ClaimGranted g) = Some (cg_run g)"
| "event_run (ReconciliationRecorded run _ _ _ _) = Some run"
| "event_run (ReconciliationFailed run _ _ _) = Some run"
| "event_run (InterventionRequired run _ _) = Some run"
| "event_run (AbortIntent run _ _) = Some run"
| "event_run (CompensationAbandoned run _ _) = Some run"
| "event_run _ = None"

fun event_owner :: "state \<Rightarrow> domain_event \<Rightarrow> run_id option res" where
  "event_owner st (ObligationTransferred forward _ _) =
     rmap (\<lambda>item. Some (ob_run item))
       (ok_or (precondition ''transferred obligation has no run'')
          (find (\<lambda>item. ob_forward item = forward) (obligations st)))"
| "event_owner st (ClaimRenewed activation _ _ _ _) =
     rmap (\<lambda>act. Some (act_run act))
       (ok_or (precondition ''claim lifecycle event has no activation'')
          (hget (activations st) activation))"
| "event_owner st (ClaimCleared activation) =
     rmap (\<lambda>act. Some (act_run act))
       (ok_or (precondition ''claim lifecycle event has no activation'')
          (hget (activations st) activation))"
| "event_owner st (EventReserved wait _) =
     rmap Some (ok_or (precondition ''signal reservation has no wait'') (wait_run st wait))"
| "event_owner st (ReservationReleased wait _) =
     rmap Some (ok_or (precondition ''signal reservation has no wait'') (wait_run st wait))"
| "event_owner st event = Ok (event_run event)"

end
