(* ===== verification/History.thy ===== *)
theory History
  imports Evolve
begin

text \<open>
  Recorded history (history.rs) and the application of events (domain.rs): artifact references,
  the references an event carries, appending an event to the history of its run, and
  \<open>apply_events_with_cause\<close>, which evolves the state and records each event. The digests of
  published definitions and catalogs (publication.rs, compiler.rs) are here because the
  verification of retained artifacts uses them.
\<close>

definition unavailable :: "string \<Rightarrow> error" where
  "unavailable m = error_new Unavailable m"

definition ARTIFACT_FORMAT :: string where "ARTIFACT_FORMAT = ''graphrun-artifact/v1''"
definition EVENT_FORMAT :: string where "EVENT_FORMAT = ''graphrun.run-event/v1''"
definition CHECKPOINT_FORMAT :: string where "CHECKPOINT_FORMAT = ''graphrun.run-checkpoint/v2''"

section \<open>Artifact references\<close>

text \<open>\<open>ClusterId::from_hex\<close>: hexadecimal for exactly sixteen bytes.\<close>

definition id_from_hex :: "externals \<Rightarrow> string \<Rightarrow> string + bytes" where
  "id_from_hex E txt =
     (case hex_decode E txt of
        Inl m \<Rightarrow> Inl m
      | Inr bs \<Rightarrow> if length bs = 16 then Inr bs else Inl ''expected 16 bytes'')"

definition capture_in :: "externals \<Rightarrow> string \<Rightarrow> string \<Rightarrow> json \<Rightarrow> artifact_ref res" where
  "capture_in E cluster_id schema value =
     (if cluster_id = [] then Err (precondition ''artifact origin cluster ID is required'')
      else case id_from_hex E cluster_id of
        Inl m \<Rightarrow> Err (precondition m)
      | Inr _ \<Rightarrow>
          (case canonical_json (json_string E) value of
             Err e \<Rightarrow> Err (precondition (err_message e))
           | Panic \<Rightarrow> Panic
           | Ok body \<Rightarrow>
               Ok \<lparr>ar_cluster_id = cluster_id, ar_format = ARTIFACT_FORMAT, ar_schema = schema,
                   ar_byte_len = length body,
                   ar_sha256 = hex_encode E (sha256 E (''graphrun-artifact/v1'' @ [CHR 0x00] @ schema
                                                        @ [CHR 0x00] @ body))\<rparr>))"

text \<open>\<open>map_err(|err| unavailable(err.message))\<close>.\<close>

fun to_unavailable :: "'a res \<Rightarrow> 'a res" where
  "to_unavailable (Ok x) = Ok x"
| "to_unavailable (Err e) = Err (unavailable (err_message e))"
| "to_unavailable Panic = Panic"

definition artifact_verify :: "externals \<Rightarrow> artifact_ref \<Rightarrow> string \<Rightarrow> json \<Rightarrow> unit res" where
  "artifact_verify E ref schema value =
     rbind (to_unavailable (capture_in E (ar_cluster_id ref) schema value)) (\<lambda>actual.
       if ref \<noteq> actual then Err (unavailable ''missing, corrupt or unsupported retained artifact'')
       else Ok ())"

section \<open>Digests of published content\<close>

definition MAX_NORMALIZED_BYTES :: nat where "MAX_NORMALIZED_BYTES = 256 * 1024"
definition PUBLIC_COMMAND_ENVELOPE :: nat where "PUBLIC_COMMAND_ENVELOPE = 1024 * 1024"
definition FORMAT_VERSION :: nat where "FORMAT_VERSION = 1"

fun without_digest :: "json \<Rightarrow> json" where
  "without_digest (JObj fs) = JObj (filter (\<lambda>(k, v). k \<noteq> ''digest'') fs)"
| "without_digest j = j"

definition digest_of :: "externals \<Rightarrow> definition_ir \<Rightarrow> string res" where
  "digest_of E d =
     rbind (canonical_json (json_string E) (without_digest (ser_definition E d))) (\<lambda>body.
       if length body > MAX_NORMALIZED_BYTES
       then Err (invalid ''normalized definition exceeds 256 KiB'')
       else Ok (hex_encode E (sha256 E body)))"

definition canonical_bytes :: "externals \<Rightarrow> json \<Rightarrow> nat option \<Rightarrow> bytes res" where
  "canonical_bytes E value limit =
     rbind (canonical_json (json_string E) value) (\<lambda>body.
       case limit of
         Some l \<Rightarrow> if length body > l
                   then Err (error_new ResourceExhausted
                               (''published payload exceeds '' @ show_nat l @ '' bytes''))
                   else Ok body
       | None \<Rightarrow> Ok body)"

definition publication_digest :: "externals \<Rightarrow> json \<Rightarrow> nat \<Rightarrow> string res" where
  "publication_digest E value limit =
     rmap (\<lambda>body. hex_encode E (sha256 E body)) (canonical_bytes E value (Some limit))"

definition pinned_verify ::
    "externals \<Rightarrow> pinned_publication \<Rightarrow> definition_ir \<Rightarrow> catalog \<Rightarrow> unit res" where
  "pinned_verify E p d c =
     (let corrupt = Err (precondition ''pinned history artifact unavailable or corrupt'') in
      if pp_definition_format_version p \<noteq> FORMAT_VERSION
         \<or> def_format_version d \<noteq> pp_definition_format_version p then corrupt
      else rbind (digest_of E d) (\<lambda>dd.
        if pp_definition_digest p \<noteq> dd then corrupt
        else rbind (publication_digest E (ser_catalog E c) PUBLIC_COMMAND_ENVELOPE) (\<lambda>cd.
          if pp_catalog_digest p \<noteq> cd \<or> pp_policy_format p \<noteq> ''graphrun.run-policy/v1'' then corrupt
          else Ok ())))"

section \<open>Required artifacts\<close>

definition capture_all ::
    "externals \<Rightarrow> string \<Rightarrow> string \<Rightarrow> (string \<times> json) list \<Rightarrow> (string, artifact_ref) bmap res" where
  "capture_all E cluster_id pre items =
     rmap obj_of (rseq (map (\<lambda>(key, j). rmap (Pair key) (capture_in E cluster_id (pre @ key) j)) items))"

definition contract_items :: "externals \<Rightarrow> catalog \<Rightarrow> (string \<times> json) list" where
  "contract_items E c =
     map (\<lambda>(k, contract). (''activity/'' @ activity_key_stable_name k, ser_contract E contract))
       (cat_activities c)
     @ map (\<lambda>(k, contract). (''reconciler/'' @ activity_key_stable_name k, ser_reconciler E contract))
         (cat_reconcilers c)"

definition required_capture :: "externals \<Rightarrow> run_state \<Rightarrow> string \<Rightarrow> required_artifacts res" where
  "required_capture E run cluster_id =
     rbind (capture_all E cluster_id ''graphrun.schema/''
              (map (\<lambda>(k, s). (schema_key_stable_name k, s)) (cat_schemas (rs_catalog run)))) (\<lambda>schemas.
     rbind (capture_all E cluster_id ''graphrun.contract/'' (contract_items E (rs_catalog run))) (\<lambda>contracts.
     rbind (capture_in E cluster_id ''graphrun.definition/v1'' (ser_definition E (rs_definition run)))
       (\<lambda>definition.
     rbind (capture_in E cluster_id ''graphrun.catalog/v1'' (ser_catalog E (rs_catalog run))) (\<lambda>catalog.
     rbind (capture_in E cluster_id ''graphrun.run-policy/v1'' (ser_policy E (rs_policy run))) (\<lambda>policy.
       Ok \<lparr>ra_definition = definition, ra_catalog = catalog, ra_policy = policy,
           ra_schemas = schemas, ra_contracts = contracts\<rparr>)))))"

definition required_verify :: "externals \<Rightarrow> required_artifacts \<Rightarrow> run_state \<Rightarrow> unit res" where
  "required_verify E r run =
     rbind (to_unavailable (required_capture E run (ar_cluster_id (ra_definition r)))) (\<lambda>actual.
       if r \<noteq> actual
       then Err (unavailable
              ''missing, corrupt or unsupported retained definition, schema, contract or policy'')
       else case rs_published run of
              None \<Rightarrow> Ok ()
            | Some published \<Rightarrow>
                to_unavailable (pinned_verify E published (rs_definition run) (rs_catalog run)))"

section \<open>References of an event\<close>

fun schema_identity :: "externals \<Rightarrow> schema_ref \<Rightarrow> string res" where
  "schema_identity E (SNamed key) = Ok (schema_key_stable_name key)"
| "schema_identity E schema = canonical_json (json_string E) (ser_schema_ref E schema)"

definition activity_schema_identity ::
    "externals \<Rightarrow> state \<Rightarrow> run_id \<Rightarrow> string \<Rightarrow> nat \<Rightarrow> execution_role \<Rightarrow> (string \<times> string) res" where
  "activity_schema_identity E st run name version role =
     rbind (ok_or (unavailable ''accepted activity has no retained run'') (hget (runs st) run)) (\<lambda>run_state.
     rbind (to_unavailable (contract_schemas (rs_catalog run_state) (activity_key_new name version) role))
       (\<lambda>(input, output).
     rbind (schema_identity E input) (\<lambda>i.
     rbind (schema_identity E output) (\<lambda>o'. Ok (i, o')))))"

definition activity_for_result ::
    "externals \<Rightarrow> state \<Rightarrow> activation_id \<Rightarrow> execution_role \<Rightarrow> (string \<times> nat \<times> execution_role) res" where
  "activity_for_result E st activation fallback_role =
     rbind (ok_or (unavailable ''accepted result has no activation'') (hget (activations st) activation)) (\<lambda>act.
     rbind (activity_key_of E st activation) (\<lambda>key.
     rbind (ok_or (unavailable ''accepted result has no pinned activity'') key) (\<lambda>(name, version, _).
       Ok (name, version,
           case act_claim act of Some claim \<Rightarrow> cl_role claim | None \<Rightarrow> fallback_role))))"

definition result_ref ::
    "externals \<Rightarrow> state \<Rightarrow> run_id \<Rightarrow> activation_id \<Rightarrow> execution_role \<Rightarrow> val \<Rightarrow> string
     \<Rightarrow> artifact_ref res" where
  "result_ref E st run activation role value cluster_id =
     rbind (activity_for_result E st activation role) (\<lambda>(name, version, actual_role).
     rbind (activity_schema_identity E st run name version actual_role) (\<lambda>(_, schema).
       capture_in E cluster_id schema (to_json value)))"

definition io_references ::
    "externals \<Rightarrow> state \<Rightarrow> run_id \<Rightarrow> domain_event \<Rightarrow> string
     \<Rightarrow> (artifact_ref option \<times> artifact_ref option) res" where
  "io_references E st run event cluster_id =
     rbind (ok_or (unavailable ''recorded event has no retained run'') (hget (runs st) run)) (\<lambda>run_state.
       case event of
         RunAdmitted _ _ _ value _ _ _ \<Rightarrow>
           rbind (schema_identity E (def_input_schema (rs_definition run_state))) (\<lambda>schema.
           rmap (\<lambda>r. (Some r, None)) (capture_in E cluster_id schema (to_json value)))
       | ClaimGranted g \<Rightarrow>
           rbind (activity_schema_identity E st run (cg_handler g) (cg_handler_version g) (cg_role g))
             (\<lambda>(schema, _).
           rmap (\<lambda>r. (Some r, None)) (capture_in E cluster_id schema (to_json (cg_input g))))
       | LeafSucceeded _ activation _ value role \<Rightarrow>
           rmap (\<lambda>r. (None, Some r)) (result_ref E st run activation role value cluster_id)
       | ReconciliationRecorded _ activation _ (Some value) _ \<Rightarrow>
           rmap (\<lambda>r. (None, Some r)) (result_ref E st run activation Reconciliation value cluster_id)
       | EventAccepted _ _ signal _ value _ _ _ \<Rightarrow>
           rbind (ok_or (unavailable ''accepted event has no pinned signal schema'')
                    (map_of (def_signals (rs_definition run_state)) signal)) (\<lambda>sig_schema.
           rbind (schema_identity E sig_schema) (\<lambda>schema.
           rmap (\<lambda>r. (Some r, None)) (capture_in E cluster_id schema (to_json value))))
       | RunSucceeded _ value \<Rightarrow>
           rbind (schema_identity E (def_output_schema (rs_definition run_state))) (\<lambda>schema.
           rmap (\<lambda>r. (None, Some r)) (capture_in E cluster_id schema (to_json value)))
       | _ \<Rightarrow> Ok (None, None))"

section \<open>Appending\<close>

definition hlist :: "('k, 'v list) hmap \<Rightarrow> 'k \<Rightarrow> 'v list" where
  "hlist m k = (case hget m k of Some xs \<Rightarrow> xs | None \<Rightarrow> [])"

definition hpush :: "'k \<Rightarrow> 'v \<Rightarrow> ('k, 'v list) hmap \<Rightarrow> ('k, 'v list) hmap" where
  "hpush k v m = hput k (hlist m k @ [v]) m"

definition tombstone_key :: "externals \<Rightarrow> run_id \<Rightarrow> event_id \<Rightarrow> string" where
  "tombstone_key E run event_id = hex_encode E run @ '':'' @ hex_encode E event_id"

definition append_dependencies ::
    "externals \<Rightarrow> state \<Rightarrow> run_id \<Rightarrow> domain_event \<Rightarrow> required_artifacts option res" where
  "append_dependencies E st run event =
     (case event of
        RunAdmitted _ _ _ _ _ _ _ \<Rightarrow>
          rbind (unwrap_opt (hget (runs st) run)) (\<lambda>run_state.
            rmap Some (required_capture E run_state (current_cluster_id st)))
      | _ \<Rightarrow> Ok None)"

definition append_tombstone ::
    "externals \<Rightarrow> state \<Rightarrow> run_id \<Rightarrow> domain_event \<Rightarrow> signal_tombstone option res" where
  "append_tombstone E st run event =
     (case event of
        EventAccepted _ event_id signal key payload _ _ _ \<Rightarrow>
          rmap (\<lambda>r. Some \<lparr>tb_run = run, tb_event_id = event_id, tb_signal = signal, tb_key = key,
                          tb_payload = r\<rparr>)
            (capture_in E (current_cluster_id st) ''graphrun.signal-payload/v1'' (to_json payload))
      | _ \<Rightarrow> Ok None)"

definition append_event ::
    "externals \<Rightarrow> state \<Rightarrow> run_id \<Rightarrow> domain_event \<Rightarrow> command_id option \<Rightarrow> string option \<Rightarrow> nat
     \<Rightarrow> artifact_ref option \<times> artifact_ref option \<Rightarrow> state res" where
  "append_event E st run event cmd actor recorded_ms io =
     (let sequence = length (hlist (history st) run) + 1 in
      rbind (append_dependencies E st run event) (\<lambda>required.
      rbind (capture_in E (current_cluster_id st) ''graphrun.domain-event/v1'' (ser_event E event)) (\<lambda>payload_ref.
      rbind (append_tombstone E st run event) (\<lambda>tombstone.
        Ok (st\<lparr>history_dependencies :=
                 (case required of Some r \<Rightarrow> hput run r (history_dependencies st)
                  | None \<Rightarrow> history_dependencies st),
               artifact_origins := insert (current_cluster_id st) (artifact_origins st),
               history := hpush run event (history st),
               history_records := hpush run
                 \<lparr>he_format = EVENT_FORMAT, he_run = run, he_sequence = sequence,
                  he_command_id = cmd, he_principal_id = actor, he_recorded_ms = recorded_ms,
                  he_payload = payload_ref, he_input_ref = fst io, he_output_ref = snd io\<rparr>
                 (history_records st),
               signal_tombstones :=
                 (case tombstone of
                    Some t \<Rightarrow> hput (tombstone_key E run (tb_event_id t)) t (signal_tombstones st)
                  | None \<Rightarrow> signal_tombstones st)\<rparr>)))))"

definition apply_event ::
    "externals \<Rightarrow> command_id option \<Rightarrow> string option \<Rightarrow> nat \<Rightarrow> state \<Rightarrow> domain_event \<Rightarrow> state res" where
  "apply_event E cmd actor time st event =
     rbind (event_owner st event) (\<lambda>owner.
       case owner of
         None \<Rightarrow> evolve st event
       | Some run \<Rightarrow>
           rbind (io_references E st run event (current_cluster_id st)) (\<lambda>io.
           rbind (evolve st event) (\<lambda>st1.
             append_event E st1 run event cmd actor time io)))"

fun apply_events_with_cause ::
    "externals \<Rightarrow> command_id option \<Rightarrow> string option \<Rightarrow> nat \<Rightarrow> state \<Rightarrow> domain_event list \<Rightarrow> state res" where
  "apply_events_with_cause E cmd actor time st [] = Ok st"
| "apply_events_with_cause E cmd actor time st (event # events) =
     rbind (apply_event E cmd actor time st event) (\<lambda>st1.
       apply_events_with_cause E cmd actor time st1 events)"

definition apply_events :: "externals \<Rightarrow> state \<Rightarrow> domain_event list \<Rightarrow> state res" where
  "apply_events E st events = apply_events_with_cause E None None 0 st events"

section \<open>One event\<close>

lemma apply_event_Ok:
  assumes "apply_event E cmd actor time st event = Ok st'"
  obtains (unowned) "event_owner st event = Ok None" and "evolve st event = Ok st'"
  | (owned) run io st1 where "event_owner st event = Ok (Some run)"
    and "io_references E st run event (current_cluster_id st) = Ok io" and "evolve st event = Ok st1"
    and "append_event E st1 run event cmd actor time io = Ok st'"
proof -
  from assms obtain owner where owner: "event_owner st event = Ok owner"
    and rest: "(case owner of None \<Rightarrow> evolve st event
       | Some run \<Rightarrow> rbind (io_references E st run event (current_cluster_id st)) (\<lambda>io.
           rbind (evolve st event) (\<lambda>st1. append_event E st1 run event cmd actor time io))) = Ok st'"
    by (auto simp: apply_event_def res_simps)
  show ?thesis
  proof (cases owner)
    case None
    with owner rest unowned show ?thesis by simp
  next
    case (Some run)
    with rest obtain io st1 where "io_references E st run event (current_cluster_id st) = Ok io"
      and "evolve st event = Ok st1" and "append_event E st1 run event cmd actor time io = Ok st'"
      by (auto simp: res_simps)
    with owner Some owned show ?thesis by blast
  qed
qed

lemma apply_events_append:
  "apply_events_with_cause E cmd actor time st (xs @ ys) =
     rbind (apply_events_with_cause E cmd actor time st xs) (\<lambda>st1.
       apply_events_with_cause E cmd actor time st1 ys)"
  by (induction xs arbitrary: st) (auto simp: rbind_assoc)

end
