(* ===== verification/Scopes.thy ===== *)
theory Scopes
  imports History
begin

text \<open>
  Opening, completing and failing scopes (domain.rs): the events with which every decision moves
  along the edges of a region, and the reading of the children of a container activation. A
  decision that needs fresh identities takes the generator and returns it advanced.
\<close>

type_synonym 'a idres = "('a \<times> id_gen) res"

definition open_node ::
    "externals \<Rightarrow> state \<Rightarrow> scope_id \<Rightarrow> node_key \<Rightarrow> id_gen \<Rightarrow> domain_event list idres" where
  "open_node E st scope node ids =
     rbind (unwrap_opt (hget (scopes st) scope)) (\<lambda>scope_state.
       let (activation, ids1) = next_bytes E ids in
       Ok ([ActivationOpened (sc_run scope_state) scope activation node], ids1))"

definition follow_next ::
    "externals \<Rightarrow> state \<Rightarrow> scope_id \<Rightarrow> node_key \<Rightarrow> id_gen \<Rightarrow> domain_event list idres" where
  "follow_next E st scope node ids =
     rbind (ok_or (invalid ''missing region'') (region_for_scope st scope)) (\<lambda>region.
     rbind (unwrap_opt (map_of (region_nodes region) node)) (\<lambda>n.
       case find (\<lambda>(name, _). name = ''next'') (successors n) of
         None \<Rightarrow> Ok ([], ids)
       | Some (_, next) \<Rightarrow> open_node E st scope next ids))"

text \<open>Recording the output of a node and following its edge.\<close>

definition output_and_next ::
    "externals \<Rightarrow> state \<Rightarrow> run_id \<Rightarrow> activation_state \<Rightarrow> val \<Rightarrow> id_gen \<Rightarrow> domain_event list idres" where
  "output_and_next E st run act output ids =
     rbind (follow_next E st (act_scope act) (act_node act) ids) (\<lambda>(events, ids1).
       Ok (NodeOutputRecorded run (act_scope act) (act_node act) output # events, ids1))"

text \<open>Opening the body scope of a container: the scope, then its start node.\<close>

definition open_body ::
    "externals \<Rightarrow> activation_state \<Rightarrow> region \<Rightarrow> scope_role \<Rightarrow> val \<Rightarrow> id_gen
     \<Rightarrow> domain_event list \<times> id_gen" where
  "open_body E act body role input ids =
     (let (scope, ids1) = next_bytes E ids; (start, ids2) = next_bytes E ids1 in
      ([ScopeOpened (act_run act) scope (Some (act_id act)) role input,
        ActivationOpened (act_run act) scope start (region_start body)], ids2))"

definition complete_scope :: "scope_state \<Rightarrow> val \<Rightarrow> domain_event list" where
  "complete_scope scope output =
     ScopeCompleted (sc_run scope) (sc_id scope) output
     # (if sc_role scope = RoleRoot then [RunSucceeded (sc_run scope) output] else [])"

definition close_wait :: "state \<Rightarrow> run_id \<Rightarrow> wait_state \<Rightarrow> domain_event list" where
  "close_wait st run wait =
     (case find (\<lambda>entry. ib_reserved_wait entry = Some (wt_id wait) \<and> \<not> ib_consumed entry) (inbox st) of
        Some entry \<Rightarrow> [ReservationReleased (wt_id wait) (ib_event_id entry)]
      | None \<Rightarrow> []) @ [WaitCancelled run (wt_id wait)]"

definition close_pending_waits :: "state \<Rightarrow> run_id \<Rightarrow> domain_event list" where
  "close_pending_waits st run =
     concat (map (close_wait st run)
       (sort_key wt_id (filter (\<lambda>wait. wt_run wait = run \<and> wt_pending wait) (hvals (waits st)))))"

fun scope_broken :: "scope_status \<Rightarrow> bool" where
  "scope_broken (ScopeBroken _) = True"
| "scope_broken _ = False"

definition fail_scope :: "state \<Rightarrow> scope_id \<Rightarrow> fail_error \<Rightarrow> domain_event list res" where
  "fail_scope st scope error =
     rbind (unwrap_opt (hget (scopes st) scope)) (\<lambda>scope_state.
       if scope_broken (sc_status scope_state) then Ok []
       else Ok ((if sc_role scope_state = RoleRoot then close_pending_waits st (sc_run scope_state) else [])
                @ [ScopeFailed (sc_run scope_state) scope error]
                @ (if sc_role scope_state = RoleRoot then [RunFailed (sc_run scope_state) error] else [])))"

section \<open>Children\<close>

definition children_of :: "state \<Rightarrow> activation_id \<Rightarrow> scope_state list" where
  "children_of st parent = filter (\<lambda>scope. sc_parent scope = Some parent) (hvals (scopes st))"

fun role_index :: "scope_role \<Rightarrow> nat" where
  "role_index (RoleLoopBody _ index) = index"
| "role_index (RoleForeachItem _ index) = index"
| "role_index _ = 0"

text \<open>The open child if there is one, otherwise the child with the greatest index.\<close>

definition child_of :: "state \<Rightarrow> activation_id \<Rightarrow> scope_state option" where
  "child_of st parent =
     (let children = children_of st parent in
      case find (\<lambda>child. sc_status child = ScopeOpen) children of
        Some open \<Rightarrow> Some open
      | None \<Rightarrow>
          (case rev (sort_key (\<lambda>child. role_index (sc_role child)) children) of
             [] \<Rightarrow> None
           | child # _ \<Rightarrow> Some child))"

definition foreach_get :: "(nat \<times> val) list \<Rightarrow> nat \<Rightarrow> val option" where
  "foreach_get done index = map_option snd (find (\<lambda>(i, _). i = index) done)"

definition foreach_has :: "(nat \<times> val) list \<Rightarrow> nat \<Rightarrow> bool" where
  "foreach_has done index \<longleftrightarrow> list_ex (\<lambda>(i, _). i = index) done"

definition active_runs :: "state \<Rightarrow> run_id list" where
  "active_runs st = map rs_id (filter (\<lambda>run. rs_status run = RunActive) (hvals (runs st)))"

definition root_scope :: "state \<Rightarrow> run_id \<Rightarrow> scope_state option" where
  "root_scope st run =
     find (\<lambda>scope. sc_run scope = run \<and> sc_role scope = RoleRoot) (hvals (scopes st))"

definition run_is_aborting :: "state \<Rightarrow> run_id \<Rightarrow> bool" where
  "run_is_aborting st run \<longleftrightarrow>
     list_ex (\<lambda>(saga, _). case hget (activations st) saga of
                            Some act \<Rightarrow> act_run act = run
                          | None \<Rightarrow> False) (saga_errors st)"

definition run_past_deadline :: "state \<Rightarrow> run_id \<Rightarrow> engine_time \<Rightarrow> bool" where
  "run_past_deadline st run time =
     (case hget (runs st) run of
        None \<Rightarrow> False
      | Some run_state \<Rightarrow>
          (case crp_run_timeout_ms (rs_policy run_state) of
             None \<Rightarrow> False
           | Some ms \<Rightarrow>
               rs_admitted_ms run_state \<noteq> 0 \<and> time \<ge> sat_add64 (rs_admitted_ms run_state) ms))"

definition execution_suspended :: "state \<Rightarrow> bool" where
  "execution_suspended st =
     (case recovery st of Some hold \<Rightarrow> \<not> rh_authorized hold | None \<Rightarrow> False)"

end
