(* ===== verification/Sample.thy ===== *)
theory Sample
  imports Domain_State "HOL-Library.Code_Target_Nat"
begin

text \<open>
  A small concrete installation: one instance of the external functions and one workflow with a
  single activity, with the state of a run whose activity is ready. The theorems of the component
  theories are applied to it.
\<close>

definition sample_ext :: externals where
  "sample_ext =
     \<lparr>sha256 = (\<lambda>b. take 64 (rev b @ replicate 64 (CHR ''0''))), hex_encode = (\<lambda>b. b), json_is_valid = (\<lambda>_ _. True), json_string = (\<lambda>s. s),
      ser_contract = (\<lambda>c. JStr (ak_name (ac_key c))), ser_reconciler = (\<lambda>c. JStr (ak_name (rc_key c))),
      hex_decode = Inr, ser_schema_ref = (\<lambda>_. JNull), ser_definition = (\<lambda>d. JStr (def_id d)),
      ser_catalog = (\<lambda>_. JNull), ser_policy = (\<lambda>_. JNull), ser_event = (\<lambda>_. JNull),
      ser_command_body = (\<lambda>_. JNull), ser_operation = (\<lambda>_. JNull), operation_text = (\<lambda>_. []),
      ser_projection = (\<lambda>_ _. JNull)\<rparr>"

definition sample_key :: activity_key where
  "sample_key = ActivityKey ''charge'' 1"

definition sample_contract :: activity_contract where
  "sample_contract =
     \<lparr>ac_key = sample_key, ac_input_schema = SInteger, ac_output_schema = SInteger,
      ac_execution = ExecAsync, ac_effects = EffectExternal, ac_recovery = RetrySafe,
      ac_error_codes = [], ac_reconciler = None\<rparr>"

definition sample_catalog :: catalog where
  "sample_catalog =
     \<lparr>cat_schemas = [], cat_activities = [(sample_key, sample_contract)], cat_reconcilers = []\<rparr>"

definition sample_region :: region where
  "sample_region =
     Region region_path_root SInteger SInteger ''charge''
       [(''charge'', NActivity sample_key (BFrom WorkflowInput None) None retry_forward_default None ''done''),
        (''done'', NComplete (BFrom (NodeOutput ''charge'') None))]"

definition sample_definition :: definition_ir where
  "sample_definition =
     \<lparr>def_format_version = 1, def_dsl = ''graphrun/v1'', def_id = ''order'', def_version = 1,
      def_input_schema = SInteger, def_output_schema = SInteger, def_signals = [(''paid'', SInteger)],
      def_run_timeout_ms = None, def_root = sample_region, def_digest = ''d''\<rparr>"

definition sample_run :: run_state where
  "sample_run =
     \<lparr>rs_id = ''run'', rs_definition = sample_definition, rs_catalog = sample_catalog, rs_input = VInt 5,
      rs_policy = captured_defaults None, rs_status = RunActive, rs_root = ''root'',
      rs_next_sequence = 1, rs_next_ready_order = 1, rs_admitted_ms = 10, rs_terminal_ms = 0,
      rs_published = None\<rparr>"

definition sample_scope :: scope_state where
  "sample_scope =
     \<lparr>sc_id = ''root'', sc_run = ''run'', sc_parent = None, sc_role = RoleRoot, sc_input = VInt 5,
      sc_status = ScopeOpen, sc_outputs = [], sc_current = Some ''charge''\<rparr>"

definition sample_activation :: activation_state where
  "sample_activation =
     \<lparr>act_id = ''act'', act_run = ''run'', act_scope = ''root'', act_node = ''charge'',
      act_status = ActReady, act_role = Forward, act_claim = None, act_attempts = 0,
      act_ready_order = 1\<rparr>"

definition sample_session :: worker_session where
  "sample_session =
     \<lparr>ws_id = ''worker'', ws_activities = [''*''], ws_capacity = 4, ws_expires_ms = 30000,
      ws_principal_id = [], ws_capabilities = [], ws_revision = 0, ws_protocol_min = 0,
      ws_protocol_max = 0\<rparr>"

definition sample_state :: state where
  "sample_state =
     state_default\<lparr>runs := [(''run'', sample_run)], scopes := [(''root'', sample_scope)],
       activations := [(''act'', sample_activation)], sessions := [(''worker'', sample_session)]\<rparr>"

end
