(* ===== verification/Claims.thy ===== *)
theory Claims
  imports Scopes Sample "HOL-Library.Product_Lexorder"
begin

text \<open>
  Worker sessions and claims (domain.rs): registering and renewing sessions, choosing the
  activations a worker may claim and granting them in fair order, renewing a claim, and the
  check that fences every worker report. The list of grants of one decision stands for the
  source's \<open>granted\<close>, \<open>granted_ids\<close> and \<open>events\<close>.
\<close>

section \<open>Sessions\<close>

definition unauthenticated :: "string \<Rightarrow> error" where
  "unauthenticated m = error_new Unauthenticated m"

definition PROTOCOL_VERSION :: nat where "PROTOCOL_VERSION = 1"

definition decide_register ::
    "state \<Rightarrow> worker_session_id \<Rightarrow> string list \<Rightarrow> nat \<Rightarrow> engine_time \<Rightarrow> domain_event list res" where
  "decide_register st session activities capacity time =
     (if capacity = 0 \<or> capacity > CLAIM_BATCH then Err (invalid ''invalid worker capacity'')
      else if (case hget (sessions st) session of Some existing \<Rightarrow> ws_expires_ms existing > time | None \<Rightarrow> False)
      then Ok []
      else Ok [SessionRegistered session activities capacity (sat_add64 time SESSION_LEASE)])"

definition decide_renew_local_session ::
    "state \<Rightarrow> worker_session_id \<Rightarrow> engine_time \<Rightarrow> domain_event list res" where
  "decide_renew_local_session st session time =
     rbind (ok_or (precondition ''unknown local session'') (hget (sessions st) session)) (\<lambda>worker.
       if ws_principal_id worker \<noteq> [] \<or> time \<ge> ws_expires_ms worker
       then Err (precondition ''local worker session expired or is not local'')
       else Ok [SessionRegistered session (ws_activities worker) (ws_capacity worker)
                  (sat_add64 time SESSION_LEASE)])"

definition decide_register_worker ::
    "state \<Rightarrow> worker_session_id \<Rightarrow> string \<Rightarrow> worker_capability list \<Rightarrow> nat \<Rightarrow> nat \<Rightarrow> nat \<Rightarrow> engine_time
     \<Rightarrow> domain_event list res" where
  "decide_register_worker st session principal_id capabilities capacity pmin pmax time =
     (if principal_id = [] \<or> hhas (sessions st) session
      then Err (invalid ''worker session identity must be new and authenticated'')
      else if capacity = 0 \<or> capacity > MAX_ACTIVE_LEAVES_PER_WORKER \<or> capabilities = []
              \<or> pmin > PROTOCOL_VERSION \<or> pmax < PROTOCOL_VERSION
      then Err (invalid ''invalid worker capacity, protocol range, or capabilities'')
      else if \<not> list_all (\<lambda>c. wc_codec_version c = CODEC_VERSION) capabilities
              \<or> \<not> distinct (map (\<lambda>c. (wc_activity_name c, wc_activity_version c, wc_role c)) capabilities)
      then Err (invalid ''duplicate or unsupported worker capability'')
      else Ok [WorkerRegistered session principal_id capabilities capacity pmin pmax
                 (sat_add64 time SESSION_LEASE)])"

definition decide_renew_worker_session ::
    "state \<Rightarrow> worker_session_id \<Rightarrow> lease_revision \<Rightarrow> engine_time \<Rightarrow> domain_event list res" where
  "decide_renew_worker_session st session revision time =
     rbind (ok_or (unauthenticated ''unknown worker session'') (hget (sessions st) session)) (\<lambda>worker.
       if ws_principal_id worker = [] \<or> ws_revision worker \<noteq> revision \<or> time \<ge> ws_expires_ms worker
       then Err (precondition ''stale or expired worker session'')
       else Ok [WorkerSessionRenewed session (next_u64 revision) (sat_add64 time SESSION_LEASE)])"

section \<open>What an activation runs\<close>

definition claimed_activity ::
    "externals \<Rightarrow> state \<Rightarrow> activation_id \<Rightarrow> execution_role \<Rightarrow> (activity_key \<times> val) res" where
  "claimed_activity E st activation role =
     rbind (ok_or (invalid ''missing activation'') (hget (activations st) activation)) (\<lambda>act.
     rbind (ok_or (invalid ''missing run'') (hget (runs st) (act_run act))) (\<lambda>run.
       if role = Compensation
       then rmap (\<lambda>item. (activity_key_new (ob_handler item) (ob_handler_version item), ob_input item))
              (ok_or (invalid ''missing compensation obligation'') (compensated_obligation st activation))
       else
         rbind (ok_or (invalid ''missing activity scope'') (lookup_region st (act_scope act))) (\<lambda>region.
         rbind (ok_or (invalid ''missing activity node'') (map_of (region_nodes region) (act_node act))) (\<lambda>n.
           case n of
             NActivity activity input _ _ _ _ \<Rightarrow>
               rbind (ok_or (invalid ''missing activity scope state'') (hget (scopes st) (act_scope act))) (\<lambda>scope.
               rbind (eval_ctx_of E st scope) (\<lambda>ctx.
               rbind (eval_binding input ctx) (\<lambda>bound.
                 if role = Reconciliation
                 then rbind (catalog_activity (rs_catalog run) activity) (\<lambda>contract.
                      rmap (\<lambda>key. (key, bound))
                        (ok_or (invalid ''missing reconciliation contract'') (ac_reconciler contract)))
                 else Ok (activity, bound))))
           | _ \<Rightarrow> Err (invalid ''ready node is not an activity'')))))"

definition worker_matches ::
    "externals \<Rightarrow> state \<Rightarrow> worker_session \<Rightarrow> activation_id \<Rightarrow> execution_role \<Rightarrow> bool res" where
  "worker_matches E st worker activation role =
     rbind (ok_or (invalid ''missing activation'') (hget (activations st) activation)) (\<lambda>act.
     rbind (ok_or (invalid ''missing run'') (hget (runs st) (act_run act))) (\<lambda>run.
     rbind (claimed_activity E st activation role) (\<lambda>(key, _).
       if ws_principal_id worker = []
       then Ok (list_ex (\<lambda>name. name = ''*'' \<or> name = ak_name key) (ws_activities worker))
       else rmap (\<lambda>required. required \<in> set (ws_capabilities worker))
              (capability_for E (rs_catalog run) key role))))"

definition grant_role :: "state \<Rightarrow> activation_state \<Rightarrow> engine_time \<Rightarrow> execution_role" where
  "grant_role st act time =
     (if act_role act = Compensation then Compensation
      else if \<not> (case act_claim act of Some claim \<Rightarrow> time \<ge> cl_lease_expiry_ms claim | None \<Rightarrow> False)
      then Forward
      else case hget (runs st) (act_run act) of
        None \<Rightarrow> Forward
      | Some run \<Rightarrow>
          (case node_of st act of
             Some (NActivity activity _ _ _ _ _) \<Rightarrow>
               (case map_of (cat_activities (rs_catalog run)) activity of
                  None \<Rightarrow> Forward
                | Some contract \<Rightarrow>
                    if ac_reconciler contract = None then Forward
                    else if ac_recovery contract = Manual \<or> run_is_aborting st (act_run act)
                    then Reconciliation else Forward)
           | _ \<Rightarrow> Forward))"

section \<open>Ready activations\<close>

definition ready_activations :: "state \<Rightarrow> run_id \<Rightarrow> activation_id list" where
  "ready_activations st run =
     map act_id (filter (\<lambda>act. act_run act = run \<and> act_status act = ActReady
                     \<and> list_all (\<lambda>wait. wt_activation wait \<noteq> act_id act \<or> \<not> wt_pending wait) (hvals (waits st)))
       (hvals (activations st)))"

definition unclaimed :: "state \<Rightarrow> engine_time \<Rightarrow> activation_id \<Rightarrow> bool" where
  "unclaimed st time activation \<longleftrightarrow>
     \<not> hhas (interventions st) activation
     \<and> (case hget (activations st) activation of
          None \<Rightarrow> False
        | Some act \<Rightarrow>
            (case act_claim act of None \<Rightarrow> True | Some claim \<Rightarrow> time \<ge> cl_lease_expiry_ms claim))"

definition unclaimed_ready :: "state \<Rightarrow> run_id \<Rightarrow> engine_time \<Rightarrow> activation_id list" where
  "unclaimed_ready st run time = filter (unclaimed st time) (ready_activations st run)"

definition worker_in_flight :: "state \<Rightarrow> worker_session_id \<Rightarrow> engine_time \<Rightarrow> nat" where
  "worker_in_flight st session time =
     wrap32 (length (filter (\<lambda>act. act_status act = ActReady
        \<and> (case act_claim act of
             Some claim \<Rightarrow> cl_session claim = session \<and> cl_lease_expiry_ms claim > time
           | None \<Rightarrow> False)) (hvals (activations st))))"

definition forward_barred :: "state \<Rightarrow> run_id \<Rightarrow> engine_time \<Rightarrow> execution_role \<Rightarrow> bool" where
  "forward_barred st run time role \<longleftrightarrow>
     role = Forward \<and> (run_past_deadline st run time \<or> run_is_aborting st run)"

fun first_match ::
    "externals \<Rightarrow> state \<Rightarrow> worker_session \<Rightarrow> run_id \<Rightarrow> engine_time \<Rightarrow> activation_id list
     \<Rightarrow> activation_id option res" where
  "first_match E st worker run time [] = Ok None"
| "first_match E st worker run time (activation # rest) =
     (case hget (activations st) activation of
        None \<Rightarrow> first_match E st worker run time rest
      | Some act \<Rightarrow>
          (let role = grant_role st act time in
           if forward_barred st run time role then first_match E st worker run time rest
           else rbind (worker_matches E st worker activation role) (\<lambda>matches.
                  if matches then Ok (Some activation)
                  else first_match E st worker run time rest)))"

fun any_ready ::
    "externals \<Rightarrow> state \<Rightarrow> worker_session \<Rightarrow> engine_time \<Rightarrow> run_id list \<Rightarrow> bool res" where
  "any_ready E st worker time [] = Ok False"
| "any_ready E st worker time (run # rest) =
     rbind (first_match E st worker run time (unclaimed_ready st run time)) (\<lambda>found.
       if found \<noteq> None then Ok True else any_ready E st worker time rest)"

definition worker_has_ready :: "externals \<Rightarrow> state \<Rightarrow> worker_session_id \<Rightarrow> engine_time \<Rightarrow> bool res" where
  "worker_has_ready E st session time =
     rbind (ok_or (invalid ''unknown worker session'') (hget (sessions st) session)) (\<lambda>worker.
       if time \<ge> ws_expires_ms worker then Err (precondition ''worker session expired'')
       else if worker_in_flight st session time \<ge> ws_capacity worker then Ok False
       else any_ready E st worker time (active_runs st))"

section \<open>Granting\<close>

definition stable_effect_key :: "'x ext_scheme \<Rightarrow> run_id \<Rightarrow> activation_id \<Rightarrow> execution_role \<Rightarrow> effect_key" where
  "stable_effect_key E run activation role =
     take 16 (sha256 E (''graphrun.effect-key/v1'' @ [CHR 0x00] @ run @ activation @ role_name role))"

definition attempt_timeout :: "execution_role \<Rightarrow> duration" where
  "attempt_timeout role =
     (case role of
        Reconciliation \<Rightarrow> RECONCILIATION_ATTEMPT_TIMEOUT
      | Compensation \<Rightarrow> COMPENSATION_ATTEMPT_TIMEOUT
      | Forward \<Rightarrow> FORWARD_ATTEMPT_TIMEOUT)"

definition grant_effect_key ::
    "externals \<Rightarrow> run_id \<Rightarrow> activation_state \<Rightarrow> activation_id \<Rightarrow> execution_role \<Rightarrow> effect_key" where
  "grant_effect_key E run act activation role =
     (case (if role = Reconciliation then map_option cl_effect_key (act_claim act) else None) of
        Some key \<Rightarrow> key
      | None \<Rightarrow> stable_effect_key E run activation role)"

definition ready_in_order :: "state \<Rightarrow> run_id \<Rightarrow> engine_time \<Rightarrow> activation_id list" where
  "ready_in_order st run time =
     sort_key (\<lambda>activation. (case hget (activations st) activation of
                               Some act \<Rightarrow> act_ready_order act | None \<Rightarrow> 0, activation))
       (unclaimed_ready st run time)"

definition build_grant ::
    "externals \<Rightarrow> state \<Rightarrow> worker_session_id \<Rightarrow> engine_time \<Rightarrow> run_id \<Rightarrow> nat \<Rightarrow> activation_id
     \<Rightarrow> activation_state \<Rightarrow> claim_grant res" where
  "build_grant E st session time run granted activation act =
     (let role = grant_role st act time in
      rbind (claimed_activity E st activation role) (\<lambda>(handler, input).
      rbind (ok_or (invalid ''missing run'') (hget (runs st) run)) (\<lambda>run_state.
      rbind (contract_schemas (rs_catalog run_state) handler role) (\<lambda>(input_schema, _).
      rbind (validate_value (json_is_valid E) (rs_catalog run_state) input_schema input) (\<lambda>_.
        Ok \<lparr>cg_run = run, cg_scope = act_scope act, cg_activation = activation,
            cg_handler = ak_name handler, cg_handler_version = ak_version handler,
            cg_input = input, cg_attempt = sat_add32 (act_attempts act) 1, cg_session = session,
            cg_generation = sat_add64 (next_generation st) (granted + 1), cg_revision = 1,
            cg_lease_expiry_ms = sat_add64 time SESSION_LEASE,
            cg_attempt_deadline_ms = sat_add64 time (attempt_timeout role),
            cg_effect_key = grant_effect_key E run act activation role, cg_role = role\<rparr>)))))"

definition claim_from_run ::
    "externals \<Rightarrow> state \<Rightarrow> worker_session \<Rightarrow> worker_session_id \<Rightarrow> engine_time \<Rightarrow> run_id
     \<Rightarrow> claim_grant list \<Rightarrow> claim_grant option res" where
  "claim_from_run E st worker session time run grants =
     rbind (first_match E st worker run time
              (filter (\<lambda>activation. activation \<notin> cg_activation ` set grants) (ready_in_order st run time)))
       (\<lambda>selected.
         case selected of
           None \<Rightarrow> Ok None
         | Some activation \<Rightarrow>
             (case hget (activations st) activation of
                None \<Rightarrow> Ok None
              | Some act \<Rightarrow>
                  rmap Some (build_grant E st session time run (length grants) activation act)))"

fun claim_pass ::
    "externals \<Rightarrow> state \<Rightarrow> worker_session \<Rightarrow> worker_session_id \<Rightarrow> engine_time \<Rightarrow> nat \<Rightarrow> run_id list
     \<Rightarrow> claim_grant list \<Rightarrow> claim_grant list res" where
  "claim_pass E st worker session time cap [] grants = Ok grants"
| "claim_pass E st worker session time cap (run # rest) grants =
     (if length grants \<ge> cap then Ok grants
      else rbind (claim_from_run E st worker session time run grants) (\<lambda>granted.
             case granted of
               None \<Rightarrow> claim_pass E st worker session time cap rest grants
             | Some g \<Rightarrow> claim_pass E st worker session time cap rest (grants @ [g])))"

lemma claim_pass_prefix:
  "claim_pass E st worker session time cap rs grants = Ok grants' \<Longrightarrow> prefix grants grants'"
proof (induction rs arbitrary: grants)
  case (Cons run rs)
  then show ?case
    by (auto simp: res_simps split: if_splits option.splits dest: append_prefixD)
qed simp

function claim_rounds ::
    "externals \<Rightarrow> state \<Rightarrow> worker_session \<Rightarrow> worker_session_id \<Rightarrow> engine_time \<Rightarrow> nat \<Rightarrow> run_id list
     \<Rightarrow> claim_grant list \<Rightarrow> claim_grant list res" where
  "claim_rounds E st worker session time cap rs grants =
     (if length grants < cap
      then rbind (claim_pass E st worker session time cap rs grants) (\<lambda>grants'.
             if length grants' = length grants then Ok grants'
             else claim_rounds E st worker session time cap rs grants')
      else Ok grants)"
  by pat_completeness auto
termination
proof (relation "measure (\<lambda>(E, st, worker, session, time, cap, rs, grants). cap - length grants)",
    goal_cases)
  case (2 E st worker session time cap rs grants grants')
  then show ?case
    using prefix_length_le [OF claim_pass_prefix [OF 2(2)]] by simp
qed simp

declare claim_rounds.simps [simp del]

definition fair_order :: "state \<Rightarrow> run_id list" where
  "fair_order st =
     (let rs = sort (active_runs st) in
      case fair_cursor st of
        None \<Rightarrow> rs
      | Some cursor \<Rightarrow> rotate (length (takeWhile (\<lambda>run. run \<le> cursor) rs) mod length rs) rs)"

definition claim_cap :: "state \<Rightarrow> worker_session \<Rightarrow> worker_session_id \<Rightarrow> nat \<Rightarrow> engine_time \<Rightarrow> nat" where
  "claim_cap st worker session capacity time =
     min (min capacity (ws_capacity worker - worker_in_flight st session time)) CLAIM_BATCH"

definition decide_claim ::
    "externals \<Rightarrow> state \<Rightarrow> worker_session_id \<Rightarrow> nat \<Rightarrow> engine_time \<Rightarrow> domain_event list res" where
  "decide_claim E st session capacity time =
     rbind (ok_or (unauthenticated ''unknown session'') (hget (sessions st) session)) (\<lambda>worker.
       if time \<ge> ws_expires_ms worker then Err (precondition ''session expired'')
       else let events = (if ws_principal_id worker = []
                          then [SessionRegistered session (ws_activities worker) (ws_capacity worker)
                                  (sat_add64 time SESSION_LEASE)]
                          else []) in
         if active_runs st = [] then Ok events
         else rmap (\<lambda>grants. events @ map ClaimGranted grants)
                (claim_rounds E st worker session time (claim_cap st worker session capacity time)
                   (fair_order st) []))"

section \<open>Renewal and fencing\<close>

definition decide_renew ::
    "state \<Rightarrow> worker_session_id \<Rightarrow> activation_id \<Rightarrow> owner_generation \<Rightarrow> lease_revision \<Rightarrow> engine_time
     \<Rightarrow> domain_event list res" where
  "decide_renew st session activation generation revision time =
     rbind (ok_or (unauthenticated ''unknown session'') (hget (sessions st) session)) (\<lambda>worker.
       if time \<ge> ws_expires_ms worker then Err (precondition ''session expired'')
       else rbind (ok_or (invalid ''unknown activation'') (hget (activations st) activation)) (\<lambda>act.
         rbind (ok_or (precondition ''no claim'') (act_claim act)) (\<lambda>claim.
           if cl_session claim \<noteq> session \<or> cl_generation claim \<noteq> generation
           then Err (precondition ''stale claim'')
           else if cl_revision claim \<noteq> revision then Err (precondition ''stale revision'')
           else if time \<ge> cl_lease_expiry_ms claim \<or> time \<ge> cl_attempt_deadline_ms claim
           then Err (precondition ''claim expired'')
           else Ok [ClaimRenewed activation session generation (next_u64 revision)
                      (sat_add64 time SESSION_LEASE)])))"

definition validate_claim_owner ::
    "state \<Rightarrow> run_id \<Rightarrow> activation_id \<Rightarrow> worker_session_id \<Rightarrow> owner_generation \<Rightarrow> lease_revision
     \<Rightarrow> engine_time \<Rightarrow> claim_state res" where
  "validate_claim_owner st run activation session generation revision time =
     rbind (ok_or (invalid ''unknown activation'') (hget (activations st) activation)) (\<lambda>act.
       if act_run act \<noteq> run \<or> act_status act \<noteq> ActReady
       then Err (precondition ''activation is not awaiting this result'')
       else rbind (ok_or (precondition ''no claim'') (act_claim act)) (\<lambda>claim.
         if cl_session claim \<noteq> session \<or> cl_generation claim \<noteq> generation \<or> cl_revision claim \<noteq> revision
         then Err (precondition ''stale claim'')
         else rbind (ok_or (unauthenticated ''unknown session'') (hget (sessions st) session)) (\<lambda>worker.
           if time \<ge> ws_expires_ms worker \<or> time \<ge> cl_lease_expiry_ms claim
              \<or> time \<ge> cl_attempt_deadline_ms claim
           then Err (precondition ''claim or session expired'')
           else Ok claim)))"

section \<open>What a claim grants\<close>

text \<open>
  The contract of one grant: it goes to the asking session, for an activation of an active run
  that is ready and unclaimed (or whose lease has expired), that the worker can run, that neither
  the run's deadline nor an abort bars, for the handler and the input that the activation runs,
  with the next generation.
\<close>

definition grant_ok ::
    "externals \<Rightarrow> state \<Rightarrow> worker_session \<Rightarrow> worker_session_id \<Rightarrow> engine_time \<Rightarrow> nat \<Rightarrow> claim_grant \<Rightarrow> bool" where
  "grant_ok E st worker session time n g \<longleftrightarrow>
     cg_run g \<in> set (active_runs st) \<and> cg_session g = session
     \<and> cg_activation g \<in> set (ready_activations st (cg_run g)) \<and> unclaimed st time (cg_activation g)
     \<and> \<not> forward_barred st (cg_run g) time (cg_role g)
     \<and> worker_matches E st worker (cg_activation g) (cg_role g) = Ok True
     \<and> claimed_activity E st (cg_activation g) (cg_role g)
         = Ok (activity_key_new (cg_handler g) (cg_handler_version g), cg_input g)
     \<and> cg_generation g = sat_add64 (next_generation st) (n + 1) \<and> cg_revision g = 1
     \<and> cg_lease_expiry_ms g = sat_add64 time SESSION_LEASE"

definition grants_ok ::
    "externals \<Rightarrow> state \<Rightarrow> worker_session \<Rightarrow> worker_session_id \<Rightarrow> engine_time \<Rightarrow> claim_grant list \<Rightarrow> bool" where
  "grants_ok E st worker session time gs \<longleftrightarrow>
     distinct (map cg_activation gs)
     \<and> (\<forall>n < length gs. grant_ok E st worker session time n (gs ! n))"

lemma set_ready_in_order [simp]: "set (ready_in_order st run time) = set (unclaimed_ready st run time)"
  by (simp add: ready_in_order_def)

lemma first_match_Some:
  assumes "first_match E st worker run time xs = Ok (Some a)"
  shows "\<exists>act. a \<in> set xs \<and> hget (activations st) a = Some act
           \<and> \<not> forward_barred st run time (grant_role st act time)
           \<and> worker_matches E st worker a (grant_role st act time) = Ok True"
  using assms
  by (induction xs) (auto simp: Let_def res_simps split: option.splits if_splits)

lemma build_grant_Ok:
  assumes "build_grant E st session time run n activation act = Ok g"
  shows "cg_run g = run \<and> cg_session g = session \<and> cg_activation g = activation
         \<and> cg_role g = grant_role st act time
         \<and> claimed_activity E st activation (grant_role st act time)
             = Ok (activity_key_new (cg_handler g) (cg_handler_version g), cg_input g)
         \<and> cg_generation g = sat_add64 (next_generation st) (n + 1) \<and> cg_revision g = 1
         \<and> cg_lease_expiry_ms g = sat_add64 time SESSION_LEASE
         \<and> cg_effect_key g = grant_effect_key E run act activation (grant_role st act time)"
  using assms by (auto simp: build_grant_def activity_key_new_def Let_def res_simps split: prod.splits)

lemma claim_from_run_Some:
  assumes "claim_from_run E st worker session time run grants = Ok (Some g)"
    and "run \<in> set (active_runs st)"
  shows "grant_ok E st worker session time (length grants) g \<and> cg_run g = run
         \<and> cg_activation g \<notin> cg_activation ` set grants"
proof -
  from assms(1) obtain a act where
      sel: "first_match E st worker run time (filter (\<lambda>activation. activation \<notin> cg_activation ` set grants)
              (ready_in_order st run time)) = Ok (Some a)"
    and act: "hget (activations st) a = Some act"
    and g: "build_grant E st session time run (length grants) a act = Ok g"
    by (auto simp: claim_from_run_def res_simps)
  from first_match_Some [OF sel] act
  have "a \<in> set (unclaimed_ready st run time) \<and> a \<notin> cg_activation ` set grants"
    and "\<not> forward_barred st run time (grant_role st act time)"
    and "worker_matches E st worker a (grant_role st act time) = Ok True"
    by auto
  with build_grant_Ok [OF g] assms(2) show ?thesis
    by (auto simp: grant_ok_def unclaimed_ready_def)
qed

lemma grants_ok_snoc:
  assumes "grants_ok E st worker session time gs"
    and "grant_ok E st worker session time (length gs) g"
    and "cg_activation g \<notin> cg_activation ` set gs"
  shows "grants_ok E st worker session time (gs @ [g])"
  using assms by (auto simp: grants_ok_def nth_append less_Suc_eq)

lemma claim_pass_step:
  assumes "claim_pass E st worker session time cap (run # rs) gs = Ok gs'" and "length gs < cap"
  obtains granted where "claim_from_run E st worker session time run gs = Ok granted"
    and "claim_pass E st worker session time cap rs (gs @ case_option [] (\<lambda>g. [g]) granted) = Ok gs'"
proof -
  from assms obtain granted where g: "claim_from_run E st worker session time run gs = Ok granted"
    and "(case granted of None \<Rightarrow> claim_pass E st worker session time cap rs gs
            | Some g \<Rightarrow> claim_pass E st worker session time cap rs (gs @ [g])) = Ok gs'"
    by (auto simp: res_simps)
  then show ?thesis using that [OF g] by (cases granted) simp_all
qed

lemma claim_rounds_step:
  assumes "claim_rounds E st worker session time cap rs gs = Ok gs'" and "length gs < cap"
  obtains mid where "claim_pass E st worker session time cap rs gs = Ok mid"
    and "if length mid = length gs then gs' = mid
         else claim_rounds E st worker session time cap rs mid = Ok gs'"
  using assms by (subst (asm) claim_rounds.simps) (auto simp: res_simps split: if_splits)

lemma claim_rounds_full:
  "cap \<le> length gs \<Longrightarrow> claim_rounds E st worker session time cap rs gs = Ok gs"
  by (subst claim_rounds.simps) simp

lemma claim_pass_ok:
  assumes "claim_pass E st worker session time cap rs gs = Ok gs'"
    and "set rs \<subseteq> set (active_runs st)" and "grants_ok E st worker session time gs"
    and "length gs \<le> cap"
  shows "grants_ok E st worker session time gs' \<and> length gs' \<le> cap"
  using assms
proof (induction rs arbitrary: gs)
  case (Cons run rs)
  show ?case
  proof (cases "length gs < cap")
    case True
    from Cons.prems(1) True obtain granted
      where g: "claim_from_run E st worker session time run gs = Ok granted"
        and rest: "claim_pass E st worker session time cap rs (gs @ case_option [] (\<lambda>g. [g]) granted) = Ok gs'"
      by (rule claim_pass_step)
    have "grants_ok E st worker session time (gs @ case_option [] (\<lambda>g. [g]) granted)"
      using g Cons.prems(2,3) by (cases granted) (auto intro: grants_ok_snoc dest!: claim_from_run_Some)
    then show ?thesis
      using Cons.IH [OF rest] Cons.prems(2) True by (cases granted) auto
  qed (use Cons.prems in auto)
qed simp

lemma claim_rounds_ok:
  assumes "claim_rounds E st worker session time cap rs gs = Ok gs'"
    and "set rs \<subseteq> set (active_runs st)" and "grants_ok E st worker session time gs"
    and "length gs \<le> cap"
  shows "grants_ok E st worker session time gs' \<and> length gs' \<le> cap"
  using assms
proof (induction E st worker session time cap rs gs rule: claim_rounds.induct)
  case (1 E st worker session time cap rs gs)
  show ?case
  proof (cases "length gs < cap")
    case True
    from 1(2) True obtain mid where mid: "claim_pass E st worker session time cap rs gs = Ok mid"
      and rest: "if length mid = length gs then gs' = mid
                 else claim_rounds E st worker session time cap rs mid = Ok gs'"
      by (rule claim_rounds_step)
    from claim_pass_ok [OF mid 1(3,4,5)] rest 1(1) [OF True mid] 1(3) show ?thesis
      by (auto split: if_splits)
  qed (use 1 in \<open>auto simp: claim_rounds_full not_less\<close>)
qed

lemma fair_order_split:
  "fair_order st =
     (case fair_cursor st of
        None \<Rightarrow> sort (active_runs st)
      | Some cursor \<Rightarrow> dropWhile (\<lambda>run. run \<le> cursor) (sort (active_runs st))
                       @ takeWhile (\<lambda>run. run \<le> cursor) (sort (active_runs st)))"
proof (cases "fair_cursor st")
  case (Some cursor)
  let ?rs = "sort (active_runs st)" and ?P = "\<lambda>run. run \<le> cursor"
  have "rotate (length (takeWhile ?P ?rs)) (takeWhile ?P ?rs @ dropWhile ?P ?rs)
          = dropWhile ?P ?rs @ takeWhile ?P ?rs"
    by (rule rotate_append)
  then show ?thesis using Some by (simp add: fair_order_def Let_def rotate_conv_mod [symmetric])
qed (simp add: fair_order_def)

lemma set_fair_order [simp]: "set (fair_order st) = set (active_runs st)"
proof (cases "fair_cursor st")
  case (Some cursor)
  let ?rs = "sort (active_runs st)" and ?P = "\<lambda>run. run \<le> cursor"
  have "set (dropWhile ?P ?rs @ takeWhile ?P ?rs) = set (takeWhile ?P ?rs @ dropWhile ?P ?rs)"
    by (auto simp only: set_append)
  then show ?thesis using Some by (simp add: fair_order_split del: set_append)
qed (simp add: fair_order_split)

lemma distinct_fair_order [simp]: "distinct (fair_order st) \<longleftrightarrow> distinct (active_runs st)"
proof (cases "fair_cursor st")
  case (Some cursor)
  let ?rs = "sort (active_runs st)" and ?P = "\<lambda>run. run \<le> cursor"
  have "distinct (dropWhile ?P ?rs @ takeWhile ?P ?rs) \<longleftrightarrow> distinct (takeWhile ?P ?rs @ dropWhile ?P ?rs)"
    by (auto simp only: distinct_append)
  then show ?thesis using Some by (simp add: fair_order_split del: distinct_append)
qed (simp add: fair_order_split)

lemma decide_claim_Ok:
  assumes "decide_claim E st session capacity time = Ok evs"
  shows "\<exists>worker gs. hget (sessions st) session = Some worker \<and> time < ws_expires_ms worker
           \<and> evs = (if ws_principal_id worker = []
                    then [SessionRegistered session (ws_activities worker) (ws_capacity worker)
                            (sat_add64 time SESSION_LEASE)] else []) @ map ClaimGranted gs
           \<and> claim_rounds E st worker session time (claim_cap st worker session capacity time)
               (fair_order st) [] = Ok gs"
proof -
  have none: "claim_rounds E st worker session time cap [] [] = Ok []" for worker cap
    by (subst claim_rounds.simps) simp
  have empty: "fair_order st = []" if "active_runs st = []"
    using set_fair_order [of st] that by (metis set_empty)
  show ?thesis
    using assms
    by (auto simp: decide_claim_def Let_def res_simps none empty not_le split: if_splits)
qed


subsection \<open>A claim that grants less than it may has looked at every run\<close>

lemma first_match_None:
  assumes "first_match E st worker run time xs = Ok None" and "a \<in> set xs"
    and "hget (activations st) a = Some act"
  shows "forward_barred st run time (grant_role st act time)
         \<or> worker_matches E st worker a (grant_role st act time) = Ok False"
  using assms
  by (induction xs) (auto simp: Let_def res_simps split: option.splits if_splits)

lemma claim_from_run_None:
  assumes "claim_from_run E st worker session time run grants = Ok None"
  shows "first_match E st worker run time
           (filter (\<lambda>activation. activation \<notin> cg_activation ` set grants) (ready_in_order st run time))
         = Ok None"
proof -
  obtain selected where sel: "first_match E st worker run time
      (filter (\<lambda>activation. activation \<notin> cg_activation ` set grants) (ready_in_order st run time)) = Ok selected"
    using assms by (auto simp: claim_from_run_def res_simps)
  show ?thesis
  proof (cases selected)
    case (Some a)
    with first_match_Some [OF sel [unfolded Some]] assms sel show ?thesis
      by (auto simp: claim_from_run_def res_simps)
  qed (use sel in simp)
qed

lemma claim_from_run_run:
  "claim_from_run E st worker session time run gs = Ok (Some g) \<Longrightarrow> cg_run g = run"
  by (auto simp: claim_from_run_def res_simps dest: build_grant_Ok)

lemma claim_pass_idle:
  assumes "claim_pass E st worker session time cap rs gs = Ok gs'" and "length gs' = length gs"
    and "length gs < cap" and "run \<in> set rs"
  shows "claim_from_run E st worker session time run gs = Ok None"
  using assms
proof (induction rs)
  case (Cons r rs)
  from Cons.prems(1,3) obtain granted
    where g: "claim_from_run E st worker session time r gs = Ok granted"
      and rest: "claim_pass E st worker session time cap rs (gs @ case_option [] (\<lambda>g. [g]) granted) = Ok gs'"
    by (rule claim_pass_step)
  have "granted = None"
    using prefix_length_le [OF claim_pass_prefix [OF rest]] Cons.prems(2) by (cases granted) auto
  with g rest Cons show ?case by auto
qed simp

lemma claim_rounds_idle:
  assumes "claim_rounds E st worker session time cap rs gs = Ok gs'" and "length gs' < cap"
    and "run \<in> set rs"
  shows "claim_from_run E st worker session time run gs' = Ok None"
  using assms
proof (induction E st worker session time cap rs gs rule: claim_rounds.induct)
  case (1 E st worker session time cap rs gs)
  show ?case
  proof (cases "length gs < cap")
    case True
    from 1(2) True obtain mid where mid: "claim_pass E st worker session time cap rs gs = Ok mid"
      and rest: "if length mid = length gs then gs' = mid
                 else claim_rounds E st worker session time cap rs mid = Ok gs'"
      by (rule claim_rounds_step)
    show ?thesis
    proof (cases "length mid = length gs")
      case same: True
      with prefix_length_prefix [OF claim_pass_prefix [OF mid] prefix_order.refl] have "mid = gs"
        using claim_pass_prefix [OF mid] by (auto simp: prefix_def)
      with claim_pass_idle [OF mid same True 1(4)] rest show ?thesis by simp
    qed (use 1(1) [OF True mid] rest 1(3,4) in simp)
  qed (use 1 in \<open>auto simp: claim_rounds_full not_less\<close>)
qed

lemma claim_rounds_prefix:
  "claim_rounds E st worker session time cap rs gs = Ok gs' \<Longrightarrow> prefix gs gs'"
proof (induction E st worker session time cap rs gs rule: claim_rounds.induct)
  case (1 E st worker session time cap rs gs)
  show ?case
  proof (cases "length gs < cap")
    case True
    from 1(2) True obtain mid where mid: "claim_pass E st worker session time cap rs gs = Ok mid"
      and rest: "if length mid = length gs then gs' = mid
                 else claim_rounds E st worker session time cap rs mid = Ok gs'"
      by (rule claim_rounds_step)
    then show ?thesis
      using 1(1) [OF True mid] claim_pass_prefix [OF mid]
      by (auto split: if_splits intro: prefix_order.trans)
  qed (use 1 in \<open>auto simp: claim_rounds_full not_less\<close>)
qed

subsection \<open>The runs take turns\<close>

text \<open>The turn of a run: the runs after the cursor come first, then the others, each group in the order of
  the identifiers.\<close>

definition run_turn :: "state \<Rightarrow> run_id \<Rightarrow> bool \<times> run_id" where
  "run_turn st run = (case fair_cursor st of None \<Rightarrow> False | Some cursor \<Rightarrow> run \<le> cursor, run)"

definition in_turn :: "state \<Rightarrow> run_id list \<Rightarrow> bool" where
  "in_turn st rs \<longleftrightarrow> sorted_wrt (\<lambda>a b. run_turn st a < run_turn st b) rs"

lemma in_turn_group:
  assumes "fair_cursor st = Some cursor" and "sorted_wrt (<) rs" and "\<And>x. x \<in> set rs \<Longrightarrow> (x \<le> cursor) = late"
  shows "in_turn st rs"
  unfolding in_turn_def
  by (rule sorted_wrt_mono_rel [OF _ assms(2)]) (simp add: run_turn_def assms(1,3))

lemma dropWhile_le:
  fixes rs :: "'a :: linorder list"
  assumes "sorted rs" and "x \<in> set (dropWhile (\<lambda>y. y \<le> c) rs)"
  shows "\<not> x \<le> c"
  using assms by (induction rs) (auto split: if_splits)

lemma in_turn_fair_order:
  assumes "distinct (active_runs st)"
  shows "in_turn st (fair_order st)"
proof (cases "fair_cursor st")
  case None
  have "sorted_wrt (<) (sort (active_runs st))" using assms by (simp add: strict_sorted_iff)
  then show ?thesis using None by (simp add: in_turn_def run_turn_def fair_order_split)
next
  case (Some cursor)
  let ?rs = "sort (active_runs st)" and ?P = "\<lambda>run. run \<le> cursor"
  have groups: "sorted_wrt (<) (dropWhile ?P ?rs)" "sorted_wrt (<) (takeWhile ?P ?rs)"
    using assms by (simp_all add: strict_sorted_iff sorted_dropWhile sorted_takeWhile)
  have late: "\<not> x \<le> cursor" if "x \<in> set (dropWhile ?P ?rs)" for x
    using dropWhile_le [OF sorted_sort that] .
  have early: "x \<le> cursor" if "x \<in> set (takeWhile ?P ?rs)" for x
    using set_takeWhileD [OF that] by (rule conjunct2)
  have "in_turn st (dropWhile ?P ?rs)" "in_turn st (takeWhile ?P ?rs)"
    using in_turn_group [OF Some groups(1), of False] in_turn_group [OF Some groups(2), of True] late early by blast+
  moreover have "run_turn st a < run_turn st b" if "a \<in> set (dropWhile ?P ?rs)" "b \<in> set (takeWhile ?P ?rs)" for a b
    by (simp add: run_turn_def Some late [OF that(1)] early [OF that(2)])
  ultimately show ?thesis by (simp only: in_turn_def fair_order_split Some option.case sorted_wrt_append) blast
qed

text \<open>A run that gets nothing in a round: the grants made before its turn fill the claim, or leave it nothing
  to claim.\<close>

definition passed_over ::
    "externals \<Rightarrow> state \<Rightarrow> worker_session \<Rightarrow> engine_time \<Rightarrow> nat \<Rightarrow> claim_grant list \<Rightarrow> run_id \<Rightarrow> bool" where
  "passed_over E st worker time cap earlier run \<longleftrightarrow>
     cap \<le> length earlier
     \<or> first_match E st worker run time
         (filter (\<lambda>a. a \<notin> cg_activation ` set earlier) (ready_in_order st run time)) = Ok None"

definition fair_round ::
    "externals \<Rightarrow> state \<Rightarrow> worker_session \<Rightarrow> engine_time \<Rightarrow> nat \<Rightarrow> claim_grant list \<Rightarrow> run_id list \<Rightarrow> claim_grant list \<Rightarrow> bool" where
  "fair_round E st worker time cap before rs grants \<longleftrightarrow>
     in_turn st (map cg_run grants)
     \<and> list_all (\<lambda>run. run \<in> cg_run ` set grants
          \<or> passed_over E st worker time cap
              (before @ takeWhile (\<lambda>g. run_turn st (cg_run g) < run_turn st run) grants) run) rs"

fun fair_rounds ::
    "externals \<Rightarrow> state \<Rightarrow> worker_session \<Rightarrow> engine_time \<Rightarrow> nat \<Rightarrow> claim_grant list \<Rightarrow> claim_grant list list \<Rightarrow> bool" where
  "fair_rounds E st worker time cap before [] = True"
| "fair_rounds E st worker time cap before (grants # rounds) =
     (grants \<noteq> [] \<and> fair_round E st worker time cap before (active_runs st) grants
      \<and> fair_rounds E st worker time cap (before @ grants) rounds)"

lemma claim_pass_fair:
  assumes "claim_pass E st worker session time cap rs gs = Ok gs'" and "in_turn st rs"
  shows "\<exists>news. gs' = gs @ news \<and> cg_run ` set news \<subseteq> set rs \<and> fair_round E st worker time cap gs rs news"
  using assms
proof (induction rs arbitrary: gs)
  case Nil
  then show ?case by (simp add: fair_round_def in_turn_def)
next
  case (Cons r rs)
  show ?case
  proof (cases "length gs < cap")
    case True
    from Cons.prems(1) True obtain granted
      where g: "claim_from_run E st worker session time r gs = Ok granted"
        and rest: "claim_pass E st worker session time cap rs (gs @ case_option [] (\<lambda>g. [g]) granted) = Ok gs'"
      by (rule claim_pass_step)
    from Cons.prems(2) have later: "\<And>run. run \<in> set rs \<Longrightarrow> run_turn st r < run_turn st run" and "in_turn st rs"
      by (auto simp: in_turn_def)
    from Cons.IH [OF rest this(2)] obtain news
      where news: "gs' = (gs @ case_option [] (\<lambda>g. [g]) granted) @ news" "cg_run ` set news \<subseteq> set rs"
        and fair: "fair_round E st worker time cap (gs @ case_option [] (\<lambda>g. [g]) granted) rs news"
      by blast
    show ?thesis
    proof (cases granted)
      case None
      have "takeWhile (\<lambda>g. run_turn st (cg_run g) < run_turn st r) news = []"
        using news(2) later by (cases news) (auto dest: less_imp_not_less)
      with None fair claim_from_run_None [OF g [unfolded None]]
      have "fair_round E st worker time cap gs (r # rs) news"
        by (simp add: fair_round_def passed_over_def)
      moreover have "gs' = gs @ news" and "cg_run ` set news \<subseteq> set (r # rs)" using None news by auto
      ultimately show ?thesis by blast
    next
      case (Some x)
      with claim_from_run_run g have x: "cg_run x = r" by blast
      have "fair_round E st worker time cap gs (r # rs) (x # news)"
        using fair Some x later news(2) by (auto simp: fair_round_def in_turn_def list_all_iff)
      moreover have "gs' = gs @ x # news" and "cg_run ` set (x # news) \<subseteq> set (r # rs)" using Some news x by auto
      ultimately show ?thesis by blast
    qed
  next
    case False
    with Cons.prems(1) show ?thesis
      by (intro exI [of _ "[]"]) (simp add: fair_round_def in_turn_def passed_over_def list_all_iff)
  qed
qed

lemma claim_rounds_fair:
  assumes "claim_rounds E st worker session time cap (fair_order st) gs = Ok gs'" and "distinct (active_runs st)"
  shows "\<exists>rounds. gs' = gs @ concat rounds \<and> fair_rounds E st worker time cap gs rounds"
  using assms
proof (induction E st worker session time cap "fair_order st" gs rule: claim_rounds.induct)
  case (1 E st worker session time cap gs)
  show ?case
  proof (cases "length gs < cap")
    case True
    from 1(2) True obtain mid where mid: "claim_pass E st worker session time cap (fair_order st) gs = Ok mid"
      and rest: "if length mid = length gs then gs' = mid
                 else claim_rounds E st worker session time cap (fair_order st) mid = Ok gs'"
      by (rule claim_rounds_step)
    from claim_pass_fair [OF mid in_turn_fair_order [OF 1(3)]] obtain news
      where news: "mid = gs @ news" "fair_round E st worker time cap gs (fair_order st) news" by blast
    show ?thesis
    proof (cases "news = []")
      case True
      with rest news show ?thesis by (intro exI [of _ "[]"]) simp
    next
      case False
      with rest news 1(1) [OF True mid] 1(3) obtain rounds
        where "gs' = mid @ concat rounds" "fair_rounds E st worker time cap mid rounds" by auto
      with news False show ?thesis
        by (intro exI [of _ "news # rounds"]) (simp add: fair_round_def list_all_iff)
    qed
  next
    case False
    with 1(2) show ?thesis by (intro exI [of _ "[]"]) (simp add: claim_rounds_full)
  qed
qed

subsection \<open>Properties\<close>

definition grants_in :: "domain_event list \<Rightarrow> claim_grant list" where
  "grants_in evs = List.map_filter (\<lambda>e. case e of ClaimGranted g \<Rightarrow> Some g | _ \<Rightarrow> None) evs"

lemma grants_in_claim [simp]:
  "grants_in (SessionRegistered s as c x # evs) = grants_in evs" "grants_in (map ClaimGranted gs) = gs"
  by (simp_all add: grants_in_def map_filter_simps) (induction gs; simp add: map_filter_simps)

lemma map_filter_append: "List.map_filter f (xs @ ys) = List.map_filter f xs @ List.map_filter f ys"
  by (induction xs) (simp_all add: map_filter_simps split: option.split)

lemma grants_in_append: "grants_in (xs @ ys) = grants_in xs @ grants_in ys"
  by (simp add: grants_in_def map_filter_append)

lemma decide_claim_grants:
  assumes "decide_claim E st session capacity time = Ok evs"
    and "hget (sessions st) session = Some worker"
  shows "claim_rounds E st worker session time (claim_cap st worker session capacity time)
           (fair_order st) [] = Ok (grants_in evs)" and "time < ws_expires_ms worker"
  using decide_claim_Ok [OF assms(1)] assms(2) by auto



text \<open>Property C34: a claim that grants fewer activations than it may leaves nothing claimable:
  every ready and unclaimed activation of an active run that it did not grant is barred by the
  run's deadline or abort, or is not something the worker can run.\<close>

theorem claim_maximal:
  assumes "decide_claim E st session capacity time = Ok evs"
    and "hget (sessions st) session = Some worker"
    and "length (grants_in evs) < claim_cap st worker session capacity time"
    and "run \<in> set (active_runs st)" and "a \<in> set (unclaimed_ready st run time)"
    and "a \<notin> cg_activation ` set (grants_in evs)" and "hget (activations st) a = Some act"
  shows "forward_barred st run time (grant_role st act time)
         \<or> worker_matches E st worker a (grant_role st act time) = Ok False"
proof -
  have "claim_from_run E st worker session time run (grants_in evs) = Ok None"
    using claim_rounds_idle [OF decide_claim_grants(1) [OF assms(1,2)] assms(3)] assms(4) by simp
  from first_match_None [OF claim_from_run_None [OF this] _ assms(7)] assms(5,6)
  show ?thesis by auto
qed

definition sample_idle_session :: worker_session where
  "sample_idle_session = sample_session\<lparr>ws_activities := [''refund'']\<rparr>"

theorem claim_maximal_witness:
  "worker_matches sample_ext (sample_state\<lparr>sessions := [(''worker'', sample_idle_session)]\<rparr>)
     sample_idle_session ''act'' Forward = Ok False"
proof -
  let ?st = "sample_state\<lparr>sessions := [(''worker'', sample_idle_session)]\<rparr>"
  have "rmap grants_in (decide_claim sample_ext ?st ''worker'' 2 100) = Ok []"
    by code_simp
  then obtain evs where evs: "decide_claim sample_ext ?st ''worker'' 2 100 = Ok evs" "grants_in evs = []"
    by (auto simp: res_simps)
  have cap: "claim_cap ?st sample_idle_session ''worker'' 2 100 = 2"
    by code_simp
  have run: "''run'' \<in> set (active_runs ?st)" and act: "''act'' \<in> set (unclaimed_ready ?st ''run'' 100)"
    by code_simp+
  have role: "grant_role ?st sample_activation 100 = Forward"
    and open_run: "\<not> forward_barred ?st ''run'' 100 Forward"
    by code_simp+
  have "forward_barred ?st ''run'' 100 (grant_role ?st sample_activation 100)
        \<or> worker_matches sample_ext ?st sample_idle_session ''act'' (grant_role ?st sample_activation 100) = Ok False"
  proof (rule claim_maximal [OF evs(1) _ _ run act])
    show "length (grants_in evs) < claim_cap ?st sample_idle_session ''worker'' 2 100"
      by (simp only: evs(2) cap) simp
  qed (simp_all add: evs(2) sample_state_def)
  with role open_run show ?thesis by simp
qed

text \<open>Property C35: the runs take turns. The grants of a claim are made in rounds. Within a round every
  active run is granted at most one activation, in the order of the turns: first the runs after the
  cursor of the state, then the others, each group in the order of the identifiers. An active run
  that gets nothing in a round is passed over for a reason that holds when its turn comes, given
  the grants made before it: they fill the claim, or none of its ready activations is left that
  the worker can run and nothing bars.\<close>

theorem claim_fair:
  assumes "decide_claim E st session capacity time = Ok evs"
    and "hget (sessions st) session = Some worker" and "distinct (active_runs st)"
  shows "\<exists>rounds. grants_in evs = concat rounds
           \<and> fair_rounds E st worker time (claim_cap st worker session capacity time) [] rounds"
  using claim_rounds_fair [OF decide_claim_grants(1) [OF assms(1,2)] assms(3)] by simp

definition sample_two_runs :: state where
  "sample_two_runs =
     sample_state\<lparr>runs := [(''run'', sample_run), (''idle'', sample_run\<lparr>rs_id := ''idle''\<rparr>)],
       activations := [(''act'', sample_activation),
                       (''act2'', sample_activation\<lparr>act_id := ''act2'', act_ready_order := 2\<rparr>)],
       fair_cursor := Some ''idle''\<rparr>"

theorem claim_fair_witness:
  "\<exists>evs rounds. decide_claim sample_ext sample_two_runs ''worker'' 2 100 = Ok evs
     \<and> map cg_run (grants_in evs) = [''run'', ''run''] \<and> grants_in evs = concat rounds
     \<and> fair_rounds sample_ext sample_two_runs sample_session 100
         (claim_cap sample_two_runs sample_session ''worker'' 2 100) [] rounds"
proof -
  have "rmap (\<lambda>evs. map cg_run (grants_in evs)) (decide_claim sample_ext sample_two_runs ''worker'' 2 100)
          = Ok [''run'', ''run'']"
    by code_simp
  then obtain evs where evs: "decide_claim sample_ext sample_two_runs ''worker'' 2 100 = Ok evs"
      and grants: "map cg_run (grants_in evs) = [''run'', ''run'']"
    by (auto simp: res_simps)
  have worker: "hget (sessions sample_two_runs) ''worker'' = Some sample_session"
    by (simp add: sample_two_runs_def sample_state_def)
  have "distinct (active_runs sample_two_runs)" by code_simp
  from claim_fair [OF evs worker this] obtain rounds where "grants_in evs = concat rounds"
    and "fair_rounds sample_ext sample_two_runs sample_session 100
           (claim_cap sample_two_runs sample_session ''worker'' 2 100) [] rounds"
    by (elim exE conjE)
  with evs grants show ?thesis by (intro exI [of _ evs] exI [of _ rounds] conjI)
qed

end
