(* ===== verification/Sagas.thy ===== *)
theory Sagas
  imports Scopes
begin

text \<open>
  Sagas (domain.rs): the obligations a successful activity leaves behind, the choice of the next
  compensation, the settlement of a saga that succeeds, and the operator's decisions on
  obligations that are blocked or abandoned.
\<close>

definition act_input_binding :: "region \<Rightarrow> node_key \<Rightarrow> binding option" where
  "act_input_binding region node =
     (case map_of (region_nodes region) node of
        Some (NActivity _ input _ _ _ _) \<Rightarrow> Some input
      | _ \<Rightarrow> None)"

text \<open>The context of a compensation input: the forward input where it evaluates, and the forward
  output.\<close>

definition forward_ctx :: "region \<Rightarrow> activation_state \<Rightarrow> val \<Rightarrow> eval_ctx \<Rightarrow> eval_ctx res" where
  "forward_ctx region act output ctx =
     rbind (case act_input_binding region (act_node act) of
              None \<Rightarrow> Ok None
            | Some b \<Rightarrow> res_ok (eval_binding b ctx))
       (\<lambda>fi. Ok (ctx\<lparr>ctx_forward_input := fi, ctx_forward_output := Some output\<rparr>))"

definition compensation_events ::
    "externals \<Rightarrow> state \<Rightarrow> activation_state \<Rightarrow> val \<Rightarrow> domain_event list res" where
  "compensation_events E st act output =
     (case region_for_scope st (act_scope act) of
        None \<Rightarrow> Ok []
      | Some region \<Rightarrow>
          (case map_of (region_nodes region) (act_node act) of
             Some (NActivity _ _ _ _ (Some (CompActivity activity input _ _)) _) \<Rightarrow>
               (case hget (scopes st) (act_scope act) of
                  None \<Rightarrow> Ok []
                | Some scope \<Rightarrow>
                    rbind (eval_ctx_of E st scope) (\<lambda>ctx0.
                    rbind (forward_ctx region act output ctx0) (\<lambda>ctx.
                      case eval_binding input ctx of
                        Ok bound \<Rightarrow>
                          Ok [ObligationRegistered (act_run act) (act_id act) (ak_name activity)
                                (ak_version activity) bound]
                      | Err err \<Rightarrow>
                          Ok [ObligationBlocked (act_run act) (act_id act) (ak_name activity)
                                (ak_version activity) (err_message err)]
                      | Panic \<Rightarrow> Panic)))
           | Some (NActivity _ _ _ _ (Some (CompIrreversible reason)) _) \<Rightarrow>
               Ok [ObligationBlocked (act_run act) (act_id act) ''irreversible'' 1 reason]
           | _ \<Rightarrow> Ok []))"

fun is_compensating :: "obligation_status \<Rightarrow> bool" where
  "is_compensating (ObCompensating _) = True"
| "is_compensating _ = False"

fun is_blocked :: "obligation_status \<Rightarrow> bool" where
  "is_blocked (ObBlocked _) = True"
| "is_blocked _ = False"

fun is_irreversible :: "obligation_status \<Rightarrow> bool" where
  "is_irreversible (ObIrreversible _) = True"
| "is_irreversible _ = False"

definition compensating_in_flight :: "state \<Rightarrow> activation_id \<Rightarrow> bool" where
  "compensating_in_flight st saga \<longleftrightarrow>
     list_ex (\<lambda>item. ob_owner item = saga \<and> is_compensating (ob_status item)) (obligations st)"

definition uncertain_forwards :: "state \<Rightarrow> run_id \<Rightarrow> bool" where
  "uncertain_forwards st run \<longleftrightarrow>
     list_ex (\<lambda>act. act_run act = run \<and> act_role act = Forward \<and> act_status act = ActReady
                \<and> (act_claim act \<noteq> None \<or> hhas (interventions st) (act_id act)))
       (hvals (activations st))"

definition pending_obligations :: "state \<Rightarrow> activation_id \<Rightarrow> obligation list" where
  "pending_obligations st saga =
     filter (\<lambda>item. ob_owner item = saga \<and> ob_status item = ObOpen) (obligations st)"

definition compensate_or_fail ::
    "externals \<Rightarrow> state \<Rightarrow> activation_id \<Rightarrow> fail_error \<Rightarrow> id_gen \<Rightarrow> domain_event list idres" where
  "compensate_or_fail E st saga error ids =
     rbind (ok_or (invalid ''unknown saga'') (hget (activations st) saga)) (\<lambda>act.
       if list_ex (\<lambda>item. ob_owner item = saga \<and> is_blocked (ob_status item)) (obligations st)
       then Ok ([InterventionRequired (act_run act) saga ''compensation input is blocked''], ids)
       else case rev (pending_obligations st saga) of
         [] \<Rightarrow>
           if uncertain_forwards st (act_run act)
           then (if hhas (saga_errors st) saga then Ok ([], ids)
                 else Ok ([AbortIntent (act_run act) saga error], ids))
           else if list_ex (\<lambda>item. ob_owner item = saga \<and> is_irreversible (ob_status item)) (obligations st)
           then rmap (\<lambda>events. (events, ids))
                  (fail_scope st (act_scope act)
                     \<lparr>fe_code = ''saga.irreversible'', fe_message = fe_message error\<rparr>)
           else rmap (\<lambda>events. (events, ids)) (fail_scope st (act_scope act) error)
       | item # _ \<Rightarrow>
           (let (activation, ids1) = next_bytes E ids in
            Ok ([CompensationStarted (act_run act) saga (ob_forward item) activation (ob_handler item)
                   (ob_handler_version item) (ob_input item) error], ids1)))"

definition settle_saga_success :: "state \<Rightarrow> activation_id \<Rightarrow> domain_event list" where
  "settle_saga_success st saga =
     (let owned = map ob_forward (pending_obligations st saga) in
      case parent_saga st saga of
        Some parent \<Rightarrow> map (\<lambda>forward. ObligationTransferred forward saga parent) owned
      | None \<Rightarrow>
          (case hget (activations st) saga of
             Some act \<Rightarrow> map (\<lambda>forward. ObligationReleased (act_run act) forward) owned
           | None \<Rightarrow> []))"

definition progress_saga ::
    "externals \<Rightarrow> state \<Rightarrow> activation_state \<Rightarrow> binding \<Rightarrow> region \<Rightarrow> id_gen \<Rightarrow> domain_event list idres" where
  "progress_saga E st act input body ids =
     (if compensating_in_flight st (act_id act) then Ok ([], ids)
      else case hget (saga_errors st) (act_id act) of
        Some error \<Rightarrow> compensate_or_fail E st (act_id act) error ids
      | None \<Rightarrow>
          (case child_of st (act_id act) of
             Some child \<Rightarrow>
               (case sc_status child of
                  ScopeOpen \<Rightarrow> Ok ([], ids)
                | ScopeBroken error \<Rightarrow> compensate_or_fail E st (act_id act) error ids
                | ScopeDone output \<Rightarrow>
                    rbind (output_and_next E st (act_run act) act output ids) (\<lambda>(events, ids1).
                      Ok (settle_saga_success st (act_id act) @ events, ids1)))
           | None \<Rightarrow>
               rbind (unwrap_opt (hget (scopes st) (act_scope act))) (\<lambda>scope.
               rbind (eval_ctx_of E st scope) (\<lambda>ctx.
               rbind (eval_binding input ctx) (\<lambda>captured.
                 Ok (open_body E act body (RoleSagaBody (act_id act)) captured ids))))))"

section \<open>Operator decisions\<close>

definition settled_status :: "obligation_status \<Rightarrow> bool" where
  "settled_status s \<longleftrightarrow> s = ObCompensated \<or> s = ObReleased \<or> s = ObAbandoned"

definition decide_abandon_compensation ::
    "externals \<Rightarrow> state \<Rightarrow> run_id \<Rightarrow> string \<Rightarrow> domain_event list res" where
  "decide_abandon_compensation E st run reason =
     (if reason = [] then Err (invalid ''abandon requires a reason'')
      else rbind (ok_or (invalid ''unknown run'') (hget (runs st) run)) (\<lambda>run_state.
        if (case rs_status run_state of RunBroken error \<Rightarrow> fe_code error = ''saga.abandoned'' | _ \<Rightarrow> False)
        then Ok []
        else let unresolved = map ob_forward
                   (filter (\<lambda>item. ob_run item = run \<and> \<not> settled_status (ob_status item)) (obligations st)) in
          if unresolved = [] then Err (invalid ''no unresolved obligations to abandon'')
          else rbind (if rs_status run_state = RunActive
                      then (case root_scope st run of
                              Some root \<Rightarrow> fail_scope st (sc_id root)
                                \<lparr>fe_code = ''saga.abandoned'',
                                 fe_message = ''unresolved obligations remain after operator abandonment: ''
                                   @ join_with '','' (map (hex_encode E) unresolved)\<rparr>
                            | None \<Rightarrow> Ok [])
                      else Ok [])
                 (\<lambda>events. Ok (CompensationAbandoned run reason unresolved # events))))"

definition decide_resolve_blocked ::
    "state \<Rightarrow> run_id \<Rightarrow> activation_id \<Rightarrow> val \<Rightarrow> domain_event list res" where
  "decide_resolve_blocked st run forward input =
     rbind (ok_or (invalid ''unknown obligation'')
              (find (\<lambda>item. ob_forward item = forward) (obligations st))) (\<lambda>item.
       if ob_run item \<noteq> run then Err (invalid ''obligation does not belong to run'')
       else if \<not> is_blocked (ob_status item) then Err (invalid ''obligation is not blocked'')
       else Ok [ObligationRegistered run forward (ob_handler item) (ob_handler_version item) input])"

definition decide_compensation_result ::
    "state \<Rightarrow> run_id \<Rightarrow> activation_id \<Rightarrow> val \<Rightarrow> domain_event list res" where
  "decide_compensation_result st run activation output =
     rbind (ok_or (invalid ''compensation activation has no obligation'')
              (compensated_obligation st activation)) (\<lambda>item.
       if ob_run item \<noteq> run then Err (invalid ''compensation does not belong to run'')
       else Ok [LeafSucceeded run activation 1 output Compensation])"

definition is_saga_node :: "node option \<Rightarrow> bool" where
  "is_saga_node n = (case n of Some (NSaga _ _ _) \<Rightarrow> True | _ \<Rightarrow> False)"

definition open_sagas :: "state \<Rightarrow> run_id \<Rightarrow> activation_id list" where
  "open_sagas st run =
     map act_id (filter (\<lambda>act. act_run act = run \<and> is_saga_node (node_of st act) \<and> act_status act = ActOpen)
       (hvals (activations st)))"

fun compensate_all ::
    "externals \<Rightarrow> state \<Rightarrow> fail_error \<Rightarrow> activation_id list \<Rightarrow> id_gen \<Rightarrow> domain_event list idres" where
  "compensate_all E st error [] ids = Ok ([], ids)"
| "compensate_all E st error (saga # sagas) ids =
     rbind (compensate_or_fail E st saga error ids) (\<lambda>(events, ids1).
     rbind (compensate_all E st error sagas ids1) (\<lambda>(rest, ids2). Ok (events @ rest, ids2)))"

definition decide_cancel ::
    "externals \<Rightarrow> state \<Rightarrow> run_id \<Rightarrow> string \<Rightarrow> id_gen \<Rightarrow> domain_event list idres" where
  "decide_cancel E st run reason ids =
     rbind (ok_or (invalid ''unknown run'') (hget (runs st) run)) (\<lambda>run_state.
       if rs_status run_state \<noteq> RunActive then Err (invalid ''run is not active'')
       else let error = \<lparr>fe_code = ''run.cancelled'', fe_message = reason\<rparr> in
         case open_sagas st run of
           [] \<Rightarrow>
             (case root_scope st run of
                Some root \<Rightarrow> rmap (\<lambda>events. (events, ids)) (fail_scope st (sc_id root) error)
              | None \<Rightarrow> Err (invalid ''run has no root scope''))
         | sagas \<Rightarrow>
             rbind (compensate_all E st error sagas ids) (\<lambda>(events, ids1).
               Ok (close_pending_waits st run @ events, ids1)))"

end
