(* ===== verification/Reports.thy ===== *)
theory Reports
  imports Claims Sagas
begin

text \<open>
  Results of activities (domain.rs): a success, an error with its retry policy, a result fenced
  by its claim, and the outcome of a reconciliation probe.
\<close>

section \<open>Success\<close>

definition validate_leaf_output :: "externals \<Rightarrow> state \<Rightarrow> activation_state \<Rightarrow> val \<Rightarrow> unit res" where
  "validate_leaf_output E st act output =
     (case hget (runs st) (act_run act) of
        None \<Rightarrow> Ok ()
      | Some run \<Rightarrow>
          if act_role act = Compensation
          then rbind (ok_or (invalid ''compensation obligation missing'')
                        (compensated_obligation st (act_id act))) (\<lambda>item.
               rbind (catalog_activity (rs_catalog run)
                        (activity_key_new (ob_handler item) (ob_handler_version item))) (\<lambda>contract.
                 validate_value (json_is_valid E) (rs_catalog run) (ac_output_schema contract) output))
          else (case node_of st act of
                  Some (NActivity activity _ _ _ _ _) \<Rightarrow>
                    (case map_of (cat_activities (rs_catalog run)) activity of
                       None \<Rightarrow> Ok ()
                     | Some contract \<Rightarrow>
                         validate_value (json_is_valid E) (rs_catalog run) (ac_output_schema contract) output)
                | _ \<Rightarrow> Ok ()))"

definition report_success ::
    "externals \<Rightarrow> state \<Rightarrow> run_id \<Rightarrow> activation_id \<Rightarrow> val \<Rightarrow> id_gen \<Rightarrow> domain_event list idres" where
  "report_success E st run activation output ids =
     rbind (ok_or (invalid ''unknown activation'') (hget (activations st) activation)) (\<lambda>act.
     rbind (validate_leaf_output E st act output) (\<lambda>_.
       if act_role act = Compensation
       then rmap (\<lambda>events. (events, ids)) (decide_compensation_result st run activation output)
       else
         rbind (compensation_events E st act output) (\<lambda>obligations.
           let events = [LeafSucceeded run activation 1 output Forward,
                         NodeOutputRecorded run (act_scope act) (act_node act) output] @ obligations in
           if run_is_aborting st run then Ok (events, ids)
           else rbind (follow_next E st (act_scope act) (act_node act) ids) (\<lambda>(next, ids1).
                  Ok (events @ next, ids1)))))"

definition decide_report ::
    "externals \<Rightarrow> state \<Rightarrow> run_id \<Rightarrow> activation_id \<Rightarrow> val \<Rightarrow> engine_time \<Rightarrow> id_gen
     \<Rightarrow> domain_event list idres" where
  "decide_report E st run activation output time ids =
     rbind (ok_or (invalid ''unknown activation'') (hget (activations st) activation)) (\<lambda>act.
       if act_run act \<noteq> run then Err (invalid ''activation does not belong to run'')
       else if act_status act \<noteq> ActReady then Err (invalid ''activation is not awaiting a result'')
       else if (case act_claim act of Some claim \<Rightarrow> time < cl_lease_expiry_ms claim | None \<Rightarrow> False)
       then Err (precondition ''activation is claimed'')
       else report_success E st run activation output ids)"

definition decide_report_assigned ::
    "externals \<Rightarrow> state \<Rightarrow> run_id \<Rightarrow> activation_id \<Rightarrow> val \<Rightarrow> worker_session_id \<Rightarrow> owner_generation
     \<Rightarrow> lease_revision \<Rightarrow> engine_time \<Rightarrow> id_gen \<Rightarrow> domain_event list idres" where
  "decide_report_assigned E st run activation output session generation revision time ids =
     rbind (validate_claim_owner st run activation session generation revision time) (\<lambda>claim.
       if cl_role claim = Reconciliation
       then Err (precondition ''reconciliation claim must use reconcile'')
       else report_success E st run activation output ids)"

section \<open>Errors\<close>

definition forward_error_retryable :: "state \<Rightarrow> activation_state \<Rightarrow> string \<Rightarrow> bool" where
  "forward_error_retryable st act code =
     (case hget (runs st) (act_run act) of
        None \<Rightarrow> False
      | Some run \<Rightarrow>
          (case node_of st act of
             Some (NActivity activity _ _ retry _ _) \<Rightarrow>
               (case map_of (cat_activities (rs_catalog run)) activity of
                  None \<Rightarrow> False
                | Some contract \<Rightarrow>
                    (case known_code contract code of
                       None \<Rightarrow> False
                     | Some spec \<Rightarrow>
                         ec_retryable spec \<and> code \<in> set (rp_errors retry)
                         \<and> max (act_attempts act) 1 < max_attempts retry))
           | _ \<Rightarrow> False))"

definition obligation_handler_retryable :: "run_state \<Rightarrow> obligation \<Rightarrow> string \<Rightarrow> bool" where
  "obligation_handler_retryable run item code =
     (case map_of (cat_activities (rs_catalog run))
             (activity_key_new (ob_handler item) (ob_handler_version item)) of
        None \<Rightarrow> False
      | Some contract \<Rightarrow>
          (case known_code contract code of Some spec \<Rightarrow> ec_retryable spec | None \<Rightarrow> False))"

definition compensation_policy_retryable ::
    "run_state \<Rightarrow> activation_state \<Rightarrow> activity_key \<Rightarrow> retry_policy option \<Rightarrow> string \<Rightarrow> bool" where
  "compensation_policy_retryable run act activity retry code =
     (case map_of (cat_activities (rs_catalog run)) activity of
        None \<Rightarrow> False
      | Some contract \<Rightarrow>
          (case known_code contract code of
             None \<Rightarrow> False
           | Some spec \<Rightarrow>
               ec_retryable spec
               \<and> (let policy = (case retry of Some p \<Rightarrow> p
                                | None \<Rightarrow> retry_compensation_default (retryable_codes contract)) in
                  rp_errors policy \<noteq> [] \<and> code \<in> set (rp_errors policy)
                  \<and> max (act_attempts act) 1 < max_attempts policy)))"

definition compensation_error_retryable :: "state \<Rightarrow> activation_id \<Rightarrow> string \<Rightarrow> bool" where
  "compensation_error_retryable st activation code =
     (case hget (activations st) activation of
        None \<Rightarrow> False
      | Some act \<Rightarrow>
          (case hget (runs st) (act_run act) of
             None \<Rightarrow> False
           | Some run \<Rightarrow>
               (case compensated_obligation st activation of
                  None \<Rightarrow> False
                | Some item \<Rightarrow>
                    (case hget (activations st) (ob_forward item) of
                       None \<Rightarrow> obligation_handler_retryable run item code
                     | Some forward \<Rightarrow>
                         (case node_of st forward of
                            Some (NActivity _ _ _ _ (Some (CompActivity activity _ _ retry)) _) \<Rightarrow>
                              compensation_policy_retryable run act activity retry code
                          | _ \<Rightarrow> obligation_handler_retryable run item code)))))"

definition decide_report_error ::
    "state \<Rightarrow> run_id \<Rightarrow> activation_id \<Rightarrow> string \<Rightarrow> string \<Rightarrow> domain_event list res" where
  "decide_report_error st run activation code message =
     rbind (ok_or (invalid ''unknown activation'') (hget (activations st) activation)) (\<lambda>act.
       if act_run act \<noteq> run then Err (invalid ''activation does not belong to run'')
       else if act_status act \<noteq> ActReady then Err (invalid ''activation is not awaiting a result'')
       else let attempt = max (act_attempts act) 1 in
         if act_role act = Compensation
         then (let retryable = compensation_error_retryable st activation code;
                   failed = LeafFailed run activation attempt code message retryable in
               if retryable then Ok [failed, ClaimCleared activation]
               else case compensated_obligation st activation of
                 Some item \<Rightarrow>
                   Ok [failed, ObligationBlocked run (ob_forward item) (ob_handler item)
                                 (ob_handler_version item) (code @ '': '' @ message)]
               | None \<Rightarrow> Ok [failed])
         else (let retryable = forward_error_retryable st act code;
                   failed = LeafFailed run activation attempt code message retryable in
               if retryable then Ok [failed, ClaimCleared activation]
               else rmap (\<lambda>events. failed # events)
                      (fail_scope st (act_scope act) \<lparr>fe_code = code, fe_message = message\<rparr>)))"

section \<open>Reconciliation\<close>

definition decide_reconcile ::
    "externals \<Rightarrow> state \<Rightarrow> run_id \<Rightarrow> activation_id \<Rightarrow> worker_session_id \<Rightarrow> owner_generation
     \<Rightarrow> lease_revision \<Rightarrow> reconcile_outcome \<Rightarrow> val option \<Rightarrow> engine_time \<Rightarrow> id_gen
     \<Rightarrow> domain_event list idres" where
  "decide_reconcile E st run activation session generation revision outcome output time ids =
     rbind (ok_or (invalid ''unknown activation'') (hget (activations st) activation)) (\<lambda>act.
       if act_run act \<noteq> run then Err (invalid ''activation does not belong to run'')
       else if act_status act \<noteq> ActReady then Err (invalid ''activation is not awaiting a result'')
       else rbind (validate_claim_owner st run activation session generation revision time) (\<lambda>claim.
         if cl_role claim \<noteq> Reconciliation
         then Err (precondition ''claim is not a reconciliation probe'')
         else if (outcome = Applied) \<noteq> (output \<noteq> None)
         then Err (invalid ''applied reconciliation requires output; other outcomes forbid it'')
         else rbind (case output of Some value \<Rightarrow> validate_leaf_output E st act value | None \<Rightarrow> Ok ()) (\<lambda>_.
           if outcome = Unknown \<and> cl_unknown_reported claim
           then Err (precondition ''unknown reconciliation already reported for claim'')
           else let probes = sat_add32 (cl_probes claim) 1;
                    recorded = ReconciliationRecorded run activation outcome output probes in
             case outcome of
               Applied \<Rightarrow>
                 rbind (unwrap_opt output) (\<lambda>value.
                 rbind (report_success E st run activation value ids) (\<lambda>(events, ids1).
                   Ok (recorded # events, ids1)))
             | NotApplied \<Rightarrow>
                 Ok ([recorded, ClaimCleared activation]
                     @ (if run_is_aborting st run
                        then [LeafFailed run activation (max (act_attempts act) 1) ''not_applied''
                                ''forward effect conclusively did not apply'' False]
                        else []), ids)
             | Unknown \<Rightarrow>
                 Ok (recorded
                     # (if probes \<ge> RECONCILIATION_PROBES
                        then [InterventionRequired run activation ''reconciliation probes exhausted'',
                              ClaimCleared activation]
                        else []), ids))))"

end
