(* ===== verification/Signals.thy ===== *)
theory Signals
  imports Scopes
begin

text \<open>
  External events and durable waits (domain.rs): accepting a signal into the inbox, opening a
  wait, choosing the inbox entry a wait consumes, timers, and the wait that is due next.
\<close>

section \<open>Acceptance\<close>

definition pending_wait :: "state \<Rightarrow> run_id \<Rightarrow> string \<Rightarrow> string \<Rightarrow> wait_state option" where
  "pending_wait st run signal key =
     find (\<lambda>wait. wt_run wait = run \<and> wt_pending wait \<and> wt_signal wait = signal \<and> wt_key wait = key)
       (hvals (waits st))"

definition already_exists :: "string \<Rightarrow> error" where
  "already_exists m = error_new AlreadyExists m"

definition exhausted :: "string \<Rightarrow> error" where
  "exhausted m = error_new ResourceExhausted m"

definition buffered_count :: "state \<Rightarrow> run_id \<Rightarrow> nat" where
  "buffered_count st run =
     length (filter (\<lambda>entry. ib_run entry = Some run \<and> \<not> ib_consumed entry) (inbox st))"

definition same_address_count :: "state \<Rightarrow> string \<Rightarrow> string \<Rightarrow> nat" where
  "same_address_count st signal key =
     length (filter (\<lambda>entry. \<not> ib_consumed entry \<and> ib_signal entry = signal \<and> ib_key entry = key) (inbox st))"

definition day_ms :: nat where
  "day_ms = 24 * 60 * 60 * 1000"

definition accept_signal ::
    "state \<Rightarrow> run_id \<Rightarrow> run_state \<Rightarrow> event_id \<Rightarrow> string \<Rightarrow> string \<Rightarrow> val \<Rightarrow> engine_time
     \<Rightarrow> domain_event list res" where
  "accept_signal st run run_state event_id signal key payload time =
     (if rs_status run_state \<noteq> RunActive then Err (invalid ''run is terminal'')
      else if map_of (def_signals (rs_definition run_state)) signal = None
      then Err (invalid (''unknown signal '' @ signal))
      else if buffered_count st run \<ge> MAX_BUFFERED_EVENTS_PER_RUN
      then Err (exhausted ''inbox quota exceeded'')
      else if same_address_count st signal key \<ge> MAX_EVENTS_PER_ADDRESS
      then Err (exhausted ''inbox address quota exceeded'')
      else Ok (EventAccepted run event_id signal key payload (rs_next_sequence run_state) time
                 (sat_add64 time (sat_mul64 (unreserved_event_days (rs_policy run_state)) day_ms))
               # (case pending_wait st run signal key of
                    Some wait \<Rightarrow> [EventReserved (wt_id wait) event_id]
                  | None \<Rightarrow> [])))"

definition decide_signal ::
    "externals \<Rightarrow> state \<Rightarrow> run_id \<Rightarrow> event_id \<Rightarrow> string \<Rightarrow> string \<Rightarrow> val \<Rightarrow> engine_time
     \<Rightarrow> domain_event list res" where
  "decide_signal E st run event_id signal key payload time =
     (case hget (signal_tombstones st) (tombstone_key E run event_id) of
        Some existing \<Rightarrow>
          if tb_signal existing = signal \<and> tb_key existing = key
          then rbind (capture_in E (ar_cluster_id (tb_payload existing)) ''graphrun.signal-payload/v1''
                        (to_json payload)) (\<lambda>actual.
                 if tb_payload existing = actual then Ok []
                 else Err (already_exists ''event id payload conflict''))
          else Err (already_exists ''event id payload conflict'')
      | None \<Rightarrow>
          rbind (ok_or (invalid ''unknown run'') (hget (runs st) run)) (\<lambda>run_state.
            case find (\<lambda>entry. ib_run entry = Some run \<and> ib_event_id entry = event_id) (inbox st) of
              Some existing \<Rightarrow>
                if ib_signal existing = signal \<and> ib_key existing = key \<and> ib_payload existing = payload
                then Ok [] else Err (already_exists ''event id payload conflict'')
            | None \<Rightarrow> accept_signal st run run_state event_id signal key payload time))"

section \<open>Choosing an entry\<close>

definition eligible :: "wait_state \<Rightarrow> nat \<Rightarrow> inbox_entry \<Rightarrow> bool" where
  "eligible wait now_ms entry \<longleftrightarrow>
     \<not> ib_consumed entry \<and> ib_reserved_wait entry = None
     \<and> ib_signal entry = wt_signal wait \<and> ib_key entry = wt_key wait
     \<and> (case wt_consume_from wait of
          Buffered \<Rightarrow> True
        | AfterActivation \<Rightarrow> ib_sequence entry \<ge> wt_opened_sequence wait)
     \<and> (case wt_deadline_ms wait of
          None \<Rightarrow> True
        | Some deadline \<Rightarrow> ib_accepted_ms entry = 0 \<or> ib_accepted_ms entry \<le> deadline)
     \<and> (ib_expires_ms entry = 0 \<or> now_ms < ib_expires_ms entry)"

definition reserved_or_eligible :: "state \<Rightarrow> wait_state \<Rightarrow> nat \<Rightarrow> inbox_entry option" where
  "reserved_or_eligible st wait now_ms =
     (case find (\<lambda>entry. \<not> ib_consumed entry \<and> ib_reserved_wait entry = Some (wt_id wait)) (inbox st) of
        Some entry \<Rightarrow> Some entry
      | None \<Rightarrow> find (eligible wait now_ms) (inbox st))"

section \<open>Timers\<close>

definition follow_timeout ::
    "externals \<Rightarrow> state \<Rightarrow> activation_state \<Rightarrow> id_gen \<Rightarrow> domain_event list idres" where
  "follow_timeout E st act ids =
     rbind (ok_or (invalid ''missing region'') (region_for_scope st (act_scope act))) (\<lambda>region.
     rbind (unwrap_opt (map_of (region_nodes region) (act_node act))) (\<lambda>n.
       case n of
         NWaitSignal _ _ _ _ _ (Some next) \<Rightarrow> open_node E st (act_scope act) next ids
       | _ \<Rightarrow> Err (invalid ''wait has no timeout edge'')))"

text \<open>The events with which a wait takes an entry.\<close>

definition satisfy_wait ::
    "externals \<Rightarrow> state \<Rightarrow> run_id \<Rightarrow> wait_id \<Rightarrow> activation_state \<Rightarrow> inbox_entry \<Rightarrow> id_gen
     \<Rightarrow> domain_event list idres" where
  "satisfy_wait E st run wait act entry ids =
     rbind (output_and_next E st run act (ib_payload entry) ids) (\<lambda>(events, ids1).
       Ok (WaitSatisfied run wait (ib_event_id entry) (ib_payload entry) # events, ids1))"

definition decide_timer ::
    "externals \<Rightarrow> state \<Rightarrow> run_id \<Rightarrow> wait_id \<Rightarrow> engine_time \<Rightarrow> id_gen \<Rightarrow> domain_event list idres" where
  "decide_timer E st run wait time ids =
     rbind (ok_or (invalid ''unknown wait'') (hget (waits st) wait)) (\<lambda>wait_state.
       if wt_run wait_state \<noteq> run \<or> \<not> wt_pending wait_state then Err (invalid ''wait is not pending'')
       else rbind (ok_or (invalid ''wait has no deadline'') (wt_deadline_ms wait_state)) (\<lambda>deadline.
         if time < deadline then Err (invalid ''wait deadline has not been reached'')
         else rbind (unwrap_opt (hget (activations st) (wt_activation wait_state))) (\<lambda>act.
           case reserved_or_eligible st wait_state time of
             Some entry \<Rightarrow> satisfy_wait E st run wait act entry ids
           | None \<Rightarrow>
               rbind (follow_timeout E st act ids) (\<lambda>(events, ids1).
                 Ok (WaitTimedOut run wait # events, ids1)))))"

definition is_due :: "state \<Rightarrow> nat \<Rightarrow> wait_state \<Rightarrow> bool" where
  "is_due st now wait \<longleftrightarrow>
     (case wt_deadline_ms wait of Some deadline \<Rightarrow> now \<ge> deadline | None \<Rightarrow> False)
     \<or> reserved_or_eligible st wait now \<noteq> None"

definition due_waits :: "state \<Rightarrow> run_id \<Rightarrow> nat \<Rightarrow> wait_state list" where
  "due_waits st run now =
     sort_key (\<lambda>wait. case wt_deadline_ms wait of Some d \<Rightarrow> d | None \<Rightarrow> 0)
       (filter (\<lambda>wait. wt_run wait = run \<and> wt_pending wait \<and> is_due st now wait) (hvals (waits st)))"

definition timer_edge :: "node option \<Rightarrow> node_key res" where
  "timer_edge n =
     (case n of
        Some (NDelay _ next) \<Rightarrow> Ok next
      | Some (NWaitUntil _ next) \<Rightarrow> Ok next
      | _ \<Rightarrow> Err (invalid ''timer wait is not a delay or wait_until''))"

definition due_wait ::
    "externals \<Rightarrow> state \<Rightarrow> run_id \<Rightarrow> engine_time \<Rightarrow> id_gen \<Rightarrow> domain_event list option idres" where
  "due_wait E st run time ids =
     (case due_waits st run time of
        [] \<Rightarrow> Ok (None, ids)
      | wait # _ \<Rightarrow>
          rbind (unwrap_opt (hget (activations st) (wt_activation wait))) (\<lambda>act.
            case reserved_or_eligible st wait time of
              Some entry \<Rightarrow>
                rbind (satisfy_wait E st run (wt_id wait) act entry ids) (\<lambda>(events, ids1).
                  Ok (Some events, ids1))
            | None \<Rightarrow>
                if wt_signal wait = ''__timer''
                then rbind (unwrap_opt (region_for_scope st (act_scope act))) (\<lambda>region.
                     rbind (timer_edge (map_of (region_nodes region) (act_node act))) (\<lambda>next.
                     rbind (open_node E st (act_scope act) next ids) (\<lambda>(events, ids1).
                       Ok (Some (WaitTimedOut run (wt_id wait) # events), ids1))))
                else rbind (decide_timer E st run (wt_id wait) time ids) (\<lambda>(events, ids1).
                       Ok (Some events, ids1))))"

section \<open>Opening a wait\<close>

definition has_pending_wait :: "state \<Rightarrow> activation_id \<Rightarrow> bool" where
  "has_pending_wait st activation \<longleftrightarrow>
     list_ex (\<lambda>wait. wt_activation wait = activation \<and> wt_pending wait) (hvals (waits st))"

definition address_taken :: "state \<Rightarrow> run_id \<Rightarrow> string \<Rightarrow> string \<Rightarrow> bool" where
  "address_taken st run signal key \<longleftrightarrow>
     list_ex (\<lambda>wait. wt_run wait = run \<and> wt_pending wait \<and> wt_signal wait = signal \<and> wt_key wait = key)
       (hvals (waits st))"

definition open_wait_at ::
    "externals \<Rightarrow> state \<Rightarrow> activation_state \<Rightarrow> string \<Rightarrow> string \<Rightarrow> nat option \<Rightarrow> consume_from
     \<Rightarrow> engine_time \<Rightarrow> id_gen \<Rightarrow> domain_event list idres" where
  "open_wait_at E st act signal key timeout_ms consume time ids =
     (let (wait, ids1) = next_bytes E ids;
          deadline = map_option (sat_add64 time) timeout_ms;
          opened = WaitOpened (act_run act) wait (act_id act) signal key deadline consume in
      rbind (unwrap_opt (hget (runs st) (act_run act))) (\<lambda>run_state.
        let fake = \<lparr>wt_id = wait, wt_run = act_run act, wt_activation = act_id act,
                    wt_signal = signal, wt_key = key, wt_deadline_ms = deadline,
                    wt_consume_from = consume, wt_opened_sequence = rs_next_sequence run_state,
                    wt_pending = True\<rparr> in
        case reserved_or_eligible st fake time of
          None \<Rightarrow> Ok ([opened], ids1)
        | Some entry \<Rightarrow>
            rbind (satisfy_wait E st (act_run act) wait act entry ids1) (\<lambda>(events, ids2).
              Ok (opened # events, ids2))))"

definition open_wait ::
    "externals \<Rightarrow> state \<Rightarrow> activation_state \<Rightarrow> engine_time \<Rightarrow> id_gen \<Rightarrow> domain_event list idres" where
  "open_wait E st act time ids =
     rbind (unwrap_opt (region_for_scope st (act_scope act))) (\<lambda>region.
     rbind (unwrap_opt (map_of (region_nodes region) (act_node act))) (\<lambda>n.
       case n of
         NWaitSignal signal key timeout_ms consume _ _ \<Rightarrow>
           rbind (unwrap_opt (hget (scopes st) (act_scope act))) (\<lambda>scope.
           rbind (eval_ctx_of E st scope) (\<lambda>ctx.
           rbind (eval_binding key ctx) (\<lambda>key_val.
           rbind (ok_or (invalid ''wait key must be a string'') (as_str key_val)) (\<lambda>key_str.
             if address_taken st (act_run act) signal key_str
             then rmap (\<lambda>events. (events, ids))
                    (fail_scope st (act_scope act)
                       \<lparr>fe_code = ''WaitKeyConflict'',
                        fe_message = ''conflicting active wait address '' @ signal @ ''/'' @ key_str\<rparr>)
             else open_wait_at E st act signal key_str timeout_ms consume time ids))))
       | _ \<Rightarrow> Panic))"

end
