(* ===== verification/Progress.thy ===== *)
theory Progress
  imports Sagas Signals
begin

text \<open>
  Advancing a run (domain.rs): loops, fan-out over items and branches, choices, the step a single
  open activation admits, and the bounded batch of steps of one progress command.
\<close>

section \<open>Loops\<close>

definition scope_of :: "state \<Rightarrow> activation_state \<Rightarrow> scope_state res" where
  "scope_of st act = unwrap_opt (hget (scopes st) (act_scope act))"

text \<open>The carried state and the counter of a loop, or the initial state, whose evaluation the
  source unwraps.\<close>

definition loop_start ::
    "externals \<Rightarrow> state \<Rightarrow> activation_state \<Rightarrow> scope_state \<Rightarrow> binding \<Rightarrow> (val \<times> nat) res" where
  "loop_start E st act scope state_binding =
     (case hget (loop_carry st) (act_id act) of
        Some cc \<Rightarrow> Ok cc
      | None \<Rightarrow>
          rbind (eval_ctx_of E st scope) (\<lambda>ctx.
          rbind (unwrap_res (eval_binding state_binding ctx)) (\<lambda>v. Ok (v, 0))))"

definition loop_ctx ::
    "externals \<Rightarrow> state \<Rightarrow> scope_state \<Rightarrow> val \<Rightarrow> nat \<Rightarrow> eval_ctx res" where
  "loop_ctx E st scope carry completed =
     rbind (eval_ctx_of E st scope) (\<lambda>ctx.
       Ok (ctx\<lparr>ctx_loop_state := Some carry, ctx_loop_index := Some (int completed)\<rparr>))"

definition open_loop_body ::
    "externals \<Rightarrow> activation_state \<Rightarrow> region \<Rightarrow> val \<Rightarrow> nat \<Rightarrow> id_gen \<Rightarrow> domain_event list \<times> id_gen" where
  "open_loop_body E act body carry index ids =
     open_body E act body (RoleLoopBody (act_id act) index) carry ids"

definition while_after_body ::
    "externals \<Rightarrow> state \<Rightarrow> activation_state \<Rightarrow> scope_state \<Rightarrow> condition \<Rightarrow> nat \<Rightarrow> region \<Rightarrow> val \<Rightarrow> nat
     \<Rightarrow> id_gen \<Rightarrow> domain_event list idres" where
  "while_after_body E st act scope cond max_iterations body carry completed ids =
     rbind (loop_ctx E st scope carry completed) (\<lambda>ctx.
     rbind (eval_condition cond ctx) (\<lambda>cont.
       let guard = GuardRecorded (act_run act) (act_id act) cont completed carry in
       if \<not> cont
       then rbind (output_and_next E st (act_run act) act carry ids) (\<lambda>(events, ids1).
              Ok (guard # events, ids1))
       else if completed \<ge> max_iterations
       then rmap (\<lambda>events. (events, ids))
              (fail_scope st (act_scope act)
                 \<lparr>fe_code = ''LoopLimitExceeded'', fe_message = ''loop continuation at the iteration limit''\<rparr>)
       else (let (events, ids1) = open_loop_body E act body carry completed ids in
             Ok (guard # events, ids1))))"

definition while_first ::
    "externals \<Rightarrow> state \<Rightarrow> activation_state \<Rightarrow> scope_state \<Rightarrow> condition \<Rightarrow> region \<Rightarrow> val \<Rightarrow> id_gen
     \<Rightarrow> domain_event list idres" where
  "while_first E st act scope cond body carry ids =
     rbind (loop_ctx E st scope carry 0) (\<lambda>ctx.
     rbind (eval_condition cond ctx) (\<lambda>cont.
       let guard = GuardRecorded (act_run act) (act_id act) cont 0 carry in
       if \<not> cont
       then rbind (output_and_next E st (act_run act) act carry ids) (\<lambda>(events, ids1).
              Ok (guard # events, ids1))
       else (let (events, ids1) = open_loop_body E act body carry 0 ids in
             Ok (guard # events, ids1))))"

definition progress_while ::
    "externals \<Rightarrow> state \<Rightarrow> activation_state \<Rightarrow> binding \<Rightarrow> condition \<Rightarrow> nat \<Rightarrow> region \<Rightarrow> bool \<Rightarrow> id_gen
     \<Rightarrow> domain_event list idres" where
  "progress_while E st act state_binding cond max_iterations body do_while ids =
     rbind (scope_of st act) (\<lambda>scope.
     rbind (loop_start E st act scope state_binding) (\<lambda>(carry, completed).
       case child_of st (act_id act) of
         Some child \<Rightarrow>
           (case sc_status child of
              ScopeOpen \<Rightarrow> Ok ([], ids)
            | ScopeBroken error \<Rightarrow> rmap (\<lambda>events. (events, ids)) (fail_scope st (act_scope act) error)
            | ScopeDone output \<Rightarrow>
                while_after_body E st act scope cond max_iterations body output
                  (wrap32 (completed + 1)) ids)
       | None \<Rightarrow>
           rbind (loop_ctx E st scope carry completed) (\<lambda>_.
             if completed = 0
             then (if do_while then Ok (open_loop_body E act body carry 0 ids)
                   else while_first E st act scope cond body carry ids)
             else Ok ([], ids))))"

definition progress_repeat ::
    "externals \<Rightarrow> state \<Rightarrow> activation_state \<Rightarrow> binding \<Rightarrow> binding \<Rightarrow> nat \<Rightarrow> region \<Rightarrow> id_gen
     \<Rightarrow> domain_event list idres" where
  "progress_repeat E st act cnt state_binding max_iterations body ids =
     rbind (scope_of st act) (\<lambda>scope.
     rbind (eval_ctx_of E st scope) (\<lambda>ctx.
     rbind (eval_binding cnt ctx) (\<lambda>count_v.
     rbind (ok_or (invalid ''repeat count must be an integer'') (as_i64 count_v)) (\<lambda>count_n.
       if count_n < 0 \<or> as_u32 count_n > max_iterations
       then Err (invalid ''repeat count is out of range'')
       else rbind (loop_start E st act scope state_binding) (\<lambda>(carry, completed).
         if count_n = 0 \<and> completed = 0
         then output_and_next E st (act_run act) act carry ids
         else case child_of st (act_id act) of
           None \<Rightarrow> Ok (open_loop_body E act body carry completed ids)
         | Some child \<Rightarrow>
             (case sc_status child of
                ScopeOpen \<Rightarrow> Ok ([], ids)
              | ScopeBroken error \<Rightarrow> rmap (\<lambda>events. (events, ids)) (fail_scope st (act_scope act) error)
              | ScopeDone output \<Rightarrow>
                  if int completed = count_n then output_and_next E st (act_run act) act output ids
                  else if int completed > count_n then Ok ([], ids)
                  else Ok (open_loop_body E act body output completed ids)))))))"

section \<open>Fan-out\<close>

definition find_broken :: "scope_state list \<Rightarrow> (scope_state \<times> fail_error) option" where
  "find_broken children =
     (case find (\<lambda>child. scope_broken (sc_status child)) children of
        Some child \<Rightarrow>
          (case sc_status child of ScopeBroken error \<Rightarrow> Some (child, error) | _ \<Rightarrow> None)
      | None \<Rightarrow> None)"

text \<open>The index search of the source counts up past every index that is taken; \<open>free_index\<close> stops
  after as many steps as there are entries, which is enough (\<open>next_item_index_spec\<close> of Execution).\<close>

fun free_index :: "nat \<Rightarrow> nat list \<Rightarrow> nat \<Rightarrow> nat" where
  "free_index 0 taken i = i"
| "free_index (Suc fuel) taken i = (if i \<in> set taken then free_index fuel taken (i + 1) else i)"

definition next_item_index :: "state \<Rightarrow> activation_id \<Rightarrow> (nat \<times> val) list \<Rightarrow> nat" where
  "next_item_index st activation done =
     (let taken = List.map_filter
                    (\<lambda>child. case sc_role child of RoleForeachItem _ index \<Rightarrow> Some index | _ \<Rightarrow> None)
                    (children_of st activation) @ map fst done in
      free_index (length taken) taken 0)"

definition fail_open :: "state \<Rightarrow> fail_error \<Rightarrow> scope_state list \<Rightarrow> domain_event list res" where
  "fail_open st error siblings =
     rmap concat (rseq (map (\<lambda>sibling. fail_scope st (sc_id sibling) error) siblings))"

definition progress_foreach ::
    "externals \<Rightarrow> state \<Rightarrow> activation_state \<Rightarrow> binding \<Rightarrow> nat \<Rightarrow> nat \<Rightarrow> region \<Rightarrow> id_gen
     \<Rightarrow> domain_event list idres" where
  "progress_foreach E st act items max_items max_concurrency body ids =
     rbind (scope_of st act) (\<lambda>scope.
     rbind (eval_ctx_of E st scope) (\<lambda>ctx.
     rbind (eval_binding items ctx) (\<lambda>value.
       case value of
         VArr lst \<Rightarrow>
           if wrap32 (length lst) > max_items then Err (invalid ''foreach exceeds max_items'')
           else if lst = [] then output_and_next E st (act_run act) act (VArr []) ids
           else let done = hlist (foreach_done st) (act_id act);
                    children = children_of st (act_id act) in
             if length done = length lst
             then rbind (rseq (map (\<lambda>i. unwrap_opt (foreach_get done i)) [0..<length lst])) (\<lambda>ordered.
                    output_and_next E st (act_run act) act (VArr ordered) ids)
             else case find_broken children of
               Some (failed, error) \<Rightarrow>
                 rbind (fail_open st
                          \<lparr>fe_code = ''item.cancelled'', fe_message = ''sibling foreach item failed''\<rparr>
                          (filter (\<lambda>sibling. sc_id sibling \<noteq> sc_id failed \<and> sc_status sibling = ScopeOpen)
                             children)) (\<lambda>cancelled.
                 rbind (fail_scope st (act_scope act) error) (\<lambda>failure.
                   Ok (cancelled @ failure, ids)))
             | None \<Rightarrow>
                 if length (filter (\<lambda>child. sc_status child = ScopeOpen) children) \<ge> max_concurrency
                 then Ok ([], ids)
                 else let index = next_item_index st (act_id act) done in
                   if index \<ge> length lst then Ok ([], ids)
                   else Ok (open_body E act body (RoleForeachItem (act_id act) index) (lst ! index) ids)
       | _ \<Rightarrow> Err (invalid ''foreach items must be an array''))))"

definition branch_names :: "scope_state list \<Rightarrow> string list" where
  "branch_names children =
     List.map_filter (\<lambda>child. case sc_role child of RoleParallelBranch _ name \<Rightarrow> Some name | _ \<Rightarrow> None) children"

definition scope_claimed :: "state \<Rightarrow> scope_id \<Rightarrow> bool" where
  "scope_claimed st scope \<longleftrightarrow>
     list_ex (\<lambda>item. act_scope item = scope
                \<and> (case act_claim item of Some claim \<Rightarrow> cl_lease_expiry_ms claim > 0 | None \<Rightarrow> False))
       (hvals (activations st))"

definition parallel_failure ::
    "state \<Rightarrow> activation_state \<Rightarrow> id_gen \<Rightarrow> domain_event list idres" where
  "parallel_failure st act ids =
     (let children = children_of st (act_id act) in
      case find_broken children of
        None \<Rightarrow> Ok ([], ids)
      | Some (failed, error) \<Rightarrow>
          (let siblings = filter (\<lambda>sibling. sc_id sibling \<noteq> sc_id failed \<and> sc_status sibling = ScopeOpen) children in
           rbind (fail_open st \<lparr>fe_code = ''branch.cancelled'', fe_message = ''sibling branch failed''\<rparr>
                    (filter (\<lambda>sibling. \<not> scope_claimed st (sc_id sibling)) siblings)) (\<lambda>cancelled.
             if list_ex (\<lambda>sibling. scope_claimed st (sc_id sibling)) siblings then Ok (cancelled, ids)
             else rbind (fail_scope st (act_scope act) error) (\<lambda>failure.
                    Ok (cancelled @ failure, ids)))))"

definition progress_parallel ::
    "externals \<Rightarrow> state \<Rightarrow> activation_state \<Rightarrow> parallel_branch list \<Rightarrow> id_gen \<Rightarrow> domain_event list idres" where
  "progress_parallel E st act branches ids =
     (let done = (case hget (parallel_done st) (act_id act) of Some d \<Rightarrow> d | None \<Rightarrow> []);
          existing = branch_names (children_of st (act_id act)) in
      if length done = length branches
      then rbind (rseq (map (\<lambda>branch. unwrap_opt (map_of done (branch_name branch))) branches)) (\<lambda>ordered.
             output_and_next E st (act_run act) act (VArr ordered) ids)
      else if length existing < length branches
      then rbind (scope_of st act) (\<lambda>scope.
           rbind (eval_ctx_of E st scope) (\<lambda>ctx.
             case find (\<lambda>branch. branch_name branch \<notin> set existing) branches of
               Some branch \<Rightarrow>
                 rbind (eval_binding (branch_input branch) ctx) (\<lambda>input.
                   Ok (open_body E act (branch_body branch)
                         (RoleParallelBranch (act_id act) (branch_name branch)) input ids))
             | None \<Rightarrow> parallel_failure st act ids))
      else parallel_failure st act ids)"

section \<open>Choices\<close>

fun first_case :: "choose_case list \<Rightarrow> eval_ctx \<Rightarrow> choose_case option res" where
  "first_case [] ctx = Ok None"
| "first_case (c # cs) ctx =
     rbind (eval_condition (case_when c) ctx) (\<lambda>holds. if holds then Ok (Some c) else first_case cs ctx)"

definition progress_choose ::
    "externals \<Rightarrow> state \<Rightarrow> activation_state \<Rightarrow> binding \<Rightarrow> choose_case list \<Rightarrow> region \<Rightarrow> id_gen
     \<Rightarrow> domain_event list idres" where
  "progress_choose E st act input cases dflt ids =
     (case child_of st (act_id act) of
        Some child \<Rightarrow>
          (case sc_status child of
             ScopeOpen \<Rightarrow> Ok ([], ids)
           | ScopeBroken error \<Rightarrow> rmap (\<lambda>events. (events, ids)) (fail_scope st (act_scope act) error)
           | ScopeDone output \<Rightarrow> output_and_next E st (act_run act) act output ids)
      | None \<Rightarrow>
          rbind (scope_of st act) (\<lambda>scope.
          rbind (eval_ctx_of E st scope) (\<lambda>ctx.
          rbind (eval_binding input ctx) (\<lambda>captured.
          rbind (first_case cases ctx) (\<lambda>chosen.
            case chosen of
              Some c \<Rightarrow> Ok (open_body E act (case_body c) (RoleChooseBody (act_id act) (case_name c)) captured ids)
            | None \<Rightarrow> Ok (open_body E act dflt (RoleChooseBody (act_id act) ''default'') captured ids))))))"

section \<open>One step\<close>

definition timer_wait ::
    "externals \<Rightarrow> run_id \<Rightarrow> activation_state \<Rightarrow> nat \<Rightarrow> id_gen \<Rightarrow> domain_event list \<times> id_gen" where
  "timer_wait E run act deadline ids =
     (let (wait, ids1) = next_bytes E ids in
      ([WaitOpened run wait (act_id act) ''__timer'' (hex_encode E (act_id act)) (Some deadline) AfterActivation],
       ids1))"

definition progress_wait_until ::
    "externals \<Rightarrow> state \<Rightarrow> run_id \<Rightarrow> activation_state \<Rightarrow> engine_time \<Rightarrow> binding \<Rightarrow> node_key \<Rightarrow> id_gen
     \<Rightarrow> domain_event list idres" where
  "progress_wait_until E st run act time at next ids =
     rbind (scope_of st act) (\<lambda>scope.
     rbind (eval_ctx_of E st scope) (\<lambda>ctx.
     rbind (eval_binding at ctx) (\<lambda>value.
       case value of
         VInt v \<Rightarrow>
           if v \<ge> 0
           then (if time \<ge> nat v then open_node E st (act_scope act) next ids
                 else Ok (timer_wait E run act (nat v) ids))
           else Err (invalid ''wait_until at must be a non-negative integer'')
       | _ \<Rightarrow> Err (invalid ''wait_until at must be a non-negative integer''))))"

text \<open>The events of one container step; no events mean that the activation waits.\<close>

definition some_events :: "domain_event list idres \<Rightarrow> domain_event list option idres" where
  "some_events r = rmap (\<lambda>(events, ids). (Some events, ids)) r"

definition container_events :: "domain_event list idres \<Rightarrow> domain_event list option idres" where
  "container_events r = rmap (\<lambda>(events, ids). (if events = [] then None else Some events, ids)) r"

definition progress_node ::
    "externals \<Rightarrow> state \<Rightarrow> run_id \<Rightarrow> engine_time \<Rightarrow> activation_state \<Rightarrow> node \<Rightarrow> id_gen
     \<Rightarrow> domain_event list option idres" where
  "progress_node E st run time act n ids =
     (case n of
        NActivity _ _ _ _ _ _ \<Rightarrow>
          Ok (Some [ActivationOpened run (act_scope act) (act_id act) (act_node act)], ids)
      | NComplete output \<Rightarrow>
          rbind (scope_of st act) (\<lambda>scope.
          rbind (eval_ctx_of E st scope) (\<lambda>ctx.
          rbind (eval_binding output ctx) (\<lambda>value. Ok (Some (complete_scope scope value), ids))))
      | NFail error \<Rightarrow> rmap (\<lambda>events. (Some events, ids)) (fail_scope st (act_scope act) error)
      | NDelay dur _ \<Rightarrow>
          if has_pending_wait st (act_id act) then Ok (None, ids)
          else rbind (scope_of st act) (\<lambda>scope.
               rbind (eval_ctx_of E st scope) (\<lambda>ctx.
               rbind (eval_duration_ms dur ctx) (\<lambda>ms.
                 some_events (Ok (timer_wait E run act (sat_add64 time ms) ids)))))
      | NWaitUntil at next \<Rightarrow>
          if has_pending_wait st (act_id act) then Ok (None, ids)
          else some_events (progress_wait_until E st run act time at next ids)
      | NWaitSignal _ _ _ _ _ _ \<Rightarrow>
          if has_pending_wait st (act_id act) then Ok (None, ids)
          else some_events (open_wait E st act time ids)
      | NWhile sb _ cond max_iterations body _ \<Rightarrow>
          container_events (progress_while E st act sb cond max_iterations body False ids)
      | NDoWhile sb _ cond max_iterations body _ \<Rightarrow>
          container_events (progress_while E st act sb cond max_iterations body True ids)
      | NRepeat cnt sb _ max_iterations body _ \<Rightarrow>
          container_events (progress_repeat E st act cnt sb max_iterations body ids)
      | NForeach items _ max_items max_concurrency body _ \<Rightarrow>
          container_events (progress_foreach E st act items max_items max_concurrency body ids)
      | NParallel branches _ \<Rightarrow> container_events (progress_parallel E st act branches ids)
      | NChoose input cases dflt _ \<Rightarrow> container_events (progress_choose E st act input cases dflt ids)
      | NSaga input body _ \<Rightarrow> container_events (progress_saga E st act input body ids))"

fun progress_scan ::
    "externals \<Rightarrow> state \<Rightarrow> run_id \<Rightarrow> engine_time \<Rightarrow> activation_state list \<Rightarrow> id_gen
     \<Rightarrow> domain_event list option idres" where
  "progress_scan E st run time [] ids = Ok (None, ids)"
| "progress_scan E st run time (act # acts) ids =
     (if act_run act \<noteq> run \<or> act_role act \<noteq> Forward \<or> act_status act \<noteq> ActOpen
      then progress_scan E st run time acts ids
      else rbind (unwrap_opt (region_for_scope st (act_scope act))) (\<lambda>region.
           rbind (unwrap_opt (map_of (region_nodes region) (act_node act))) (\<lambda>n.
           rbind (progress_node E st run time act n ids) (\<lambda>(found, ids1).
             case found of
               Some events \<Rightarrow> Ok (Some events, ids1)
             | None \<Rightarrow> progress_scan E st run time acts ids1))))"

definition next_progress ::
    "externals \<Rightarrow> state \<Rightarrow> run_id \<Rightarrow> engine_time \<Rightarrow> id_gen \<Rightarrow> domain_event list option idres" where
  "next_progress E st run time ids =
     (case hget (runs st) run of
        None \<Rightarrow> Ok (None, ids)
      | Some run_state \<Rightarrow>
          if rs_status run_state \<noteq> RunActive then Ok (None, ids)
          else rbind (due_wait E st run time ids) (\<lambda>(due, ids1).
            case due of
              Some events \<Rightarrow> Ok (Some events, ids1)
            | None \<Rightarrow> progress_scan E st run time (hvals (activations st)) ids1))"

section \<open>A batch\<close>

fun progress_batch ::
    "nat \<Rightarrow> externals \<Rightarrow> state \<Rightarrow> run_id \<Rightarrow> engine_time \<Rightarrow> id_gen \<Rightarrow> domain_event list idres" where
  "progress_batch 0 E working run time ids = Ok ([], ids)"
| "progress_batch (Suc n) E working run time ids =
     rbind (next_progress E working run time ids) (\<lambda>(found, ids1).
       case found of
         None \<Rightarrow> Ok ([], ids1)
       | Some next \<Rightarrow>
           rbind (apply_events E working next) (\<lambda>working1.
           rbind (progress_batch n E working1 run time ids1) (\<lambda>(events, ids2).
             Ok (next @ events, ids2))))"

definition decide_progress ::
    "externals \<Rightarrow> state \<Rightarrow> run_id \<Rightarrow> engine_time \<Rightarrow> id_gen \<Rightarrow> domain_event list idres" where
  "decide_progress E st run time ids = progress_batch PROGRESS_BATCH E st run time ids"

end
