(* ===== verification/Decide.thy ===== *)
theory Decide
  imports Reports Progress
begin

text \<open>
  \<open>decide\<close> of domain.rs: the events a command leads to in a state, without changing it. A command
  identity that was already applied returns the recorded events.
\<close>

section \<open>Command identity\<close>

definition DIGEST_PREFIX :: string where
  "DIGEST_PREFIX = ''graphrun.authenticated-request/v1:''"

definition verify_command_identity ::
    "state \<Rightarrow> command_id \<Rightarrow> string option \<Rightarrow> command_id \<Rightarrow> string option \<Rightarrow> unit res" where
  "verify_command_identity st cid actor external_id digest =
     (if \<not> hhas (commands st) cid
      then (if hhas (command_actors st) cid \<or> hhas (command_external_ids st) cid
               \<or> hhas (authenticated_request_digests st) cid
            then Err (precondition ''command identity has no retained receipt'')
            else Ok ())
      else if hget (command_actors st) cid \<noteq> actor
              \<or> (actor \<noteq> None \<and> hget (command_external_ids st) cid \<noteq> Some external_id)
              \<or> (actor = None \<and> (hhas (command_external_ids st) cid
                                  \<or> hhas (authenticated_request_digests st) cid))
      then Err (already_exists ''command ID collides with another command identity'')
      else if actor \<noteq> None
      then (let expected = hget (authenticated_request_digests st) cid in
            if (case expected of Some value \<Rightarrow> \<not> prefix DIGEST_PREFIX value | None \<Rightarrow> False)
            then Err (precondition ''unsupported authenticated request digest format'')
            else if expected \<noteq> digest
            then Err (already_exists ''command ID reused with different authenticated request'')
            else Ok ())
      else Ok ())"

section \<open>Start, recovery and worker results\<close>

definition decide_start ::
    "externals \<Rightarrow> run_id \<Rightarrow> definition_ir \<Rightarrow> val \<Rightarrow> engine_time \<Rightarrow> id_gen \<Rightarrow> domain_event list \<times> id_gen" where
  "decide_start E run d input time ids =
     (let (root, ids1) = next_bytes E ids; (start_act, ids2) = next_bytes E ids1 in
      ([RunAdmitted run (def_id d) (def_version d) input root (captured_defaults (def_run_timeout_ms d)) time,
        ScopeOpened run root None RoleRoot input,
        ActivationOpened run root start_act (region_start (def_root d))], ids2))"

definition decide_acknowledge_recovery :: "state \<Rightarrow> string \<Rightarrow> domain_event list res" where
  "decide_acknowledge_recovery st reason =
     (case recovery st of
        None \<Rightarrow> Err (invalid ''no recovery hold'')
      | Some hold \<Rightarrow>
          if rh_authorized hold then Ok []
          else if reason = [] then Err (invalid ''recovery acknowledgement requires a reason'')
          else Ok [RecoveryAuthorized reason])"

text \<open>The activity a claim runs, checked against the schema digest the worker reports with.\<close>

definition claimed_contract ::
    "externals \<Rightarrow> state \<Rightarrow> run_id \<Rightarrow> activation_id \<Rightarrow> execution_role \<Rightarrow> string \<Rightarrow> string \<Rightarrow> string
     \<Rightarrow> (activity_key \<times> catalog) res" where
  "claimed_contract E st run activation role missing mismatch schema_digest =
     rbind (activity_key_of E st activation) (\<lambda>found.
     rbind (ok_or (invalid missing) found) (\<lambda>(name, version, _).
     rbind (ok_or (invalid ''unknown run'') (hget (runs st) run)) (\<lambda>run_state.
       let key = activity_key_new name version in
       rbind (capability_for E (rs_catalog run_state) key role) (\<lambda>capability.
         if wc_output_schema_digest capability \<noteq> schema_digest then Err (invalid mismatch)
         else Ok (key, rs_catalog run_state)))))"

definition decide_report_worker ::
    "externals \<Rightarrow> state \<Rightarrow> run_id \<Rightarrow> activation_id \<Rightarrow> worker_session_id \<Rightarrow> owner_generation
     \<Rightarrow> lease_revision \<Rightarrow> string \<Rightarrow> worker_result \<Rightarrow> engine_time \<Rightarrow> id_gen \<Rightarrow> domain_event list idres" where
  "decide_report_worker E st run activation session generation revision schema_digest result time ids =
     rbind (validate_claim_owner st run activation session generation revision time) (\<lambda>claim.
       if cl_role claim = Reconciliation
       then Err (invalid ''reconciliation claim must use reconcile'')
       else rbind (claimed_contract E st run activation (cl_role claim) ''claimed activity unavailable''
                     ''worker result schema digest mismatch'' schema_digest) (\<lambda>(key, catalog).
         case result of
           WrSuccess output \<Rightarrow>
             decide_report_assigned E st run activation output session generation revision time ids
         | WrError code message \<Rightarrow>
             if message = [] then Err (invalid (''undeclared handler error code '' @ code))
             else rbind (catalog_activity catalog key) (\<lambda>contract.
               if known_code contract code = None \<and> \<not> prefix ''worker.'' code
               then Err (invalid (''undeclared handler error code '' @ code))
               else rmap (\<lambda>events. (events, ids)) (decide_report_error st run activation code message))))"

definition decide_reconcile_worker ::
    "externals \<Rightarrow> state \<Rightarrow> run_id \<Rightarrow> activation_id \<Rightarrow> worker_session_id \<Rightarrow> owner_generation
     \<Rightarrow> lease_revision \<Rightarrow> string \<Rightarrow> worker_probe \<Rightarrow> engine_time \<Rightarrow> id_gen \<Rightarrow> domain_event list idres" where
  "decide_reconcile_worker E st run activation session generation revision schema_digest result time ids =
     rbind (validate_claim_owner st run activation session generation revision time) (\<lambda>claim.
       if cl_role claim \<noteq> Reconciliation then Err (invalid ''claim is not a reconciliation probe'')
       else rbind (claimed_contract E st run activation (cl_role claim) ''claimed reconciler unavailable''
                     ''worker probe schema digest mismatch'' schema_digest) (\<lambda>_.
         case result of
           WpObserved outcome output \<Rightarrow>
             decide_reconcile E st run activation session generation revision outcome output time ids
         | WpError code message \<Rightarrow>
             if code \<noteq> [] \<and> message \<noteq> []
             then rbind (decide_reconcile E st run activation session generation revision Unknown None time ids)
                    (\<lambda>(events, ids1). Ok (ReconciliationFailed run activation code message # events, ids1))
             else Err (invalid ''probe error requires code and message'')))"

section \<open>Decide\<close>

definition no_ids :: "id_gen \<Rightarrow> domain_event list res \<Rightarrow> domain_event list idres" where
  "no_ids ids r = rmap (\<lambda>events. (events, ids)) r"

fun decide_body ::
    "externals \<Rightarrow> state \<Rightarrow> engine_time \<Rightarrow> id_gen \<Rightarrow> command_body \<Rightarrow> domain_event list idres" where
  "decide_body E st time ids (CmdPrepareWriterFormat _ _) =
     Err (invalid ''format policy requires ordered Raft apply'')"
| "decide_body E st time ids (CmdActivateWriterFormat _ _) =
     Err (invalid ''format policy requires ordered Raft apply'')"
| "decide_body E st time ids (CmdAuthenticated _ _) =
     Err (invalid ''authenticated cause requires replicated apply'')"
| "decide_body E st time ids (CmdPublication _ _) =
     Err (invalid ''publication requires replicated apply'')"
| "decide_body E st time ids (CmdPruneHistory _) =
     Err (invalid ''retention requires replicated apply'')"
| "decide_body E st time ids (CmdStart run d input _) =
     (if execution_suspended st
      then Err (precondition ''execution suspended until recovery is acknowledged'')
      else Ok (decide_start E run d input time ids))"
| "decide_body E st time ids (CmdReportLeaf run activation output) =
     decide_report E st run activation output time ids"
| "decide_body E st time ids (CmdReportError run activation code message) =
     no_ids ids (decide_report_error st run activation code message)"
| "decide_body E st time ids (CmdResolveBlocked run forward input) =
     no_ids ids (decide_resolve_blocked st run forward input)"
| "decide_body E st time ids (CmdSignal run event_id signal key payload) =
     no_ids ids (decide_signal E st run event_id signal key payload time)"
| "decide_body E st time ids (CmdResolveTimer run wait) = decide_timer E st run wait time ids"
| "decide_body E st time ids (CmdProgress run) = decide_progress E st run time ids"
| "decide_body E st time ids (CmdCancel run reason) = decide_cancel E st run reason ids"
| "decide_body E st time ids (CmdRegisterSession session activities capacity) =
     no_ids ids (decide_register st session activities capacity time)"
| "decide_body E st time ids (CmdRenewLocalSession session) =
     no_ids ids (decide_renew_local_session st session time)"
| "decide_body E st time ids (CmdRegisterWorker session principal_id capabilities capacity pmin pmax) =
     no_ids ids (decide_register_worker st session principal_id capabilities capacity pmin pmax time)"
| "decide_body E st time ids (CmdRenewWorkerSession session revision) =
     no_ids ids (decide_renew_worker_session st session revision time)"
| "decide_body E st time ids (CmdClaim session capacity) =
     (if execution_suspended st then Ok ([], ids)
      else no_ids ids (decide_claim E st session capacity time))"
| "decide_body E st time ids (CmdRenew session activation generation revision) =
     no_ids ids (decide_renew st session activation generation revision time)"
| "decide_body E st time ids (CmdReportAssigned run activation output session generation revision) =
     decide_report_assigned E st run activation output session generation revision time ids"
| "decide_body E st time ids (CmdReportWorker run activation session generation revision digest result) =
     decide_report_worker E st run activation session generation revision digest result time ids"
| "decide_body E st time ids (CmdAcknowledgeRecovery reason) =
     no_ids ids (decide_acknowledge_recovery st reason)"
| "decide_body E st time ids (CmdAbandonCompensation run reason) =
     no_ids ids (decide_abandon_compensation E st run reason)"
| "decide_body E st time ids (CmdReconcile run activation session generation revision outcome output) =
     decide_reconcile E st run activation session generation revision outcome output time ids"
| "decide_body E st time ids (CmdReconcileWorker run activation session generation revision digest result) =
     decide_reconcile_worker E st run activation session generation revision digest result time ids"

definition decide :: "externals \<Rightarrow> state \<Rightarrow> command \<Rightarrow> domain_event list res" where
  "decide E st cmd =
     rbind (verify_command_identity st (cmd_id cmd) None (cmd_id cmd) None) (\<lambda>_.
       case hget (commands st) (cmd_id cmd) of
         Some events \<Rightarrow> Ok events
       | None \<Rightarrow> rmap fst (decide_body E st (cmd_time cmd) (id_gen_new (cmd_id cmd)) (cmd_body cmd)))"

end
