(* ===== verification/Retention.thy ===== *)
theory Retention
  imports History "HOL-Library.Option_ord" "HOL-Library.Product_Lexorder"
begin

text \<open>
  Reading and pruning history (history.rs): the retained range of a run, the validated pages of
  its events, the reconstruction of a run from its events and its checkpoint, the checkpoints
  taken after commands, and the bounded pruning of expired records.
\<close>

definition DAY_MS :: nat where "DAY_MS = 24 * 60 * 60 * 1000"
definition PAGE_LIMIT :: nat where "PAGE_LIMIT = 100"
definition MAX_PAGE_LIMIT :: nat where "MAX_PAGE_LIMIT = 1000"

section \<open>The retained range\<close>

definition history_expired :: "run_state \<Rightarrow> engine_time \<Rightarrow> bool" where
  "history_expired run now \<longleftrightarrow>
     rs_status run \<noteq> RunActive \<and> rs_terminal_ms run \<noteq> 0
     \<and> now \<ge> sat_add64 (rs_terminal_ms run) (sat_mul64 (terminal_history_days (rs_policy run)) DAY_MS)"

definition retained :: "externals \<Rightarrow> state \<Rightarrow> run_id \<Rightarrow> engine_time \<Rightarrow> (run_state \<times> nat) res" where
  "retained E st run now =
     (case hget (runs st) run of
        None \<Rightarrow>
          Err (if hhas (terminal_summaries st) run
               then unavailable ''history range is unavailable; terminal summary retained''
               else error_new NotFound ''unknown run'')
      | Some run_state \<Rightarrow>
          (let through = length (hlist (history st) run) in
           if history_expired run_state now
           then Err (unavailable (''history range 1..='' @ show_nat through @ '' is unavailable''))
           else rbind (ok_or (unavailable ''missing retained history dependencies'')
                         (hget (history_dependencies st) run)) (\<lambda>required.
                rbind (required_verify E required run_state) (\<lambda>_. Ok (run_state, through)))))"

definition run_events :: "state \<Rightarrow> run_id \<Rightarrow> domain_event list" where
  "run_events st run = hlist (history st) run"

definition history_or_unavailable :: "state \<Rightarrow> run_id \<Rightarrow> engine_time \<Rightarrow> domain_event list res" where
  "history_or_unavailable st run now =
     (case hget (runs st) run of
        None \<Rightarrow> Err (error_new NotFound ''unknown run'')
      | Some run_state \<Rightarrow>
          if rs_status run_state = RunActive \<or> rs_terminal_ms run_state = 0 then Ok (run_events st run)
          else if now > sat_add64 (rs_terminal_ms run_state)
                          (sat_mul64 (terminal_history_days (rs_policy run_state)) DAY_MS)
          then Err (unavailable ''history range is unavailable'')
          else Ok (run_events st run))"

text \<open>A \<open>RecordedEvent\<close> is a pair of the record and the event.\<close>

definition check_entry ::
    "externals \<Rightarrow> run_id \<Rightarrow> nat \<Rightarrow> history_entry \<times> domain_event \<Rightarrow> (history_entry \<times> domain_event) res" where
  "check_entry E run sequence entry =
     (case entry of (record, event) \<Rightarrow>
        if he_format record \<noteq> EVENT_FORMAT \<or> he_run record \<noteq> run \<or> he_sequence record \<noteq> sequence
        then Err (unavailable ''unsupported or noncontiguous run event sequence'')
        else rbind (artifact_verify E (he_payload record) ''graphrun.domain-event/v1'' (ser_event E event))
               (\<lambda>_. Ok (record, event)))"

definition validated_entries ::
    "externals \<Rightarrow> state \<Rightarrow> run_id \<Rightarrow> nat \<Rightarrow> nat \<Rightarrow> (history_entry \<times> domain_event) list res" where
  "validated_entries E st run start through =
     rbind (ok_or (unavailable ''missing retained run events'') (hget (history st) run)) (\<lambda>events.
     rbind (ok_or (unavailable ''missing retained event records'') (hget (history_records st) run)) (\<lambda>records.
       if length records \<noteq> length events \<or> events = []
       then Err (unavailable ''incomplete retained event range'')
       else let window = take (sat_add64 (through - start) 1) (drop (start - 1) (zip records events)) in
         rseq (map (\<lambda>(index, entry). check_entry E run (start + index) entry) (enumerate 0 window))))"

record history_page =
  hp_run :: run_id
  hp_retained_from :: nat
  hp_retained_through :: nat
  hp_next_cursor :: "nat option"
  hp_unavailable :: bool
  hp_unavailable_range :: "(nat \<times> nat) option"
  hp_events :: "(history_entry \<times> domain_event) list"

definition page_of_summary :: "run_id \<Rightarrow> terminal_summary \<Rightarrow> history_page" where
  "page_of_summary run summary =
     \<lparr>hp_run = run, hp_retained_from = sat_add64 (ts_history_through summary) 1,
      hp_retained_through = ts_history_through summary, hp_next_cursor = None,
      hp_unavailable = True, hp_unavailable_range = Some (1, ts_history_through summary),
      hp_events = []\<rparr>"

definition page ::
    "externals \<Rightarrow> state \<Rightarrow> run_id \<Rightarrow> nat \<Rightarrow> nat \<Rightarrow> engine_time \<Rightarrow> history_page res" where
  "page E st run after limit0 now =
     (let limit = (if limit0 = 0 then PAGE_LIMIT else limit0) in
      if limit > MAX_PAGE_LIMIT
      then Err (invalid (''history page size must be 0 (default) or 1..='' @ show_nat MAX_PAGE_LIMIT))
      else case hget (terminal_summaries st) run of
        Some summary \<Rightarrow>
          if after > ts_history_through summary then Err (invalid ''history cursor exceeds run sequence'')
          else Ok (page_of_summary run summary)
      | None \<Rightarrow>
          rbind (retained E st run now) (\<lambda>(_, through).
            if after > through then Err (invalid ''history cursor exceeds retained sequence'')
            else let end = min through (sat_add64 after limit) in
              rbind (if after < end then validated_entries E st run (after + 1) end else Ok []) (\<lambda>entries.
                let final = (case rev entries of [] \<Rightarrow> after | (record, _) # _ \<Rightarrow> he_sequence record) in
                Ok \<lparr>hp_run = run, hp_retained_from = 1, hp_retained_through = through,
                    hp_next_cursor = (if final < through then Some final else None),
                    hp_unavailable = False, hp_unavailable_range = None, hp_events = entries\<rparr>)))"

section \<open>Reconstruction\<close>

definition reconstruct_in ::
    "externals \<Rightarrow> string \<Rightarrow> definition_ir \<Rightarrow> catalog \<Rightarrow> domain_event list \<Rightarrow> state res" where
  "reconstruct_in E cluster_id d c events =
     (case events of
        RunAdmitted run _ _ input root policy _ # _ \<Rightarrow>
          apply_events E
            (state_default\<lparr>current_cluster_id := cluster_id,
                artifact_origins := (if cluster_id = [] then {} else {cluster_id}),
                runs := [(run,
                  \<lparr>rs_id = run, rs_definition = d, rs_catalog = c, rs_input = input, rs_policy = policy,
                   rs_status = RunActive, rs_root = root, rs_next_sequence = 1,
                   rs_next_ready_order = 0, rs_admitted_ms = 0, rs_terminal_ms = 0,
                   rs_published = None\<rparr>)]\<rparr>)
            events
      | _ \<Rightarrow> Err (invalid ''history must start with run admission''))"

fun is_terminal_event :: "domain_event \<Rightarrow> bool" where
  "is_terminal_event (RunSucceeded _ _) = True"
| "is_terminal_event (RunFailed _ _) = True"
| "is_terminal_event _ = False"

definition modify_run :: "run_id \<Rightarrow> (run_state \<Rightarrow> run_state) \<Rightarrow> state \<Rightarrow> state res" where
  "modify_run run f st =
     rbind (unwrap_opt (hget (runs st) run)) (\<lambda>_. Ok (st\<lparr>runs := hmod run f (runs st)\<rparr>))"

fun replay :: "run_id \<Rightarrow> state \<Rightarrow> (history_entry \<times> domain_event) list \<Rightarrow> state res" where
  "replay run projection [] = Ok projection"
| "replay run projection ((record, event) # entries) =
     (let cluster = ar_cluster_id (he_payload record) in
      rbind (evolve (projection\<lparr>current_cluster_id := cluster,
                       artifact_origins := insert cluster (artifact_origins projection)\<rparr>) event) (\<lambda>st1.
      rbind (if is_terminal_event event
             then modify_run run (\<lambda>r. r\<lparr>rs_terminal_ms := he_recorded_ms record\<rparr>) st1
             else Ok st1) (\<lambda>st2.
        replay run st2 entries)))"

definition check_checkpoint ::
    "externals \<Rightarrow> run_id \<Rightarrow> run_state \<Rightarrow> nat \<Rightarrow> run_checkpoint \<Rightarrow> unit res" where
  "check_checkpoint E run source available cp =
     (if cp_format cp \<noteq> CHECKPOINT_FORMAT \<or> cp_through_run_sequence cp = 0
         \<or> cp_through_run_sequence cp > available
      then Err (unavailable ''unsupported or out-of-range retained checkpoint'')
      else rbind (required_verify E (cp_required cp) source) (\<lambda>_.
           rbind (artifact_verify E (cp_projection_ref cp) ''graphrun.run-projection/v2''
                    (ser_projection E (cp_through_run_sequence cp) (cp_projection cp))) (\<lambda>_.
             if \<not> hhas (runs (cp_projection cp)) run
             then Err (unavailable ''retained checkpoint has no projected run'') else Ok ())))"

definition replay_base ::
    "externals \<Rightarrow> run_state \<Rightarrow> (history_entry \<times> domain_event) list \<Rightarrow> run_checkpoint option
     \<Rightarrow> (state \<times> nat) res" where
  "replay_base E source entries cp =
     (case cp of
        Some c \<Rightarrow> Ok (cp_projection c, cp_through_run_sequence c)
      | None \<Rightarrow>
          (case entries of
             [] \<Rightarrow> Panic
           | (record, event) # _ \<Rightarrow>
               (case event of
                  RunAdmitted _ _ _ _ _ _ _ \<Rightarrow>
                    rmap (\<lambda>st. (st, 1))
                      (to_unavailable (reconstruct_in E (ar_cluster_id (he_payload record))
                         (rs_definition source) (rs_catalog source) [event]))
                | _ \<Rightarrow> Err (unavailable ''missing run admission event''))))"

definition reconstruct_at ::
    "externals \<Rightarrow> replica \<Rightarrow> run_id \<Rightarrow> nat \<Rightarrow> engine_time \<Rightarrow> state res" where
  "reconstruct_at E rep run through now =
     (let st = rep_state rep in
      rbind (retained E st run now) (\<lambda>(source, available).
        if through = 0 \<or> through > available
        then Err (invalid (''requested sequence '' @ show_nat through @ '' is outside retained range 1..=''
                           @ show_nat available))
        else rbind (validated_entries E st run 1 through) (\<lambda>entries.
             rbind (case hget (checkpoints rep) run of
                      Some cp \<Rightarrow> check_checkpoint E run source available cp
                    | None \<Rightarrow> Ok ()) (\<lambda>_.
             rbind (replay_base E source entries
                      (case hget (checkpoints rep) run of
                         Some cp \<Rightarrow> if cp_through_run_sequence cp \<le> through then Some cp else None
                       | None \<Rightarrow> None)) (\<lambda>(base, first).
             rbind (replay run base (drop first entries)) (\<lambda>projection.
             rbind (modify_run run (\<lambda>r. r\<lparr>rs_published := rs_published source\<rparr>) projection) (\<lambda>projection1.
               Ok (projection1\<lparr>history := hput run (map snd entries) (history projection1),
                               history_records := hput run (map fst entries) (history_records projection1)\<rparr>))))))))"

section \<open>Checkpoints\<close>

definition clear_projection :: "state \<Rightarrow> state" where
  "clear_projection st =
     st\<lparr>history := [], history_records := [], history_dependencies := [], terminal_summaries := [],
        signal_tombstones := [], commands := [], command_actors := [], command_external_ids := [],
        authenticated_request_digests := [], command_results := [], legacy_start_digests := [],
        worker_command_digests := [], command_times := [], published_catalogs := [],
        published_definitions := [], start_keys := [], sessions := []\<rparr>"

definition checkpoint_due :: "replica \<Rightarrow> run_id \<Rightarrow> run_state \<Rightarrow> bool" where
  "checkpoint_due rep run run_state \<longleftrightarrow>
     (let through = length (hlist (history (rep_state rep)) run);
          previous = (case hget (checkpoints rep) run of Some cp \<Rightarrow> cp_through_run_sequence cp | None \<Rightarrow> 0) in
      through \<noteq> 0
      \<and> \<not> (through - previous < checkpoint_event_cadence (rs_policy run_state) \<and> rs_status run_state = RunActive)
      \<and> previous \<noteq> through)"

definition checkpoint_after_command ::
    "externals \<Rightarrow> replica \<Rightarrow> run_id \<Rightarrow> engine_time \<Rightarrow> replica res" where
  "checkpoint_after_command E rep run time =
     (let st = rep_state rep; through = length (hlist (history st) run) in
      case hget (runs st) run of
        None \<Rightarrow> Ok rep
      | Some run_state \<Rightarrow>
          if \<not> checkpoint_due rep run run_state then Ok rep
          else rbind (ok_or (unavailable ''missing retained history dependencies'')
                        (hget (history_dependencies st) run)) (\<lambda>required.
               rbind (reconstruct_at E rep run through time) (\<lambda>projection0.
                 let projection = clear_projection projection0 in
                 rbind (capture_in E (current_cluster_id st) ''graphrun.run-projection/v2''
                          (ser_projection E through projection)) (\<lambda>projection_ref.
                   Ok \<lparr>rep_state = st\<lparr>artifact_origins := insert (current_cluster_id st) (artifact_origins st)\<rparr>,
                       checkpoints = hput run
                         \<lparr>cp_format = CHECKPOINT_FORMAT, cp_through_run_sequence = through,
                          cp_required = required, cp_projection_ref = projection_ref,
                          cp_projection = projection\<rparr> (checkpoints rep)\<rparr>))))"

section \<open>Pruning\<close>

text \<open>\<open>earliest_due\<close> keeps the smallest candidates in a bounded \<open>BinaryHeap\<close>; the heap is the
  ascending list of its elements, so \<open>peek\<close> is the last one.\<close>

fun heap_select :: "nat \<Rightarrow> 'a::linorder list \<Rightarrow> 'a list \<Rightarrow> 'a list" where
  "heap_select limit [] selected = selected"
| "heap_select limit (c # cs) selected =
     (if length selected < limit then heap_select limit cs (insort c selected)
      else if selected \<noteq> [] \<and> c < last selected
      then heap_select limit cs (insort c (butlast selected))
      else heap_select limit cs selected)"

definition earliest_due :: "(nat \<times> 'k::linorder) list \<Rightarrow> nat \<Rightarrow> 'k list" where
  "earliest_due candidates limit =
     (if limit = 0 then [] else map snd (heap_select limit candidates []))"

definition preflight_prune :: "state \<Rightarrow> engine_time \<Rightarrow> unit res" where
  "preflight_prune st time =
     guard_err (list_ex (\<lambda>entry. ib_expires_ms entry \<noteq> 0 \<and> time \<ge> ib_expires_ms entry
                   \<and> \<not> ib_consumed entry \<and> ib_reserved_wait entry = None \<and> ib_run entry = None) (inbox st))
       (precondition ''expiring input event has no run identity'')"

definition hdel_all :: "'k list \<Rightarrow> ('k, 'v) hmap \<Rightarrow> ('k, 'v) hmap" where
  "hdel_all keys m = fold AList.delete keys m"

definition due_results :: "state \<Rightarrow> nat \<Rightarrow> (nat \<times> string) list" where
  "due_results st now =
     filter (\<lambda>(due, _). now \<ge> due)
       (map (\<lambda>(key, receipt). (sat_add64 (cr_recorded_ms receipt) DAY_MS, key)) (command_results st))"

definition due_commands :: "state \<Rightarrow> nat \<Rightarrow> (nat \<times> command_id) list" where
  "due_commands st now =
     filter (\<lambda>(due, _). now \<ge> due)
       (map (\<lambda>(cid, recorded). (sat_add64 recorded DAY_MS, cid)) (command_times st))"

definition forget_commands :: "command_id list \<Rightarrow> state \<Rightarrow> state" where
  "forget_commands keys st =
     st\<lparr>command_times := hdel_all keys (command_times st), commands := hdel_all keys (commands st),
        command_actors := hdel_all keys (command_actors st),
        command_external_ids := hdel_all keys (command_external_ids st),
        authenticated_request_digests := hdel_all keys (authenticated_request_digests st),
        legacy_start_digests := hdel_all keys (legacy_start_digests st),
        worker_command_digests := hdel_all keys (worker_command_digests st)\<rparr>"

definition due_events :: "state \<Rightarrow> nat \<Rightarrow> (nat \<times> run_id option \<times> event_id) list" where
  "due_events st now =
     map (\<lambda>entry. (ib_expires_ms entry, ib_run entry, ib_event_id entry))
       (filter (\<lambda>entry. ib_expires_ms entry \<noteq> 0 \<and> now \<ge> ib_expires_ms entry
                  \<and> (ib_consumed entry \<or> ib_reserved_wait entry = None)) (inbox st))"

text \<open>The active run of an expiring event that nobody consumed: its expiry is an event of the run.\<close>

definition expiring_run :: "state \<Rightarrow> inbox_entry \<Rightarrow> run_id option" where
  "expiring_run st entry =
     (case ib_run entry of
        Some run \<Rightarrow>
          if \<not> ib_consumed entry
             \<and> (case hget (runs st) run of Some r \<Rightarrow> rs_status r = RunActive | None \<Rightarrow> False)
          then Some run else None
      | None \<Rightarrow> None)"

definition drop_event :: "run_id option \<Rightarrow> event_id \<Rightarrow> state \<Rightarrow> state" where
  "drop_event run event_id st =
     st\<lparr>inbox := filter (\<lambda>e. ib_run e \<noteq> run \<or> ib_event_id e \<noteq> event_id) (inbox st)\<rparr>"

definition prune_event ::
    "externals \<Rightarrow> command_id \<Rightarrow> engine_time \<Rightarrow> replica \<Rightarrow> run_id option \<times> event_id
     \<Rightarrow> (replica \<times> domain_event list) res" where
  "prune_event E cmd time rep target =
     (case target of (run_id, event_id) \<Rightarrow>
      let st = rep_state rep in
      rbind (unwrap_opt (find (\<lambda>entry. ib_run entry = run_id \<and> ib_event_id entry = event_id) (inbox st)))
        (\<lambda>entry.
          if \<not> ib_consumed entry \<and> ib_run entry = None
          then Err (precondition ''expiring input event has no run identity'')
          else case expiring_run st entry of
            Some run \<Rightarrow>
              rbind (apply_events_with_cause E (Some cmd) None time st [EventExpired run event_id]) (\<lambda>st1.
              rbind (checkpoint_after_command E (rep\<lparr>rep_state := st1\<rparr>) run time) (\<lambda>rep1.
                Ok (rep1, [EventExpired run event_id])))
          | None \<Rightarrow> Ok (rep\<lparr>rep_state := drop_event run_id event_id st\<rparr>, [])))"

fun prune_events ::
    "externals \<Rightarrow> command_id \<Rightarrow> engine_time \<Rightarrow> replica \<Rightarrow> (run_id option \<times> event_id) list
     \<Rightarrow> (replica \<times> domain_event list) res" where
  "prune_events E cmd time rep [] = Ok (rep, [])"
| "prune_events E cmd time rep (target # targets) =
     rbind (prune_event E cmd time rep target) (\<lambda>(rep1, events).
     rbind (prune_events E cmd time rep1 targets) (\<lambda>(rep2, rest). Ok (rep2, events @ rest)))"

definition due_runs :: "state \<Rightarrow> nat \<Rightarrow> (nat \<times> run_id) list" where
  "due_runs st now =
     map (\<lambda>run. (sat_add64 (rs_terminal_ms run)
                   (sat_mul64 (terminal_history_days (rs_policy run)) DAY_MS), rs_id run))
       (filter (\<lambda>run. history_expired run now) (hvals (runs st)))"

definition summarise :: "state \<Rightarrow> run_id \<Rightarrow> run_state \<Rightarrow> terminal_summary res" where
  "summarise st rid run =
     rbind (case rs_status run of
              RunDone _ \<Rightarrow> Ok ''succeeded'' | RunBroken _ \<Rightarrow> Ok ''failed'' | RunActive \<Rightarrow> Panic) (\<lambda>status.
       Ok \<lparr>ts_run = rid, ts_workflow = def_id (rs_definition run), ts_version = def_version (rs_definition run),
           ts_status = status, ts_terminal_ms = rs_terminal_ms run,
           ts_expires_ms = sat_add64 (rs_terminal_ms run)
                             (sat_mul64 (terminal_summary_days (rs_policy run)) DAY_MS),
           ts_history_through = length (hlist (history st) rid)\<rparr>)"

definition hkeep :: "('v \<Rightarrow> bool) \<Rightarrow> ('k, 'v) hmap \<Rightarrow> ('k, 'v) hmap" where
  "hkeep P m = filter (\<lambda>(k, v). P v) m"

definition remove_run_data :: "run_id \<Rightarrow> state \<Rightarrow> state" where
  "remove_run_data rid st =
     (let removed = map act_id (filter (\<lambda>act. act_run act = rid) (hvals (activations st))) in
      st\<lparr>runs := AList.delete rid (runs st), history := AList.delete rid (history st),
         history_records := AList.delete rid (history_records st),
         history_dependencies := AList.delete rid (history_dependencies st),
         scopes := hkeep (\<lambda>scope. sc_run scope \<noteq> rid) (scopes st),
         activations := hkeep (\<lambda>act. act_run act \<noteq> rid) (activations st),
         loop_carry := hdel_all removed (loop_carry st), foreach_items := hdel_all removed (foreach_items st),
         foreach_done := hdel_all removed (foreach_done st), parallel_done := hdel_all removed (parallel_done st),
         saga_errors := hdel_all removed (saga_errors st), interventions := hdel_all removed (interventions st),
         waits := hkeep (\<lambda>wait. wt_run wait \<noteq> rid) (waits st),
         inbox := filter (\<lambda>entry. ib_run entry \<noteq> Some rid) (inbox st),
         obligations := filter (\<lambda>item. ob_run item \<noteq> rid) (obligations st)\<rparr>)"

fun prune_runs :: "replica \<Rightarrow> run_id list \<Rightarrow> replica res" where
  "prune_runs rep [] = Ok rep"
| "prune_runs rep (rid # rids) =
     (let st = rep_state rep in
      rbind (unwrap_opt (hget (runs st) rid)) (\<lambda>run.
      rbind (summarise st rid run) (\<lambda>summary.
        prune_runs
          \<lparr>rep_state = remove_run_data rid
             (st\<lparr>terminal_summaries := hput rid summary (terminal_summaries st)\<rparr>),
           checkpoints = AList.delete rid (checkpoints rep)\<rparr> rids)))"

definition due_summaries :: "state \<Rightarrow> nat \<Rightarrow> (nat \<times> run_id) list" where
  "due_summaries st now =
     map (\<lambda>summary. (ts_expires_ms summary, ts_run summary))
       (filter (\<lambda>summary. now \<ge> ts_expires_ms summary) (hvals (terminal_summaries st)))"

definition forget_summary :: "run_id \<Rightarrow> state \<Rightarrow> state" where
  "forget_summary rid st =
     st\<lparr>terminal_summaries := AList.delete rid (terminal_summaries st),
        signal_tombstones := hkeep (\<lambda>t. tb_run t \<noteq> rid) (signal_tombstones st),
        start_keys := hmap_vals (hkeep (\<lambda>key. sr_run key \<noteq> rid)) (start_keys st)\<rparr>"

definition prune ::
    "externals \<Rightarrow> replica \<Rightarrow> command_id \<Rightarrow> engine_time \<Rightarrow> nat \<Rightarrow> (replica \<times> domain_event list) res" where
  "prune E rep cmd now limit =
     (let st0 = rep_state rep;
          old_results = earliest_due (due_results st0 now) limit;
          st1 = st0\<lparr>command_results := hdel_all old_results (command_results st0)\<rparr>;
          left1 = limit - length old_results;
          old_commands = earliest_due (due_commands st1 now) left1;
          st2 = forget_commands old_commands st1;
          left2 = left1 - length old_commands;
          expired_inbox = earliest_due (due_events st2 now) left2 in
      rbind (prune_events E cmd now (rep\<lparr>rep_state := st2\<rparr>) expired_inbox) (\<lambda>(rep3, events).
        let left3 = left2 - length expired_inbox;
            expired_runs = earliest_due (due_runs (rep_state rep3) now) left3 in
        rbind (prune_runs rep3 expired_runs) (\<lambda>rep4.
          let left4 = left3 - length expired_runs;
              old_summaries = earliest_due (due_summaries (rep_state rep4) now) left4 in
          Ok (rep4\<lparr>rep_state := fold forget_summary old_summaries (rep_state rep4)\<rparr>, events))))"

end
