(* ===== verification/Apply.thy ===== *)
theory Apply
  imports Decide Retention
begin

text \<open>
  Applying commands (domain.rs): the authenticated cause of a command, the receipts that make a
  retry return what was recorded, and \<open>apply_command\<close>, which raises the time to the watermark,
  decides, applies and records. An error carries no state: storage reloads the last durable
  state when a command fails. The set of runs to checkpoint is the list of their first
  occurrences.
\<close>

section \<open>Causes\<close>

definition validate_identity_segment :: "string \<Rightarrow> unit res" where
  "validate_identity_segment value =
     (if value = [] \<or> \<not> is_ascii_alphanumeric (hd value)
         \<or> \<not> list_all (\<lambda>b. is_ascii_alphanumeric b \<or> b = CHR ''-'' \<or> b = CHR ''_'' \<or> b = CHR ''.'') value
      then Err (invalid ''invalid certificate identity segment'') else Ok ())"

fun causeless :: "command_body \<Rightarrow> bool" where
  "causeless (CmdAuthenticated _ _) = True"
| "causeless (CmdPublication _ _) = True"
| "causeless (CmdPruneHistory _) = True"
| "causeless (CmdProgress _) = True"
| "causeless (CmdResolveTimer _ _) = True"
| "causeless _ = False"

definition into_cause :: "command \<Rightarrow> (command \<times> string option) res" where
  "into_cause cmd =
     (case cmd_body cmd of
        CmdAuthenticated principal_id body \<Rightarrow>
          if \<not> is_ok (validate_identity_segment principal_id) \<or> causeless body
          then Err (invalid ''invalid authenticated command cause'')
          else Ok (cmd\<lparr>cmd_body := body\<rparr>, Some principal_id)
      | _ \<Rightarrow> Ok (cmd, None))"

definition authenticated_command_id :: "externals \<Rightarrow> string \<Rightarrow> command_id \<Rightarrow> command_id res" where
  "authenticated_command_id E actor external_id =
     rbind (validate_identity_segment actor) (\<lambda>_.
       Ok (take 16 (sha256 E (''graphrun.authenticated-command-id/v1'' @ [CHR 0x00]
                              @ le_bytes 8 (length actor) @ actor @ external_id))))"

definition start_json :: "externals \<Rightarrow> definition_ir \<Rightarrow> val \<Rightarrow> catalog \<Rightarrow> json" where
  "start_json E d input c = JArr [ser_definition E d, to_json input, ser_catalog E c]"

definition authenticated_request_digest :: "externals \<Rightarrow> command_body \<Rightarrow> string res" where
  "authenticated_request_digest E body =
     (let (logical, kind) = (case body of
            CmdStart _ d input c \<Rightarrow> (start_json E d input c, ''start'' @ [CHR 0x00])
          | _ \<Rightarrow> (ser_command_body E body, ''body'' @ [CHR 0x00])) in
      rmap (\<lambda>bytes. DIGEST_PREFIX @ hex_encode E (sha256 E
              (''graphrun.authenticated-request/v1'' @ [CHR 0x00] @ kind @ bytes)))
        (canonical_json (json_string E) logical))"

definition prepare_command ::
    "externals \<Rightarrow> state \<Rightarrow> command \<Rightarrow> string option \<Rightarrow> (command \<times> command_id \<times> string option) res" where
  "prepare_command E st cmd actor =
     (let external_id = cmd_id cmd in
      rbind (case actor of
               Some _ \<Rightarrow> rmap Some (authenticated_request_digest E (cmd_body cmd))
             | None \<Rightarrow> Ok None) (\<lambda>digest.
      rbind (case actor of
               Some a \<Rightarrow> rmap (\<lambda>i. cmd\<lparr>cmd_id := i\<rparr>) (authenticated_command_id E a external_id)
             | None \<Rightarrow> Ok cmd) (\<lambda>cmd1.
      rbind (verify_command_identity st (cmd_id cmd1) actor external_id digest) (\<lambda>_.
        Ok (cmd1, external_id, digest)))))"

section \<open>Worker retries\<close>

fun is_worker_command :: "command_body \<Rightarrow> bool" where
  "is_worker_command (CmdRegisterWorker _ _ _ _ _ _) = True"
| "is_worker_command (CmdRenewWorkerSession _ _) = True"
| "is_worker_command (CmdClaim _ _) = True"
| "is_worker_command (CmdRenew _ _ _ _) = True"
| "is_worker_command (CmdReportAssigned _ _ _ _ _ _) = True"
| "is_worker_command (CmdReportWorker _ _ _ _ _ _ _) = True"
| "is_worker_command (CmdReconcile _ _ _ _ _ _ _) = True"
| "is_worker_command (CmdReconcileWorker _ _ _ _ _ _ _) = True"
| "is_worker_command _ = False"

definition worker_request_digest :: "externals \<Rightarrow> command_body \<Rightarrow> string option res" where
  "worker_request_digest E body =
     (if \<not> is_worker_command body then Ok None
      else rmap (\<lambda>bytes. Some (hex_encode E (sha256 E bytes)))
             (canonical_json (json_string E) (ser_command_body E body)))"

definition verify_worker_retry :: "state \<Rightarrow> command_id \<Rightarrow> string option \<Rightarrow> unit res" where
  "verify_worker_retry st cid digest =
     (if hget (worker_command_digests st) cid = digest then Ok ()
      else Err (already_exists ''worker command ID reused with different request''))"

definition authenticated_receipt ::
    "externals \<Rightarrow> state \<Rightarrow> command_id \<Rightarrow> string \<Rightarrow> command_body \<Rightarrow> domain_event list option res" where
  "authenticated_receipt E st external_id actor body =
     rbind (authenticated_command_id E actor external_id) (\<lambda>cid.
     rbind (authenticated_request_digest E body) (\<lambda>digest.
     rbind (verify_command_identity st cid (Some actor) external_id (Some digest)) (\<lambda>_.
     rbind (if hhas (commands st) cid
            then rbind (worker_request_digest E body) (\<lambda>wd. verify_worker_retry st cid wd)
            else Ok ()) (\<lambda>_.
       Ok (hget (commands st) cid)))))"

section \<open>Applying\<close>

definition set_terminal :: "nat \<Rightarrow> state \<Rightarrow> domain_event \<Rightarrow> state" where
  "set_terminal now st event =
     (if is_terminal_event event
      then (case event_run event of
              Some run \<Rightarrow> st\<lparr>runs := hmod run (\<lambda>r. r\<lparr>rs_terminal_ms := now\<rparr>) (runs st)\<rparr>
            | None \<Rightarrow> st)
      else st)"

definition record_receipt ::
    "command_id \<Rightarrow> nat \<Rightarrow> domain_event list \<Rightarrow> string option \<Rightarrow> command_id \<Rightarrow> string option \<Rightarrow> string option
     \<Rightarrow> state \<Rightarrow> state res" where
  "record_receipt cid now events actor external_id digest wdigest st =
     rbind (case actor of Some _ \<Rightarrow> rmap Some (unwrap_opt digest) | None \<Rightarrow> Ok None) (\<lambda>auth_digest.
       Ok (st\<lparr>commands := hput cid events (commands st),
              command_actors := (case actor of Some a \<Rightarrow> hput cid a (command_actors st)
                                 | None \<Rightarrow> command_actors st),
              command_external_ids := (if actor \<noteq> None then hput cid external_id (command_external_ids st)
                                       else command_external_ids st),
              authenticated_request_digests := (case auth_digest of
                  Some d \<Rightarrow> hput cid d (authenticated_request_digests st)
                | None \<Rightarrow> authenticated_request_digests st),
              command_times := hput cid now (command_times st),
              worker_command_digests := (case wdigest of
                  Some d \<Rightarrow> hput cid d (worker_command_digests st)
                | None \<Rightarrow> worker_command_digests st)\<rparr>))"

fun checkpoint_all :: "externals \<Rightarrow> engine_time \<Rightarrow> replica \<Rightarrow> run_id list \<Rightarrow> replica res" where
  "checkpoint_all E time rep [] = Ok rep"
| "checkpoint_all E time rep (run # rest) =
     rbind (checkpoint_after_command E rep run time) (\<lambda>rep1. checkpoint_all E time rep1 rest)"

definition affected_runs :: "state \<Rightarrow> domain_event list \<Rightarrow> run_id list res" where
  "affected_runs st events =
     rmap (\<lambda>owners. remdups (List.map_filter (\<lambda>x. x) owners)) (rseq (map (event_owner st) events))"

definition apply_fresh ::
    "externals \<Rightarrow> replica \<Rightarrow> command \<Rightarrow> string option \<Rightarrow> command_id \<Rightarrow> string option \<Rightarrow> string option
     \<Rightarrow> (domain_event list \<times> replica) res" where
  "apply_fresh E rep cmd0 actor external_id digest wdigest =
     (let now = max (cmd_time cmd0) (engine_time_watermark_ms (rep_state rep));
          cmd = cmd0\<lparr>cmd_time := now\<rparr>;
          st = (rep_state rep)\<lparr>engine_time_watermark_ms := now\<rparr> in
      rbind (decide E st cmd) (\<lambda>events.
      rbind (apply_events_with_cause E (Some external_id) actor now st events) (\<lambda>st1.
      rbind (record_receipt (cmd_id cmd) now events actor external_id digest wdigest
               (foldl (set_terminal now) st1 events)) (\<lambda>st2.
      rbind (affected_runs st2 events) (\<lambda>affected.
      rbind (checkpoint_all E now (rep\<lparr>rep_state := st2\<rparr>) affected) (\<lambda>rep1.
        Ok (events, rep1)))))))"

definition apply_command_with_actor ::
    "externals \<Rightarrow> replica \<Rightarrow> command \<Rightarrow> string option \<Rightarrow> command_id \<Rightarrow> string option
     \<Rightarrow> (domain_event list \<times> replica) res" where
  "apply_command_with_actor E rep cmd actor external_id digest =
     rbind (worker_request_digest E (cmd_body cmd)) (\<lambda>wdigest.
       case hget (commands (rep_state rep)) (cmd_id cmd) of
         Some events \<Rightarrow>
           rbind (verify_worker_retry (rep_state rep) (cmd_id cmd) wdigest) (\<lambda>_. Ok (events, rep))
       | None \<Rightarrow> apply_fresh E rep cmd actor external_id digest wdigest)"

definition apply_command :: "externals \<Rightarrow> replica \<Rightarrow> command \<Rightarrow> (domain_event list \<times> replica) res" where
  "apply_command E rep cmd =
     rbind (into_cause cmd) (\<lambda>(cmd1, actor).
     rbind (prepare_command E (rep_state rep) cmd1 actor) (\<lambda>(cmd2, external_id, digest).
       apply_command_with_actor E rep cmd2 actor external_id digest))"

text \<open>The run a start inserts before it is admitted.\<close>

definition fresh_run :: "run_id \<Rightarrow> definition_ir \<Rightarrow> catalog \<Rightarrow> pinned_publication option \<Rightarrow> run_state" where
  "fresh_run run d c published =
     \<lparr>rs_id = run, rs_definition = d, rs_catalog = c, rs_input = VNull,
      rs_policy = captured_defaults None, rs_status = RunActive, rs_root = replicate 16 (CHR 0x00),
      rs_next_sequence = 1, rs_next_ready_order = 0, rs_admitted_ms = 0, rs_terminal_ms = 0,
      rs_published = published\<rparr>"

definition insert_run :: "run_id \<Rightarrow> run_state \<Rightarrow> state \<Rightarrow> state" where
  "insert_run run run_state st = st\<lparr>runs := hput run run_state (runs st)\<rparr>"

definition start_run ::
    "externals \<Rightarrow> replica \<Rightarrow> command \<Rightarrow> definition_ir \<Rightarrow> catalog \<Rightarrow> (domain_event list \<times> replica) res" where
  "start_run E rep cmd d c =
     (case cmd_body cmd of
        CmdStart run _ _ _ \<Rightarrow>
          rbind (verify_command_identity (rep_state rep) (cmd_id cmd) None (cmd_id cmd) None) (\<lambda>_.
            case hget (commands (rep_state rep)) (cmd_id cmd) of
              Some events \<Rightarrow> Ok (events, rep)
            | None \<Rightarrow>
                (let st = insert_run run (fresh_run run d c None) (rep_state rep) in
                 rbind (decide E st cmd) (\<lambda>events.
                 rbind (apply_events_with_cause E (Some (cmd_id cmd)) None (cmd_time cmd) st events) (\<lambda>st1.
                   let st2 = st1\<lparr>commands := hput (cmd_id cmd) events (commands st1),
                                 command_times := hput (cmd_id cmd) (cmd_time cmd) (command_times st1)\<rparr> in
                   rbind (checkpoint_after_command E (rep\<lparr>rep_state := st2\<rparr>) run (cmd_time cmd)) (\<lambda>rep1.
                     Ok (events, rep1))))))
      | _ \<Rightarrow> Err (invalid ''start_run requires Start''))"

end
