(* ===== verification/Analysis.thy ===== *)
theory Analysis
  imports Ir
begin

text \<open>
  Validation of a normalised definition (compiler.rs): edges and limits, the cycle check by depth
  first search, and the analysis of the references that are available at a node, over every
  region of the tree.
\<close>

definition MAX_CONDITION_OPS :: nat where "MAX_CONDITION_OPS = 256"

record region_ctx =
  rc_input_schema :: schema_ref
  rc_output_schema :: schema_ref
  in_loop :: bool
  in_foreach :: bool
  in_saga :: bool
  in_compensation :: bool

type_synonym nodes = "(string \<times> node) list"

section \<open>Nodes of a region\<close>

definition check_targets :: "nodes \<Rightarrow> string \<Rightarrow> node \<Rightarrow> unit res" where
  "check_targets ns key n =
     rmap (\<lambda>_. ()) (rseq (map (\<lambda>(_, target).
       guard_err (map_of ns target = None)
         (invalid (''node '' @ key @ '' points at missing target '' @ target))) (successors n)))"

definition check_limits :: "node \<Rightarrow> unit res" where
  "check_limits n =
     (case n of
        NWaitSignal _ wait_key _ _ _ _ \<Rightarrow>
          guard_err (binding_depth wait_key > MAX_DATA_DEPTH) (invalid ''binding exceeds maximum depth'')
      | NWhile _ _ cond _ _ _ \<Rightarrow>
          guard_err (operator_count cond > MAX_CONDITION_OPS) (invalid ''condition exceeds operator limit'')
      | NDoWhile _ _ cond _ _ _ \<Rightarrow>
          guard_err (operator_count cond > MAX_CONDITION_OPS) (invalid ''condition exceeds operator limit'')
      | NChoose _ cases _ _ \<Rightarrow>
          guard_err (list_ex (\<lambda>c. operator_count (case_when c) > MAX_CONDITION_OPS) cases)
            (invalid ''condition exceeds operator limit'')
      | _ \<Rightarrow> Ok ())"

definition check_nodes :: "nodes \<Rightarrow> unit res" where
  "check_nodes ns =
     rmap (\<lambda>_. ()) (rseq (map (\<lambda>(key, n). rbind (check_targets ns key n) (\<lambda>_. check_limits n)) ns))"

section \<open>Cycles\<close>

definition targets :: "nodes \<Rightarrow> string \<Rightarrow> string list" where
  "targets ns key = (case map_of ns key of Some n \<Rightarrow> map snd (successors n) | None \<Rightarrow> [])"

definition off_stack :: "nodes \<Rightarrow> string list \<Rightarrow> nat" where
  "off_stack ns on_stack = length (filter (\<lambda>k. k \<notin> set on_stack) (map fst ns))"

lemma filter_length_less:
  assumes "x \<in> set xs" and "P x" and "\<not> Q x" and "\<And>y. Q y \<Longrightarrow> P y"
  shows "length (filter Q xs) < length (filter P xs)"
  using assms(1)
proof (induction xs)
  case (Cons y ys)
  have "length (filter Q zs) \<le> length (filter P zs)" for zs
    using assms(4) by (induction zs) (auto intro: le_SucI)
  with Cons assms(2-4) show ?case by (auto simp: less_Suc_eq_le)
qed simp

lemma off_stack_push:
  "k \<in> set (map fst ns) \<Longrightarrow> k \<notin> set os \<Longrightarrow> off_stack ns (k # os) < off_stack ns os"
  unfolding off_stack_def by (rule filter_length_less [of k]) auto

function visit :: "nodes \<Rightarrow> string list \<Rightarrow> string list \<Rightarrow> string \<Rightarrow> string list res"
and visit_all :: "nodes \<Rightarrow> string list \<Rightarrow> string list \<Rightarrow> string list \<Rightarrow> string list res" where
  "visit ns on_stack seen key =
     (if key \<in> set on_stack then Err (invalid (''cycle through node '' @ key))
      else if key \<in> set seen then Ok seen
      else visit_all ns (key # on_stack) (key # seen) (targets ns key))"
| "visit_all ns on_stack seen [] = Ok seen"
| "visit_all ns on_stack seen (target # ts) =
     rbind (visit ns on_stack seen target) (\<lambda>seen1. visit_all ns on_stack seen1 ts)"
  by pat_completeness auto
termination
proof (relation "measures [\<lambda>x. case x of Inl (ns, os, seen, key) \<Rightarrow> off_stack ns os
                                    | Inr (ns, os, seen, ts) \<Rightarrow> off_stack ns os,
                           \<lambda>x. case x of Inl _ \<Rightarrow> 1 | Inr (ns, os, seen, ts) \<Rightarrow> 2 * length ts]",
    goal_cases)
  case (2 ns on_stack seen key)
  show ?case
  proof (cases "key \<in> set (map fst ns)")
    case True
    with 2 off_stack_push show ?thesis by simp
  next
    case False
    then have "map_of ns key = None"
      by (simp add: map_of_eq_None_iff)
    then have "targets ns key = []"
      by (simp add: targets_def)
    moreover have "off_stack ns (key # on_stack) \<le> off_stack ns on_stack"
      unfolding off_stack_def by (induction ns) auto
    ultimately show ?thesis by auto
  qed
qed auto

declare visit.simps [simp del]

definition detect_cycle :: "nodes \<Rightarrow> string \<Rightarrow> unit res" where
  "detect_cycle ns start = rmap (\<lambda>_. ()) (visit ns [] [] start)"

section \<open>Availability of references\<close>

definition success_output :: "string \<Rightarrow> node \<Rightarrow> reference option" where
  "success_output key n =
     (case n of
        NFail _ \<Rightarrow> None | NDelay _ _ \<Rightarrow> None | NWaitUntil _ _ \<Rightarrow> None | NComplete _ \<Rightarrow> None
      | _ \<Rightarrow> Some (NodeOutput key))"

fun node_bindings :: "node \<Rightarrow> binding list" where
  "node_bindings (NActivity _ input _ _ cmp _) =
     input # (case cmp of Some (CompActivity _ cinput _ _) \<Rightarrow> [cinput] | _ \<Rightarrow> [])"
| "node_bindings (NChoose input cases _ _) = input # concat (map (\<lambda>c. condition_bindings (case_when c)) cases)"
| "node_bindings (NDelay dur _) = [dur]"
| "node_bindings (NWaitUntil at _) = [at]"
| "node_bindings (NWaitSignal _ key _ _ _ _) = [key]"
| "node_bindings (NComplete output) = [output]"
| "node_bindings (NWhile sb _ cond _ _ _) = sb # condition_bindings cond"
| "node_bindings (NDoWhile sb _ cond _ _ _) = sb # condition_bindings cond"
| "node_bindings (NRepeat cnt sb _ _ _ _) = [cnt, sb]"
| "node_bindings (NForeach items _ _ _ _ _) = [items]"
| "node_bindings (NParallel branches _) = map branch_input branches"
| "node_bindings (NSaga input _ _) = [input]"
| "node_bindings (NFail _) = []"

fun loop_node :: "node \<Rightarrow> bool" where
  "loop_node (NWhile _ _ _ _ _ _) = True"
| "loop_node (NDoWhile _ _ _ _ _ _) = True"
| "loop_node (NRepeat _ _ _ _ _ _) = True"
| "loop_node _ = False"

fun foreach_node :: "node \<Rightarrow> bool" where
  "foreach_node (NForeach _ _ _ _ _ _) = True"
| "foreach_node _ = False"

fun compensated_node :: "node \<Rightarrow> bool" where
  "compensated_node (NActivity _ _ _ _ (Some _) _) = True"
| "compensated_node _ = False"

fun check_reference :: "node \<Rightarrow> reference set \<Rightarrow> region_ctx \<Rightarrow> reference \<Rightarrow> unit res" where
  "check_reference n available ctx LoopState =
     guard_err (\<not> in_loop ctx \<and> \<not> loop_node n) (invalid ''loop context reference used outside a loop'')"
| "check_reference n available ctx LoopIndex =
     guard_err (\<not> in_loop ctx \<and> \<not> loop_node n) (invalid ''loop context reference used outside a loop'')"
| "check_reference n available ctx ItemValue =
     guard_err (\<not> in_foreach ctx \<and> \<not> foreach_node n) (invalid ''item context reference used outside foreach'')"
| "check_reference n available ctx ItemIndex =
     guard_err (\<not> in_foreach ctx \<and> \<not> foreach_node n) (invalid ''item context reference used outside foreach'')"
| "check_reference n available ctx ForwardInput =
     guard_err (\<not> in_compensation ctx \<and> \<not> compensated_node n)
       (invalid ''forward context reference used outside compensation'')"
| "check_reference n available ctx ForwardOutput =
     guard_err (\<not> in_compensation ctx \<and> \<not> compensated_node n)
       (invalid ''forward context reference used outside compensation'')"
| "check_reference n available ctx (NodeOutput key) =
     guard_err (NodeOutput key \<notin> available)
       (invalid (''reference '' @ reference_as_stable (NodeOutput key)
                 @ '' is not available on every incoming path''))"
| "check_reference n available ctx _ = Ok ()"

definition check_bindings :: "node \<Rightarrow> reference set \<Rightarrow> region_ctx \<Rightarrow> unit res" where
  "check_bindings n available ctx =
     rmap (\<lambda>_. ()) (rseq (map (\<lambda>b.
       if binding_depth b > MAX_DATA_DEPTH then Err (invalid ''binding exceeds maximum depth'')
       else rmap (\<lambda>_. ()) (rseq (map (check_reference n available ctx) (references b))))
       (node_bindings n)))"

definition base_references :: "region_ctx \<Rightarrow> reference set" where
  "base_references ctx =
     {WorkflowInput, ScopeInput, ScopeIdRef}
     \<union> (if in_loop ctx then {LoopState, LoopIndex} else {})
     \<union> (if in_foreach ctx then {ItemValue, ItemIndex} else {})
     \<union> (if in_compensation ctx then {ForwardInput, ForwardOutput} else {})"

text \<open>What one node passes along its edges: each target's set is intersected with it, and the
  target is pushed.\<close>

type_synonym avail = "(string, reference set) hmap"

definition edge_available :: "string \<Rightarrow> node \<Rightarrow> reference set \<Rightarrow> string \<Rightarrow> reference set" where
  "edge_available key n here edge =
     (if edge \<noteq> ''on_timeout''
      then (case success_output key n of Some r \<Rightarrow> insert r here | None \<Rightarrow> here)
      else here)"

fun flow_edges ::
    "string \<Rightarrow> node \<Rightarrow> reference set \<Rightarrow> (string \<times> node_key) list \<Rightarrow> avail \<Rightarrow> string list \<Rightarrow> avail \<times> string list" where
  "flow_edges key n base [] at_node pending = (at_node, pending)"
| "flow_edges key n base ((edge, target) # es) at_node pending =
     (let here = (case hget at_node key of Some s \<Rightarrow> s | None \<Rightarrow> base);
          next_avail = edge_available key n here edge;
          entry = (case hget at_node target of Some s \<Rightarrow> s | None \<Rightarrow> next_avail) in
      flow_edges key n base es (hput target (entry \<inter> next_avail) at_node) (target # pending))"

definition unseen :: "nodes \<Rightarrow> string list \<Rightarrow> nat" where
  "unseen ns seen = length (filter (\<lambda>k. k \<notin> set seen) (map fst ns))"

text \<open>The worklist is a stack; the head of \<open>pending\<close> is its top.\<close>

function flow ::
    "nodes \<Rightarrow> region_ctx \<Rightarrow> reference set \<Rightarrow> string list \<Rightarrow> avail \<Rightarrow> string list \<Rightarrow> string list res" where
  "flow ns ctx base seen at_node [] = Ok seen"
| "flow ns ctx base seen at_node (key # pending) =
     (if key \<in> set seen then flow ns ctx base seen at_node pending
      else case map_of ns key of
        None \<Rightarrow> Panic
      | Some n \<Rightarrow>
          rbind (check_bindings n (case hget at_node key of Some s \<Rightarrow> s | None \<Rightarrow> base) ctx) (\<lambda>_.
            (case flow_edges key n base (successors n) at_node pending of
               (at_node1, pending1) \<Rightarrow> flow ns ctx base (key # seen) at_node1 pending1)))"
  by pat_completeness auto
termination
proof (relation "measures [\<lambda>(ns, ctx, base, seen, at_node, pending). unseen ns seen,
                           \<lambda>(ns, ctx, base, seen, at_node, pending). length pending]", goal_cases)
  case (3 ns ctx base seen at_node key pending n u at_node1 pending1)
  have "unseen ns (key # seen) < unseen ns seen"
    unfolding unseen_def
  proof (rule filter_length_less [of key])
    show "key \<in> set (map fst ns)"
      using 3(2) by (force dest: map_of_SomeD)
  qed (use 3(1) in auto)
  then show ?case by simp
qed auto

definition analyze_region :: "region \<Rightarrow> region_ctx \<Rightarrow> unit res" where
  "analyze_region region ctx =
     (let ns = region_nodes region; start = region_start region; base = base_references ctx in
      rbind (check_nodes ns) (\<lambda>_.
      rbind (detect_cycle ns start) (\<lambda>_.
      rbind (flow ns ctx base [] [(start, base)] [start]) (\<lambda>seen.
        if length seen \<noteq> length ns then Err (invalid ''region contains unreachable nodes'')
        else Ok ()))))"

section \<open>The tree\<close>

definition child_ctx :: "region_ctx \<Rightarrow> region \<Rightarrow> region_ctx" where
  "child_ctx ctx body =
     ctx\<lparr>rc_input_schema := region_input_schema body, rc_output_schema := region_output_schema body\<rparr>"

fun analyze_tree :: "region \<Rightarrow> region_ctx \<Rightarrow> unit res"
and analyze_node :: "node \<Rightarrow> region_ctx \<Rightarrow> unit res"
and analyze_case :: "choose_case \<Rightarrow> region_ctx \<Rightarrow> unit res"
and analyze_branch :: "parallel_branch \<Rightarrow> region_ctx \<Rightarrow> unit res" where
  "analyze_tree (Region path inp out start ns) ctx =
     rbind (analyze_region (Region path inp out start ns) ctx) (\<lambda>_.
       rmap (\<lambda>_. ()) (rseq (map (\<lambda>(k, n). analyze_node n ctx) ns)))"
| "analyze_node (NWhile _ _ _ _ body _) ctx = analyze_tree body (child_ctx (ctx\<lparr>in_loop := True\<rparr>) body)"
| "analyze_node (NDoWhile _ _ _ _ body _) ctx = analyze_tree body (child_ctx (ctx\<lparr>in_loop := True\<rparr>) body)"
| "analyze_node (NRepeat _ _ _ _ body _) ctx = analyze_tree body (child_ctx (ctx\<lparr>in_loop := True\<rparr>) body)"
| "analyze_node (NForeach _ _ _ _ body _) ctx = analyze_tree body (child_ctx (ctx\<lparr>in_foreach := True\<rparr>) body)"
| "analyze_node (NSaga _ body _) ctx = analyze_tree body (child_ctx (ctx\<lparr>in_saga := True\<rparr>) body)"
| "analyze_node (NParallel branches _) ctx =
     rmap (\<lambda>_. ()) (rseq (map (\<lambda>b. analyze_branch b ctx) branches))"
| "analyze_node (NChoose _ cases dflt _) ctx =
     rbind (rseq (map (\<lambda>c. analyze_case c ctx) cases)) (\<lambda>_. analyze_tree dflt (child_ctx ctx dflt))"
| "analyze_node (NActivity _ _ _ _ _ _) ctx = Ok ()"
| "analyze_node (NDelay _ _) ctx = Ok ()"
| "analyze_node (NWaitUntil _ _) ctx = Ok ()"
| "analyze_node (NWaitSignal _ _ _ _ _ _) ctx = Ok ()"
| "analyze_node (NComplete _) ctx = Ok ()"
| "analyze_node (NFail _) ctx = Ok ()"
| "analyze_case (ChooseCase _ _ body) ctx = analyze_tree body (child_ctx ctx body)"
| "analyze_branch (ParallelBranch _ _ body) ctx = analyze_tree body (child_ctx ctx body)"

definition validate_definition :: "definition_ir \<Rightarrow> unit res" where
  "validate_definition d =
     analyze_tree (def_root d)
       \<lparr>rc_input_schema = def_input_schema d, rc_output_schema = def_output_schema d, in_loop = False,
        in_foreach = False, in_saga = False, in_compensation = False\<rparr>"

end
