(* ===== verification/Publication.thy ===== *)
theory Publication
  imports Apply Analysis
begin

text \<open>
  Publication and keyed admission (publication.rs): publishing catalogs and definitions, starting
  a published workflow under a start key, and the receipt that makes a retried publication
  command return its first outcome. \<open>publication_apply\<close> is \<open>apply\<close>, \<open>apply_replicated\<close> the
  variant storage calls.
\<close>

definition RESULT_FORMAT :: string where "RESULT_FORMAT = ''graphrun.command-result/v1''"
definition CATALOG_FORMAT :: string where "CATALOG_FORMAT = ''graphrun.catalog-publication/v1''"
definition DEFINITION_FORMAT :: string where "DEFINITION_FORMAT = ''graphrun.definition-publication/v1''"
definition MAX_SCHEMA_BYTES :: nat where "MAX_SCHEMA_BYTES = 256 * 1024"

section \<open>Keys and authorisation\<close>

definition storage_key :: "externals \<Rightarrow> command_key \<Rightarrow> string" where
  "storage_key E key =
     hex_encode E (ck_cluster_id key) @ '':'' @ hex_encode E (ck_principal_id key) @ '':''
     @ hex_encode E (ck_command_id key)"

definition published_start_ids :: "externals \<Rightarrow> command_key \<Rightarrow> run_id \<times> command_id \<times> command_id" where
  "published_start_ids E key =
     (let hash = sha256 E (ck_cluster_id key @ [CHR 0x00] @ ck_principal_id key @ [CHR 0x00]
                           @ ck_command_id key);
          progress_hash = sha256 E (''graphrun-start-progress/v1'' @ [CHR 0x00] @ hash) in
      (take 16 hash, take 16 (drop 16 hash), take 16 progress_hash))"

record auth_context =
  ax_cluster_id :: string
  ax_principal_id :: string
  ax_admin :: bool

fun is_pub_start :: "publication_operation \<Rightarrow> bool" where
  "is_pub_start (PubStart _ _ _ _) = True"
| "is_pub_start _ = False"

definition authorize :: "auth_context \<Rightarrow> publication_operation \<Rightarrow> unit res" where
  "authorize auth op =
     (if ax_cluster_id auth = [] \<or> ax_principal_id auth = []
      then Err (error_new Unauthenticated ''missing authenticated identity'')
      else if \<not> ax_admin auth \<and> \<not> is_pub_start op
      then Err (error_new PermissionDenied ''admin role required to publish'')
      else Ok ())"

definition auth_key :: "auth_context \<Rightarrow> command_id \<Rightarrow> command_key" where
  "auth_key auth cid =
     \<lparr>ck_cluster_id = ax_cluster_id auth, ck_principal_id = ax_principal_id auth, ck_command_id = cid\<rparr>"

definition publication_command ::
    "auth_context \<Rightarrow> command_id \<Rightarrow> engine_time \<Rightarrow> publication_operation \<Rightarrow> command res" where
  "publication_command auth cid time op =
     (if cid = replicate 16 (CHR 0x00) then Err (invalid ''command ID must be nonempty'')
      else rbind (authorize auth op) (\<lambda>_.
        Ok \<lparr>cmd_id = cid, cmd_body = CmdPublication (auth_key auth cid) op, cmd_time = time\<rparr>))"

fun op_target :: "publication_operation \<Rightarrow> string" where
  "op_target (PubCatalog version _) = ''catalog/v'' @ show_nat version"
| "op_target (PubDefinition d _) = def_id d @ ''/v'' @ show_nat (def_version d)"
| "op_target (PubStart workflow _ start_key _) = workflow @ ''/'' @ start_key"

fun op_name :: "publication_operation \<Rightarrow> string" where
  "op_name (PubCatalog _ _) = ''publish_catalog''"
| "op_name (PubDefinition _ _) = ''publish_definition''"
| "op_name (PubStart _ _ _ _) = ''start''"

section \<open>Receipts\<close>

definition error_kind_of :: "string \<Rightarrow> error_kind" where
  "error_kind_of code =
     (if code = ''already_exists'' then AlreadyExists
      else if code = ''not_found'' then NotFound
      else if code = ''failed_precondition'' then FailedPrecondition
      else if code = ''resource_exhausted'' then ResourceExhausted
      else InvalidArgument)"

fun error_code_of :: "error_kind \<Rightarrow> string" where
  "error_code_of AlreadyExists = ''already_exists''"
| "error_code_of NotFound = ''not_found''"
| "error_code_of FailedPrecondition = ''failed_precondition''"
| "error_code_of ResourceExhausted = ''resource_exhausted''"
| "error_code_of _ = ''invalid_argument''"

definition ensure_format :: "command_result \<Rightarrow> unit res" where
  "ensure_format r =
     (if cr_format r = RESULT_FORMAT then Ok ()
      else Err (precondition ''unsupported committed command-result format''))"

definition ensure_applied :: "command_result \<Rightarrow> unit res" where
  "ensure_applied r =
     rbind (ensure_format r) (\<lambda>_.
       case cr_outcome r of
         DispApplied _ _ _ \<Rightarrow> Ok ()
       | DispRejected code details \<Rightarrow> Err (error_new (error_kind_of code) details))"

definition applied_run :: "command_result \<Rightarrow> run_id res" where
  "applied_run r =
     rbind (ensure_format r) (\<lambda>_.
       case cr_outcome r of
         DispApplied (Some run) _ _ \<Rightarrow> Ok run
       | DispRejected code details \<Rightarrow> Err (error_new (error_kind_of code) details)
       | _ \<Rightarrow> Err (precondition ''command did not start a run''))"

section \<open>Catalogs and definitions\<close>

definition catalog_verify :: "externals \<Rightarrow> published_catalog \<Rightarrow> unit res" where
  "catalog_verify E p =
     (if pc_format p \<noteq> CATALOG_FORMAT then Err (precondition ''retained catalog unavailable or corrupt'')
      else rbind (publication_digest E (ser_catalog E (pc_catalog p)) PUBLIC_COMMAND_ENVELOPE) (\<lambda>d.
        if pc_digest p \<noteq> d then Err (precondition ''retained catalog unavailable or corrupt'') else Ok ()))"

definition definition_verify :: "externals \<Rightarrow> published_definition \<Rightarrow> unit res" where
  "definition_verify E p =
     (let corrupt = Err (precondition ''retained definition unavailable or corrupt'') in
      if pd_format p \<noteq> DEFINITION_FORMAT \<or> pd_normalized_format_version p \<noteq> FORMAT_VERSION
         \<or> def_format_version (pd_definition p) \<noteq> pd_normalized_format_version p
         \<or> def_digest (pd_definition p) \<noteq> pd_digest p then corrupt
      else rbind (digest_of E (pd_definition p)) (\<lambda>d. if d \<noteq> pd_digest p then corrupt else Ok ()))"

definition conflicts :: "('k, 'v) bmap \<Rightarrow> ('k, 'v) bmap \<Rightarrow> 'k list" where
  "conflicts prior new =
     map fst (filter (\<lambda>(k, v). case map_of prior k of Some old \<Rightarrow> old \<noteq> v | None \<Rightarrow> False) new)"

definition check_prior :: "catalog \<Rightarrow> catalog \<Rightarrow> unit res" where
  "check_prior new prior =
     (case conflicts (cat_schemas prior) (cat_schemas new) of
        k # _ \<Rightarrow> Err (already_exists (''schema '' @ schema_key_stable_name k
                       @ '' was already published with different content''))
      | [] \<Rightarrow>
          (case conflicts (cat_activities prior) (cat_activities new) of
             k # _ \<Rightarrow> Err (already_exists (''activity '' @ activity_key_stable_name k
                            @ '' was already published with different content''))
           | [] \<Rightarrow>
               (case conflicts (cat_reconcilers prior) (cat_reconcilers new) of
                  k # _ \<Rightarrow> Err (already_exists (''reconciler '' @ activity_key_stable_name k
                                 @ '' was already published with different content''))
                | [] \<Rightarrow> Ok ())))"

type_synonym op_result = "(disposition \<times> event_range option) \<times> replica"

definition publish_catalog :: "externals \<Rightarrow> replica \<Rightarrow> nat \<Rightarrow> catalog \<Rightarrow> op_result res" where
  "publish_catalog E rep version c =
     (let st = rep_state rep in
      if version = 0 then Err (invalid ''catalog version must be positive'')
      else rbind (validate_for_publication c) (\<lambda>_.
           rbind (rseq (map (\<lambda>(k, s). canonical_bytes E s (Some MAX_SCHEMA_BYTES)) (cat_schemas c))) (\<lambda>_.
           rbind (publication_digest E (ser_catalog E c) PUBLIC_COMMAND_ENVELOPE) (\<lambda>digest.
             let applied = (DispApplied None (Some digest) (Some version), None) in
             case map_of (published_catalogs st) version of
               Some existing \<Rightarrow>
                 if pc_format existing \<noteq> CATALOG_FORMAT \<or> pc_digest existing \<noteq> digest
                    \<or> pc_catalog existing \<noteq> c
                 then Err (already_exists ''catalog version has different content'')
                 else Ok (applied, rep)
             | None \<Rightarrow>
                 rbind (rseq (map (\<lambda>(v, prior). check_prior c (pc_catalog prior)) (published_catalogs st))) (\<lambda>_.
                   Ok (applied, rep\<lparr>rep_state := st\<lparr>published_catalogs := bput version
                          \<lparr>pc_format = CATALOG_FORMAT, pc_digest = digest, pc_catalog = c\<rparr>
                          (published_catalogs st)\<rparr>\<rparr>))))))"

definition published_version :: "state \<Rightarrow> string \<Rightarrow> nat \<Rightarrow> published_definition option" where
  "published_version st name version =
     (case map_of (published_definitions st) name of Some e \<Rightarrow> map_of e version | None \<Rightarrow> None)"

definition put_definition :: "published_definition \<Rightarrow> state \<Rightarrow> state" where
  "put_definition p st =
     (let name = def_id (pd_definition p) in
      st\<lparr>published_definitions := bput name
           (bput (def_version (pd_definition p)) p
              (case map_of (published_definitions st) name of Some e \<Rightarrow> e | None \<Rightarrow> []))
           (published_definitions st)\<rparr>)"

definition publish_definition :: "externals \<Rightarrow> replica \<Rightarrow> definition_ir \<Rightarrow> nat \<Rightarrow> op_result res" where
  "publish_definition E rep d catalog_version =
     (let st = rep_state rep in
      rbind (ok_or (error_new NotFound ''published catalog version not found'')
               (map_of (published_catalogs st) catalog_version)) (\<lambda>catalog.
      rbind (catalog_verify E catalog) (\<lambda>_.
        if def_version d = 0 \<or> \<not> valid_ascii_name (def_id d)
        then Err (invalid ''invalid workflow name or version'')
        else if def_format_version d \<noteq> FORMAT_VERSION
        then Err (precondition ''invalid normalized definition format or digest'')
        else rbind (digest_of E d) (\<lambda>digest.
          if def_digest d \<noteq> digest
          then Err (precondition ''invalid normalized definition format or digest'')
          else rbind (validate_definition d) (\<lambda>_.
            let applied = (DispApplied None (Some (def_digest d)) (Some (def_version d)), None) in
            case published_version st (def_id d) (def_version d) of
              Some existing \<Rightarrow>
                if pd_format existing \<noteq> DEFINITION_FORMAT \<or> pd_digest existing \<noteq> def_digest d
                   \<or> pd_catalog_version existing \<noteq> catalog_version \<or> pd_definition existing \<noteq> d
                then Err (already_exists ''workflow version has different content or catalog'')
                else Ok (applied, rep)
            | None \<Rightarrow>
                Ok (applied, rep\<lparr>rep_state := put_definition
                      \<lparr>pd_format = DEFINITION_FORMAT, pd_normalized_format_version = def_format_version d,
                       pd_digest = def_digest d, pd_catalog_version = catalog_version,
                       pd_definition = d\<rparr> st\<rparr>))))))"

lemma publish_catalog_Ok:
  assumes "publish_catalog E rep version c = Ok (res, rep')"
  obtains (same) p where "map_of (published_catalogs (rep_state rep)) version = Some p"
    and "pc_catalog p = c" and "rep' = rep"
  | (new) p where "map_of (published_catalogs (rep_state rep)) version = None" and "pc_catalog p = c"
    and "catalog_verify E p = Ok ()" and "validate_for_publication c = Ok ()" and "version \<noteq> 0"
    and "\<And>v q. (v, q) \<in> set (published_catalogs (rep_state rep)) \<Longrightarrow> check_prior c (pc_catalog q) = Ok ()"
    and "rep' = rep\<lparr>rep_state := (rep_state rep)\<lparr>published_catalogs :=
           bput version p (published_catalogs (rep_state rep))\<rparr>\<rparr>"
proof (cases "map_of (published_catalogs (rep_state rep)) version")
  case (Some p)
  with assms show ?thesis
    by (auto simp: publish_catalog_def Let_def res_simps split: if_splits intro: same)
next
  case None
  with assms obtain digest us where digest: "publication_digest E (ser_catalog E c) PUBLIC_COMMAND_ENVELOPE = Ok digest"
    and prior: "rseq (map (\<lambda>(v, prior). check_prior c (pc_catalog prior)) (published_catalogs (rep_state rep))) = Ok us"
    and rep': "version \<noteq> 0" "validate_for_publication c = Ok ()" "rep' = rep\<lparr>rep_state := (rep_state rep)\<lparr>published_catalogs := bput version
       \<lparr>pc_format = CATALOG_FORMAT, pc_digest = digest, pc_catalog = c\<rparr> (published_catalogs (rep_state rep))\<rparr>\<rparr>"
    by (auto simp: publish_catalog_def Let_def res_simps split: if_splits)
  have "check_prior c (pc_catalog q) = Ok ()" if "(v, q) \<in> set (published_catalogs (rep_state rep))" for v q
    using that prior by (auto simp: in_set_conv_nth dest: rseq_nth)
  with None digest rep' show ?thesis by (auto intro!: new simp: catalog_verify_def)
qed

lemma publish_definition_Ok:
  assumes "publish_definition E rep d catalog_version = Ok (res, rep')"
  obtains (same) p where "published_version (rep_state rep) (def_id d) (def_version d) = Some p"
    and "pd_definition p = d" and "rep' = rep"
  | (new) p where "published_version (rep_state rep) (def_id d) (def_version d) = None"
    and "pd_definition p = d" and "definition_verify E p = Ok ()" and "validate_definition d = Ok ()"
    and "map_of (published_catalogs (rep_state rep)) (pd_catalog_version p) \<noteq> None"
    and "rep' = rep\<lparr>rep_state := put_definition p (rep_state rep)\<rparr>"
proof (cases "published_version (rep_state rep) (def_id d) (def_version d)")
  case (Some p)
  with assms show ?thesis
    by (auto simp: publish_definition_def Let_def res_simps split: if_splits intro: same)
next
  case None
  let ?p = "\<lparr>pd_format = DEFINITION_FORMAT, pd_normalized_format_version = def_format_version d,
             pd_digest = def_digest d, pd_catalog_version = catalog_version, pd_definition = d\<rparr>"
  from None assms have "definition_verify E ?p = Ok ()" and "validate_definition d = Ok ()"
    and "map_of (published_catalogs (rep_state rep)) (pd_catalog_version ?p) \<noteq> None"
    and "rep' = rep\<lparr>rep_state := put_definition ?p (rep_state rep)\<rparr>"
    by (auto simp: publish_definition_def definition_verify_def Let_def res_simps split: if_splits)
  with None show ?thesis by (intro new [of ?p]) simp_all
qed

section \<open>Keyed starts\<close>

definition start_key_of :: "state \<Rightarrow> string \<Rightarrow> string \<Rightarrow> start_key_record option" where
  "start_key_of st workflow start_key =
     (case map_of (start_keys st) workflow of Some keys \<Rightarrow> map_of keys start_key | None \<Rightarrow> None)"

definition put_start_key :: "string \<Rightarrow> string \<Rightarrow> start_key_record \<Rightarrow> state \<Rightarrow> state" where
  "put_start_key workflow start_key record st =
     st\<lparr>start_keys := bput workflow
          (bput start_key record
             (case map_of (start_keys st) workflow of Some keys \<Rightarrow> keys | None \<Rightarrow> []))
          (start_keys st)\<rparr>"

definition pinned_version ::
    "state \<Rightarrow> string \<Rightarrow> nat option \<Rightarrow> published_definition res" where
  "pinned_version st workflow version =
     rbind (ok_or (error_new NotFound ''workflow not published'')
              (map_of (published_definitions st) workflow)) (\<lambda>versions.
       ok_or (error_new NotFound ''workflow version not published'')
         (case version of
            Some v \<Rightarrow> map_of versions v
          | None \<Rightarrow> (case rev versions of [] \<Rightarrow> None | (_, d) # _ \<Rightarrow> Some d)))"

text \<open>Admission and the first progress of a new run.\<close>

definition admit_run ::
    "externals \<Rightarrow> replica \<Rightarrow> command \<Rightarrow> command_key \<Rightarrow> run_id \<Rightarrow> command_id \<Rightarrow> command_id
     \<Rightarrow> published_definition \<Rightarrow> published_catalog \<Rightarrow> val \<Rightarrow> replica res" where
  "admit_run E rep cmd key run start_id progress_id pinned catalog input =
     (let identity = \<lparr>pp_definition_format_version = pd_normalized_format_version pinned,
                      pp_definition_digest = pd_digest pinned,
                      pp_catalog_version = pd_catalog_version pinned,
                      pp_catalog_digest = pc_digest catalog,
                      pp_policy_format = ''graphrun.run-policy/v1''\<rparr>;
          st = insert_run run (fresh_run run (pd_definition pinned) (pc_catalog catalog) (Some identity))
                 (rep_state rep) in
      rbind (decide E st \<lparr>cmd_id = start_id,
                          cmd_body = CmdStart run (pd_definition pinned) input (pc_catalog catalog),
                          cmd_time = cmd_time cmd\<rparr>) (\<lambda>events.
      rbind (apply_events_with_cause E (Some (cmd_id cmd)) (Some (ck_principal_id key)) (cmd_time cmd) st
               events) (\<lambda>st1.
      rmap snd (apply_command E (rep\<lparr>rep_state := st1\<rparr>)
                  \<lparr>cmd_id = progress_id, cmd_body = CmdProgress run, cmd_time = cmd_time cmd\<rparr>))))"

definition start_new ::
    "externals \<Rightarrow> replica \<Rightarrow> command \<Rightarrow> command_key \<Rightarrow> string \<Rightarrow> nat option \<Rightarrow> string \<Rightarrow> val \<Rightarrow> string
     \<Rightarrow> op_result res" where
  "start_new E rep cmd key workflow version start_key input input_digest =
     (let st = rep_state rep in
      rbind (pinned_version st workflow version) (\<lambda>pinned.
      rbind (definition_verify E pinned) (\<lambda>_.
      rbind (ok_or (precondition ''retained catalog unavailable'')
               (map_of (published_catalogs st) (pd_catalog_version pinned))) (\<lambda>catalog.
      rbind (catalog_verify E catalog) (\<lambda>_.
      rbind (validate_value (json_is_valid E) (pc_catalog catalog)
               (def_input_schema (pd_definition pinned)) input) (\<lambda>_.
        if execution_suspended st
        then Err (precondition ''execution suspended until recovery is acknowledged'')
        else (case published_start_ids E key of (run, start_id, progress_id) \<Rightarrow>
          if hhas (runs st) run then Err (already_exists ''run identity collision'')
          else let first = length (hlist (history st) run) + 1 in
            rbind (admit_run E rep cmd key run start_id progress_id pinned catalog input) (\<lambda>rep1.
              let final = length (hlist (history (rep_state rep1)) run) in
              if final < first then Err (precondition ''start emitted no run events'')
              else Ok ((DispApplied (Some run) (Some (pd_digest pinned))
                          (Some (def_version (pd_definition pinned))),
                        Some \<lparr>er_run = run, er_first = first, er_last = final\<rparr>),
                       rep1\<lparr>rep_state := put_start_key workflow start_key
                              \<lparr>sr_run = run, sr_version = def_version (pd_definition pinned),
                               sr_input_digest = input_digest, sr_admitted_ms = cmd_time cmd\<rparr>
                              (rep_state rep1)\<rparr>)))))))))"

definition start_published ::
    "externals \<Rightarrow> replica \<Rightarrow> command \<Rightarrow> command_key \<Rightarrow> string \<Rightarrow> nat option \<Rightarrow> string \<Rightarrow> val \<Rightarrow> op_result res" where
  "start_published E rep cmd key workflow version start_key input =
     (if \<not> valid_ascii_name workflow \<or> start_key = [] \<or> length start_key > MAX_START_KEY_BYTES
      then Err (invalid ''workflow name or start key invalid (key must be 1..128 UTF-8 bytes)'')
      else if version = Some 0 then Err (invalid ''workflow version must be positive'')
      else rbind (publication_digest E (to_json input) MAX_PAYLOAD_BYTES) (\<lambda>input_digest.
        case start_key_of (rep_state rep) workflow start_key of
          Some existing \<Rightarrow>
            if sr_input_digest existing \<noteq> input_digest
               \<or> (case version of Some v \<Rightarrow> v \<noteq> sr_version existing | None \<Rightarrow> False)
            then Err (already_exists ''start key has different input or pinned version'')
            else Ok ((DispApplied (Some (sr_run existing)) None (Some (sr_version existing)), None), rep)
        | None \<Rightarrow> start_new E rep cmd key workflow version start_key input input_digest))"

section \<open>Applying a publication command\<close>

fun apply_operation ::
    "externals \<Rightarrow> replica \<Rightarrow> command \<Rightarrow> command_key \<Rightarrow> publication_operation \<Rightarrow> op_result res" where
  "apply_operation E rep cmd key (PubCatalog version c) = publish_catalog E rep version c"
| "apply_operation E rep cmd key (PubDefinition d catalog_version) = publish_definition E rep d catalog_version"
| "apply_operation E rep cmd key (PubStart workflow version start_key input) =
     start_published E rep cmd key workflow version start_key input"

definition request_identity ::
    "externals \<Rightarrow> publication_operation \<Rightarrow> string \<times> bytes res" where
  "request_identity E op =
     (case canonical_bytes E (ser_operation E op) None of
        Ok bytes \<Rightarrow> (hex_encode E (sha256 E bytes), Ok bytes)
      | r \<Rightarrow> (hex_encode E (sha256 E (''graphrun.uncanonical-publication-request/v1'' @ [CHR 0x00]
                                        @ operation_text E op)), r))"

definition receipt ::
    "command \<Rightarrow> command_key \<Rightarrow> publication_operation \<Rightarrow> string \<Rightarrow> disposition \<Rightarrow> event_range option
     \<Rightarrow> command_result" where
  "receipt cmd key op request_digest outcome erange =
     \<lparr>cr_format = RESULT_FORMAT, cr_key = key, cr_request_digest = request_digest,
      cr_operation = op_name op, cr_target = op_target op, cr_outcome = outcome,
      cr_event_range = erange, cr_recorded_ms = cmd_time cmd\<rparr>"

definition put_receipt :: "string \<Rightarrow> command_result \<Rightarrow> replica \<Rightarrow> replica" where
  "put_receipt skey r rep =
     rep\<lparr>rep_state := (rep_state rep)\<lparr>command_results := bput skey r (command_results (rep_state rep))\<rparr>\<rparr>"

definition apply_with_mode ::
    "externals \<Rightarrow> replica \<Rightarrow> command \<Rightarrow> command_key \<Rightarrow> publication_operation \<Rightarrow> bool
     \<Rightarrow> (command_result \<times> replica) res" where
  "apply_with_mode E rep cmd key op in_place_start =
     (case request_identity E op of (request_digest, request_bytes) \<Rightarrow>
      case map_of (command_results (rep_state rep)) (storage_key E key) of
        Some previous \<Rightarrow>
          if cr_request_digest previous = request_digest \<and> cr_format previous = RESULT_FORMAT
          then Ok (previous, rep)
          else Ok (receipt cmd key op request_digest
                     (DispRejected ''already_exists'' ''command ID reused with a different request'') None, rep)
      | None \<Rightarrow>
          (case rbind request_bytes (\<lambda>bytes.
                  if length bytes > PUBLIC_COMMAND_ENVELOPE
                  then Err (exhausted ''publication command exceeds envelope limit'')
                  else apply_operation E rep cmd key op) of
             Ok ((outcome, erange), rep1) \<Rightarrow>
               (let r = receipt cmd key op request_digest outcome erange in
                Ok (r, put_receipt (storage_key E key) r rep1))
           | Err err \<Rightarrow>
               if in_place_start then Err err
               else (let r = receipt cmd key op request_digest
                               (DispRejected (error_code_of (err_kind err)) (err_message err)) None in
                     Ok (r, put_receipt (storage_key E key) r rep))
           | Panic \<Rightarrow> Panic))"

definition publication_apply ::
    "externals \<Rightarrow> replica \<Rightarrow> command \<Rightarrow> command_key \<Rightarrow> publication_operation
     \<Rightarrow> (command_result \<times> replica) res" where
  "publication_apply E rep cmd key op = unwrap_res (apply_with_mode E rep cmd key op False)"

definition apply_replicated ::
    "externals \<Rightarrow> replica \<Rightarrow> command \<Rightarrow> command_key \<Rightarrow> publication_operation
     \<Rightarrow> (command_result \<times> replica) res" where
  "apply_replicated E rep cmd key op = apply_with_mode E rep cmd key op True"

end
