(* ===== verification/Commit.thy ===== *)
theory Commit
  imports Publication
begin

text \<open>
  \<open>commit_command\<close> of domain.rs: the function each replica calls on each committed command. It
  routes pruning and publication, answers a retried command from its receipt, and otherwise
  inserts the run of a start and applies the command.
\<close>

definition start_digest :: "externals \<Rightarrow> command_body \<Rightarrow> string option res" where
  "start_digest E body =
     (case body of
        CmdStart _ d input c \<Rightarrow>
          rmap (\<lambda>bytes. Some (hex_encode E (sha256 E bytes)))
            (canonical_json (json_string E) (start_json E d input c))
      | _ \<Rightarrow> Ok None)"

definition start_inserts_run :: "command_body \<Rightarrow> state \<Rightarrow> state" where
  "start_inserts_run body st =
     (case body of
        CmdStart run d _ c \<Rightarrow>
          if hhas (runs st) run then st else insert_run run (fresh_run run d c None) st
      | _ \<Rightarrow> st)"

definition commit_prune ::
    "externals \<Rightarrow> replica \<Rightarrow> command \<Rightarrow> nat \<Rightarrow> (domain_event list \<times> replica) res" where
  "commit_prune E rep cmd limit =
     (let st = rep_state rep in
      if limit = 0 \<or> limit > 1024 then Err (invalid ''retention batch must be 1..=1024'')
      else rbind (verify_command_identity st (cmd_id cmd) None (cmd_id cmd) None) (\<lambda>_.
        case hget (commands st) (cmd_id cmd) of
          Some events \<Rightarrow> Ok (events, rep)
        | None \<Rightarrow>
            (let now = max (cmd_time cmd) (engine_time_watermark_ms st) in
             rbind (preflight_prune st now) (\<lambda>_.
             rbind (prune E (rep\<lparr>rep_state := st\<lparr>engine_time_watermark_ms := now\<rparr>\<rparr>) (cmd_id cmd) now limit)
               (\<lambda>(rep1, events).
                 let st1 = rep_state rep1 in
                 Ok (events, rep1\<lparr>rep_state := st1\<lparr>commands := hput (cmd_id cmd) events (commands st1),
                                command_times := hput (cmd_id cmd) now (command_times st1)\<rparr>\<rparr>))))))"

definition commit_publication ::
    "externals \<Rightarrow> replica \<Rightarrow> command \<Rightarrow> command_key \<Rightarrow> publication_operation
     \<Rightarrow> (domain_event list \<times> replica) res" where
  "commit_publication E rep cmd key op =
     (let st = rep_state rep in
      if ck_command_id key \<noteq> cmd_id cmd \<or> ck_cluster_id key = [] \<or> ck_principal_id key = []
      then Err (invalid ''invalid authenticated command identity'')
      else let retried = (map_of (command_results st) (storage_key E key) \<noteq> None);
               now = (if retried then cmd_time cmd else max (cmd_time cmd) (engine_time_watermark_ms st));
               rep1 = (if retried then rep else rep\<lparr>rep_state := st\<lparr>engine_time_watermark_ms := now\<rparr>\<rparr>) in
        rbind (publication_apply E rep1 (cmd\<lparr>cmd_time := now\<rparr>) key op) (\<lambda>(r, rep2).
        rbind (ensure_applied r) (\<lambda>_. Ok ([], rep2))))"

definition commit_domain ::
    "externals \<Rightarrow> replica \<Rightarrow> command \<Rightarrow> string option \<Rightarrow> (domain_event list \<times> replica) res" where
  "commit_domain E rep cmd0 actor =
     rbind (prepare_command E (rep_state rep) cmd0 actor) (\<lambda>(cmd, external_id, digest).
     rbind (start_digest E (cmd_body cmd)) (\<lambda>sdigest.
     rbind (worker_request_digest E (cmd_body cmd)) (\<lambda>wdigest.
       case hget (commands (rep_state rep)) (cmd_id cmd) of
         Some events \<Rightarrow>
           rbind (verify_worker_retry (rep_state rep) (cmd_id cmd) wdigest) (\<lambda>_.
             case (hget (legacy_start_digests (rep_state rep)) (cmd_id cmd), sdigest) of
               (Some expected, Some actual) \<Rightarrow>
                 if expected \<noteq> actual
                 then Err (already_exists ''command ID reused with a different inline start request'')
                 else Ok (events, rep)
             | _ \<Rightarrow> Ok (events, rep))
       | None \<Rightarrow>
           rbind (apply_command_with_actor E
                    (rep\<lparr>rep_state := start_inserts_run (cmd_body cmd) (rep_state rep)\<rparr>)
                    cmd actor external_id digest) (\<lambda>(events, rep1).
             let st1 = rep_state rep1 in
             Ok (events, rep1\<lparr>rep_state := st1\<lparr>legacy_start_digests :=
                   (case sdigest of Some d \<Rightarrow> hput (cmd_id cmd) d (legacy_start_digests st1)
                    | None \<Rightarrow> legacy_start_digests st1)\<rparr>\<rparr>)))))"

definition commit_command ::
    "externals \<Rightarrow> replica \<Rightarrow> command \<Rightarrow> (domain_event list \<times> replica) res" where
  "commit_command E rep cmd0 =
     rbind (into_cause cmd0) (\<lambda>(cmd, actor).
       case cmd_body cmd of
         CmdPruneHistory limit \<Rightarrow> commit_prune E rep cmd limit
       | CmdPublication key op \<Rightarrow> commit_publication E rep cmd key op
       | _ \<Rightarrow> commit_domain E rep cmd actor)"

end
