(* ===== verification/Steps.thy ===== *)
theory Steps
  imports Commit
begin

text \<open>
  What a committed command may do to the state, as a relation of primitive steps: an event evolves
  the state or is recorded, a receipt is kept, a run is admitted, something is published, an
  expired record is dropped. \<open>commit_command\<close> is shown to be a sequence of such steps, so a relation
  that every step keeps relates the states before and after every command, and the states of
  every history of commands.
\<close>

section \<open>Primitive steps\<close>

text \<open>The steps of an applied command: its time, its events and its receipt.\<close>

inductive exec_step :: "externals \<Rightarrow> state \<Rightarrow> state \<Rightarrow> bool" for E where
  applies: "apply_event E cmd actor time st event = Ok st' \<Longrightarrow> exec_step E st st'"
| watermark: "engine_time_watermark_ms st \<le> now \<Longrightarrow> exec_step E st (st\<lparr>engine_time_watermark_ms := now\<rparr>)"
| origin: "exec_step E st (st\<lparr>artifact_origins := insert (current_cluster_id st) (artifact_origins st)\<rparr>)"
| terminates: "exec_step E st (set_terminal now st event)"
| receipts: "record_receipt cid now events actor external_id digest wdigest st = Ok st' \<Longrightarrow> exec_step E st st'"

text \<open>Every step of a committed command.\<close>

inductive step :: "externals \<Rightarrow> state \<Rightarrow> state \<Rightarrow> bool" for E where
  executes: "exec_step E st st' \<Longrightarrow> step E st st'"
| admits:
    "\<lbrakk>hget (runs st) run = None; \<And>p. published = Some p \<Longrightarrow> pinned_verify E p d c = Ok ()\<rbrakk>
     \<Longrightarrow> step E st (insert_run run (fresh_run run d c published) st)"
| start_digests: "step E st (st\<lparr>legacy_start_digests := hput cid digest (legacy_start_digests st)\<rparr>)"
| publishes_catalog:
    "\<lbrakk>map_of (published_catalogs st) version = None; catalog_verify E p = Ok ();
      validate_for_publication (pc_catalog p) = Ok (); version \<noteq> 0;
      \<And>v q. (v, q) \<in> set (published_catalogs st) \<Longrightarrow> check_prior (pc_catalog p) (pc_catalog q) = Ok ()\<rbrakk>
     \<Longrightarrow> step E st (st\<lparr>published_catalogs := bput version p (published_catalogs st)\<rparr>)"
| publishes_definition:
    "\<lbrakk>published_version st (def_id (pd_definition p)) (def_version (pd_definition p)) = None;
      definition_verify E p = Ok (); validate_definition (pd_definition p) = Ok ();
      map_of (published_catalogs st) (pd_catalog_version p) \<noteq> None\<rbrakk>
     \<Longrightarrow> step E st (put_definition p st)"
| start_keys:
    "start_key_of st workflow start_key = None \<Longrightarrow> step E st (put_start_key workflow start_key record st)"
| results: "\<lbrakk>map_of (command_results st) skey = None; skey = storage_key E (cr_key r); cr_format r = RESULT_FORMAT\<rbrakk> \<Longrightarrow>
    step E st (st\<lparr>command_results := bput skey r (command_results st)\<rparr>)"
| forgets_results: "step E st (st\<lparr>command_results := hdel_all keys (command_results st)\<rparr>)"
| forgets_commands: "step E st (forget_commands keys st)"
| prune_receipts: "step E st (st\<lparr>commands := hput cid events (commands st),
                                command_times := hput cid now (command_times st)\<rparr>)"
| expires: "step E st (drop_event run event_id st)"
| removes: "\<lbrakk>hget (runs st) rid = Some run; rs_status run \<noteq> RunActive\<rbrakk> \<Longrightarrow>
    step E st (remove_run_data rid (st\<lparr>terminal_summaries := hput rid summary (terminal_summaries st)\<rparr>))"
| forgets_summary: "step E st (forget_summary rid st)"

abbreviation exec_steps :: "externals \<Rightarrow> state \<Rightarrow> state \<Rightarrow> bool" where
  "exec_steps E \<equiv> (exec_step E)\<^sup>*\<^sup>*"

abbreviation steps :: "externals \<Rightarrow> state \<Rightarrow> state \<Rightarrow> bool" where
  "steps E \<equiv> (step E)\<^sup>*\<^sup>*"

lemma exec_steps_steps: "exec_steps E st st' \<Longrightarrow> steps E st st'"
  by (induction rule: rtranclp_induct) (auto intro: rtranclp.rtrancl_into_rtrancl executes)

lemmas exec_step1 = r_into_rtranclp [where r = "exec_step E" for E]
lemmas step1 = r_into_rtranclp [where r = "step E" for E]

section \<open>Applying a command\<close>

lemma apply_event_steps:
  "apply_event E cmd actor time st event = Ok st' \<Longrightarrow> exec_steps E st st'"
  by (intro exec_step1 applies)

lemma apply_events_steps:
  "apply_events_with_cause E cmd actor time st events = Ok st' \<Longrightarrow> exec_steps E st st'"
  by (induction events arbitrary: st)
     (auto simp: res_simps dest!: apply_event_steps intro: rtranclp_trans)

lemma set_terminal_steps: "exec_steps E st (foldl (set_terminal now) st events)"
proof (induction events arbitrary: st)
  case (Cons event events)
  then show ?case by (auto intro: converse_rtranclp_into_rtranclp terminates)
qed simp

lemma checkpoint_steps:
  "checkpoint_after_command E rep run time = Ok rep' \<Longrightarrow> exec_steps E (rep_state rep) (rep_state rep')"
  using exec_step1 [OF origin, of E "rep_state rep"]
  by (auto simp: checkpoint_after_command_def Let_def res_simps split: option.splits if_splits)

lemma checkpoint_all_steps:
  "checkpoint_all E time rep rs = Ok rep' \<Longrightarrow> exec_steps E (rep_state rep) (rep_state rep')"
  by (induction rs arbitrary: rep)
     (auto simp: res_simps dest!: checkpoint_steps intro: rtranclp_trans)

lemma apply_fresh_steps:
  assumes "apply_fresh E rep cmd actor external_id digest wdigest = Ok (events, rep')"
  shows "exec_steps E (rep_state rep) (rep_state rep')"
proof -
  let ?now = "max (cmd_time cmd) (engine_time_watermark_ms (rep_state rep))"
  let ?st = "(rep_state rep)\<lparr>engine_time_watermark_ms := ?now\<rparr>"
  from assms obtain st1 st2 affected where
      st1: "apply_events_with_cause E (Some external_id) actor ?now ?st events = Ok st1"
    and st2: "record_receipt (cmd_id cmd) ?now events actor external_id digest wdigest
                (foldl (set_terminal ?now) st1 events) = Ok st2"
    and rep': "checkpoint_all E ?now (rep\<lparr>rep_state := st2\<rparr>) affected = Ok rep'"
    by (auto simp: apply_fresh_def Let_def res_simps)
  have "exec_steps E (rep_state rep) ?st" by (intro exec_step1 watermark) simp
  also have "exec_steps E ?st st1" by (rule apply_events_steps [OF st1])
  also have "exec_steps E st1 (foldl (set_terminal ?now) st1 events)" by (rule set_terminal_steps)
  also have "exec_steps E \<dots> st2" by (rule exec_step1 [OF receipts [OF st2]])
  also have "exec_steps E st2 (rep_state rep')" using checkpoint_all_steps [OF rep'] by simp
  finally show ?thesis .
qed

lemma apply_command_with_actor_steps:
  "apply_command_with_actor E rep cmd actor external_id digest = Ok (events, rep')
     \<Longrightarrow> exec_steps E (rep_state rep) (rep_state rep')"
  by (auto simp: apply_command_with_actor_def res_simps split: option.splits dest: apply_fresh_steps)

lemma apply_command_steps:
  "apply_command E rep cmd = Ok (events, rep') \<Longrightarrow> exec_steps E (rep_state rep) (rep_state rep')"
  by (auto simp: apply_command_def res_simps dest: apply_command_with_actor_steps)

section \<open>Pruning\<close>

lemma prune_event_Ok:
  assumes "prune_event E cmd time rep item = Ok (rep', events)"
  obtains (drops) run_id event_id where "rep' = rep\<lparr>rep_state := drop_event run_id event_id (rep_state rep)\<rparr>"
    and "events = []"
  | (expires) run event_id st1 where
    "apply_events_with_cause E (Some cmd) None time (rep_state rep) [EventExpired run event_id] = Ok st1"
    and "checkpoint_after_command E (rep\<lparr>rep_state := st1\<rparr>) run time = Ok rep'"
    and "events = [EventExpired run event_id]"
proof -
  obtain run_id event_id where item: "item = (run_id, event_id)" by (cases item)
  from assms obtain entry where
    "(case expiring_run (rep_state rep) entry of
        Some run \<Rightarrow>
          rbind (apply_events_with_cause E (Some cmd) None time (rep_state rep) [EventExpired run event_id])
            (\<lambda>st1. rbind (checkpoint_after_command E (rep\<lparr>rep_state := st1\<rparr>) run time) (\<lambda>rep1.
               Ok (rep1, [EventExpired run event_id])))
      | None \<Rightarrow> Ok (rep\<lparr>rep_state := drop_event run_id event_id (rep_state rep)\<rparr>, [])) = Ok (rep', events)"
    by (auto simp: prune_event_def item Let_def res_simps simp del: apply_events_with_cause.simps
        split: if_splits)
  then show ?thesis
    by (cases "expiring_run (rep_state rep) entry")
       (auto simp: res_simps simp del: apply_events_with_cause.simps intro: drops expires)
qed

lemma prune_event_steps:
  assumes "prune_event E cmd time rep item = Ok (rep', events)"
  shows "steps E (rep_state rep) (rep_state rep')"
  using assms
proof (cases rule: prune_event_Ok)
  case (drops run_id event_id)
  then show ?thesis by (simp add: step1 [OF expires])
next
  case (expires run event_id st1)
  from rtranclp_trans [OF apply_events_steps [OF expires(1)] checkpoint_steps [OF expires(2), simplified]]
  show ?thesis by (rule exec_steps_steps)
qed

lemma prune_events_steps:
  "prune_events E cmd time rep items = Ok (rep', events) \<Longrightarrow> steps E (rep_state rep) (rep_state rep')"
  by (induction items arbitrary: rep rep' events)
     (auto simp: res_simps dest!: prune_event_steps intro: rtranclp_trans)

lemma prune_runs_steps:
  "prune_runs rep rids = Ok rep' \<Longrightarrow> steps E (rep_state rep) (rep_state rep')"
proof (induction rids arbitrary: rep)
  case (Cons rid rids)
  then obtain run summary where run: "hget (runs (rep_state rep)) rid = Some run"
    and summary: "summarise (rep_state rep) rid run = Ok summary"
    and rest: "prune_runs \<lparr>rep_state = remove_run_data rid ((rep_state rep)
                  \<lparr>terminal_summaries := hput rid summary (terminal_summaries (rep_state rep))\<rparr>),
                checkpoints = AList.delete rid (checkpoints rep)\<rparr> rids = Ok rep'"
    by (auto simp: Let_def res_simps)
  from summary have "rs_status run \<noteq> RunActive"
    by (auto simp: summarise_def res_simps)
  from rtranclp_trans [OF step1 [OF removes [OF run this]] Cons.IH [OF rest, simplified]]
  show ?case by simp
qed simp

lemma forget_summaries_steps: "steps E st (fold forget_summary rids st)"
proof (induction rids arbitrary: st)
  case (Cons rid rids)
  then show ?case by (auto intro: converse_rtranclp_into_rtranclp forgets_summary)
qed simp

lemma prune_Ok:
  assumes "prune E rep cmd now limit = Ok (rep', events)"
  obtains keys1 keys2 items rids rids' rep3 rep4 where
    "prune_events E cmd now (rep\<lparr>rep_state := forget_commands keys2
       ((rep_state rep)\<lparr>command_results := hdel_all keys1 (command_results (rep_state rep))\<rparr>)\<rparr>)
       items = Ok (rep3, events)"
    and "prune_runs rep3 rids = Ok rep4"
    and "rep' = rep4\<lparr>rep_state := fold forget_summary rids' (rep_state rep4)\<rparr>"
  using assms by (auto simp: prune_def Let_def res_simps)

lemma prune_steps:
  assumes "prune E rep cmd now limit = Ok (rep', events)"
  shows "steps E (rep_state rep) (rep_state rep')"
  using assms
proof (rule prune_Ok)
  fix keys1 keys2 items rids rids' rep3 rep4
  assume rep3: "prune_events E cmd now (rep\<lparr>rep_state := forget_commands keys2
               ((rep_state rep)\<lparr>command_results := hdel_all keys1 (command_results (rep_state rep))\<rparr>)\<rparr>)
               items = Ok (rep3, events)"
    and rep4: "prune_runs rep3 rids = Ok rep4"
    and rep': "rep' = rep4\<lparr>rep_state := fold forget_summary rids' (rep_state rep4)\<rparr>"
  have "steps E (rep_state rep) ((rep_state rep)\<lparr>command_results := hdel_all keys1 (command_results (rep_state rep))\<rparr>)"
    by (rule step1 [OF forgets_results])
  also have "steps E \<dots> (forget_commands keys2 \<dots>)" by (rule step1 [OF forgets_commands])
  also have "steps E \<dots> (rep_state rep3)" using prune_events_steps [OF rep3] by simp
  also have "steps E \<dots> (rep_state rep4)" by (rule prune_runs_steps [OF rep4])
  also have "steps E \<dots> (rep_state rep')" unfolding rep' by (simp add: forget_summaries_steps)
  finally show ?thesis .
qed

section \<open>What the steps leave alone\<close>

text \<open>The state has two halves: the workflow state that events evolve, and the books kept beside
  it. Evolving leaves the books alone.\<close>

definition same_books :: "state \<Rightarrow> state \<Rightarrow> bool" where
  "same_books a b \<longleftrightarrow>
     format_policy b = format_policy a \<and> format_receipts b = format_receipts a
     \<and> current_cluster_id b = current_cluster_id a \<and> artifact_origins b = artifact_origins a
     \<and> engine_time_watermark_ms b = engine_time_watermark_ms a \<and> commands b = commands a
     \<and> command_actors b = command_actors a \<and> command_external_ids b = command_external_ids a
     \<and> authenticated_request_digests b = authenticated_request_digests a
     \<and> legacy_start_digests b = legacy_start_digests a
     \<and> worker_command_digests b = worker_command_digests a
     \<and> published_catalogs b = published_catalogs a
     \<and> published_definitions b = published_definitions a \<and> start_keys b = start_keys a
     \<and> command_results b = command_results a \<and> history b = history a
     \<and> history_records b = history_records a \<and> history_dependencies b = history_dependencies a
     \<and> terminal_summaries b = terminal_summaries a \<and> signal_tombstones b = signal_tombstones a
     \<and> command_times b = command_times a"

definition same_workflow :: "state \<Rightarrow> state \<Rightarrow> bool" where
  "same_workflow a b \<longleftrightarrow>
     runs b = runs a \<and> scopes b = scopes a \<and> activations b = activations a \<and> waits b = waits a
     \<and> inbox b = inbox a \<and> loop_carry b = loop_carry a \<and> foreach_items b = foreach_items a
     \<and> foreach_done b = foreach_done a \<and> parallel_done b = parallel_done a
     \<and> obligations b = obligations a \<and> saga_errors b = saga_errors a \<and> sessions b = sessions a
     \<and> next_generation b = next_generation a \<and> fair_cursor b = fair_cursor a
     \<and> interventions b = interventions a \<and> recovery b = recovery a"

lemma same_books_refl [simp]: "same_books st st"
  by (simp add: same_books_def)

lemma same_books_trans: "same_books a b \<Longrightarrow> same_books b c \<Longrightarrow> same_books a c"
  by (simp add: same_books_def)

lemma complete_role_same_books [simp]: "same_books st (complete_role role output st') \<longleftrightarrow> same_books st st'"
  by (cases role) (simp_all add: complete_role_def same_books_def Let_def)

lemma settle_wait_same_books [simp]: "same_books st (settle_wait wait status st') \<longleftrightarrow> same_books st st'"
  by (simp add: settle_wait_def same_books_def Let_def split: option.splits)

lemma same_books_updates [simp]:
  "same_books a (b\<lparr>runs := x1\<rparr>) \<longleftrightarrow> same_books a b" "same_books a (b\<lparr>scopes := x2\<rparr>) \<longleftrightarrow> same_books a b"
  "same_books a (b\<lparr>activations := x3\<rparr>) \<longleftrightarrow> same_books a b" "same_books a (b\<lparr>waits := x4\<rparr>) \<longleftrightarrow> same_books a b"
  "same_books a (b\<lparr>inbox := x5\<rparr>) \<longleftrightarrow> same_books a b" "same_books a (b\<lparr>loop_carry := x6\<rparr>) \<longleftrightarrow> same_books a b"
  "same_books a (b\<lparr>obligations := x7\<rparr>) \<longleftrightarrow> same_books a b"
  "same_books a (b\<lparr>saga_errors := x8\<rparr>) \<longleftrightarrow> same_books a b"
  "same_books a (b\<lparr>sessions := x9\<rparr>) \<longleftrightarrow> same_books a b"
  "same_books a (b\<lparr>next_generation := x10\<rparr>) \<longleftrightarrow> same_books a b"
  "same_books a (b\<lparr>fair_cursor := x11\<rparr>) \<longleftrightarrow> same_books a b"
  "same_books a (b\<lparr>interventions := x12\<rparr>) \<longleftrightarrow> same_books a b"
  "same_books a (b\<lparr>recovery := x13\<rparr>) \<longleftrightarrow> same_books a b"
  by (simp_all add: same_books_def)

lemma evolve_same_books: "evolve st event = Ok st' \<Longrightarrow> same_books st st'"
  by (cases event)
     (auto simp: Let_def res_simps bump_ready_order_def set_obligation_status_def
        split: option.splits scope_role.splits if_splits)

lemma set_terminal_same_books: "same_books st (set_terminal now st event)"
  by (simp add: set_terminal_def split: option.splits)

lemma exec_step_tables:
  assumes "exec_step E a b"
  shows "start_keys b = start_keys a \<and> command_results b = command_results a
         \<and> published_catalogs b = published_catalogs a \<and> published_definitions b = published_definitions a
         \<and> terminal_summaries b = terminal_summaries a \<and> current_cluster_id b = current_cluster_id a"
  using assms
proof cases
  case (applies cmd actor time event)
  then show ?thesis
    by (cases rule: apply_event_Ok)
       (auto simp: append_event_def same_books_def Let_def res_simps dest!: evolve_same_books)
next
  case (terminates now event)
  with set_terminal_same_books [of a now event] show ?thesis by (simp add: same_books_def)
qed (auto simp: record_receipt_def Let_def res_simps)

lemma exec_steps_tables:
  assumes "exec_steps E a b"
  shows "start_keys b = start_keys a \<and> command_results b = command_results a
         \<and> published_catalogs b = published_catalogs a \<and> published_definitions b = published_definitions a
         \<and> terminal_summaries b = terminal_summaries a \<and> current_cluster_id b = current_cluster_id a"
  using assms by (induction rule: rtranclp_induct) (auto dest: exec_step_tables)

section \<open>Publishing\<close>

lemma start_key_of_cong: "start_keys b = start_keys a \<Longrightarrow> start_key_of b w k = start_key_of a w k"
  by (simp add: start_key_of_def)

definition pinned_identity :: "published_definition \<Rightarrow> published_catalog \<Rightarrow> pinned_publication" where
  "pinned_identity pinned catalog =
     \<lparr>pp_definition_format_version = pd_normalized_format_version pinned,
      pp_definition_digest = pd_digest pinned, pp_catalog_version = pd_catalog_version pinned,
      pp_catalog_digest = pc_digest catalog, pp_policy_format = ''graphrun.run-policy/v1''\<rparr>"

lemma pinned_identity_verify:
  "definition_verify E pinned = Ok u \<Longrightarrow> catalog_verify E catalog = Ok v \<Longrightarrow>
     pinned_verify E (pinned_identity pinned catalog) (pd_definition pinned) (pc_catalog catalog) = Ok ()"
  by (auto simp: definition_verify_def catalog_verify_def pinned_verify_def pinned_identity_def Let_def res_simps
      split: if_splits)

lemma admit_run_steps:
  assumes "admit_run E rep cmd key run start_id progress_id pinned catalog input = Ok rep'"
  shows "exec_steps E (insert_run run (fresh_run run (pd_definition pinned) (pc_catalog catalog)
           (Some (pinned_identity pinned catalog))) (rep_state rep)) (rep_state rep')"
proof -
  from assms obtain events st1 evs where
      st1: "apply_events_with_cause E (Some (cmd_id cmd)) (Some (ck_principal_id key)) (cmd_time cmd)
              (insert_run run (fresh_run run (pd_definition pinned) (pc_catalog catalog)
                 (Some (pinned_identity pinned catalog))) (rep_state rep)) events = Ok st1"
    and rep': "apply_command E (rep\<lparr>rep_state := st1\<rparr>)
              \<lparr>cmd_id = progress_id, cmd_body = CmdProgress run, cmd_time = cmd_time cmd\<rparr> = Ok (evs, rep')"
    by (auto simp: admit_run_def pinned_identity_def Let_def res_simps)
  from rtranclp_trans [OF apply_events_steps [OF st1] apply_command_steps [OF rep', simplified]]
  show ?thesis .
qed

lemma start_new_Ok:
  assumes "start_new E rep cmd key workflow version start_key input input_digest = Ok (r, rep')"
  obtains run start_id progress_id pinned catalog rep1 entry where
    "published_start_ids E key = (run, start_id, progress_id)"
    and "pinned_version (rep_state rep) workflow version = Ok pinned"
    and "definition_verify E pinned = Ok ()" and "catalog_verify E catalog = Ok ()"
    and "\<not> execution_suspended (rep_state rep)" and "\<not> hhas (runs (rep_state rep)) run"
    and "admit_run E rep cmd key run start_id progress_id pinned catalog input = Ok rep1"
    and "rep' = rep1\<lparr>rep_state := put_start_key workflow start_key entry (rep_state rep1)\<rparr>"
    and "sr_run entry = run" and "sr_input_digest entry = input_digest"
    and "sr_version entry = def_version (pd_definition pinned)"
    and "fst r = DispApplied (Some run) (Some (pd_digest pinned)) (Some (def_version (pd_definition pinned)))"
proof -
  obtain run start_id progress_id where ids: "published_start_ids E key = (run, start_id, progress_id)"
    by (cases "published_start_ids E key") auto
  from assms ids that [OF ids] show ?thesis
    by (auto simp: start_new_def Let_def res_simps split: if_splits)
qed

lemma start_published_steps:
  assumes "start_published E rep cmd key workflow version start_key input = Ok (r, rep')"
  shows "steps E (rep_state rep) (rep_state rep')"
proof -
  show ?thesis
  proof (cases "start_key_of (rep_state rep) workflow start_key")
    case (Some existing)
    with assms have "rep' = rep" by (auto simp: start_published_def res_simps split: if_splits)
    then show ?thesis by simp
  next
    case None
    with assms obtain input_digest where
        "start_new E rep cmd key workflow version start_key input input_digest = Ok (r, rep')"
      by (auto simp: start_published_def res_simps split: if_splits)
    then obtain run start_id progress_id pinned catalog rep1 entry where
        verify: "definition_verify E pinned = Ok ()" "catalog_verify E catalog = Ok ()"
      and fresh: "\<not> hhas (runs (rep_state rep)) run"
      and rep1: "admit_run E rep cmd key run start_id progress_id pinned catalog input = Ok rep1"
      and rep': "rep' = rep1\<lparr>rep_state := put_start_key workflow start_key entry (rep_state rep1)\<rparr>"
      by (rule start_new_Ok)
    let ?st = "insert_run run (fresh_run run (pd_definition pinned) (pc_catalog catalog)
                 (Some (pinned_identity pinned catalog))) (rep_state rep)"
    note exec = admit_run_steps [OF rep1]
    have "steps E (rep_state rep) ?st"
      using fresh pinned_identity_verify [OF verify] by (intro step1 admits) (simp_all add: hhas_def)
    also have "steps E ?st (rep_state rep1)" using exec by (rule exec_steps_steps)
    also have "steps E (rep_state rep1) (rep_state rep')"
    proof -
      have "start_key_of (rep_state rep1) workflow start_key = None"
        using None exec_steps_tables [OF exec] start_key_of_cong [of "rep_state rep1" "rep_state rep"]
        by (simp add: insert_run_def)
      from step1 [OF start_keys [OF this]] show ?thesis by (simp add: rep')
    qed
    finally show ?thesis .
  qed
qed

lemma publish_catalog_steps:
  assumes "publish_catalog E rep version c = Ok (r, rep')"
  shows "steps E (rep_state rep) (rep_state rep')"
  using assms by (cases rule: publish_catalog_Ok) (auto intro!: step1 publishes_catalog)

lemma publish_definition_steps:
  assumes "publish_definition E rep d version = Ok (r, rep')"
  shows "steps E (rep_state rep) (rep_state rep')"
  using assms by (cases rule: publish_definition_Ok) (auto intro!: step1 publishes_definition)

lemma apply_operation_steps:
  "apply_operation E rep cmd key op = Ok (r, rep') \<Longrightarrow> steps E (rep_state rep) (rep_state rep')"
  by (cases op) (auto intro: publish_catalog_steps publish_definition_steps start_published_steps)

lemma start_published_results:
  assumes "start_published E rep cmd key workflow version start_key input = Ok (r, rep')"
  shows "command_results (rep_state rep') = command_results (rep_state rep)"
proof (cases "start_key_of (rep_state rep) workflow start_key")
  case (Some existing)
  with assms show ?thesis by (auto simp: start_published_def res_simps split: if_splits)
next
  case None
  with assms obtain input_digest where
      "start_new E rep cmd key workflow version start_key input input_digest = Ok (r, rep')"
    by (auto simp: start_published_def res_simps split: if_splits)
  then obtain run start_id progress_id pinned catalog rep1 entry where
      rep1: "admit_run E rep cmd key run start_id progress_id pinned catalog input = Ok rep1"
    and rep': "rep' = rep1\<lparr>rep_state := put_start_key workflow start_key entry (rep_state rep1)\<rparr>"
    by (rule start_new_Ok)
  from exec_steps_tables [OF admit_run_steps [OF rep1]] rep' show ?thesis by (simp add: insert_run_def put_start_key_def)
qed

lemma apply_operation_results:
  "apply_operation E rep cmd key op = Ok (r, rep')
     \<Longrightarrow> command_results (rep_state rep') = command_results (rep_state rep)"
  by (cases op)
     (auto elim!: publish_catalog_Ok publish_definition_Ok dest: start_published_results
        simp: put_definition_def Let_def)

lemma put_receipt_steps:
  "map_of (command_results (rep_state rep)) (storage_key E key) = None
     \<Longrightarrow> steps E (rep_state rep)
           (rep_state (put_receipt (storage_key E key) (receipt cmd key op digest outcome erange) rep))"
  by (simp add: put_receipt_def step1 [OF results] receipt_def)

lemma apply_with_mode_steps:
  assumes "apply_with_mode E rep cmd key op mode = Ok (r, rep')"
  shows "steps E (rep_state rep) (rep_state rep')"
proof (cases "map_of (command_results (rep_state rep)) (storage_key E key)")
  case (Some previous)
  with assms show ?thesis by (auto simp: apply_with_mode_def split: prod.splits if_splits)
next
  case None
  obtain digest bytes where ident: "request_identity E op = (digest, bytes)" by (cases "request_identity E op")
  let ?applied = "rbind bytes (\<lambda>bytes. if length bytes > PUBLIC_COMMAND_ENVELOPE
      then Err (exhausted ''publication command exceeds envelope limit'')
      else apply_operation E rep cmd key op)"
  show ?thesis
  proof (cases ?applied)
    case (Ok x)
    then obtain outcome erange rep1 where op: "apply_operation E rep cmd key op = Ok ((outcome, erange), rep1)"
      and x: "x = ((outcome, erange), rep1)"
      by (cases x) (auto simp: res_simps split: if_splits)
    from assms None ident Ok x have rep': "\<exists>outcome erange. rep' = put_receipt (storage_key E key)
        (receipt cmd key op digest outcome erange) rep1"
      by (auto simp: apply_with_mode_def Let_def)
    have "map_of (command_results (rep_state rep1)) (storage_key E key) = None"
      using None apply_operation_results [OF op] by simp
    with rep' rtranclp_trans [OF apply_operation_steps [OF op] put_receipt_steps] show ?thesis by blast
  next
    case (Err e)
    with assms None ident have "\<exists>outcome erange. rep' = put_receipt (storage_key E key)
        (receipt cmd key op digest outcome erange) rep"
      by (auto simp: apply_with_mode_def Let_def split: if_splits)
    with put_receipt_steps [OF None] show ?thesis by blast
  next
    case Panic
    with assms None ident show ?thesis by (simp add: apply_with_mode_def)
  qed
qed

section \<open>Committing\<close>

lemma commit_prune_steps:
  assumes "commit_prune E rep cmd limit = Ok (events, rep')"
  shows "steps E (rep_state rep) (rep_state rep')"
proof (cases "hget (commands (rep_state rep)) (cmd_id cmd)")
  case (Some evs)
  with assms show ?thesis by (auto simp: commit_prune_def Let_def res_simps split: if_splits)
next
  case None
  let ?now = "max (cmd_time cmd) (engine_time_watermark_ms (rep_state rep))"
  let ?st = "(rep_state rep)\<lparr>engine_time_watermark_ms := ?now\<rparr>"
  from assms None obtain rep1 where
      rep1: "prune E (rep\<lparr>rep_state := ?st\<rparr>) (cmd_id cmd) ?now limit = Ok (rep1, events)"
    and rep': "rep' = rep1\<lparr>rep_state := (rep_state rep1)
                 \<lparr>commands := hput (cmd_id cmd) events (commands (rep_state rep1)),
                  command_times := hput (cmd_id cmd) ?now (command_times (rep_state rep1))\<rparr>\<rparr>"
    by (auto simp: commit_prune_def Let_def res_simps split: if_splits)
  have "steps E (rep_state rep) ?st" by (intro step1 executes watermark) simp
  also have "steps E ?st (rep_state rep1)" using prune_steps [OF rep1] by simp
  also have "steps E (rep_state rep1) (rep_state rep')" unfolding rep' by (simp add: step1 [OF prune_receipts])
  finally show ?thesis .
qed

lemma commit_publication_steps:
  assumes "commit_publication E rep cmd key op = Ok (events, rep')"
  shows "steps E (rep_state rep) (rep_state rep')"
proof -
  let ?now = "max (cmd_time cmd) (engine_time_watermark_ms (rep_state rep))"
  let ?st = "(rep_state rep)\<lparr>engine_time_watermark_ms := ?now\<rparr>"
  from assms obtain rep1 cmd1 r where rep1: "rep1 = rep \<or> rep1 = rep\<lparr>rep_state := ?st\<rparr>"
    and r: "apply_with_mode E rep1 cmd1 key op False = Ok (r, rep')"
    by (auto simp: commit_publication_def publication_apply_def Let_def res_simps split: if_splits)
  have "steps E (rep_state rep) ?st" by (intro step1 executes watermark) simp
  with rep1 have "steps E (rep_state rep) (rep_state rep1)" by auto
  also have "steps E \<dots> (rep_state rep')" by (rule apply_with_mode_steps [OF r])
  finally show ?thesis .
qed

lemma commit_domain_Ok:
  assumes "commit_domain E rep cmd actor = Ok (events, rep')"
  obtains (retried) cmd1 external_id digest where
    "prepare_command E (rep_state rep) cmd actor = Ok (cmd1, external_id, digest)"
    and "hget (commands (rep_state rep)) (cmd_id cmd1) = Some events" and "rep' = rep"
  | (fresh) cmd1 external_id digest sdigest wdigest rep1 where
    "prepare_command E (rep_state rep) cmd actor = Ok (cmd1, external_id, digest)"
    and "start_digest E (cmd_body cmd1) = Ok sdigest"
    and "worker_request_digest E (cmd_body cmd1) = Ok wdigest"
    and "hget (commands (rep_state rep)) (cmd_id cmd1) = None"
    and "apply_fresh E (rep\<lparr>rep_state := start_inserts_run (cmd_body cmd1) (rep_state rep)\<rparr>) cmd1 actor
           external_id digest wdigest = Ok (events, rep1)"
    and "rep' = rep1\<lparr>rep_state := (rep_state rep1)\<lparr>legacy_start_digests :=
           (case sdigest of Some d \<Rightarrow> hput (cmd_id cmd1) d (legacy_start_digests (rep_state rep1))
            | None \<Rightarrow> legacy_start_digests (rep_state rep1))\<rparr>\<rparr>"
proof -
  from assms obtain cmd1 external_id digest sdigest wdigest where
      prep: "prepare_command E (rep_state rep) cmd actor = Ok (cmd1, external_id, digest)"
    and sd: "start_digest E (cmd_body cmd1) = Ok sdigest"
    and wd: "worker_request_digest E (cmd_body cmd1) = Ok wdigest"
    and rest: "(case hget (commands (rep_state rep)) (cmd_id cmd1) of
       Some evs \<Rightarrow>
         rbind (verify_worker_retry (rep_state rep) (cmd_id cmd1) wdigest) (\<lambda>_.
           case (hget (legacy_start_digests (rep_state rep)) (cmd_id cmd1), sdigest) of
             (Some expected, Some actual) \<Rightarrow>
               if expected \<noteq> actual
               then Err (already_exists ''command ID reused with a different inline start request'')
               else Ok (evs, rep)
           | _ \<Rightarrow> Ok (evs, rep))
     | None \<Rightarrow>
         rbind (apply_command_with_actor E
                  (rep\<lparr>rep_state := start_inserts_run (cmd_body cmd1) (rep_state rep)\<rparr>)
                  cmd1 actor external_id digest) (\<lambda>(events, rep1).
           let st1 = rep_state rep1 in
           Ok (events, rep1\<lparr>rep_state := st1\<lparr>legacy_start_digests :=
                 (case sdigest of Some d \<Rightarrow> hput (cmd_id cmd1) d (legacy_start_digests st1)
                  | None \<Rightarrow> legacy_start_digests st1)\<rparr>\<rparr>))) = Ok (events, rep')"
    by (auto simp: commit_domain_def res_simps)
  show ?thesis
  proof (cases "hget (commands (rep_state rep)) (cmd_id cmd1)")
    case (Some evs)
    with rest have "events = evs \<and> rep' = rep"
      by (auto simp: res_simps split: option.splits if_splits)
    with Some prep show ?thesis by (auto intro: retried)
  next
    case None
    have same: "commands (start_inserts_run (cmd_body cmd1) (rep_state rep)) = commands (rep_state rep)"
      by (simp add: start_inserts_run_def insert_run_def split: command_body.splits)
    from None rest wd obtain rep1 where
        "apply_fresh E (rep\<lparr>rep_state := start_inserts_run (cmd_body cmd1) (rep_state rep)\<rparr>) cmd1 actor
           external_id digest wdigest = Ok (events, rep1)"
      and "rep' = rep1\<lparr>rep_state := (rep_state rep1)\<lparr>legacy_start_digests :=
           (case sdigest of Some d \<Rightarrow> hput (cmd_id cmd1) d (legacy_start_digests (rep_state rep1))
            | None \<Rightarrow> legacy_start_digests (rep_state rep1))\<rparr>\<rparr>"
      by (auto simp: Let_def res_simps apply_command_with_actor_def same)
    with prep sd wd None show ?thesis by (rule fresh)
  qed
qed

lemma start_inserts_run_steps: "steps E st (start_inserts_run body st)"
  by (auto simp: start_inserts_run_def hhas_def split: command_body.splits intro!: step1 admits)

lemma commit_domain_steps:
  assumes "commit_domain E rep cmd actor = Ok (events, rep')"
  shows "steps E (rep_state rep) (rep_state rep')"
  using assms
proof (cases rule: commit_domain_Ok)
  case (fresh cmd1 external_id digest sdigest wdigest rep1)
  have "steps E (rep_state rep) (start_inserts_run (cmd_body cmd1) (rep_state rep))"
    by (rule start_inserts_run_steps)
  also have "steps E \<dots> (rep_state rep1)"
    using apply_fresh_steps [OF fresh(5)] by (simp add: exec_steps_steps)
  also have "steps E \<dots> (rep_state rep')"
    unfolding fresh(6) by (cases sdigest) (simp_all add: step1 [OF start_digests])
  finally show ?thesis .
qed simp

lemma commit_command_domain:
  assumes "into_cause cmd = Ok (cmd1, actor)" and "\<And>limit. cmd_body cmd1 \<noteq> CmdPruneHistory limit"
    and "\<And>key op. cmd_body cmd1 \<noteq> CmdPublication key op"
  shows "commit_command E rep cmd = commit_domain E rep cmd1 actor"
  using assms by (cases "cmd_body cmd1") (auto simp: commit_command_def)

lemma commit_command_cases:
  assumes "commit_command E rep cmd = Ok (events, rep')"
  obtains (prunes) cmd1 actor limit where "into_cause cmd = Ok (cmd1, actor)"
    and "cmd_body cmd1 = CmdPruneHistory limit" and "commit_prune E rep cmd1 limit = Ok (events, rep')"
  | (publishes) cmd1 actor key op where "into_cause cmd = Ok (cmd1, actor)"
    and "cmd_body cmd1 = CmdPublication key op" and "commit_publication E rep cmd1 key op = Ok (events, rep')"
  | (executes) cmd1 actor where "into_cause cmd = Ok (cmd1, actor)"
    and "\<And>limit. cmd_body cmd1 \<noteq> CmdPruneHistory limit" and "\<And>key op. cmd_body cmd1 \<noteq> CmdPublication key op"
    and "commit_domain E rep cmd1 actor = Ok (events, rep')"
proof -
  from assms obtain cmd1 actor where cause: "into_cause cmd = Ok (cmd1, actor)"
    and rest: "(case cmd_body cmd1 of
       CmdPruneHistory limit \<Rightarrow> commit_prune E rep cmd1 limit
     | CmdPublication key op \<Rightarrow> commit_publication E rep cmd1 key op
     | _ \<Rightarrow> commit_domain E rep cmd1 actor) = Ok (events, rep')"
    by (auto simp: commit_command_def res_simps)
  show ?thesis
    by (cases "cmd_body cmd1") (use rest cause in \<open>auto intro: prunes publishes executes\<close>)
qed

lemma commit_command_steps:
  assumes "commit_command E rep cmd = Ok (events, rep')"
  shows "steps E (rep_state rep) (rep_state rep')"
  using assms
  by (cases rule: commit_command_cases)
     (auto intro: commit_prune_steps commit_publication_steps commit_domain_steps)

end
