(* ===== verification/Formats.thy ===== *)
theory Formats
  imports Publication
begin

text \<open>
  The writer format of a cluster (format_upgrade.rs) and the manifest of a member's store
  (storage.rs). Members prove that they can read the next format; when every member of the committed
  roster has, an activation raises the format that committed commands are written in. Both
  commands are answered from their receipts when they are retried.
\<close>

definition CURRENT_READER :: nat where "CURRENT_READER = 5"
definition CURRENT_WRITER :: nat where "CURRENT_WRITER = 5"
definition PROOF_FORMAT :: string where "PROOF_FORMAT = ''graphrun.reader-proof/v1''"
definition RECEIPT_FORMAT :: string where "RECEIPT_FORMAT = ''graphrun.writer-format-receipt/v1''"
definition STATE_RECORD_FORMAT :: string where "STATE_RECORD_FORMAT = ''graphrun.state-record/v2''"
definition NEXT_RECORD_FORMAT :: string where "NEXT_RECORD_FORMAT = ''graphrun.state-record/v3''"
definition FRAGMENT_FORMAT :: string where "FRAGMENT_FORMAT = ''graphrun.record-fragments/v1''"

definition ensure_writer :: "nat \<Rightarrow> unit res" where
  "ensure_writer active =
     (if active > CURRENT_WRITER
      then Err (precondition (''binary writer capability '' @ show_nat CURRENT_WRITER
                  @ '' is below committed writer format '' @ show_nat active))
      else Ok ())"

section \<open>The manifest of a store\<close>

record store_manifest =
  sm_format :: string
  reader_floor :: nat
  writer_format :: nat
  sm_active_generation :: nat
  sm_cluster_id :: "string option"
  sm_member_id :: "nat option"
  sm_domain_format :: string
  state_record_format :: string
  fragment_format :: string
  artifact_ref_format :: string
  sm_event_format :: string
  sm_checkpoint_format :: string
  sm_result_format :: string
  enabled_domain_formats :: "string list"
  enabled_event_formats :: "string list"
  enabled_checkpoint_formats :: "string list"
  enabled_command_formats :: "nat list"
  enabled_state_record_formats :: "string list"

definition base_command_formats :: "nat list" where "base_command_formats = [4]"
definition base_record_formats :: "string list" where "base_record_formats = [STATE_RECORD_FORMAT]"
definition base_domain_formats :: "string list" where "base_domain_formats = [''graphrun.domain/v1'']"
definition base_event_formats :: "string list" where "base_event_formats = [EVENT_FORMAT]"
definition base_checkpoint_formats :: "string list" where "base_checkpoint_formats = [CHECKPOINT_FORMAT]"

definition manifest_new :: store_manifest where
  "manifest_new =
     \<lparr>sm_format = ''graphrun.member-store/v4'', reader_floor = 4, writer_format = 4,
      sm_active_generation = 1, sm_cluster_id = None, sm_member_id = None,
      sm_domain_format = ''graphrun.domain/v1'', state_record_format = STATE_RECORD_FORMAT,
      fragment_format = FRAGMENT_FORMAT, artifact_ref_format = ARTIFACT_FORMAT,
      sm_event_format = EVENT_FORMAT, sm_checkpoint_format = CHECKPOINT_FORMAT,
      sm_result_format = RESULT_FORMAT, enabled_domain_formats = base_domain_formats,
      enabled_event_formats = base_event_formats,
      enabled_checkpoint_formats = base_checkpoint_formats,
      enabled_command_formats = base_command_formats,
      enabled_state_record_formats = base_record_formats\<rparr>"

definition manifest_validate :: "externals \<Rightarrow> store_manifest \<Rightarrow> unit res" where
  "manifest_validate E m =
     (if sm_format m \<notin> {''graphrun.member-store/v4'', ''graphrun.member-store/v5''}
         \<or> reader_floor m \<notin> {4, 5} \<or> writer_format m \<notin> {4, 5} \<or> sm_active_generation m = 0
         \<or> sm_domain_format m \<noteq> ''graphrun.domain/v1''
         \<or> (writer_format m = 4 \<and> state_record_format m \<noteq> STATE_RECORD_FORMAT)
         \<or> (writer_format m = 5 \<and> state_record_format m \<noteq> NEXT_RECORD_FORMAT)
         \<or> (writer_format m = 5 \<and> (sm_format m \<noteq> ''graphrun.member-store/v5'' \<or> reader_floor m \<noteq> 5))
         \<or> fragment_format m \<noteq> FRAGMENT_FORMAT \<or> artifact_ref_format m \<noteq> ARTIFACT_FORMAT
         \<or> sm_event_format m \<noteq> EVENT_FORMAT \<or> sm_checkpoint_format m \<noteq> CHECKPOINT_FORMAT
         \<or> sm_result_format m \<noteq> RESULT_FORMAT \<or> enabled_domain_formats m \<noteq> base_domain_formats
         \<or> enabled_event_formats m \<noteq> base_event_formats
         \<or> enabled_checkpoint_formats m \<noteq> base_checkpoint_formats
         \<or> enabled_command_formats m \<noteq> (if reader_floor m = 5 then [4, 5] else [4])
         \<or> enabled_state_record_formats m \<noteq>
             (if reader_floor m = 5 then [STATE_RECORD_FORMAT, NEXT_RECORD_FORMAT] else base_record_formats)
         \<or> (sm_cluster_id m \<noteq> None) \<noteq> (sm_member_id m \<noteq> None)
      then Err (precondition ''unsupported member store or retained record version; migrate explicitly'')
      else if (case sm_cluster_id m of
                 Some cluster \<Rightarrow> (case id_from_hex E cluster of Inl _ \<Rightarrow> True | Inr _ \<Rightarrow> False)
                                 \<or> sm_member_id m = Some 0
               | None \<Rightarrow> False)
      then Err (precondition ''member store has invalid immutable genesis identity'')
      else Ok ())"

definition install_reader :: "externals \<Rightarrow> nat \<Rightarrow> store_manifest \<Rightarrow> store_manifest res" where
  "install_reader E target m =
     (if target \<notin> {BASE_FORMAT, NEXT_FORMAT} \<or> target > CURRENT_READER
      then Err (precondition ''requested reader format is not installed in this binary'')
      else let m1 = (if target = NEXT_FORMAT \<and> reader_floor m < target
                     then m\<lparr>reader_floor := target, enabled_command_formats := [4, 5],
                            enabled_state_record_formats := [STATE_RECORD_FORMAT, NEXT_RECORD_FORMAT]\<rparr>
                     else m) in
        rbind (manifest_validate E m1) (\<lambda>_. Ok m1))"

definition activate_writer :: "externals \<Rightarrow> store_manifest \<Rightarrow> store_manifest res" where
  "activate_writer E m =
     (if reader_floor m < NEXT_FORMAT
      then Err (precondition ''writer activation requires a durably installed reader'')
      else let m1 = m\<lparr>sm_format := ''graphrun.member-store/v5'', writer_format := NEXT_FORMAT,
                      state_record_format := NEXT_RECORD_FORMAT\<rparr> in
        rbind (manifest_validate E m1) (\<lambda>_. Ok m1))"

section \<open>Reader proofs and the roster\<close>

text \<open>The stored membership of a member: the log id of the entry that set it, the configured
  nodes, and the voter sets of the (joint) configuration.\<close>

record roster =
  ro_log_id :: "position option"
  ro_nodes :: "nat list"
  ro_configs :: "nat list list"

definition supports :: "nat \<Rightarrow> reader_proof \<Rightarrow> bool" where
  "supports target p \<longleftrightarrow>
     pf_format p = PROOF_FORMAT \<and> target = NEXT_FORMAT \<and> pf_reader_floor p \<ge> target
     \<and> pf_command_readers p = [BASE_FORMAT, NEXT_FORMAT]
     \<and> ''graphrun.domain/v1'' \<in> set (pf_domain_readers p)
     \<and> FORMAT_VERSION \<in> set (pf_graph_readers p)
     \<and> NEXT_RECORD_FORMAT \<in> set (pf_state_records p) \<and> STATE_RECORD_FORMAT \<in> set (pf_state_records p)
     \<and> EVENT_FORMAT \<in> set (pf_event_readers p) \<and> CHECKPOINT_FORMAT \<in> set (pf_checkpoint_readers p)
     \<and> ARTIFACT_FORMAT \<in> set (pf_artifact_readers p) \<and> 1 \<in> set (pf_snapshot_readers p)"

fun check_proofs :: "roster \<Rightarrow> nat \<Rightarrow> string \<Rightarrow> nat set \<Rightarrow> reader_proof list \<Rightarrow> nat set res" where
  "check_proofs roster target cluster seen [] = Ok seen"
| "check_proofs roster target cluster seen (p # ps) =
     (if pf_member_id p \<in> seen \<or> pf_cluster_id p \<noteq> cluster \<or> pf_roster_log_id p \<noteq> ro_log_id roster
         \<or> pf_active_generation p = 0 \<or> \<not> supports target p \<or> pf_member_id p \<notin> set (ro_nodes roster)
      then Err (precondition ''reader preparation does not match the committed roster and required versions'')
      else check_proofs roster target cluster (insert (pf_member_id p) seen) ps)"

definition validate_roster :: "roster \<Rightarrow> reader_proof list \<Rightarrow> nat \<Rightarrow> string \<Rightarrow> unit res" where
  "validate_roster roster proofs target cluster =
     (if length proofs \<noteq> length (ro_nodes roster)
      then Err (precondition ''every configured data-bearing voter and learner must prepare readers'')
      else rbind (check_proofs roster target cluster {} proofs) (\<lambda>seen.
        if list_ex (\<lambda>voters. voters = [] \<or> \<not> set voters \<subseteq> seen) (ro_configs roster)
        then Err (precondition ''joint voter configuration has an unprepared member'')
        else Ok ()))"

text \<open>The proof a member gives of the formats it reads.\<close>

definition reader_proof_of :: "roster \<Rightarrow> position option \<Rightarrow> string \<Rightarrow> nat \<Rightarrow> store_manifest \<Rightarrow> reader_proof" where
  "reader_proof_of roster applied cluster member m =
     \<lparr>pf_format = PROOF_FORMAT, pf_cluster_id = cluster, pf_member_id = member,
      pf_roster_log_id = ro_log_id roster, pf_active_generation = sm_active_generation m,
      pf_applied_log_id = applied, pf_reader_floor = reader_floor m,
      pf_command_readers = enabled_command_formats m, pf_domain_readers = enabled_domain_formats m,
      pf_graph_readers = [FORMAT_VERSION], pf_state_records = enabled_state_record_formats m,
      pf_event_readers = enabled_event_formats m,
      pf_checkpoint_readers = enabled_checkpoint_formats m, pf_artifact_readers = [ARTIFACT_FORMAT],
      pf_snapshot_readers = [1]\<rparr>"

section \<open>The two commands\<close>

fun position_json :: "position option \<Rightarrow> json" where
  "position_json None = JNull"
| "position_json (Some p) =
     JObj [(''term'', JNum (int (pos_term p))), (''leader_id'', JNum (int (pos_leader_id p))),
           (''index'', JNum (int (pos_index p)))]"

definition format_request_digest ::
    "'x ext_scheme \<Rightarrow> string \<Rightarrow> nat \<Rightarrow> position option \<Rightarrow> string res" where
  "format_request_digest E op target roster =
     rmap (\<lambda>bytes. hex_encode E (sha256 E (''graphrun.writer-activation/v1'' @ [CHR 0x00] @ bytes)))
       (canonical_json (json_string E) (JArr [JStr op, JNum (int target), position_json roster]))"

definition receipt_key :: "'x ext_scheme \<Rightarrow> string \<Rightarrow> string \<Rightarrow> command_id \<Rightarrow> string" where
  "receipt_key E cluster actor cid = cluster @ ''/'' @ actor @ ''/'' @ hex_encode E cid"

fun format_request :: "command_body \<Rightarrow> (string \<times> nat \<times> position option) option" where
  "format_request (CmdPrepareWriterFormat _ roster) = Some (''prepare'', NEXT_FORMAT, roster)"
| "format_request (CmdActivateWriterFormat roster target) = Some (''activate'', target, roster)"
| "format_request _ = None"

text \<open>The attempt: the policy after a preparation or an activation.\<close>

fun attempt_format ::
    "writer_policy \<Rightarrow> roster \<Rightarrow> position \<Rightarrow> nat \<Rightarrow> string \<Rightarrow> command_body \<Rightarrow> writer_policy res" where
  "attempt_format policy roster log_id target cluster (CmdPrepareWriterFormat proofs _) =
     rbind (validate_roster roster proofs target cluster) (\<lambda>_.
       Ok (policy\<lparr>fp_roster_log_id := ro_log_id roster,
                  prepared := fold (\<lambda>p m. bput (pf_member_id p) p m) proofs []\<rparr>))"
| "attempt_format policy roster log_id target cluster (CmdActivateWriterFormat _ _) =
     (if active_writer policy = NEXT_FORMAT
      then Err (precondition ''writer format activation is monotonic'')
      else if fp_roster_log_id policy \<noteq> ro_log_id roster
      then Err (precondition ''reader readiness belongs to an older roster'')
      else rbind (validate_roster roster (map snd (prepared policy)) target cluster) (\<lambda>_.
        Ok (policy\<lparr>active_writer := target, activation_log_id := Some log_id\<rparr>)))"
| "attempt_format policy roster log_id target cluster _ = Panic"

definition checked_attempt ::
    "writer_policy \<Rightarrow> roster \<Rightarrow> position \<Rightarrow> string \<Rightarrow> nat \<Rightarrow> position option \<Rightarrow> string \<Rightarrow> command_body
     \<Rightarrow> writer_policy res" where
  "checked_attempt policy roster log_id actor target requested cluster body =
     (if actor = [] \<or> target \<noteq> NEXT_FORMAT \<or> requested \<noteq> ro_log_id roster
      then Err (precondition ''writer format target or committed roster changed'')
      else attempt_format policy roster log_id target cluster body)"

fun unwrap_cause :: "command_body \<Rightarrow> command_body" where
  "unwrap_cause (CmdAuthenticated _ body) = body"
| "unwrap_cause body = body"

definition format_apply ::
    "'x ext_scheme \<Rightarrow> writer_policy \<Rightarrow> (string, format_receipt) bmap \<Rightarrow> command \<Rightarrow> roster \<Rightarrow> position
     \<Rightarrow> string \<Rightarrow> string \<Rightarrow> (writer_policy \<times> (string, format_receipt) bmap \<times> format_receipt) res" where
  "format_apply E policy receipts cmd roster log_id actor cluster =
     (let body = unwrap_cause (cmd_body cmd) in
      case format_request body of
        None \<Rightarrow> Err (invalid ''not a writer format command'')
      | Some (op, target, requested) \<Rightarrow>
          if actor = []
          then Err (error_new PermissionDenied ''format change requires a verified admin principal'')
          else rbind (format_request_digest E op target requested) (\<lambda>digest.
            let key = receipt_key E cluster actor (cmd_id cmd) in
            case map_of receipts key of
              Some r \<Rightarrow>
                if fr_request_digest r \<noteq> digest
                then Err (already_exists ''format command identity reused with a different request'')
                else Ok (policy, receipts, r)
            | None \<Rightarrow>
                (case checked_attempt policy roster log_id actor target requested cluster body of
                   Panic \<Rightarrow> Panic
                 | attempt \<Rightarrow>
                     let policy1 = (case attempt of Ok p \<Rightarrow> p | _ \<Rightarrow> policy);
                         r = \<lparr>fr_format = RECEIPT_FORMAT, fr_cluster_id = cluster, fr_principal_id = actor,
                              fr_command_id = cmd_id cmd, fr_request_digest = digest,
                              fr_applied_log_id = log_id, fr_active_writer = active_writer policy1,
                              fr_applied = is_ok attempt,
                              fr_message = (case attempt of Err e \<Rightarrow> err_message e | _ \<Rightarrow> [])\<rparr> in
                     Ok (policy1, bput key r receipts, r))))"

text \<open>The check of a loaded state.\<close>

definition receipt_valid :: "externals \<Rightarrow> string \<Rightarrow> format_receipt \<Rightarrow> bool" where
  "receipt_valid E key r \<longleftrightarrow>
     fr_format r = RECEIPT_FORMAT \<and> key = receipt_key E (fr_cluster_id r) (fr_principal_id r) (fr_command_id r)
     \<and> (case id_from_hex E (fr_cluster_id r) of Inl _ \<Rightarrow> False | Inr _ \<Rightarrow> True)
     \<and> length (fr_request_digest r) = 64
     \<and> (case hex_decode E (fr_request_digest r) of Inl _ \<Rightarrow> False | Inr _ \<Rightarrow> True)"

definition validate_persisted_state :: "externals \<Rightarrow> state \<Rightarrow> unit res" where
  "validate_persisted_state E st =
     (let policy = format_policy st in
      if fp_format policy \<noteq> POLICY_FORMAT \<or> active_writer policy \<notin> {BASE_FORMAT, NEXT_FORMAT}
         \<or> (active_writer policy = NEXT_FORMAT \<and> activation_log_id policy = None)
         \<or> list_ex (\<lambda>(member, p). member \<noteq> pf_member_id p \<or> pf_format p \<noteq> PROOF_FORMAT
                       \<or> pf_cluster_id p \<noteq> current_cluster_id st
                       \<or> pf_roster_log_id p \<noteq> fp_roster_log_id policy) (prepared policy)
         \<or> list_ex (\<lambda>(key, r). \<not> receipt_valid E key r) (format_receipts st)
      then Err (precondition ''unsupported or inconsistent retained writer-format policy'')
      else Ok ())"

text \<open>A cluster of one member that has prepared and is about to activate.\<close>

definition sample_position :: "nat \<Rightarrow> position" where
  "sample_position i = \<lparr>pos_term = 1, pos_leader_id = 1, pos_index = i\<rparr>"

definition sample_roster :: roster where
  "sample_roster = \<lparr>ro_log_id = Some (sample_position 2), ro_nodes = [1], ro_configs = [[1]]\<rparr>"

definition sample_manifest :: store_manifest where
  "sample_manifest =
     manifest_new\<lparr>reader_floor := 5, enabled_command_formats := [4, 5],
                  enabled_state_record_formats := [STATE_RECORD_FORMAT, NEXT_RECORD_FORMAT]\<rparr>"

definition sample_policy :: writer_policy where
  "sample_policy =
     writer_policy_default\<lparr>fp_roster_log_id := Some (sample_position 2),
       prepared := [(1, reader_proof_of sample_roster None ''cluster'' 1 sample_manifest)]\<rparr>"

definition sample_activate :: command where
  "sample_activate =
     \<lparr>cmd_id = ''activate'', cmd_body = CmdActivateWriterFormat (Some (sample_position 2)) 5, cmd_time = 1\<rparr>"

section \<open>What an activation requires\<close>

lemma check_proofs_Ok:
  "check_proofs roster target cluster seen ps = Ok seen' \<longleftrightarrow>
     seen' = seen \<union> pf_member_id ` set ps \<and> distinct (map pf_member_id ps)
     \<and> pf_member_id ` set ps \<inter> seen = {} \<and> pf_member_id ` set ps \<subseteq> set (ro_nodes roster)
     \<and> (\<forall>p\<in>set ps. pf_cluster_id p = cluster \<and> pf_roster_log_id p = ro_log_id roster
           \<and> pf_active_generation p \<noteq> 0 \<and> supports target p)"
  by (induction ps arbitrary: seen) auto

lemma validate_roster_Ok:
  "validate_roster roster ps target cluster = Ok u \<longleftrightarrow>
     length ps = length (ro_nodes roster) \<and> distinct (map pf_member_id ps)
     \<and> pf_member_id ` set ps \<subseteq> set (ro_nodes roster)
     \<and> (\<forall>p\<in>set ps. pf_cluster_id p = cluster \<and> pf_roster_log_id p = ro_log_id roster
           \<and> pf_active_generation p \<noteq> 0 \<and> supports target p)
     \<and> (\<forall>voters\<in>set (ro_configs roster). voters \<noteq> [] \<and> set voters \<subseteq> pf_member_id ` set ps)"
  by (auto simp: validate_roster_def check_proofs_Ok list_ex_iff res_simps)

text \<open>As many proofs of distinct members as there are nodes are the proofs of all nodes.\<close>

lemma validate_roster_covers:
  assumes "validate_roster roster ps target cluster = Ok u"
  shows "pf_member_id ` set ps = set (ro_nodes roster)"
proof (rule card_subset_eq)
  from assms have "length ps = length (ro_nodes roster)" and distinct: "distinct (map pf_member_id ps)"
    and sub: "pf_member_id ` set ps \<subseteq> set (ro_nodes roster)"
    by (simp_all add: validate_roster_Ok)
  with distinct_card [OF distinct] have "card (pf_member_id ` set ps) = length (ro_nodes roster)" by simp
  moreover have "card (pf_member_id ` set ps) \<le> card (set (ro_nodes roster))"
    by (rule card_mono [OF _ sub]) simp
  ultimately show "card (pf_member_id ` set ps) = card (set (ro_nodes roster))"
    using card_length [of "ro_nodes roster"] by simp
qed (use assms in \<open>auto simp: validate_roster_Ok\<close>)

lemma format_apply_Ok:
  assumes "format_apply E policy receipts cmd roster log_id actor cluster = Ok (policy', receipts', r)"
  obtains (retried) "policy' = policy" and "receipts' = receipts"
    and "map_of receipts (receipt_key E cluster actor (cmd_id cmd)) = Some r"
  | (rejected) "policy' = policy" and "receipts' = bput (receipt_key E cluster actor (cmd_id cmd)) r receipts"
    and "map_of receipts (receipt_key E cluster actor (cmd_id cmd)) = None" and "\<not> fr_applied r"
    and "fr_active_writer r = active_writer policy"
  | (applied) target requested where
    "checked_attempt policy roster log_id actor target requested cluster (unwrap_cause (cmd_body cmd)) = Ok policy'"
    and "receipts' = bput (receipt_key E cluster actor (cmd_id cmd)) r receipts"
    and "map_of receipts (receipt_key E cluster actor (cmd_id cmd)) = None" and "fr_applied r"
    and "fr_active_writer r = active_writer policy'"
proof (cases "map_of receipts (receipt_key E cluster actor (cmd_id cmd))")
  case (Some x)
  with assms show ?thesis
    by (auto simp: format_apply_def Let_def res_simps split: option.splits if_splits intro: retried)
next
  case None
  from assms None obtain op target requested digest where
      "format_request (unwrap_cause (cmd_body cmd)) = Some (op, target, requested)" and "actor \<noteq> []"
    and "format_request_digest E op target requested = Ok digest"
    by (auto simp: format_apply_def Let_def res_simps split: option.splits if_splits)
  with None assms show ?thesis
    by (cases "checked_attempt policy roster log_id actor target requested cluster (unwrap_cause (cmd_body cmd))")
       (auto simp: format_apply_def Let_def intro: rejected applied)
qed

lemma checked_attempt_cases:
  assumes "checked_attempt policy roster log_id actor target requested cluster body = Ok policy'"
  obtains (prepares) proofs where "requested = ro_log_id roster"
    and "validate_roster roster proofs NEXT_FORMAT cluster = Ok ()"
    and "policy' = policy\<lparr>fp_roster_log_id := ro_log_id roster,
           prepared := fold (\<lambda>p m. bput (pf_member_id p) p m) proofs []\<rparr>"
  | (activates) "active_writer policy \<noteq> NEXT_FORMAT" and "fp_roster_log_id policy = ro_log_id roster"
    and "validate_roster roster (map snd (prepared policy)) NEXT_FORMAT cluster = Ok ()"
    and "policy' = policy\<lparr>active_writer := NEXT_FORMAT, activation_log_id := Some log_id\<rparr>"
  using assms by (cases body) (auto simp: checked_attempt_def res_simps split: if_splits)

text \<open>Property C6: a writer format is activated only when the whole cluster can read it. When a
  format command raises the active writer, the roster is the one that was prepared, the members
  with a retained proof are exactly its nodes, every proof is about this cluster and this roster
  and supports the next format, and every voter set of the joint configuration is covered.\<close>

theorem activation_requires_readers:
  assumes "format_apply E policy receipts cmd roster log_id actor cluster = Ok (policy', receipts', r)"
    and "active_writer policy' \<noteq> active_writer policy"
  shows "active_writer policy' = NEXT_FORMAT \<and> activation_log_id policy' = Some log_id \<and> fr_applied r
    \<and> fp_roster_log_id policy = ro_log_id roster
    \<and> pf_member_id ` snd ` set (prepared policy) = set (ro_nodes roster)
    \<and> (\<forall>p\<in>snd ` set (prepared policy). pf_cluster_id p = cluster \<and> pf_roster_log_id p = ro_log_id roster
          \<and> supports NEXT_FORMAT p)
    \<and> (\<forall>voters\<in>set (ro_configs roster). voters \<noteq> [] \<and> set voters \<subseteq> pf_member_id ` snd ` set (prepared policy))"
  using assms(1)
proof (cases rule: format_apply_Ok)
  case (applied target requested)
  from applied(1) show ?thesis
  proof (cases rule: checked_attempt_cases)
    case activates
    from validate_roster_covers [OF activates(3)]
    have "pf_member_id ` snd ` set (prepared policy) = set (ro_nodes roster)" by (simp add: image_image)
    with activates applied(4) show ?thesis by (simp add: validate_roster_Ok)
  qed (use assms(2) in simp)
qed (use assms(2) in simp_all)

theorem activation_requires_readers_witness:
  "\<exists>policy' receipts' r.
     format_apply sample_ext sample_policy [] sample_activate sample_roster (sample_position 9) ''admin''
       ''cluster'' = Ok (policy', receipts', r)
     \<and> active_writer policy' = NEXT_FORMAT \<and> pf_member_id ` snd ` set (prepared sample_policy) = {1}"
proof -
  have "rmap (\<lambda>(policy', receipts', r). active_writer policy')
          (format_apply sample_ext sample_policy [] sample_activate sample_roster (sample_position 9) ''admin''
             ''cluster'') = Ok 5"
    by code_simp
  then obtain policy' receipts' r where
      run: "format_apply sample_ext sample_policy [] sample_activate sample_roster (sample_position 9) ''admin''
              ''cluster'' = Ok (policy', receipts', r)" and "active_writer policy' = 5"
    by (auto simp: res_simps)
  then have "active_writer policy' \<noteq> active_writer sample_policy"
    by (simp add: sample_policy_def writer_policy_default_def BASE_FORMAT_def)
  from activation_requires_readers [OF run this] run show ?thesis
    by (intro exI [of _ policy'] exI [of _ receipts'] exI [of _ r] conjI) (simp_all add: sample_roster_def)
qed

section \<open>Receipts and the retained policy\<close>

lemma format_apply_monotone:
  assumes "format_apply E policy receipts cmd roster log_id actor cluster = Ok (policy', receipts', r)"
    and "active_writer policy \<in> {BASE_FORMAT, NEXT_FORMAT}"
  shows "active_writer policy \<le> active_writer policy' \<and> active_writer policy' \<in> {BASE_FORMAT, NEXT_FORMAT}"
  using assms(1)
proof (cases rule: format_apply_Ok)
  case (applied target requested)
  from applied(1) assms(2) show ?thesis
    by (cases rule: checked_attempt_cases) (auto simp: BASE_FORMAT_def NEXT_FORMAT_def)
qed (use assms(2) in simp_all)

text \<open>Property C33: a format command is answered once. Whatever has happened to the policy, the
  roster and the log since, the command submitted again under the same identity returns the
  receipt of its first application, applied or rejected, and changes nothing; submitted with
  another request it is refused.\<close>

theorem format_command_retry:
  assumes "format_apply E policy receipts cmd roster log_id actor cluster = Ok (policy', receipts', r)"
    and "cmd_id cmd2 = cmd_id cmd"
    and "format_request (unwrap_cause (cmd_body cmd2)) = Some (op, target, requested)"
    and "format_request_digest E op target requested = Ok digest"
  shows "format_apply E policy2 receipts' cmd2 roster2 log_id2 actor cluster =
    (if digest = fr_request_digest r then Ok (policy2, receipts', r)
     else Err (already_exists ''format command identity reused with a different request''))"
proof -
  have "actor \<noteq> []" using assms(1) by (auto simp: format_apply_def Let_def split: option.splits)
  moreover from assms(1) have "map_of receipts' (receipt_key E cluster actor (cmd_id cmd)) = Some r"
    by (cases rule: format_apply_Ok) simp_all
  ultimately show ?thesis using assms(2-4) by (simp add: format_apply_def)
qed

theorem format_command_retry_witness:
  "\<exists>policy' receipts' r.
     format_apply sample_ext writer_policy_default [] sample_activate sample_roster (sample_position 3) ''admin''
       ''cluster'' = Ok (policy', receipts', r)
     \<and> \<not> fr_applied r
     \<and> format_apply sample_ext sample_policy receipts' sample_activate sample_roster (sample_position 9) ''admin''
         ''cluster'' = Ok (sample_policy, receipts', r)"
proof -
  let ?first = "format_apply sample_ext writer_policy_default [] sample_activate sample_roster (sample_position 3)
                  ''admin'' ''cluster''"
  let ?digest = "format_request_digest sample_ext ''activate'' 5 (Some (sample_position 2))"
  have "rmap (\<lambda>(policy', receipts', r). (fr_applied r, Ok (fr_request_digest r) = ?digest)) ?first = Ok (False, True)"
    by code_simp
  then obtain policy' receipts' r where run: "?first = Ok (policy', receipts', r)"
    and r: "\<not> fr_applied r" "?digest = Ok (fr_request_digest r)"
    by (auto simp: res_simps)
  have "format_request (unwrap_cause (cmd_body sample_activate)) = Some (''activate'', 5, Some (sample_position 2))"
    by (simp add: sample_activate_def)
  from format_command_retry [OF run refl this r(2)] run r(1) show ?thesis
    by (intro exI [of _ policy'] exI [of _ receipts'] exI [of _ r]) simp
qed

text \<open>What the check of a loaded state asks of the policy and of the receipts is kept.\<close>

lemma prepared_entries:
  assumes "(member, p) \<in> set (fold (\<lambda>p m. bput (pf_member_id p) p m) proofs acc)"
  shows "(member, p) \<in> set acc \<or> (member = pf_member_id p \<and> p \<in> set proofs)"
  using assms
proof (induction proofs arbitrary: acc)
  case (Cons q proofs)
  then show ?case by (fastforce dest: Cons.IH bput_entries)
qed simp

end
