(* ===== verification/Store_Check.thy ===== *)
theory Store_Check
  imports Formats
begin

text \<open>
  \<open>validate_history_store\<close> of storage.rs: the check a member makes of the state it loads before it
  opens a store, compacts it or proves its readers. Published content, receipts and, for every
  run, the retained records, their payload references and the last checkpoint are checked against
  the events they are about.
\<close>

section \<open>Artifacts and published content\<close>

definition validate_identity :: "externals \<Rightarrow> artifact_ref \<Rightarrow> unit res" where
  "validate_identity E a =
     (if ar_format a \<noteq> ARTIFACT_FORMAT
         \<or> (case id_from_hex E (ar_cluster_id a) of Inl _ \<Rightarrow> True | Inr _ \<Rightarrow> False)
         \<or> length (ar_sha256 a) \<noteq> 64
         \<or> (case hex_decode E (ar_sha256 a) of Inl _ \<Rightarrow> True | Inr _ \<Rightarrow> False)
      then Err (unavailable ''retained artifact has an unsupported origin or digest'')
      else Ok ())"

definition verify_origin :: "externals \<Rightarrow> state \<Rightarrow> artifact_ref \<Rightarrow> unit res" where
  "verify_origin E st a =
     (if current_cluster_id st = [] then Ok ()
      else rbind (validate_identity E a) (\<lambda>_.
        if ar_cluster_id a \<in> artifact_origins st then Ok ()
        else Err (precondition ''retained artifact origin is missing from the generation'')))"

text \<open>The message of a wrapped error is prefixed by what was being checked.\<close>

fun wrap_err :: "string \<Rightarrow> 'a res \<Rightarrow> 'a res" where
  "wrap_err pre (Err e) = Err (precondition (pre @ err_message e))"
| "wrap_err pre r = r"

definition check_catalog :: "externals \<Rightarrow> nat \<times> published_catalog \<Rightarrow> unit res" where
  "check_catalog E item =
     (case item of (version, p) \<Rightarrow>
      if version = 0 then Err (precondition ''published catalog has invalid version'')
      else rbind (wrap_err (''published catalog v'' @ show_nat version @ '' is unavailable: '') (catalog_verify E p))
        (\<lambda>_. wrap_err (''published catalog v'' @ show_nat version @ '' has invalid contracts: '')
               (validate_for_publication (pc_catalog p))))"

definition check_definition ::
    "externals \<Rightarrow> state \<Rightarrow> string \<Rightarrow> nat \<times> published_definition \<Rightarrow> unit res" where
  "check_definition E st workflow item =
     (case item of (version, p) \<Rightarrow>
      let label = ''published definition '' @ workflow @ ''/v'' @ show_nat version in
      if def_id (pd_definition p) \<noteq> workflow \<or> def_version (pd_definition p) \<noteq> version
      then Err (precondition ''published definition identity differs from its retained key'')
      else rbind (wrap_err (label @ '' is unavailable: '') (definition_verify E p)) (\<lambda>_.
           rbind (ok_or (precondition (label @ '' has no retained catalog''))
                    (map_of (published_catalogs st) (pd_catalog_version p))) (\<lambda>catalog.
             wrap_err (label @ '' has invalid pinned schemas: '') (validate_definition (pd_definition p)))))"

definition check_result :: "externals \<Rightarrow> string \<times> command_result \<Rightarrow> unit res" where
  "check_result E item =
     (case item of (key, r) \<Rightarrow>
      if key \<noteq> storage_key E (cr_key r)
      then Err (precondition ''retained publication receipt identity differs from its key'')
      else ensure_format r)"

section \<open>The records of a run\<close>

fun event_input :: "domain_event \<Rightarrow> val option" where
  "event_input (RunAdmitted _ _ _ input _ _ _) = Some input"
| "event_input (ClaimGranted g) = Some (cg_input g)"
| "event_input (EventAccepted _ _ _ _ payload _ _ _) = Some payload"
| "event_input _ = None"

fun event_output :: "domain_event \<Rightarrow> val option" where
  "event_output (LeafSucceeded _ _ _ output _) = Some output"
| "event_output (RunSucceeded _ output) = Some output"
| "event_output (ReconciliationRecorded _ _ _ output _) = output"
| "event_output _ = None"

definition check_ref ::
    "externals \<Rightarrow> state \<Rightarrow> string \<Rightarrow> val option \<Rightarrow> artifact_ref option \<Rightarrow> unit res" where
  "check_ref E st missing value reference =
     (case (value, reference) of
        (Some v, Some r) \<Rightarrow>
          rbind (verify_origin E st r) (\<lambda>_. artifact_verify E r (ar_schema r) (to_json v))
      | (None, None) \<Rightarrow> Ok ()
      | _ \<Rightarrow> Err (precondition missing))"

text \<open>The schema a reference is kept under is the one the run pins for it.\<close>

definition check_schema :: "string \<Rightarrow> string \<Rightarrow> artifact_ref option \<Rightarrow> unit res" where
  "check_schema message expected reference =
     (if (case reference of None \<Rightarrow> True | Some r \<Rightarrow> ar_schema r \<noteq> expected) then Err (precondition message)
      else Ok ())"

definition no_claim_schema :: error where
  "no_claim_schema = precondition ''accepted activity result has no retained claim schema''"

definition check_result_schema ::
    "(activation_id, string) hmap \<Rightarrow> activation_id \<Rightarrow> artifact_ref option \<Rightarrow> (activation_id, string) hmap res" where
  "check_result_schema claimed activation reference =
     rbind (ok_or no_claim_schema (hget claimed activation)) (\<lambda>expected.
     rbind (check_schema ''activity output does not use its pinned schema'' expected reference) (\<lambda>_.
       Ok claimed))"

definition check_event_schema ::
    "externals \<Rightarrow> state \<Rightarrow> run_id \<Rightarrow> run_state \<Rightarrow> (activation_id, string) hmap \<Rightarrow> history_entry \<Rightarrow> domain_event
     \<Rightarrow> (activation_id, string) hmap res" where
  "check_event_schema E st run run_state claimed entry event =
     (case event of
        RunAdmitted _ _ _ _ _ _ _ \<Rightarrow>
          rbind (schema_identity E (def_input_schema (rs_definition run_state))) (\<lambda>expected.
          rbind (check_schema ''run admission input does not use its pinned schema'' expected (he_input_ref entry))
            (\<lambda>_. Ok claimed))
      | ClaimGranted g \<Rightarrow>
          rbind (activity_schema_identity E st run (cg_handler g) (cg_handler_version g) (cg_role g))
            (\<lambda>(expected_input, expected_output).
          rbind (check_schema ''activity input does not use its pinned schema'' expected_input (he_input_ref entry))
            (\<lambda>_. Ok (hput (cg_activation g) expected_output claimed)))
      | EventAccepted _ _ signal _ _ _ _ _ \<Rightarrow>
          rbind (ok_or (precondition ''accepted event has no pinned signal schema'')
                   (map_of (def_signals (rs_definition run_state)) signal)) (\<lambda>sig_schema.
          rbind (schema_identity E sig_schema) (\<lambda>expected.
          rbind (check_schema ''signal input does not use its pinned schema'' expected (he_input_ref entry))
            (\<lambda>_. Ok claimed)))
      | LeafSucceeded _ activation _ _ _ \<Rightarrow> check_result_schema claimed activation (he_output_ref entry)
      | ReconciliationRecorded _ activation _ (Some _) _ \<Rightarrow>
          check_result_schema claimed activation (he_output_ref entry)
      | RunSucceeded _ _ \<Rightarrow>
          rbind (schema_identity E (def_output_schema (rs_definition run_state))) (\<lambda>expected.
          rbind (check_schema ''run output does not use its pinned schema'' expected (he_output_ref entry))
            (\<lambda>_. Ok claimed))
      | _ \<Rightarrow> Ok claimed)"

definition check_record ::
    "externals \<Rightarrow> state \<Rightarrow> history_entry \<Rightarrow> domain_event \<Rightarrow> unit res" where
  "check_record E st entry event =
     rbind (verify_origin E st (he_payload entry)) (\<lambda>_.
     rbind (artifact_verify E (he_payload entry) ''graphrun.domain-event/v1'' (ser_event E event)) (\<lambda>_.
     rbind (check_ref E st ''accepted input is missing its immutable payload reference''
              (event_input event) (he_input_ref entry)) (\<lambda>_.
       check_ref E st ''accepted output is missing its immutable payload reference''
         (event_output event) (he_output_ref entry))))"

fun check_records ::
    "externals \<Rightarrow> state \<Rightarrow> run_id \<Rightarrow> run_state \<Rightarrow> (activation_id, string) hmap
     \<Rightarrow> (history_entry \<times> domain_event) list \<Rightarrow> unit res" where
  "check_records E st run run_state claimed [] = Ok ()"
| "check_records E st run run_state claimed ((entry, event) # rest) =
     rbind (check_record E st entry event) (\<lambda>_.
     rbind (check_event_schema E st run run_state claimed entry event) (\<lambda>claimed1.
       check_records E st run run_state claimed1 rest))"

definition required_refs :: "required_artifacts \<Rightarrow> artifact_ref list" where
  "required_refs r =
     [ra_definition r, ra_catalog r, ra_policy r] @ map snd (ra_schemas r) @ map snd (ra_contracts r)"

definition records_aligned :: "run_id \<Rightarrow> history_entry list \<Rightarrow> bool" where
  "records_aligned run records \<longleftrightarrow>
     list_all (\<lambda>(i, entry). he_format entry = EVENT_FORMAT \<and> he_run entry = run \<and> he_sequence entry = i + 1)
       (enumerate 0 records)"

definition checkpoint_bounds :: "nat \<Rightarrow> run_checkpoint option \<Rightarrow> bool" where
  "checkpoint_bounds history_len checkpoint \<longleftrightarrow>
     (case checkpoint of
        None \<Rightarrow> True
      | Some cp \<Rightarrow> cp_format cp = CHECKPOINT_FORMAT \<and> cp_through_run_sequence cp \<noteq> 0
                   \<and> cp_through_run_sequence cp \<le> history_len)"

definition check_retained_checkpoint ::
    "externals \<Rightarrow> state \<Rightarrow> run_state \<Rightarrow> run_checkpoint option \<Rightarrow> unit res" where
  "check_retained_checkpoint E st run_state checkpoint =
     (case checkpoint of
        None \<Rightarrow> Ok ()
      | Some cp \<Rightarrow>
          rbind (required_verify E (cp_required cp) run_state) (\<lambda>_.
          rbind (artifact_verify E (cp_projection_ref cp) ''graphrun.run-projection/v2''
                   (ser_projection E (cp_through_run_sequence cp) (cp_projection cp))) (\<lambda>_.
            verify_origin E st (cp_projection_ref cp))))"

definition check_run :: "externals \<Rightarrow> replica \<Rightarrow> run_id \<times> run_state \<Rightarrow> unit res" where
  "check_run E rep item =
     (case item of (run, run_state) \<Rightarrow>
      let st = rep_state rep;
          incompatible = Err (precondition (''run '' @ hex_encode E run
            @ '' has incompatible pre-history records; migrate explicitly (directory left untouched)'')) in
      case (hget (history st) run, hget (history_records st) run, hget (history_dependencies st) run) of
        (Some events, Some records, Some dependencies) \<Rightarrow>
          if events = [] \<or> length records \<noteq> length events then incompatible
          else if \<not> records_aligned run records
                  \<or> \<not> checkpoint_bounds (length events) (hget (checkpoints rep) run)
          then Err (precondition (''run '' @ hex_encode E run
                 @ '' has unsupported history or checkpoint format; migrate explicitly (directory left untouched)''))
          else rbind (required_verify E dependencies run_state) (\<lambda>_.
               rbind (rseq (map (verify_origin E st) (required_refs dependencies))) (\<lambda>_.
               rbind (check_records E st run run_state [] (zip records events)) (\<lambda>_.
                 check_retained_checkpoint E st run_state (hget (checkpoints rep) run))))
      | _ \<Rightarrow> incompatible)"

definition validate_history_store :: "externals \<Rightarrow> replica \<Rightarrow> unit res" where
  "validate_history_store E rep =
     (let st = rep_state rep in
      rbind (rseq (map (check_catalog E) (published_catalogs st))) (\<lambda>_.
      rbind (rseq (map (\<lambda>(workflow, versions). rmap (\<lambda>_. ()) (rseq (map (check_definition E st workflow) versions)))
                     (published_definitions st))) (\<lambda>_.
      rbind (rseq (map (check_result E) (command_results st))) (\<lambda>_.
      rbind (rseq (map (check_run E rep) (runs st))) (\<lambda>_.
      rbind (rseq (map (\<lambda>t. verify_origin E st (tb_payload t)) (hvals (signal_tombstones st)))) (\<lambda>_.
        Ok ()))))))"

end
