(* ===== verification/Entries.thy ===== *)
theory Entries
  imports Steps Store_Check
begin

text \<open>
  Applying committed log entries to a member (\<open>apply_entries\<close> and \<open>apply_one_entry\<close> of storage.rs). A
  member has the replicated state, the position of the last applied entry, the stored membership
  and the manifest of its store. An entry of an older or of a newer writer format is refused, a
  format command goes to the writer policy, a publication is applied in place and, when it is
  rejected, its rejection is recorded on the state reloaded from disk, and any other command is
  committed, where a failing one leaves the state as it was loaded. The rows, the schedule and the
  snapshot counters that are written beside the state are not part of the model. A member is
  reachable when it results from a bound genesis by entries and by preparing its readers.
\<close>

section \<open>Members and entries\<close>

record member =
  mb_replica :: replica
  mb_applied :: "position option"
  mb_roster :: roster
  mb_manifest :: store_manifest

abbreviation state_of :: "member \<Rightarrow> state" where
  "state_of m \<equiv> rep_state (mb_replica m)"

datatype entry_payload =
    Blank
  | Normal nat command
  | Membership "nat list list" "nat list"

record log_entry =
  en_log_id :: position
  en_payload :: entry_payload

record raft_response =
  rr_error :: "error option"
  rr_command_result :: "command_result option"
  rr_run_id :: "run_id option"
  rr_format_receipt :: "format_receipt option"

definition empty_response :: raft_response where
  "empty_response =
     \<lparr>rr_error = None, rr_command_result = None, rr_run_id = None, rr_format_receipt = None\<rparr>"

definition error_response :: "error \<Rightarrow> raft_response" where
  "error_response e = empty_response\<lparr>rr_error := Some e\<rparr>"

text \<open>\<open>Err\<close> stands for the storage error that stops the member.\<close>

definition storage_error :: "string \<Rightarrow> error" where
  "storage_error m = error_new FailedPrecondition m"

fun is_format_command :: "command_body \<Rightarrow> bool" where
  "is_format_command (CmdPrepareWriterFormat _ _) = True"
| "is_format_command (CmdActivateWriterFormat _ _) = True"
| "is_format_command _ = False"

fun entry_principal :: "command_body \<Rightarrow> string" where
  "entry_principal (CmdAuthenticated actor _) = actor"
| "entry_principal _ = []"

fun admitted_run :: "domain_event list \<Rightarrow> run_id option" where
  "admitted_run [] = None"
| "admitted_run (RunAdmitted run _ _ _ _ _ _ # events) = Some run"
| "admitted_run (event # events) = admitted_run events"

section \<open>Format commands\<close>

definition apply_format_entry ::
    "externals \<Rightarrow> member \<Rightarrow> position \<Rightarrow> command \<Rightarrow> (raft_response \<times> member) res" where
  "apply_format_entry E m log_id cmd =
     (let st = state_of m in
      case format_apply E (format_policy st) (format_receipts st) cmd (mb_roster m) log_id
             (entry_principal (cmd_body cmd)) (current_cluster_id st) of
        Panic \<Rightarrow> Panic
      | Err e \<Rightarrow> Ok (error_response e, m)
      | Ok (policy, receipts, r) \<Rightarrow>
          (let reply = \<lparr>rr_error = (if fr_applied r then None else Some (precondition (fr_message r))),
                        rr_command_result = None, rr_run_id = None, rr_format_receipt = Some r\<rparr>;
               rep = (mb_replica m)\<lparr>rep_state := st\<lparr>format_policy := policy, format_receipts := receipts\<rparr>\<rparr> in
           if fr_applied r \<and> active_writer policy = NEXT_FORMAT
           then if reader_floor (mb_manifest m) \<noteq> NEXT_FORMAT
                then Err (storage_error
                       ''committed activation cannot apply without durable local reader preparation'')
                else rmap (\<lambda>manifest. (reply, m\<lparr>mb_replica := rep, mb_manifest := manifest\<rparr>))
                       (activate_writer E (mb_manifest m))
           else Ok (reply, m\<lparr>mb_replica := rep\<rparr>)))"

section \<open>Publications\<close>

text \<open>The owners of the events of an entry are looked up once more, for the schedule.\<close>

definition owners_known :: "state \<Rightarrow> domain_event list \<Rightarrow> bool" where
  "owners_known st events = list_all (\<lambda>event. is_ok (event_owner st event)) events"

definition new_start_present ::
    "externals \<Rightarrow> state \<Rightarrow> command_key \<Rightarrow> publication_operation \<Rightarrow> command_result \<Rightarrow> state \<Rightarrow> bool" where
  "new_start_present E st key op r st1 \<longleftrightarrow>
     (case (applied_run r, op) of
        (Ok run, PubStart workflow _ start_key _) \<Rightarrow>
          if map_of (command_results st) (storage_key E key) = None
             \<and> start_key_of st workflow start_key = None
          then (case published_start_ids E key of (expected, _, progress_id) \<Rightarrow>
                  expected = run \<and> hhas (runs st1) run \<and> hhas (commands st1) progress_id
                  \<and> hhas (history st1) run \<and> owners_known st1 (hlist (history st1) run))
          else True
      | _ \<Rightarrow> True)"

definition apply_publication_entry ::
    "externals \<Rightarrow> replica \<Rightarrow> command \<Rightarrow> command_key \<Rightarrow> publication_operation
     \<Rightarrow> (raft_response \<times> replica) res" where
  "apply_publication_entry E rep cmd key op =
     (let st = rep_state rep in
      if ck_command_id key \<noteq> cmd_id cmd \<or> ck_cluster_id key = [] \<or> ck_principal_id key = []
      then Ok (error_response (invalid ''invalid authenticated command identity''), rep)
      else let first = (map_of (command_results st) (storage_key E key) = None);
               now = (if first then max (engine_time_watermark_ms st) (cmd_time cmd) else cmd_time cmd);
               cmd1 = cmd\<lparr>cmd_time := now\<rparr>;
               rep1 = (if first then rep\<lparr>rep_state := st\<lparr>engine_time_watermark_ms := now\<rparr>\<rparr> else rep) in
        rbind (case apply_replicated E rep1 cmd1 key op of
                 Ok x \<Rightarrow> Ok x
               | Err _ \<Rightarrow>
                   rbind (publication_apply E rep cmd1 key op) (\<lambda>(r, rep2).
                     if is_ok (ensure_applied r)
                     then Err (storage_error ''publication replay changed an in-place rejection'')
                     else Ok (r, rep2))
               | Panic \<Rightarrow> Panic) (\<lambda>(r, rep2).
          if \<not> new_start_present E st key op r (rep_state rep2)
          then Err (storage_error ''new published start is missing its run or internal receipt'')
          else Ok (\<lparr>rr_error = (case ensure_applied r of Err e \<Rightarrow> Some e | _ \<Rightarrow> None),
                    rr_command_result = Some r, rr_run_id = None, rr_format_receipt = None\<rparr>, rep2)))"

section \<open>Other commands\<close>

text \<open>The inbox entries a prune selects are recorded under their run.\<close>

definition prune_selectable :: "state \<Rightarrow> command \<Rightarrow> bool" where
  "prune_selectable st cmd =
     (case unwrap_cause (cmd_body cmd) of
        CmdPruneHistory limit \<Rightarrow>
          if \<not> hhas (commands st) (cmd_id cmd) \<and> limit > 0 \<and> limit \<le> 1024
          then list_all (\<lambda>(run, event_id). run \<noteq> None)
                 (earliest_due (due_events st (max (cmd_time cmd) (engine_time_watermark_ms st))) limit)
          else True
      | _ \<Rightarrow> True)"

definition apply_command_entry ::
    "externals \<Rightarrow> replica \<Rightarrow> command \<Rightarrow> (raft_response \<times> replica) res" where
  "apply_command_entry E rep cmd =
     (if \<not> prune_selectable (rep_state rep) cmd
      then Err (storage_error ''retained inbox entry has no run'')
      else case commit_command E rep cmd of
        Ok (events, rep1) \<Rightarrow>
          if owners_known (rep_state rep1) events
          then Ok (empty_response\<lparr>rr_run_id := admitted_run events\<rparr>, rep1)
          else Err (storage_error ''event owner unavailable'')
      | Err e \<Rightarrow> Ok (error_response e, rep)
      | Panic \<Rightarrow> Panic)"

section \<open>Entries\<close>

definition apply_normal ::
    "externals \<Rightarrow> member \<Rightarrow> position \<Rightarrow> nat \<Rightarrow> command \<Rightarrow> (raft_response \<times> member) res" where
  "apply_normal E m log_id writer cmd =
     (let manifest = mb_manifest m in
      if writer < writer_format manifest
      then Ok (error_response (precondition ''old writer entry rejected at committed apply''), m)
      else if writer > writer_format manifest
      then if writer > CURRENT_READER
           then Err (storage_error ''committed entry needs an unavailable command-format reader'')
           else Ok (error_response (precondition ''writer format is not activated''), m)
      else if writer \<notin> set (enabled_command_formats manifest)
      then Err (storage_error ''committed entry needs an unavailable command-format reader'')
      else if is_format_command (unwrap_cause (cmd_body cmd)) then apply_format_entry E m log_id cmd
      else rmap (\<lambda>(reply, rep). (reply, m\<lparr>mb_replica := rep\<rparr>))
             (case cmd_body cmd of
                CmdPublication key op \<Rightarrow> apply_publication_entry E (mb_replica m) cmd key op
              | _ \<Rightarrow> apply_command_entry E (mb_replica m) cmd))"

definition apply_one_entry :: "externals \<Rightarrow> member \<Rightarrow> log_entry \<Rightarrow> (raft_response \<times> member) res" where
  "apply_one_entry E m entry =
     (let log_id = en_log_id entry in
      rbind (case en_payload entry of
               Normal writer cmd \<Rightarrow>
                 if current_cluster_id (state_of m) = []
                 then Err (storage_error ''member artifact origin is unbound; open through Engine'')
                 else apply_normal E m log_id writer cmd
             | _ \<Rightarrow> Ok (empty_response, m)) (\<lambda>(reply, m1).
        if pos_index log_id \<ge> u64_max then Err (storage_error ''record revision exhausted'')
        else Ok (reply, m1\<lparr>mb_applied := Some log_id,
               mb_roster := (case en_payload entry of
                  Membership configs members \<Rightarrow>
                    \<lparr>ro_log_id = Some log_id, ro_nodes = members, ro_configs = configs\<rparr>
                | _ \<Rightarrow> mb_roster m1)\<rparr>)))"

text \<open>The entries up to the first one that stops the member take effect.\<close>

fun apply_entries :: "externals \<Rightarrow> member \<Rightarrow> log_entry list \<Rightarrow> raft_response list res \<times> member" where
  "apply_entries E m [] = (Ok [], m)"
| "apply_entries E m (entry # entries) =
     (case apply_one_entry E m entry of
        Ok (reply, m1) \<Rightarrow>
          (case apply_entries E m1 entries of (replies, m2) \<Rightarrow> (rmap (\<lambda>rs. reply # rs) replies, m2))
      | Err e \<Rightarrow> (Err e, m)
      | Panic \<Rightarrow> (Panic, m))"

section \<open>Reachable members\<close>

text \<open>The proof a member gives of its readers; a durable preparation raises the reader floor first.
  The snapshot file that the member keeps beside the state is not part of the model.\<close>

definition prepare_format_readers ::
    "externals \<Rightarrow> member \<Rightarrow> nat \<Rightarrow> position option \<Rightarrow> bool \<Rightarrow> (reader_proof \<times> member) res" where
  "prepare_format_readers E m target expected durable =
     (let manifest = mb_manifest m; st = state_of m in
      if target \<noteq> NEXT_FORMAT \<or> CURRENT_READER < target
      then Err (storage_error ''reader target is unsupported'')
      else if ro_log_id (mb_roster m) \<noteq> expected
      then Err (storage_error ''reader committed roster changed'')
      else rbind (ok_or (storage_error ''member genesis is not bound'') (sm_member_id manifest)) (\<lambda>member.
        rbind (ok_or (storage_error ''cluster genesis is not bound'') (sm_cluster_id manifest)) (\<lambda>cluster.
          if member \<notin> set (ro_nodes (mb_roster m)) \<or> current_cluster_id st \<noteq> cluster
             \<or> active_writer (format_policy st) \<noteq> writer_format manifest
          then Err (storage_error ''local state, writer policy, and committed roster disagree'')
          else rbind (validate_history_store E (mb_replica m)) (\<lambda>_.
          rbind (if durable \<and> reader_floor manifest < target then install_reader E target manifest
                 else Ok manifest) (\<lambda>manifest1.
            Ok (reader_proof_of (mb_roster m) (mb_applied m) cluster member manifest1,
                m\<lparr>mb_manifest := manifest1\<rparr>))))))"

definition bind_genesis :: "string \<Rightarrow> state \<Rightarrow> state" where
  "bind_genesis cluster st =
     st\<lparr>current_cluster_id := cluster, artifact_origins := insert cluster (artifact_origins st)\<rparr>"

text \<open>A new store bound to its cluster and its member identity.\<close>

definition genesis :: "string \<Rightarrow> nat \<Rightarrow> member" where
  "genesis cluster member =
     \<lparr>mb_replica = \<lparr>rep_state = bind_genesis cluster state_default, checkpoints = []\<rparr>, mb_applied = None,
      mb_roster = \<lparr>ro_log_id = None, ro_nodes = [], ro_configs = []\<rparr>,
      mb_manifest = manifest_new\<lparr>sm_cluster_id := Some cluster, sm_member_id := Some member\<rparr>\<rparr>"

inductive reachable :: "externals \<Rightarrow> member \<Rightarrow> bool" for E where
  reachable_genesis:
    "\<lbrakk>cluster \<noteq> []; manifest_validate E (mb_manifest (genesis cluster member)) = Ok ()\<rbrakk>
     \<Longrightarrow> reachable E (genesis cluster member)"
| reachable_entry: "reachable E m \<Longrightarrow> apply_one_entry E m entry = Ok (reply, m') \<Longrightarrow> reachable E m'"
| reachable_prepare:
    "reachable E m \<Longrightarrow> prepare_format_readers E m target expected durable = Ok (p, m') \<Longrightarrow> reachable E m'"

lemma apply_entries_member:
  "snd (apply_entries E m (entry # entries)) =
     (case apply_one_entry E m entry of Ok (reply, m1) \<Rightarrow> snd (apply_entries E m1 entries) | _ \<Rightarrow> m)"
  by (simp split: res.split prod.split)

lemma reachable_entries: "reachable E m \<Longrightarrow> reachable E (snd (apply_entries E m entries))"
proof (induction entries arbitrary: m)
  case (Cons entry entries)
  then show ?case
    unfolding apply_entries_member by (auto split: res.split intro: reachable_entry)
qed simp

section \<open>An entry is a sequence of steps\<close>

lemma apply_publication_entry_steps:
  assumes "apply_publication_entry E rep cmd key op = Ok (reply, rep')"
  shows "steps E (rep_state rep) (rep_state rep')"
proof -
  let ?now = "max (engine_time_watermark_ms (rep_state rep)) (cmd_time cmd)"
  let ?st = "(rep_state rep)\<lparr>engine_time_watermark_ms := ?now\<rparr>"
  have mark: "steps E (rep_state rep) ?st" by (intro step1 executes watermark) simp
  from assms consider "rep' = rep"
    | rep1 cmd1 r where "rep1 = rep \<or> rep1 = rep\<lparr>rep_state := ?st\<rparr>"
        "apply_with_mode E rep1 cmd1 key op True = Ok (r, rep')"
    | cmd1 r where "apply_with_mode E rep cmd1 key op False = Ok (r, rep')"
    by (auto simp: apply_publication_entry_def apply_replicated_def publication_apply_def Let_def res_simps
        split: if_splits res.splits)
  then show ?thesis
  proof cases
    case 2
    with mark have "steps E (rep_state rep) (rep_state rep1)" by auto
    with apply_with_mode_steps [OF 2(2)] show ?thesis by (rule rtranclp_trans [rotated])
  qed (auto intro: apply_with_mode_steps)
qed

lemma apply_command_entry_steps:
  assumes "apply_command_entry E rep cmd = Ok (reply, rep')"
  shows "steps E (rep_state rep) (rep_state rep')"
  using assms
  by (auto simp: apply_command_entry_def split: if_splits res.splits intro: commit_command_steps)

text \<open>The steps of an entry: those of a committed command, and a format command.\<close>

inductive entry_step :: "externals \<Rightarrow> state \<Rightarrow> state \<Rightarrow> bool" for E where
  committed: "step E st st' \<Longrightarrow> entry_step E st st'"
| formats: "format_apply E (format_policy st) (format_receipts st) cmd roster log_id actor (current_cluster_id st)
              = Ok (policy, receipts, r) \<Longrightarrow>
    entry_step E st (st\<lparr>format_policy := policy, format_receipts := receipts\<rparr>)"

abbreviation entry_steps :: "externals \<Rightarrow> state \<Rightarrow> state \<Rightarrow> bool" where
  "entry_steps E \<equiv> (entry_step E)\<^sup>*\<^sup>*"

lemma steps_entry_steps: "steps E a b \<Longrightarrow> entry_steps E a b"
  by (induction rule: rtranclp_induct) (auto intro: rtranclp.rtrancl_into_rtrancl committed)

lemma apply_format_entry_cases:
  assumes "apply_format_entry E m log_id cmd = Ok (reply, m')"
  obtains (refused) "m' = m"
  | (answered) policy receipts r where
    "format_apply E (format_policy (state_of m)) (format_receipts (state_of m)) cmd (mb_roster m) log_id
       (entry_principal (cmd_body cmd)) (current_cluster_id (state_of m)) = Ok (policy, receipts, r)"
    and "m' = m\<lparr>mb_replica := (mb_replica m)\<lparr>rep_state := (state_of m)
           \<lparr>format_policy := policy, format_receipts := receipts\<rparr>\<rparr>\<rparr>"
    and "\<not> (fr_applied r \<and> active_writer policy = NEXT_FORMAT)"
  | (activated) policy receipts r manifest where
    "format_apply E (format_policy (state_of m)) (format_receipts (state_of m)) cmd (mb_roster m) log_id
       (entry_principal (cmd_body cmd)) (current_cluster_id (state_of m)) = Ok (policy, receipts, r)"
    and "m' = m\<lparr>mb_replica := (mb_replica m)\<lparr>rep_state := (state_of m)
           \<lparr>format_policy := policy, format_receipts := receipts\<rparr>\<rparr>, mb_manifest := manifest\<rparr>"
    and "active_writer policy = NEXT_FORMAT" and "activate_writer E (mb_manifest m) = Ok manifest"
proof -
  let ?run = "format_apply E (format_policy (state_of m)) (format_receipts (state_of m)) cmd (mb_roster m) log_id
                (entry_principal (cmd_body cmd)) (current_cluster_id (state_of m))"
  show ?thesis
  proof (cases ?run)
    case (Ok x)
    then obtain policy receipts r where run: "?run = Ok (policy, receipts, r)" by (cases x) auto
    with assms show ?thesis
      by (auto simp: apply_format_entry_def Let_def res_simps split: if_splits
          intro: answered [OF run] activated [OF run])
  qed (use assms in \<open>auto simp: apply_format_entry_def Let_def intro: refused\<close>)
qed

lemma apply_format_entry_steps:
  assumes "apply_format_entry E m log_id cmd = Ok (reply, m')"
  shows "entry_steps E (state_of m) (state_of m')"
  using assms
  by (cases rule: apply_format_entry_cases) (auto intro!: r_into_rtranclp formats)

lemma apply_normal_cases:
  assumes "apply_normal E m log_id writer cmd = Ok (reply, m')"
  obtains (refused) "m' = m"
  | (format_entry) "apply_format_entry E m log_id cmd = Ok (reply, m')"
  | (commits) rep where "m' = m\<lparr>mb_replica := rep\<rparr>" and "steps E (state_of m) (rep_state rep)"
proof (cases "is_format_command (unwrap_cause (cmd_body cmd))")
  case True
  with assms refused format_entry show ?thesis by (auto simp: apply_normal_def Let_def split: if_splits)
next
  case False
  have "m' = m \<or> (\<exists>rep. m' = m\<lparr>mb_replica := rep\<rparr> \<and> steps E (state_of m) (rep_state rep))"
    using assms False
    by (cases "cmd_body cmd")
       (auto simp: apply_normal_def Let_def res_simps split: if_splits
          intro: apply_publication_entry_steps apply_command_entry_steps)
  with refused commits show ?thesis by blast
qed

lemma apply_one_entry_cases:
  assumes "apply_one_entry E m entry = Ok (reply, m')"
  obtains (idle) "mb_replica m' = mb_replica m" and "mb_manifest m' = mb_manifest m"
  | (normal) writer cmd m1 where "en_payload entry = Normal writer cmd"
    and "apply_normal E m (en_log_id entry) writer cmd = Ok (reply, m1)"
    and "m' = m1\<lparr>mb_applied := Some (en_log_id entry)\<rparr>"
  using assms
  by (cases "en_payload entry") (auto simp: apply_one_entry_def Let_def res_simps split: if_splits)

lemma apply_one_entry_steps:
  assumes "apply_one_entry E m entry = Ok (reply, m')"
  shows "entry_steps E (state_of m) (state_of m')"
  using assms
proof (cases rule: apply_one_entry_cases)
  case (normal writer cmd m1)
  from normal(2) have "entry_steps E (state_of m) (state_of m1)"
    by (cases rule: apply_normal_cases) (auto intro: apply_format_entry_steps steps_entry_steps)
  with normal(3) show ?thesis by simp
qed simp

section \<open>Orders that every step respects\<close>

text \<open>
  The interface between the components and the log: a relation on states that every primitive step
  keeps holds between the states before and after every entry, and from genesis to every
  reachable member.
\<close>

definition valid_cluster :: "externals \<Rightarrow> string \<Rightarrow> bool" where
  "valid_cluster E cluster \<longleftrightarrow> cluster \<noteq> [] \<and> (\<exists>bytes. id_from_hex E cluster = Inr bytes)"

lemma genesis_valid_cluster:
  "cluster \<noteq> [] \<Longrightarrow> manifest_validate E (mb_manifest (genesis cluster member)) = Ok u \<Longrightarrow> valid_cluster E cluster"
  by (auto simp: manifest_validate_def genesis_def valid_cluster_def split: if_splits sum.splits)

text \<open>A relation that the steps of a command keep.\<close>

locale commit_order =
  fixes E :: externals and R :: "state \<Rightarrow> state \<Rightarrow> bool"
  assumes R_refl: "R st st"
    and R_trans: "R a b \<Longrightarrow> R b c \<Longrightarrow> R a c"
    and R_step: "step E a b \<Longrightarrow> R a b"
begin

lemma R_steps: "steps E a b \<Longrightarrow> R a b"
  by (induction rule: rtranclp_induct) (auto intro: R_refl R_trans R_step)

lemma order_commit: "commit_command E rep cmd = Ok (events, rep') \<Longrightarrow> R (rep_state rep) (rep_state rep')"
  by (rule R_steps [OF commit_command_steps])

end

text \<open>A relation that the format commands keep too.\<close>

locale step_order =
  fixes E :: externals and R :: "state \<Rightarrow> state \<Rightarrow> bool"
  assumes R_refl: "R st st"
    and R_trans: "R a b \<Longrightarrow> R b c \<Longrightarrow> R a c"
    and R_entry_step: "entry_step E a b \<Longrightarrow> R a b"
begin

sublocale commands: commit_order E R
  by unfold_locales (auto intro: R_refl R_trans R_entry_step committed)

lemma R_entry_steps: "entry_steps E a b \<Longrightarrow> R a b"
  by (induction rule: rtranclp_induct) (auto intro: R_refl R_trans R_entry_step)

lemma order_entry: "apply_one_entry E m entry = Ok (reply, m') \<Longrightarrow> R (state_of m) (state_of m')"
  by (rule R_entry_steps [OF apply_one_entry_steps])

lemma order_entries: "R (state_of m) (state_of (snd (apply_entries E m entries)))"
proof (induction entries arbitrary: m)
  case (Cons entry entries)
  then show ?case
    unfolding apply_entries_member by (auto split: res.split intro: R_refl R_trans order_entry)
qed (simp add: R_refl)

lemma order_reachable:
  "reachable E m \<Longrightarrow> \<exists>cluster. valid_cluster E cluster \<and> R (bind_genesis cluster state_default) (state_of m)"
proof (induction rule: reachable.induct)
  case (reachable_genesis cluster member)
  then show ?case by (auto simp: genesis_def intro!: R_refl dest: genesis_valid_cluster)
next
  case (reachable_entry m entry reply m')
  then show ?case by (blast intro: R_trans order_entry)
next
  case (reachable_prepare m target expected durable p m')
  then have "state_of m' = state_of m"
    by (auto simp: prepare_format_readers_def Let_def res_simps split: if_splits)
  with reachable_prepare show ?case by simp
qed

end

text \<open>An invariant is a property that every step preserves and that holds at genesis.\<close>

locale step_invariant =
  fixes E :: externals and I :: "state \<Rightarrow> bool"
  assumes invariant_step: "I a \<Longrightarrow> entry_step E a b \<Longrightarrow> I b"
    and invariant_genesis: "valid_cluster E cluster \<Longrightarrow> I (bind_genesis cluster state_default)"
begin

sublocale invariant_order: step_order E "\<lambda>a b. I a \<longrightarrow> I b"
  by unfold_locales (auto intro: invariant_step)

lemma invariant_reachable: "reachable E m \<Longrightarrow> I (state_of m)"
  using invariant_order.order_reachable invariant_genesis by blast

end

end
