(* ===== verification/Scenario.thy ===== *)
theory Scenario
  imports Entries Sample
begin

text \<open>
  A member of the sample installation and the log of a short life: its roster, the start of a run
  of the sample workflow, a worker session, a claim and the report of the result.
\<close>

definition sample_member :: member where
  "sample_member = genesis ''cluster-01234567'' 1"

definition sample_command :: "string \<Rightarrow> nat \<Rightarrow> command_body \<Rightarrow> command" where
  "sample_command name time body = \<lparr>cmd_id = name, cmd_body = body, cmd_time = time\<rparr>"

definition sample_start :: command where
  "sample_start = sample_command ''start-command-01'' 10
     (CmdStart ''run-0123456789ab'' sample_definition (VInt 5) sample_catalog)"

definition sample_register :: command where
  "sample_register = sample_command ''register-0123456'' 20 (CmdRegisterSession ''worker'' [''*''] 4)"

definition sample_claim :: command where
  "sample_claim = sample_command ''claim-0123456789'' 30 (CmdClaim ''worker'' 1)"

definition sample_entries :: "entry_payload list \<Rightarrow> log_entry list" where
  "sample_entries payloads =
     map (\<lambda>(i, p). \<lparr>en_log_id = sample_position (i + 1), en_payload = p\<rparr>) (enumerate 0 payloads)"

definition sample_log :: "log_entry list" where
  "sample_log = sample_entries
     [Blank, Membership [[1]] [1], Normal 4 sample_start, Normal 4 sample_register, Normal 4 sample_claim]"

definition sample_life :: "nat \<Rightarrow> member" where
  "sample_life n = snd (apply_entries sample_ext sample_member (take n sample_log))"

lemma sample_member_reachable: "reachable sample_ext sample_member"
  unfolding sample_member_def by (rule reachable_genesis) code_simp+

lemma sample_life_reachable: "reachable sample_ext (sample_life n)"
  unfolding sample_life_def by (rule reachable_entries [OF sample_member_reachable])

text \<open>The sample workflow published with its catalog, and a start of the published version.\<close>

definition sample_published :: definition_ir where
  "sample_published = sample_definition\<lparr>def_digest := sha256 sample_ext ''order''\<rparr>"

definition sample_publication :: "string \<Rightarrow> nat \<Rightarrow> publication_operation \<Rightarrow> command" where
  "sample_publication name time op = sample_command name time
     (CmdPublication \<lparr>ck_cluster_id = ''cluster-01234567'', ck_principal_id = ''admin'', ck_command_id = name\<rparr> op)"

definition sample_publish_log :: "log_entry list" where
  "sample_publish_log = sample_entries
     [Blank, Membership [[1]] [1],
      Normal 4 (sample_publication ''catalog-01234567'' 10 (PubCatalog 1 sample_catalog)),
      Normal 4 (sample_publication ''definition-01234'' 11 (PubDefinition sample_published 1)),
      Normal 4 (sample_publication ''keyed-start-0123'' 12 (PubStart ''order'' None ''order-17'' (VInt 5)))]"

definition sample_store :: "nat \<Rightarrow> member" where
  "sample_store n = snd (apply_entries sample_ext sample_member (take n sample_publish_log))"

lemma sample_store_reachable: "reachable sample_ext (sample_store n)"
  unfolding sample_store_def by (rule reachable_entries [OF sample_member_reachable])

text \<open>A rollout of the next writer format on the single member: a blank entry, the roster, the
  durable preparation of the readers, and the two format commands.\<close>

definition sample_admin :: "string \<Rightarrow> command_body \<Rightarrow> entry_payload" where
  "sample_admin name body = Normal 4 (sample_command name 10 (CmdAuthenticated ''admin'' body))"

definition sample_prepared :: "(reader_proof \<times> member) res" where
  "sample_prepared =
     prepare_format_readers sample_ext
       (snd (apply_entries sample_ext sample_member (sample_entries [Blank, Membership [[1]] [1]])))
       NEXT_FORMAT (Some (sample_position 2)) True"

definition sample_rollout :: "nat \<Rightarrow> member" where
  "sample_rollout n =
     (case sample_prepared of
        Ok (p, m) \<Rightarrow>
          snd (apply_entries sample_ext m (drop 2 (take n (sample_entries
            [Blank, Blank, sample_admin ''prepare-01234567'' (CmdPrepareWriterFormat [p] (Some (sample_position 2))),
             sample_admin ''activate-0123456'' (CmdActivateWriterFormat (Some (sample_position 2)) NEXT_FORMAT)]))))
      | _ \<Rightarrow> sample_member)"

lemma sample_rollout_reachable: "reachable sample_ext (sample_rollout n)"
proof (cases sample_prepared)
  case (Ok x)
  then obtain p m where prepared: "sample_prepared = Ok (p, m)" by (cases x) auto
  then have "reachable sample_ext m"
    unfolding sample_prepared_def
    by (rule reachable_prepare [OF reachable_entries [OF sample_member_reachable]])
  then show ?thesis unfolding sample_rollout_def prepared by (simp add: reachable_entries)
next
  case (Err e)
  show ?thesis unfolding sample_rollout_def Err by (simp add: sample_member_reachable)
next
  case Panic
  show ?thesis unfolding sample_rollout_def Panic by (simp add: sample_member_reachable)
qed

section \<open>What the sample members hold\<close>

text \<open>The states are evaluated once; the theorems of the later theories are applied to these facts.\<close>

lemma sample_life_facts:
  "let m = sample_life 5; st = state_of m in
     active_writer (format_policy st) = 4 \<and> next_generation st = 1
     \<and> hhas (runs st) ''run-0123456789ab'' \<and> \<not> hhas (checkpoints (mb_replica m)) ''run-0123456789ab''
     \<and> admitted_run (hlist (history st) ''run-0123456789ab'') = Some ''run-0123456789ab''
     \<and> rmap (\<lambda>(events, rep). events \<noteq> []) (commit_command sample_ext (mb_replica (sample_life 4)) sample_claim)
         = Ok True
     \<and> map_option rs_status (hget (runs st) ''run-0123456789ab'') = Some RunActive
     \<and> rmap (\<lambda>(rep, events). length (command_times (rep_state rep))) (prune sample_ext (mb_replica m) ''prune''
         (2 * DAY_MS) 2) = Ok 1"
  by code_simp

lemma sample_store_facts:
  "let st = state_of (sample_store 4) in
     map_option pc_catalog (map_of (published_catalogs st) 1) = Some sample_catalog
     \<and> map_option pd_digest (published_version st ''order'' 1) = Some (sha256 sample_ext ''order'')
     \<and> length (published_catalogs st) = 1 \<and> length (published_definitions st) = 1
     \<and> length (command_results st) = 2"
  by code_simp

lemma sample_rollout_facts:
  "let st = state_of (sample_rollout 5) in
     active_writer (format_policy st) = 5 \<and> length (format_receipts st) = 2"
  by code_simp

end
