(* ===== verification/Receipts.thy ===== *)
theory Receipts
  imports Scenario
begin

text \<open>
  Receipts: a command that was committed answers every retry with the recorded events and leaves
  the replica alone, an identity is bound to one request, and time never runs backwards.
\<close>

section \<open>Applying events leaves the receipts alone\<close>

definition same_receipts :: "state \<Rightarrow> state \<Rightarrow> bool" where
  "same_receipts a b \<longleftrightarrow>
     commands b = commands a \<and> command_actors b = command_actors a
     \<and> command_external_ids b = command_external_ids a
     \<and> authenticated_request_digests b = authenticated_request_digests a
     \<and> legacy_start_digests b = legacy_start_digests a
     \<and> worker_command_digests b = worker_command_digests a"

lemma same_receipts_refl [simp]: "same_receipts st st"
  by (simp add: same_receipts_def)

lemma same_receipts_trans [trans]: "same_receipts a b \<Longrightarrow> same_receipts b c \<Longrightarrow> same_receipts a c"
  by (simp add: same_receipts_def)

lemma same_books_receipts: "same_books a b \<Longrightarrow> same_receipts a b"
  by (simp add: same_books_def same_receipts_def)

lemma append_event_receipts:
  "append_event E st run event cmd actor ms io = Ok st' \<Longrightarrow> same_receipts st st'"
  by (auto simp: append_event_def same_receipts_def Let_def res_simps)

lemma apply_event_receipts:
  "apply_event E cmd actor time st event = Ok st' \<Longrightarrow> same_receipts st st'"
  by (erule apply_event_Ok)
     (blast intro: same_receipts_trans same_books_receipts evolve_same_books append_event_receipts)+

lemma apply_events_receipts:
  "apply_events_with_cause E cmd actor time st events = Ok st' \<Longrightarrow> same_receipts st st'"
  by (induction events arbitrary: st)
     (auto simp: res_simps dest!: apply_event_receipts intro: same_receipts_trans)

lemma set_terminal_receipts: "same_receipts st (foldl (set_terminal now) st events)"
proof (induction events arbitrary: st)
  case (Cons event events)
  from same_receipts_trans [OF same_books_receipts [OF set_terminal_same_books] Cons] show ?case by simp
qed simp

lemma checkpoint_receipts:
  "checkpoint_after_command E rep run time = Ok rep' \<Longrightarrow> same_receipts (rep_state rep) (rep_state rep')"
  by (auto simp: checkpoint_after_command_def same_receipts_def Let_def res_simps
      split: option.splits if_splits)

lemma checkpoint_all_receipts:
  "checkpoint_all E time rep rs = Ok rep' \<Longrightarrow> same_receipts (rep_state rep) (rep_state rep')"
  by (induction rs arbitrary: rep)
     (auto simp: res_simps dest!: checkpoint_receipts intro: same_receipts_trans)

lemma start_inserts_run_receipts: "same_receipts st (start_inserts_run body st)"
  by (simp add: start_inserts_run_def insert_run_def same_receipts_def split: command_body.splits)

text \<open>What applying a fresh command adds to the receipts.\<close>

definition receipt_added ::
    "command_id \<Rightarrow> domain_event list \<Rightarrow> string option \<Rightarrow> command_id \<Rightarrow> string option \<Rightarrow> string option
     \<Rightarrow> state \<Rightarrow> state \<Rightarrow> bool" where
  "receipt_added cid events actor external_id digest wdigest a b \<longleftrightarrow>
     commands b = hput cid events (commands a)
     \<and> command_actors b = (case actor of
          Some p \<Rightarrow> hput cid p (command_actors a) | None \<Rightarrow> command_actors a)
     \<and> command_external_ids b =
        (if actor \<noteq> None then hput cid external_id (command_external_ids a) else command_external_ids a)
     \<and> (case actor of
          Some p \<Rightarrow> (\<exists>d. digest = Some d \<and> authenticated_request_digests b
                       = hput cid d (authenticated_request_digests a))
        | None \<Rightarrow> authenticated_request_digests b = authenticated_request_digests a)
     \<and> worker_command_digests b = (case wdigest of
          Some d \<Rightarrow> hput cid d (worker_command_digests a) | None \<Rightarrow> worker_command_digests a)
     \<and> legacy_start_digests b = legacy_start_digests a"

lemma record_receipt_adds:
  "record_receipt cid now events actor external_id digest wdigest st = Ok st' \<Longrightarrow>
     receipt_added cid events actor external_id digest wdigest st st'"
  by (cases actor) (auto simp: record_receipt_def receipt_added_def res_simps)

lemma receipt_added_same:
  "same_receipts a b \<Longrightarrow> receipt_added cid events actor external_id digest wdigest b c \<Longrightarrow> same_receipts c d
     \<Longrightarrow> receipt_added cid events actor external_id digest wdigest a d"
  by (cases actor; cases wdigest) (simp_all add: receipt_added_def same_receipts_def)

lemma receipt_added_hget:
  assumes "receipt_added cid events actor external_id digest wdigest a b"
    and "hget (command_actors a) cid = None" "hget (command_external_ids a) cid = None"
    "hget (authenticated_request_digests a) cid = None" "hget (worker_command_digests a) cid = None"
    and "actor = None \<longleftrightarrow> digest = None"
  shows "hget (commands b) cid = Some events" "hget (command_actors b) cid = actor"
    "hget (command_external_ids b) cid = (if actor \<noteq> None then Some external_id else None)"
    "hget (authenticated_request_digests b) cid = digest" "hget (worker_command_digests b) cid = wdigest"
  using assms by (cases actor; cases wdigest; auto simp: receipt_added_def)+

lemma apply_fresh_receipts:
  assumes "apply_fresh E rep cmd actor external_id digest wdigest = Ok (events, rep')"
  shows "receipt_added (cmd_id cmd) events actor external_id digest wdigest (rep_state rep) (rep_state rep')"
proof -
  let ?now = "max (cmd_time cmd) (engine_time_watermark_ms (rep_state rep))"
  let ?st = "(rep_state rep)\<lparr>engine_time_watermark_ms := ?now\<rparr>"
  from assms obtain st1 st2 affected where
      st1: "apply_events_with_cause E (Some external_id) actor ?now ?st events = Ok st1"
    and st2: "record_receipt (cmd_id cmd) ?now events actor external_id digest wdigest
                (foldl (set_terminal ?now) st1 events) = Ok st2"
    and rep': "checkpoint_all E ?now (rep\<lparr>rep_state := st2\<rparr>) affected = Ok rep'"
    by (auto simp: apply_fresh_def Let_def res_simps)
  have "same_receipts (rep_state rep) ?st" by (simp add: same_receipts_def)
  also note apply_events_receipts [OF st1]
  also note set_terminal_receipts
  finally have before: "same_receipts (rep_state rep) (foldl (set_terminal ?now) st1 events)" .
  from checkpoint_all_receipts [OF rep'] have "same_receipts st2 (rep_state rep')" by simp
  with before record_receipt_adds [OF st2] show ?thesis by (rule receipt_added_same)
qed

section \<open>Identities\<close>

lemma verify_recorded:
  assumes "hget (commands st) cid = Some events" and "hget (command_actors st) cid = actor"
    and "hget (command_external_ids st) cid = (if actor \<noteq> None then Some external_id else None)"
    and "hget (authenticated_request_digests st) cid = digest"
    and "actor = None \<longleftrightarrow> digest = None" and "\<And>d. digest = Some d \<Longrightarrow> prefix DIGEST_PREFIX d"
  shows "verify_command_identity st cid actor external_id digest = Ok ()"
  using assms by (auto simp: verify_command_identity_def hhas_def Let_def split: option.splits)

lemma verify_fresh:
  assumes "verify_command_identity st cid actor external_id digest = Ok u" and "hget (commands st) cid = None"
  shows "hget (command_actors st) cid = None" "hget (command_external_ids st) cid = None"
    "hget (authenticated_request_digests st) cid = None"
  using assms by (auto simp: verify_command_identity_def hhas_def split: if_splits)

lemma authenticated_request_digest_prefix:
  "authenticated_request_digest E body = Ok d \<Longrightarrow> prefix DIGEST_PREFIX d"
  by (auto simp: authenticated_request_digest_def Let_def res_simps split: prod.splits)

lemma prepare_command_Ok:
  assumes "prepare_command E st cmd actor = Ok (cmd1, external_id, digest)"
  shows "external_id = cmd_id cmd \<and> cmd_body cmd1 = cmd_body cmd \<and> cmd_time cmd1 = cmd_time cmd
    \<and> verify_command_identity st (cmd_id cmd1) actor external_id digest = Ok ()
    \<and> (actor = None \<longleftrightarrow> digest = None) \<and> (\<forall>d. digest = Some d \<longrightarrow> prefix DIGEST_PREFIX d)"
  using assms
  by (auto simp: prepare_command_def Let_def res_simps split: option.splits
      dest: authenticated_request_digest_prefix)

lemma prepare_command_again:
  assumes "prepare_command E st cmd actor = Ok (cmd1, external_id, digest)"
    and "verify_command_identity st' (cmd_id cmd1) actor external_id digest = Ok ()"
  shows "prepare_command E st' cmd actor = Ok (cmd1, external_id, digest)"
  using assms by (auto simp: prepare_command_def Let_def res_simps split: option.splits)

section \<open>A worker digest belongs to a receipt\<close>

definition worker_digests_kept :: "state \<Rightarrow> bool" where
  "worker_digests_kept st \<longleftrightarrow>
     (\<forall>cid. hget (commands st) cid = None \<longrightarrow> hget (worker_command_digests st) cid = None)"

lemma hget_hdel_all: "hget (hdel_all keys m) k = (if k \<in> set keys then None else hget m k)"
  unfolding hdel_all_def by (induction keys arbitrary: m) (auto simp: delete_conv)

lemma exec_step_worker_digests:
  assumes "exec_step E a b" and "worker_digests_kept a"
  shows "worker_digests_kept b"
  using assms
proof cases
  case (applies cmd actor time event)
  from apply_event_receipts [OF this] assms(2) show ?thesis
    by (simp add: worker_digests_kept_def same_receipts_def)
next
  case (terminates now event)
  with same_books_receipts [OF set_terminal_same_books, of a now event] assms(2) show ?thesis
    by (simp add: worker_digests_kept_def same_receipts_def)
next
  case (receipts cid now events actor external_id digest wdigest)
  with assms(2) show ?thesis
    by (cases wdigest) (auto simp: worker_digests_kept_def record_receipt_def res_simps split: if_splits)
qed (use assms(2) in \<open>simp_all add: worker_digests_kept_def\<close>)

lemma step_worker_digests:
  assumes "step E a b" and "worker_digests_kept a"
  shows "worker_digests_kept b"
  using assms
proof cases
  case executes
  with assms(2) show ?thesis by (blast intro: exec_step_worker_digests)
next
  case (forgets_commands keys)
  with assms(2) show ?thesis by (auto simp: worker_digests_kept_def forget_commands_def hget_hdel_all)
next
  case (prune_receipts cid events now)
  with assms(2) show ?thesis by (auto simp: worker_digests_kept_def)
qed (use assms(2) in \<open>simp_all add: worker_digests_kept_def insert_run_def put_start_key_def drop_event_def
      remove_run_data_def forget_summary_def put_definition_def Let_def\<close>)

lemma entry_step_worker_digests:
  "entry_step E a b \<Longrightarrow> worker_digests_kept a \<Longrightarrow> worker_digests_kept b"
  by (induction rule: entry_step.induct) (erule (1) step_worker_digests, simp add: worker_digests_kept_def)

lemma genesis_worker_digests: "worker_digests_kept (bind_genesis cluster state_default)"
  by (simp add: worker_digests_kept_def bind_genesis_def state_default_def)

interpretation worker_digests: step_invariant E worker_digests_kept for E
  by unfold_locales (rule entry_step_worker_digests genesis_worker_digests; assumption?)+

section \<open>A retry\<close>

lemma commit_domain_retry:
  assumes kept: "worker_digests_kept (rep_state rep)"
    and ok: "commit_domain E rep cmd actor = Ok (events, rep')"
  shows "commit_domain E rep' cmd actor = Ok (events, rep')"
  using ok
proof (cases rule: commit_domain_Ok)
  case (retried cmd1 external_id digest)
  from ok show ?thesis unfolding retried(3) .
next
  case (fresh cmd1 external_id digest sdigest wdigest rep1)
  let ?st = "rep_state rep" and ?st' = "rep_state rep'" and ?cid = "cmd_id cmd1"
  note prep = prepare_command_Ok [OF fresh(1)]
  from prep have verify: "verify_command_identity ?st ?cid actor external_id digest = Ok ()" by blast
  note absent = verify_fresh [OF verify fresh(4)]
  from receipt_added_same [OF start_inserts_run_receipts apply_fresh_receipts [OF fresh(5), simplified] same_receipts_refl]
  have receipts: "receipt_added ?cid events actor external_id digest wdigest ?st (rep_state rep1)" .
  from kept fresh(4) have none: "hget (worker_command_digests ?st) ?cid = None"
    by (simp add: worker_digests_kept_def)
  from prep have "actor = None \<longleftrightarrow> digest = None" by blast
  note stored = receipt_added_hget [OF receipts absent none this]
  have same: "commands ?st' = commands (rep_state rep1)" "command_actors ?st' = command_actors (rep_state rep1)"
    "command_external_ids ?st' = command_external_ids (rep_state rep1)"
    "authenticated_request_digests ?st' = authenticated_request_digests (rep_state rep1)"
    "worker_command_digests ?st' = worker_command_digests (rep_state rep1)"
    by (simp_all add: fresh(6))
  have legacy: "sdigest = None \<or> hget (legacy_start_digests ?st') ?cid = sdigest"
    by (cases sdigest) (auto simp: fresh(6))
  have "verify_command_identity ?st' ?cid actor external_id digest = Ok ()"
    by (rule verify_recorded [OF stored(1-4) [folded same]]) (use prep in blast)+
  then have again: "prepare_command E ?st' cmd actor = Ok (cmd1, external_id, digest)"
    by (rule prepare_command_again [OF fresh(1)])
  from stored(5) have "verify_worker_retry ?st' ?cid wdigest = Ok ()"
    by (simp add: verify_worker_retry_def same)
  with fresh(2,3) stored(1) legacy show ?thesis
    unfolding commit_domain_def again by (cases sdigest) (simp_all add: same split: option.split)
qed

lemma prune_events_receipts:
  "prune_events E cmd now rep items = Ok (rep', events) \<Longrightarrow> same_receipts (rep_state rep) (rep_state rep')"
proof (induction items arbitrary: rep rep' events)
  case (Cons item items)
  then obtain rep1 events1 events2 where first: "prune_event E cmd now rep item = Ok (rep1, events1)"
    and rest: "prune_events E cmd now rep1 items = Ok (rep', events2)" by (auto simp: res_simps)
  from first have "same_receipts (rep_state rep) (rep_state rep1)"
  proof (cases rule: prune_event_Ok)
    case (expires run event_id st1)
    from apply_events_receipts [OF expires(1)] checkpoint_receipts [OF expires(2), simplified]
    show ?thesis by (rule same_receipts_trans)
  qed (simp add: drop_event_def same_receipts_def)
  also note Cons.IH [OF rest]
  finally show ?case .
qed simp

lemma prune_runs_receipts:
  "prune_runs rep rids = Ok rep' \<Longrightarrow> same_receipts (rep_state rep) (rep_state rep')"
proof (induction rids arbitrary: rep)
  case (Cons rid rids)
  from Cons.prems show ?case
    by (auto simp: Let_def res_simps remove_run_data_def same_receipts_def dest!: Cons.IH)
qed simp

lemma forget_summaries_receipts: "same_receipts st (fold forget_summary rids st)"
proof (induction rids arbitrary: st)
  case (Cons rid rids)
  from Cons [of "forget_summary rid st"] show ?case by (simp add: forget_summary_def same_receipts_def)
qed simp

text \<open>Pruning only forgets receipts.\<close>

lemma prune_receipts_fewer:
  assumes "prune E rep cmd now limit = Ok (rep', events)"
  shows "\<exists>keys. same_receipts (forget_commands keys (rep_state rep)) (rep_state rep')"
  using assms
proof (rule prune_Ok)
  fix keys1 keys2 items rids rids' rep3 rep4
  assume rep3: "prune_events E cmd now (rep\<lparr>rep_state := forget_commands keys2
               ((rep_state rep)\<lparr>command_results := hdel_all keys1 (command_results (rep_state rep))\<rparr>)\<rparr>)
               items = Ok (rep3, events)"
    and rep4: "prune_runs rep3 rids = Ok rep4"
    and rep': "rep' = rep4\<lparr>rep_state := fold forget_summary rids' (rep_state rep4)\<rparr>"
  have "same_receipts (forget_commands keys2 (rep_state rep)) (rep_state rep3)"
    using prune_events_receipts [OF rep3] by (simp add: same_receipts_def forget_commands_def)
  also note prune_runs_receipts [OF rep4]
  also note forget_summaries_receipts [of "rep_state rep4" rids']
  finally show ?thesis unfolding rep' by auto
qed

lemma commit_prune_retry:
  assumes ok: "commit_prune E rep cmd limit = Ok (events, rep')"
  shows "commit_prune E rep' cmd limit = Ok (events, rep')"
proof (cases "hget (commands (rep_state rep)) (cmd_id cmd)")
  case (Some evs)
  with ok show ?thesis by (auto simp: commit_prune_def Let_def res_simps split: if_splits)
next
  case None
  let ?now = "max (cmd_time cmd) (engine_time_watermark_ms (rep_state rep))"
  let ?st = "(rep_state rep)\<lparr>engine_time_watermark_ms := ?now\<rparr>"
  from ok None obtain rep1 where limit: "limit \<noteq> 0" "limit \<le> 1024"
    and verify: "verify_command_identity (rep_state rep) (cmd_id cmd) None (cmd_id cmd) None = Ok ()"
    and rep1: "prune E (rep\<lparr>rep_state := ?st\<rparr>) (cmd_id cmd) ?now limit = Ok (rep1, events)"
    and rep': "rep' = rep1\<lparr>rep_state := (rep_state rep1)
                 \<lparr>commands := hput (cmd_id cmd) events (commands (rep_state rep1)),
                  command_times := hput (cmd_id cmd) ?now (command_times (rep_state rep1))\<rparr>\<rparr>"
    by (auto simp: commit_prune_def Let_def res_simps not_less split: if_splits)
  from prune_receipts_fewer [OF rep1] obtain keys where
    "same_receipts (forget_commands keys ?st) (rep_state rep1)" by auto
  with verify_fresh [OF verify None] have
    "verify_command_identity (rep_state rep') (cmd_id cmd) None (cmd_id cmd) None = Ok ()"
    unfolding rep' by (intro verify_recorded) (auto simp: same_receipts_def forget_commands_def hget_hdel_all)
  with limit show ?thesis by (simp add: commit_prune_def Let_def rep')
qed

lemma apply_with_mode_retry:
  assumes "apply_with_mode E rep cmd key op mode = Ok (r, rep')" and "is_ok (ensure_applied r)"
  shows "map_of (command_results (rep_state rep')) (storage_key E key) = Some r
    \<and> cr_request_digest r = fst (request_identity E op) \<and> cr_format r = RESULT_FORMAT"
  using assms
  by (cases "request_identity E op"; cases "map_of (command_results (rep_state rep)) (storage_key E key)")
     (auto simp: apply_with_mode_def receipt_def put_receipt_def ensure_applied_def Let_def
      is_ok_iff res_simps split: res.splits if_splits)

lemma commit_publication_retry:
  assumes "commit_publication E rep cmd key op = Ok (events, rep')"
  shows "commit_publication E rep' cmd key op = Ok (events, rep')"
proof -
  from assms obtain rep1 cmd1 r u where key: "ck_command_id key = cmd_id cmd" "ck_cluster_id key \<noteq> []"
      "ck_principal_id key \<noteq> []"
    and r: "apply_with_mode E rep1 cmd1 key op False = Ok (r, rep')" "ensure_applied r = Ok u"
    and events: "events = []"
    by (auto simp: commit_publication_def publication_apply_def Let_def res_simps split: if_splits)
  from apply_with_mode_retry [OF r(1)] r(2) have
    "map_of (command_results (rep_state rep')) (storage_key E key) = Some r"
    "cr_request_digest r = fst (request_identity E op)" "cr_format r = RESULT_FORMAT" by simp_all
  with key r(2) events show ?thesis
    by (simp add: commit_publication_def publication_apply_def apply_with_mode_def Let_def
        split: prod.splits)
qed

text \<open>Property C2: committing is idempotent. On a reachable member, a command that was committed
  answers a second submission with the events recorded for the first one and changes nothing,
  whichever of the three ways of committing it took.\<close>

theorem commit_retry:
  assumes "reachable E m" and "commit_command E (mb_replica m) cmd = Ok (events, rep')"
  shows "commit_command E rep' cmd = Ok (events, rep')"
  using assms(2)
proof (cases rule: commit_command_cases)
  case (prunes cmd1 actor limit)
  with commit_prune_retry [OF prunes(3)] show ?thesis by (simp add: commit_command_def)
next
  case (publishes cmd1 actor key op)
  with commit_publication_retry [OF publishes(3)] show ?thesis by (simp add: commit_command_def)
next
  case (executes cmd1 actor)
  have "worker_digests_kept (state_of m)" by (rule worker_digests.invariant_reachable [OF assms(1)])
  from commit_domain_retry [OF this executes(4)] commit_command_domain [OF executes(1-3)]
  show ?thesis by simp
qed

theorem commit_retry_witness:
  "\<exists>events rep'. commit_command sample_ext (mb_replica (sample_life 4)) sample_claim = Ok (events, rep')
     \<and> events \<noteq> [] \<and> commit_command sample_ext rep' sample_claim = Ok (events, rep')"
proof -
  have "rmap (\<lambda>(events, rep'). events \<noteq> []) (commit_command sample_ext (mb_replica (sample_life 4)) sample_claim)
          = Ok True"
    using sample_life_facts by (simp add: Let_def)
  then obtain events rep' where
      run: "commit_command sample_ext (mb_replica (sample_life 4)) sample_claim = Ok (events, rep')"
    and events: "events \<noteq> []"
    by (auto simp: res_simps)
  from commit_retry [OF sample_life_reachable run] run events show ?thesis
    by (intro exI [of _ events] exI [of _ rep']) simp
qed

end
