(* ===== verification/Growth.thy ===== *)
theory Growth
  imports Receipts
begin

text \<open>
  What the log only adds to: engine time and owner generations never go back, published catalogs
  and definitions are never replaced, the writer format is never lowered, a format receipt and the
  identity of the cluster stay, and an artifact origin is never forgotten.
\<close>

definition grows :: "state \<Rightarrow> state \<Rightarrow> bool" where
  "grows a b \<longleftrightarrow>
     engine_time_watermark_ms a \<le> engine_time_watermark_ms b
     \<and> (next_generation a \<le> u64_max \<longrightarrow> next_generation a \<le> next_generation b \<and> next_generation b \<le> u64_max)
     \<and> current_cluster_id b = current_cluster_id a \<and> artifact_origins a \<subseteq> artifact_origins b
     \<and> map_of (published_catalogs a) \<subseteq>\<^sub>m map_of (published_catalogs b)
     \<and> (\<forall>name version p. published_version a name version = Some p \<longrightarrow> published_version b name version = Some p)
     \<and> (active_writer (format_policy a) \<in> {BASE_FORMAT, NEXT_FORMAT} \<longrightarrow>
          active_writer (format_policy a) \<le> active_writer (format_policy b)
          \<and> active_writer (format_policy b) \<in> {BASE_FORMAT, NEXT_FORMAT})
     \<and> map_of (format_receipts a) \<subseteq>\<^sub>m map_of (format_receipts b)"

lemma grows_refl: "grows st st"
  by (simp add: grows_def)

lemma grows_trans:
  assumes "grows a b" and "grows b c"
  shows "grows a c"
  using assms unfolding grows_def
  by (elim conjE, intro conjI) (erule (1) order_trans subset_trans map_le_trans | simp; fail | metis order_trans)+

text \<open>A step that leaves these fields alone.\<close>

lemma grows_frame:
  assumes "engine_time_watermark_ms b = engine_time_watermark_ms a" "next_generation b = next_generation a"
    "current_cluster_id b = current_cluster_id a" "artifact_origins a \<subseteq> artifact_origins b"
    "published_catalogs b = published_catalogs a" "published_definitions b = published_definitions a"
    "format_policy b = format_policy a" "format_receipts b = format_receipts a"
  shows "grows a b"
  using assms by (simp add: grows_def published_version_def)

lemma sat_add64_grows: "n \<le> u64_max \<Longrightarrow> n \<le> sat_add64 n k \<and> sat_add64 n k \<le> u64_max"
  by (simp add: sat_add64_def)

lemma evolve_generation:
  "evolve st event = Ok st' \<Longrightarrow> next_generation st' \<in> {next_generation st, sat_add64 (next_generation st) 1}"
  by (cases event)
     (auto simp: res_simps settle_wait_def complete_role_def bump_ready_order_def set_obligation_status_def Let_def
        split: option.splits scope_role.splits if_splits)

lemma evolve_grows:
  assumes "evolve st event = Ok st'"
  shows "grows st st'"
proof -
  have "next_generation st \<le> u64_max \<longrightarrow>
      next_generation st \<le> next_generation st' \<and> next_generation st' \<le> u64_max"
    using evolve_generation [OF assms] by (auto simp: sat_add64_grows)
  moreover have "same_books st st'" by (rule evolve_same_books [OF assms])
  ultimately show ?thesis by (simp add: grows_def same_books_def published_version_def)
qed

lemma append_event_grows: "append_event E st run event cmd actor ms io = Ok st' \<Longrightarrow> grows st st'"
  by (rule grows_frame) (auto simp: append_event_def Let_def res_simps)

lemma exec_step_grows: "exec_step E a b \<Longrightarrow> grows a b"
proof (induction rule: exec_step.induct)
  case (applies cmd actor time st event st')
  then show ?case
    by (cases rule: apply_event_Ok) (auto intro: grows_trans evolve_grows append_event_grows)
next
  case (receipts cid now events actor external_id digest wdigest st st')
  then show ?case by (intro grows_frame) (auto simp: record_receipt_def res_simps)
next
  case (terminates st now event)
  then show ?case by (intro grows_frame) (auto simp: set_terminal_def split: option.splits)
qed (auto simp: grows_def published_version_def)

lemma put_definition_version:
  "published_version (put_definition p st) name version =
     (if name = def_id (pd_definition p) \<and> version = def_version (pd_definition p) then Some p
      else published_version st name version)"
  by (auto simp: published_version_def put_definition_def Let_def split: option.splits)

lemma formats_grows:
  assumes "format_apply E (format_policy st) (format_receipts st) cmd roster log_id actor cluster
      = Ok (policy, receipts, r)"
  shows "grows st (st\<lparr>format_policy := policy, format_receipts := receipts\<rparr>)"
proof -
  have "map_of (format_receipts st) \<subseteq>\<^sub>m map_of receipts"
    using assms by (cases rule: format_apply_Ok) (auto simp: map_le_def)
  with format_apply_monotone [OF assms] show ?thesis
    by (simp add: grows_def published_version_def)
qed

lemma step_grows: "step E a b \<Longrightarrow> grows a b"
proof (induction rule: step.induct)
  case (executes st st')
  then show ?case by (rule exec_step_grows)
next
  case (publishes_catalog st version p)
  then show ?case by (auto simp: grows_def published_version_def map_le_def)
next
  case (publishes_definition st p)
  then show ?case
    by (simp add: grows_def put_definition_version) (simp add: put_definition_def Let_def)
qed (auto intro!: grows_frame simp: insert_run_def put_start_key_def forget_commands_def
       drop_event_def remove_run_data_def forget_summary_def Let_def)

lemma entry_step_grows: "entry_step E a b \<Longrightarrow> grows a b"
  by (induction rule: entry_step.induct) (auto intro: step_grows formats_grows)

interpretation growth: step_order E grows for E
  by unfold_locales (auto intro: grows_refl grows_trans entry_step_grows)

text \<open>Property C4: published content is immutable. Whatever entries are applied, a catalog version
  and a version of a definition that were published are found unchanged afterwards.\<close>

theorem published_immutable:
  assumes "map_of (published_catalogs (state_of m)) catalog_version = Some catalog"
    and "published_version (state_of m) name version = Some definition"
  shows "map_of (published_catalogs (state_of (snd (apply_entries E m entries)))) catalog_version = Some catalog
    \<and> published_version (state_of (snd (apply_entries E m entries))) name version = Some definition"
  using assms growth.order_entries [of m E entries] by (auto simp: grows_def map_le_def dom_def)

theorem published_immutable_witness:
  "\<exists>catalog content.
     pd_digest content = sha256 sample_ext ''order''
     \<and> map_of (published_catalogs (state_of (snd (apply_entries sample_ext (sample_store 4) sample_log)))) 1 = Some catalog
     \<and> published_version (state_of (snd (apply_entries sample_ext (sample_store 4) sample_log))) ''order'' 1
         = Some content"
proof -
  have "map_option pc_catalog (map_of (published_catalogs (state_of (sample_store 4))) 1) = Some sample_catalog"
    "map_option pd_digest (published_version (state_of (sample_store 4)) ''order'' 1) = Some (sha256 sample_ext ''order'')"
    using sample_store_facts by (simp_all add: Let_def)
  then obtain catalog content where
      "map_of (published_catalogs (state_of (sample_store 4))) 1 = Some catalog"
      "published_version (state_of (sample_store 4)) ''order'' 1 = Some content"
      "pd_digest content = sha256 sample_ext ''order''"
    by auto
  with published_immutable [OF this(1,2), of sample_ext sample_log] show ?thesis
    by (intro exI [of _ catalog] exI [of _ content]) simp
qed

text \<open>Property C5: time, fencing and formats never go back. Over any sequence of entries the
  engine time and the owner generation of the next claim do not decrease, the active writer format is
  not lowered, and the member keeps its cluster identity, its artifact origins and every format
  receipt.\<close>

theorem log_monotone:
  assumes "reachable E m"
  shows "let st = state_of m; st' = state_of (snd (apply_entries E m entries)) in
      engine_time_watermark_ms st \<le> engine_time_watermark_ms st'
    \<and> next_generation st \<le> next_generation st' \<and> next_generation st' \<le> u64_max
    \<and> active_writer (format_policy st) \<le> active_writer (format_policy st')
    \<and> active_writer (format_policy st') \<in> {BASE_FORMAT, NEXT_FORMAT}
    \<and> current_cluster_id st' = current_cluster_id st \<and> artifact_origins st \<subseteq> artifact_origins st'
    \<and> map_of (format_receipts st) \<subseteq>\<^sub>m map_of (format_receipts st')"
proof -
  from growth.order_reachable [OF assms] obtain cluster where
    "grows (bind_genesis cluster state_default) (state_of m)" by blast
  then have "next_generation (state_of m) \<le> u64_max"
    "active_writer (format_policy (state_of m)) \<in> {BASE_FORMAT, NEXT_FORMAT}"
    by (auto simp: grows_def bind_genesis_def state_default_def writer_policy_default_def)
  with growth.order_entries [of m E entries] show ?thesis by (auto simp: grows_def Let_def)
qed

theorem log_monotone_witness:
  "next_generation (state_of sample_member) \<le> next_generation (state_of (snd (apply_entries sample_ext sample_member
      sample_log)))
   \<and> next_generation (state_of (snd (apply_entries sample_ext sample_member sample_log))) = 1"
proof -
  have "take 5 sample_log = sample_log" by (simp add: sample_log_def sample_entries_def)
  then have "next_generation (state_of (snd (apply_entries sample_ext sample_member sample_log))) = 1"
    using sample_life_facts by (simp add: Let_def sample_life_def)
  with log_monotone [OF sample_member_reachable, of sample_log] show ?thesis by (simp add: Let_def)
qed

end
