(* ===== verification/Opening.thy ===== *)
theory Opening
  imports Growth
begin

text \<open>
  What a member checks of its own store when it opens it: the manifest, its agreement with the
  committed writer policy and with the cluster, and the retained policy and receipts. The checks
  hold of every reachable member.
\<close>

section \<open>Commands leave the writer policy alone\<close>

definition same_formats :: "state \<Rightarrow> state \<Rightarrow> bool" where
  "same_formats a b \<longleftrightarrow>
     format_policy b = format_policy a \<and> format_receipts b = format_receipts a
     \<and> current_cluster_id b = current_cluster_id a"

lemma exec_step_formats: "exec_step E a b \<Longrightarrow> same_formats a b"
proof (induction rule: exec_step.induct)
  case (applies cmd actor time st event st')
  then show ?case
    by (cases rule: apply_event_Ok)
       (auto simp: append_event_def same_books_def same_formats_def Let_def res_simps dest!: evolve_same_books)
next
  case (terminates st now event)
  from set_terminal_same_books [of st now event] show ?case by (simp add: same_books_def same_formats_def)
next
  case (receipts cid now events actor external_id digest wdigest st st')
  then show ?case by (auto simp: record_receipt_def same_formats_def res_simps)
qed (simp_all add: same_formats_def)

lemma step_formats: "step E a b \<Longrightarrow> same_formats a b"
  by (induction rule: step.induct)
     (auto dest: exec_step_formats simp: same_formats_def insert_run_def put_definition_def put_start_key_def
        forget_commands_def drop_event_def remove_run_data_def forget_summary_def Let_def)

interpretation formats_frame: commit_order E same_formats for E
  by unfold_locales (auto intro: step_formats, auto simp: same_formats_def)

section \<open>The manifest\<close>

lemma activate_writer_Ok:
  "activate_writer E m = Ok m' \<Longrightarrow>
     manifest_validate E m' = Ok () \<and> writer_format m' = NEXT_FORMAT \<and> sm_cluster_id m' = sm_cluster_id m"
  by (auto simp: activate_writer_def Let_def res_simps split: if_splits)

lemma install_reader_Ok:
  "install_reader E target m = Ok m' \<Longrightarrow>
     manifest_validate E m' = Ok () \<and> writer_format m' = writer_format m \<and> sm_cluster_id m' = sm_cluster_id m"
  by (auto simp: install_reader_def Let_def res_simps split: if_splits)

definition manifest_agrees :: "externals \<Rightarrow> member \<Rightarrow> bool" where
  "manifest_agrees E m \<longleftrightarrow>
     manifest_validate E (mb_manifest m) = Ok ()
     \<and> writer_format (mb_manifest m) = active_writer (format_policy (state_of m))
     \<and> sm_cluster_id (mb_manifest m) = Some (current_cluster_id (state_of m))"

lemma format_entry_agrees:
  assumes "apply_format_entry E m log_id cmd = Ok (reply, m')" and "manifest_agrees E m"
  shows "manifest_agrees E m'"
  using assms(1)
proof (cases rule: apply_format_entry_cases)
  case (answered policy receipts r)
  from answered(1) have "active_writer policy = active_writer (format_policy (state_of m))"
  proof (cases rule: format_apply_Ok)
    case (applied target requested)
    from applied(1) show ?thesis by (cases rule: checked_attempt_cases) (use answered(3) applied(4) in auto)
  qed simp_all
  with answered(2) assms(2) show ?thesis by (simp add: manifest_agrees_def)
next
  case (activated policy receipts r manifest)
  with activate_writer_Ok [OF activated(4)] assms(2) show ?thesis by (simp add: manifest_agrees_def)
qed (use assms(2) in simp)

lemma normal_agrees:
  assumes "apply_normal E m log_id writer cmd = Ok (reply, m')" and "manifest_agrees E m"
  shows "manifest_agrees E m'"
  using assms(1)
proof (cases rule: apply_normal_cases)
  case (commits rep)
  from formats_frame.R_steps [OF commits(2)] assms(2) show ?thesis
    by (simp add: commits(1) manifest_agrees_def same_formats_def)
qed (use assms(2) in \<open>auto intro: format_entry_agrees\<close>)



section \<open>The retained policy and receipts\<close>

text \<open>What the engine relies on of the hash and its hexadecimal form.\<close>

definition digest_hex :: "externals \<Rightarrow> bool" where
  "digest_hex E \<longleftrightarrow>
     (\<forall>bytes. length (hex_encode E (sha256 E bytes)) = 64
              \<and> (\<exists>decoded. hex_decode E (hex_encode E (sha256 E bytes)) = Inr decoded))"

definition prepared_valid :: "string \<Rightarrow> writer_policy \<Rightarrow> bool" where
  "prepared_valid cluster policy \<longleftrightarrow>
     (\<forall>(member, p)\<in>set (prepared policy). member = pf_member_id p \<and> pf_format p = PROOF_FORMAT
        \<and> pf_cluster_id p = cluster \<and> pf_roster_log_id p = fp_roster_log_id policy)"

definition persisted_ok :: "externals \<Rightarrow> state \<Rightarrow> bool" where
  "persisted_ok E st \<longleftrightarrow>
     (\<exists>bytes. id_from_hex E (current_cluster_id st) = Inr bytes)
     \<and> fp_format (format_policy st) = POLICY_FORMAT
     \<and> active_writer (format_policy st) \<in> {BASE_FORMAT, NEXT_FORMAT}
     \<and> (active_writer (format_policy st) = NEXT_FORMAT \<longrightarrow> activation_log_id (format_policy st) \<noteq> None)
     \<and> prepared_valid (current_cluster_id st) (format_policy st)
     \<and> (\<forall>(key, r)\<in>set (format_receipts st). receipt_valid E key r)"

lemma persisted_ok_validate: "persisted_ok E st \<Longrightarrow> validate_persisted_state E st = Ok ()"
  by (auto simp: persisted_ok_def prepared_valid_def validate_persisted_state_def Let_def list_ex_iff)

lemma checked_attempt_persisted:
  assumes "checked_attempt policy roster log_id actor target requested cluster body = Ok policy'"
    and "prepared_valid cluster policy"
  shows "prepared_valid cluster policy' \<and> fp_format policy' = fp_format policy
    \<and> (policy' = policy\<lparr>active_writer := NEXT_FORMAT, activation_log_id := Some log_id\<rparr>
       \<or> active_writer policy' = active_writer policy \<and> activation_log_id policy' = activation_log_id policy)"
  using assms(1)
proof (cases rule: checked_attempt_cases)
  case (prepares proofs)
  then have "\<forall>p\<in>set proofs. pf_cluster_id p = cluster \<and> pf_roster_log_id p = ro_log_id roster
      \<and> pf_format p = PROOF_FORMAT"
    by (simp add: validate_roster_Ok supports_def)
  then have "prepared_valid cluster policy'"
    by (auto simp: prepares(3) prepared_valid_def dest!: prepared_entries)
  then show ?thesis by (simp add: prepares(3))
next
  case activates
  with assms(2) show ?thesis by (simp add: prepared_valid_def)
qed

lemma format_request_digest_hex:
  "digest_hex E \<Longrightarrow> format_request_digest E op target roster = Ok digest \<Longrightarrow>
     length digest = 64 \<and> (\<exists>decoded. hex_decode E digest = Inr decoded)"
  by (auto simp: format_request_digest_def digest_hex_def res_simps)

lemma format_apply_receipt:
  assumes "digest_hex E" and "id_from_hex E cluster = Inr bytes"
    and "format_apply E policy receipts cmd roster log_id actor cluster = Ok (policy', receipts', r)"
    and "map_of receipts (receipt_key E cluster actor (cmd_id cmd)) = None"
  shows "receipt_valid E (receipt_key E cluster actor (cmd_id cmd)) r"
proof -
  from assms(3,4) obtain op target requested digest where
      req: "format_request (unwrap_cause (cmd_body cmd)) = Some (op, target, requested)" "actor \<noteq> []"
    and digest: "format_request_digest E op target requested = Ok digest"
    by (auto simp: format_apply_def Let_def res_simps split: option.splits if_splits)
  with assms(3,4) have "fr_format r = RECEIPT_FORMAT \<and> fr_cluster_id r = cluster \<and> fr_principal_id r = actor
      \<and> fr_command_id r = cmd_id cmd \<and> fr_request_digest r = digest"
    by (cases "checked_attempt policy roster log_id actor target requested cluster (unwrap_cause (cmd_body cmd))")
       (auto simp: format_apply_def Let_def)
  with format_request_digest_hex [OF assms(1) digest] assms(2) show ?thesis
    by (auto simp: receipt_valid_def)
qed

lemma formats_persisted:
  assumes hex: "digest_hex E" and ok: "persisted_ok E st"
    and run: "format_apply E (format_policy st) (format_receipts st) cmd roster log_id actor (current_cluster_id st)
      = Ok (policy, receipts, r)"
  shows "persisted_ok E (st\<lparr>format_policy := policy, format_receipts := receipts\<rparr>)"
proof -
  let ?key = "receipt_key E (current_cluster_id st) actor (cmd_id cmd)"
  from ok obtain bytes where bytes: "id_from_hex E (current_cluster_id st) = Inr bytes"
    by (auto simp: persisted_ok_def)
  have new: "\<forall>(key, r)\<in>set (bput ?key r (format_receipts st)). receipt_valid E key r"
    if "map_of (format_receipts st) ?key = None"
    using ok format_apply_receipt [OF hex bytes run that] by (auto simp: persisted_ok_def dest!: bput_entries)
  from run show ?thesis
  proof (cases rule: format_apply_Ok)
    case (applied target requested)
    from ok have "prepared_valid (current_cluster_id st) (format_policy st)" by (simp add: persisted_ok_def)
    from checked_attempt_persisted [OF applied(1) this] new [OF applied(3)] ok applied(2) show ?thesis
      by (auto simp: persisted_ok_def)
  qed (use ok new in \<open>auto simp: persisted_ok_def\<close>)
qed

lemma step_persisted: "step E a b \<Longrightarrow> persisted_ok E a \<Longrightarrow> persisted_ok E b"
  using step_formats [of E a b] by (simp add: persisted_ok_def same_formats_def)

lemma entry_step_persisted:
  "entry_step E a b \<Longrightarrow> digest_hex E \<longrightarrow> persisted_ok E a \<Longrightarrow> digest_hex E \<longrightarrow> persisted_ok E b"
  by (induction rule: entry_step.induct) (blast intro: step_persisted formats_persisted)+

interpretation persisted: step_invariant E "\<lambda>st. digest_hex E \<longrightarrow> persisted_ok E st" for E
proof unfold_locales
  fix cluster
  assume "valid_cluster E cluster"
  then show "digest_hex E \<longrightarrow> persisted_ok E (bind_genesis cluster state_default)"
    by (auto simp: persisted_ok_def valid_cluster_def bind_genesis_def state_default_def prepared_valid_def
        writer_policy_default_def BASE_FORMAT_def NEXT_FORMAT_def)
qed (rule entry_step_persisted)

text \<open>Property C8: the retained writer policy is always consistent. With digests of 64 hexadecimal
  digits, the state of every reachable member passes the check of the persisted writer policy: the
  active format is a known one with its activation position, every prepared proof is about this
  cluster and the prepared roster, and every receipt is kept under its own identity.\<close>

theorem reachable_policy_valid:
  assumes "reachable E m" and "digest_hex E"
  shows "validate_persisted_state E (state_of m) = Ok ()"
  using persisted.invariant_reachable [OF assms(1)] assms(2) by (blast intro: persisted_ok_validate)

lemma sample_digest_hex: "digest_hex sample_ext"
  by (auto simp: digest_hex_def sample_ext_def min_def)

theorem reachable_policy_valid_witness:
  "validate_persisted_state sample_ext (state_of (sample_rollout 5)) = Ok ()
   \<and> active_writer (format_policy (state_of (sample_rollout 5))) = 5
   \<and> length (format_receipts (state_of (sample_rollout 5))) = 2"
proof -
  have "active_writer (format_policy (state_of (sample_rollout 5))) = 5"
    "length (format_receipts (state_of (sample_rollout 5))) = 2"
    using sample_rollout_facts by (simp_all add: Let_def)
  with reachable_policy_valid [OF sample_rollout_reachable sample_digest_hex] show ?thesis by simp
qed

end
