(* ===== verification/History_Check.thy ===== *)
theory History_Check
  imports Opening
begin

text \<open>
  The retained history of a reachable member and the check its store is opened with: the records of
  every admitted run are contiguous, refer to the events they were made for, and keep each payload
  under the schema that the run pins for it. Only the schema of an activity result can be refused.
\<close>

section \<open>What an event changes of a run\<close>

definition same_pins :: "run_state \<Rightarrow> run_state \<Rightarrow> bool" where
  "same_pins a b \<longleftrightarrow>
     rs_definition b = rs_definition a \<and> rs_catalog b = rs_catalog a \<and> rs_published b = rs_published a"

lemma same_pins_refl [simp]: "same_pins r r"
  by (simp add: same_pins_def)

fun is_admission :: "run_id \<Rightarrow> domain_event \<Rightarrow> bool" where
  "is_admission run (RunAdmitted owner _ _ _ _ _ _) \<longleftrightarrow> owner = run"
| "is_admission run _ \<longleftrightarrow> False"

text \<open>The policy of a run is set by its admission only.\<close>

definition keeps_run :: "domain_event \<Rightarrow> run_id \<Rightarrow> run_state option \<Rightarrow> run_state option \<Rightarrow> bool" where
  "keeps_run event run old new \<longleftrightarrow>
     rel_option (\<lambda>a b. same_pins a b \<and> (rs_policy b = rs_policy a \<or> is_admission run event)) old new"

lemma keeps_run_refl [simp]: "keeps_run event run r r"
  by (simp add: keeps_run_def option.rel_refl)

lemma keeps_run_map:
  assumes "\<And>r. same_pins r (f r)"
    and "\<And>r. rs_policy (f r) = rs_policy r \<or> is_admission run event"
  shows "keeps_run event run old (map_option f old)"
  using assms by (cases old) (simp_all add: keeps_run_def)

lemma bump_ready_order_runs:
  "bump_ready_order st run = Ok (n, st') \<Longrightarrow> keeps_run event r (hget (runs st) r) (hget (runs st') r)"
  by (cases "r = run") (auto simp: bump_ready_order_def keeps_run_def same_pins_def Let_def res_simps option.rel_refl)

lemma settle_wait_runs [simp]: "runs (settle_wait wait status st) = runs st"
  by (simp add: settle_wait_def Let_def split: option.splits)

lemma complete_role_runs [simp]: "runs (complete_role role output st) = runs st"
  by (cases role) (simp_all add: complete_role_def Let_def)

lemma evolve_runs:
  assumes "evolve st event = Ok st'"
  shows "keeps_run event run (hget (runs st) run) (hget (runs st') run)"
  using assms
  by (cases event)
     (auto simp: res_simps Let_def set_obligation_status_def same_pins_def
        dest!: bump_ready_order_runs intro!: keeps_run_map
        split: option.splits scope_role.splits if_splits)

section \<open>What is captured verifies\<close>

lemma capture_in_verify:
  assumes "capture_in E cluster schema value = Ok a"
  shows "artifact_verify E a schema value = Ok ()" "ar_schema a = schema" "ar_cluster_id a = cluster"
    "cluster \<noteq> []"
proof -
  from assms show "ar_schema a = schema" "ar_cluster_id a = cluster" "cluster \<noteq> []"
    by (auto simp: capture_in_def split: if_splits sum.splits res.splits)
  with assms show "artifact_verify E a schema value = Ok ()"
    by (simp add: artifact_verify_def)
qed

lemma capture_in_identity:
  assumes "digest_hex E" and "capture_in E cluster schema value = Ok a"
  shows "validate_identity E a = Ok ()"
  using assms
  by (auto simp: capture_in_def validate_identity_def digest_hex_def split: if_splits sum.splits res.splits)
     (metis sum.distinct(1))

definition origin_known :: "externals \<Rightarrow> state \<Rightarrow> artifact_ref \<Rightarrow> bool" where
  "origin_known E st a \<longleftrightarrow> validate_identity E a = Ok () \<and> ar_cluster_id a \<in> artifact_origins st"

lemma origin_known_verify: "origin_known E st a \<Longrightarrow> verify_origin E st a = Ok ()"
  by (simp add: origin_known_def verify_origin_def)

lemma origin_known_grows: "origin_known E a x \<Longrightarrow> grows a b \<Longrightarrow> origin_known E b x"
  by (auto simp: origin_known_def grows_def)

lemma captured_origin:
  "digest_hex E \<Longrightarrow> capture_in E cluster schema value = Ok a \<Longrightarrow> cluster \<in> artifact_origins st
     \<Longrightarrow> origin_known E st a"
  by (simp add: origin_known_def capture_in_identity capture_in_verify(3))

section \<open>Records\<close>

definition ref_ok :: "externals \<Rightarrow> state \<Rightarrow> val option \<Rightarrow> artifact_ref option \<Rightarrow> bool" where
  "ref_ok E st value reference \<longleftrightarrow>
     rel_option (\<lambda>v r. origin_known E st r \<and> artifact_verify E r (ar_schema r) (to_json v) = Ok ()) value reference"

lemma ref_ok_check: "ref_ok E st value reference \<Longrightarrow> check_ref E st message value reference = Ok ()"
  by (cases "value"; cases reference) (auto simp: ref_ok_def check_ref_def origin_known_verify)

fun result_of :: "domain_event \<Rightarrow> activation_id option" where
  "result_of (LeafSucceeded _ activation _ _ _) = Some activation"
| "result_of (ReconciliationRecorded _ activation _ (Some _) _) = Some activation"
| "result_of _ = None"

text \<open>The output of a result is kept under the output schema of an activity that the run pins.\<close>

definition contract_schema :: "externals \<Rightarrow> run_state \<Rightarrow> history_entry \<Rightarrow> bool" where
  "contract_schema E rs entry \<longleftrightarrow>
     (case he_output_ref entry of
        None \<Rightarrow> False
      | Some r \<Rightarrow> list_ex (\<lambda>(key, contract). schema_identity E (ac_output_schema contract) = Ok (ar_schema r))
                    (cat_activities (rs_catalog rs)))"

definition schema_ok ::
    "externals \<Rightarrow> state \<Rightarrow> run_id \<Rightarrow> run_state \<Rightarrow> history_entry \<Rightarrow> domain_event \<Rightarrow> bool" where
  "schema_ok E st run rs entry event \<longleftrightarrow>
     (if result_of event \<noteq> None then contract_schema E rs entry
      else (\<forall>claimed. \<exists>claimed'. check_event_schema E st run rs claimed entry event = Ok claimed'))"

definition record_ok ::
    "externals \<Rightarrow> state \<Rightarrow> run_id \<Rightarrow> run_state \<Rightarrow> nat \<Rightarrow> history_entry \<Rightarrow> domain_event \<Rightarrow> bool" where
  "record_ok E st run rs i entry event \<longleftrightarrow>
     he_format entry = EVENT_FORMAT \<and> he_run entry = run \<and> he_sequence entry = i + 1
     \<and> origin_known E st (he_payload entry)
     \<and> artifact_verify E (he_payload entry) ''graphrun.domain-event/v1'' (ser_event E event) = Ok ()
     \<and> ref_ok E st (event_input event) (he_input_ref entry)
     \<and> ref_ok E st (event_output event) (he_output_ref entry)
     \<and> schema_ok E st run rs entry event"

lemma check_event_schema_cong:
  assumes "hget (runs a) run = Some r" and "hget (runs b) run = Some r'" and "same_pins r r'"
  shows "check_event_schema E b run r' claimed entry event = check_event_schema E a run r claimed entry event"
  using assms by (cases event) (simp_all add: check_event_schema_def activity_schema_identity_def same_pins_def)

lemma contract_schema_cong: "same_pins r r' \<Longrightarrow> contract_schema E r' entry = contract_schema E r entry"
  by (simp add: contract_schema_def same_pins_def cong: option.case_cong)

lemma ref_ok_grows: "ref_ok E a value reference \<Longrightarrow> grows a b \<Longrightarrow> ref_ok E b value reference"
  by (cases "value"; cases reference) (auto simp: ref_ok_def intro: origin_known_grows)

lemma record_ok_grows:
  assumes "record_ok E a run r i entry event" and "grows a b"
    and "hget (runs a) run = Some r" and "hget (runs b) run = Some r'" and "same_pins r r'"
  shows "record_ok E b run r' i entry event"
  using assms(1) check_event_schema_cong [OF assms(3-5)]
    origin_known_grows [OF _ assms(2)] ref_ok_grows [OF _ assms(2)]
    contract_schema_cong [OF assms(5)]
  by (simp add: record_ok_def schema_ok_def)

lemma captured_ref_ok:
  assumes "digest_hex E" and "capture_in E cluster schema (to_json v) = Ok a" and "cluster \<in> artifact_origins st"
  shows "ref_ok E st (Some v) (Some a)"
  using captured_origin [OF assms] capture_in_verify [OF assms(2)] by (simp add: ref_ok_def)

lemma ref_ok_None [simp]: "ref_ok E st None None"
  by (simp add: ref_ok_def)

lemma check_schema_captured:
  "capture_in E cluster schema v = Ok a \<Longrightarrow> check_schema message schema (Some a) = Ok ()"
  by (simp add: check_schema_def capture_in_verify(2))

lemma io_references_ok:
  assumes hex: "digest_hex E" and io: "io_references E st0 run event cluster = Ok io"
    and rs: "hget (runs st0) run = Some rs" and origin: "cluster \<in> artifact_origins st"
  shows "ref_ok E st (event_input event) (fst io) \<and> ref_ok E st (event_output event) (snd io)"
  using io rs captured_ref_ok [OF hex _ origin]
  by (cases event rule: event_input.cases)
     (auto simp: io_references_def result_ref_def res_simps split: option.splits)

lemma to_unavailable_Ok: "to_unavailable r = Ok x \<longleftrightarrow> r = Ok x"
  by (cases r) simp_all

lemma activity_schema_contract:
  assumes "activity_schema_identity E st run name version role = Ok (input, output)" and "hget (runs st) run = Some rs"
  shows "list_ex (\<lambda>(key, contract). schema_identity E (ac_output_schema contract) = Ok output) (cat_activities (rs_catalog rs))"
proof -
  from assms obtain i schema where schemas: "contract_schemas (rs_catalog rs) (activity_key_new name version) role = Ok (i, schema)"
    and identity: "schema_identity E schema = Ok output"
    by (auto simp: activity_schema_identity_def res_simps to_unavailable_Ok)
  from schemas obtain key contract where "map_of (cat_activities (rs_catalog rs)) key = Some contract"
    and "ac_output_schema contract = schema"
    unfolding contract_schemas_def rbind_eq_Ok rmap_eq_Ok by (auto simp: catalog_activity_def res_simps)
  with identity have "map_of (cat_activities (rs_catalog rs)) key = Some contract"
    "schema_identity E (ac_output_schema contract) = Ok output" by simp_all
  then show ?thesis by (auto simp: list_ex_iff dest!: map_of_SomeD)
qed

lemma result_ref_contract:
  assumes "result_ref E st run activation role v cluster = Ok r" and "hget (runs st) run = Some rs"
    and "he_output_ref entry = Some r"
  shows "contract_schema E rs entry"
proof -
  from assms(1) obtain name version actual input schema where
    "activity_schema_identity E st run name version actual = Ok (input, schema)"
    and captured: "capture_in E cluster schema (to_json v) = Ok r"
    by (auto simp: result_ref_def res_simps)
  from activity_schema_contract [OF this(1) assms(2)] capture_in_verify(2) [OF captured] assms(3) show ?thesis
    by (simp add: contract_schema_def)
qed

lemma io_references_schema:
  assumes io: "io_references E st run event cluster = Ok io" and rs: "hget (runs st) run = Some rs"
    and entry: "he_input_ref entry = fst io" "he_output_ref entry = snd io"
  shows "schema_ok E st run rs entry event"
proof (cases "result_of event")
  case None
  then show ?thesis using io rs entry
    by (cases event)
       (auto simp: io_references_def schema_ok_def check_event_schema_def check_schema_captured res_simps
          split: option.splits)
next
  case (Some activation)
  with io rs obtain role v r where "result_ref E st run activation role v cluster = Ok r" "snd io = Some r"
    by (cases event rule: result_of.cases) (auto simp: io_references_def res_simps)
  with result_ref_contract rs entry(2) Some show ?thesis by (simp add: schema_ok_def)
qed

section \<open>The history of a run\<close>

definition admitted :: "state \<Rightarrow> run_id \<Rightarrow> bool" where
  "admitted st run \<longleftrightarrow> list_ex (is_admission run) (hlist (history st) run)"

lemma admitted_run_is_admission: "admitted_run events = Some run \<Longrightarrow> list_ex (is_admission run) events"
  by (induction events rule: admitted_run.induct) simp_all

definition deps_ok :: "externals \<Rightarrow> state \<Rightarrow> run_state \<Rightarrow> required_artifacts \<Rightarrow> bool" where
  "deps_ok E st rs d \<longleftrightarrow> required_verify E d rs = Ok () \<and> (\<forall>a\<in>set (required_refs d). origin_known E st a)"

definition records_ok :: "externals \<Rightarrow> state \<Rightarrow> run_id \<Rightarrow> run_state \<Rightarrow> bool" where
  "records_ok E st run rs \<longleftrightarrow>
     length (hlist (history_records st) run) = length (hlist (history st) run)
     \<and> (\<forall>i<length (hlist (history st) run).
          record_ok E st run rs i (hlist (history_records st) run ! i) (hlist (history st) run ! i))"

definition run_ok :: "externals \<Rightarrow> state \<Rightarrow> run_id \<Rightarrow> run_state \<Rightarrow> bool" where
  "run_ok E st run rs \<longleftrightarrow>
     records_ok E st run rs
     \<and> (\<forall>p. rs_published rs = Some p \<longrightarrow> pinned_verify E p (rs_definition rs) (rs_catalog rs) = Ok ())
     \<and> (\<forall>d. hget (history_dependencies st) run = Some d \<longrightarrow> deps_ok E st rs d)
     \<and> (admitted st run \<longrightarrow> hget (history_dependencies st) run \<noteq> None)"

definition retained_ok :: "externals \<Rightarrow> state \<Rightarrow> run_id \<Rightarrow> bool" where
  "retained_ok E st run \<longleftrightarrow>
     (case hget (runs st) run of
        None \<Rightarrow> hget (history st) run = None \<and> hget (history_records st) run = None
                \<and> hget (history_dependencies st) run = None
      | Some rs \<Rightarrow> run_ok E st run rs)"

definition history_ok :: "externals \<Rightarrow> state \<Rightarrow> bool" where
  "history_ok E st \<longleftrightarrow>
     current_cluster_id st \<in> artifact_origins st \<and> (\<forall>run. retained_ok E st run)
     \<and> (\<forall>t\<in>set (hvals (signal_tombstones st)). origin_known E st (tb_payload t))"

lemma records_ok_grows:
  assumes "records_ok E a run r" and "grows a b"
    and "hget (runs a) run = Some r" and "hget (runs b) run = Some r'" and "same_pins r r'"
    and "hget (history b) run = hget (history a) run" and "hget (history_records b) run = hget (history_records a) run"
  shows "records_ok E b run r'"
  using assms(1,6,7) record_ok_grows [OF _ assms(2-5)] by (simp add: records_ok_def hlist_def)

lemma required_verify_cong:
  assumes "same_pins r r'" and "rs_policy r' = rs_policy r"
  shows "required_verify E d r' = required_verify E d r"
  using assms by (simp add: required_verify_def required_capture_def same_pins_def cong: option.case_cong if_cong)

lemma deps_ok_grows:
  assumes "deps_ok E a r d" and "grows a b" and "same_pins r r'" and "rs_policy r' = rs_policy r"
  shows "deps_ok E b r' d"
  using assms(1,2) required_verify_cong [OF assms(3,4)] by (auto simp: deps_ok_def intro: origin_known_grows)

lemma run_ok_frame:
  assumes "run_ok E a run r" and "grows a b"
    and "hget (runs a) run = Some r" and "hget (runs b) run = Some r'" and "same_pins r r'"
    and "rs_policy r' = rs_policy r"
    and "hget (history b) run = hget (history a) run" "hget (history_records b) run = hget (history_records a) run"
      "hget (history_dependencies b) run = hget (history_dependencies a) run"
  shows "run_ok E b run r'"
  using assms(1,5,7-9) records_ok_grows [OF _ assms(2-5,7,8)] deps_ok_grows [OF _ assms(2,5,6)]
  by (simp add: run_ok_def admitted_def hlist_def same_pins_def)

definition same_run :: "run_state \<Rightarrow> run_state \<Rightarrow> bool" where
  "same_run a b \<longleftrightarrow> same_pins a b \<and> rs_policy b = rs_policy a"

text \<open>A step that neither records nor forgets.\<close>

lemma history_ok_frame:
  assumes "history_ok E a" and "grows a b"
    and "\<And>run. rel_option same_run (hget (runs a) run) (hget (runs b) run)"
    and "history b = history a" "history_records b = history_records a"
      "history_dependencies b = history_dependencies a"
    and "set (hvals (signal_tombstones b)) \<subseteq> set (hvals (signal_tombstones a))"
  shows "history_ok E b"
proof -
  have "retained_ok E b run" for run
    using assms(1) assms(3) [of run] assms(4-6) run_ok_frame [OF _ assms(2)]
    by (cases "hget (runs a) run"; cases "hget (runs b) run")
       (auto simp: history_ok_def retained_ok_def same_run_def dest!: spec [of _ run])
  moreover have "current_cluster_id b \<in> artifact_origins b"
    using assms(1,2) by (auto simp: history_ok_def grows_def)
  ultimately show ?thesis
    using assms(1,7) origin_known_grows [OF _ assms(2)] by (auto simp: history_ok_def)
qed

section \<open>Recording an event\<close>

lemma rseq_map_in: "rseq (map f xs) = Ok ys \<Longrightarrow> y \<in> set ys \<Longrightarrow> \<exists>x\<in>set xs. f x = Ok y"
  by (induction xs arbitrary: ys) (auto simp: res_simps)

lemma capture_all_refs:
  assumes "capture_all E cluster pre items = Ok refs" and "a \<in> snd ` set refs"
  shows "\<exists>schema v. capture_in E cluster schema v = Ok a"
proof -
  from assms(1) obtain kvs where
      kvs: "rseq (map (\<lambda>(key, j). rmap (Pair key) (capture_in E cluster (pre @ key) j)) items) = Ok kvs"
    and refs: "refs = obj_of kvs" by (auto simp: capture_all_def res_simps)
  from assms(2) refs obj_of_props(2) [of kvs] obtain k where "(k, a) \<in> set kvs" by auto
  from rseq_map_in [OF kvs this] show ?thesis by (auto simp: res_simps) blast
qed

lemma required_capture_refs:
  assumes "required_capture E rs cluster = Ok d"
  shows "ar_cluster_id (ra_definition d) = cluster"
    and "a \<in> set (required_refs d) \<Longrightarrow> \<exists>schema v. capture_in E cluster schema v = Ok a"
proof -
  from assms obtain schemas contracts where
      parts: "capture_all E cluster ''graphrun.schema/''
        (map (\<lambda>(k, s). (schema_key_stable_name k, s)) (cat_schemas (rs_catalog rs))) = Ok schemas"
      "capture_all E cluster ''graphrun.contract/'' (contract_items E (rs_catalog rs)) = Ok contracts"
      "capture_in E cluster ''graphrun.definition/v1'' (ser_definition E (rs_definition rs)) = Ok (ra_definition d)"
      "capture_in E cluster ''graphrun.catalog/v1'' (ser_catalog E (rs_catalog rs)) = Ok (ra_catalog d)"
      "capture_in E cluster ''graphrun.run-policy/v1'' (ser_policy E (rs_policy rs)) = Ok (ra_policy d)"
    and d: "ra_schemas d = schemas" "ra_contracts d = contracts"
    by (auto simp: required_capture_def res_simps)
  show "ar_cluster_id (ra_definition d) = cluster" by (rule capture_in_verify(3) [OF parts(3)])
  assume "a \<in> set (required_refs d)"
  with d consider "a = ra_definition d" | "a = ra_catalog d" | "a = ra_policy d" | "a \<in> snd ` set schemas"
    | "a \<in> snd ` set contracts" by (auto simp: required_refs_def)
  then show "\<exists>schema v. capture_in E cluster schema v = Ok a"
    by cases (use parts in \<open>auto dest: capture_all_refs\<close>)
qed

lemma captured_deps_ok:
  assumes "digest_hex E" and "required_capture E rs cluster = Ok d" and "cluster \<in> artifact_origins st"
    and "\<And>p. rs_published rs = Some p \<Longrightarrow> pinned_verify E p (rs_definition rs) (rs_catalog rs) = Ok ()"
  shows "deps_ok E st rs d"
proof -
  have "required_verify E d rs = Ok ()"
    using assms(2,4) required_capture_refs(1) [OF assms(2)]
    by (cases "rs_published rs") (simp_all add: required_verify_def)
  moreover have "origin_known E st a" if "a \<in> set (required_refs d)" for a
    using required_capture_refs(2) [OF assms(2) that] captured_origin [OF assms(1) _ assms(3)] by blast
  ultimately show ?thesis by (simp add: deps_ok_def)
qed

lemma append_event_Ok:
  assumes "append_event E st run event cmd actor ms io = Ok st'"
  obtains entry payload required where
    "capture_in E (current_cluster_id st) ''graphrun.domain-event/v1'' (ser_event E event) = Ok payload"
    and "append_dependencies E st run event = Ok required"
    and "he_format entry = EVENT_FORMAT" "he_run entry = run"
      "he_sequence entry = length (hlist (history st) run) + 1" "he_payload entry = payload"
      "he_input_ref entry = fst io" "he_output_ref entry = snd io"
    and "history st' = hput run (hlist (history st) run @ [event]) (history st)"
      "history_records st' = hput run (hlist (history_records st) run @ [entry]) (history_records st)"
      "history_dependencies st' = (case required of Some r \<Rightarrow> hput run r (history_dependencies st)
                                   | None \<Rightarrow> history_dependencies st)"
      "runs st' = runs st" "current_cluster_id st' = current_cluster_id st"
      "current_cluster_id st \<in> artifact_origins st'"
proof -
  from assms obtain required payload tombstone where
      "append_dependencies E st run event = Ok required"
    and "capture_in E (current_cluster_id st) ''graphrun.domain-event/v1'' (ser_event E event) = Ok payload"
    and "append_tombstone E st run event = Ok tombstone"
    by (auto simp: append_event_def Let_def res_simps)
  with assms show ?thesis
    by (intro that [of payload required "\<lparr>he_format = EVENT_FORMAT, he_run = run,
          he_sequence = length (hlist (history st) run) + 1, he_command_id = cmd, he_principal_id = actor,
          he_recorded_ms = ms, he_payload = payload, he_input_ref = fst io, he_output_ref = snd io\<rparr>"])
       (auto simp: append_event_def hpush_def Let_def)
qed

lemma hvals_hput: "v' \<in> set (hvals (hput k v m)) \<Longrightarrow> v' = v \<or> v' \<in> set (hvals m)"
  by (induction m) (auto simp: hvals_def split: if_splits)

lemma append_event_tombstones:
  assumes "append_event E st run event cmd actor ms io = Ok st'" and "t \<in> set (hvals (signal_tombstones st'))"
  shows "t \<in> set (hvals (signal_tombstones st))
    \<or> (\<exists>schema v. capture_in E (current_cluster_id st) schema v = Ok (tb_payload t))"
proof -
  from assms(1) obtain tombstone where tomb: "append_tombstone E st run event = Ok tombstone"
    and st': "signal_tombstones st' = (case tombstone of
        Some t \<Rightarrow> hput (tombstone_key E run (tb_event_id t)) t (signal_tombstones st)
      | None \<Rightarrow> signal_tombstones st)"
    by (auto simp: append_event_def Let_def res_simps)
  show ?thesis
  proof (cases tombstone)
    case (Some t')
    with tomb have "\<exists>schema v. capture_in E (current_cluster_id st) schema v = Ok (tb_payload t')"
      by (cases event) (auto simp: append_tombstone_def res_simps, blast)
    with assms(2) st' Some show ?thesis by (auto dest: hvals_hput)
  qed (use assms(2) st' in simp)
qed

lemma append_dependencies_cases:
  assumes "append_dependencies E st run event = Ok required"
  obtains (admits) rs d where "hget (runs st) run = Some rs"
    and "required_capture E rs (current_cluster_id st) = Ok d" and "required = Some d"
  | (plain) "required = None" and "\<And>r. \<not> is_admission r event"
  using assms by (cases event) (auto simp: append_dependencies_def res_simps)

lemma owned_records_ok:
  assumes hex: "digest_hex E" and ok: "records_ok E st run rs" and rs: "hget (runs st) run = Some rs"
    and io: "io_references E st run event (current_cluster_id st) = Ok io"
    and st1: "evolve st event = Ok st1" and rs1: "hget (runs st1) run = Some rs1" "same_pins rs rs1"
    and st2: "append_event E st1 run event cmd actor ms io = Ok st2"
  shows "records_ok E st2 run rs1"
proof -
  have grows: "grows st st2"
    by (rule grows_trans [OF evolve_grows [OF st1] append_event_grows [OF st2]])
  have books: "same_books st st1" by (rule evolve_same_books [OF st1])
  from st2 show ?thesis
  proof (rule append_event_Ok)
    fix entry payload required
    assume payload: "capture_in E (current_cluster_id st1) ''graphrun.domain-event/v1'' (ser_event E event) = Ok payload"
      and entry: "he_format entry = EVENT_FORMAT" "he_run entry = run"
        "he_sequence entry = length (hlist (history st1) run) + 1" "he_payload entry = payload"
        "he_input_ref entry = fst io" "he_output_ref entry = snd io"
      and st2': "history st2 = hput run (hlist (history st1) run @ [event]) (history st1)"
        "history_records st2 = hput run (hlist (history_records st1) run @ [entry]) (history_records st1)"
        "runs st2 = runs st1" "current_cluster_id st1 \<in> artifact_origins st2"
    from st2'(3) rs1(1) have rs2: "hget (runs st2) run = Some rs1" by simp
    have cluster: "current_cluster_id st \<in> artifact_origins st2" using st2'(4) books by (simp add: same_books_def)
    have schema: "schema_ok E st2 run rs1 entry event"
      using io_references_schema [OF io rs entry(5,6)] check_event_schema_cong [OF rs rs2 rs1(2)]
        contract_schema_cong [OF rs1(2)]
      by (simp add: schema_ok_def)
    have new: "record_ok E st2 run rs1 (length (hlist (history st) run)) entry event"
      using io_references_ok [OF hex io rs cluster] schema entry books
        captured_origin [OF hex payload st2'(4)] capture_in_verify(1) [OF payload]
      by (simp add: record_ok_def same_books_def)
    have old: "record_ok E st2 run rs1 i (hlist (history_records st) run ! i) (hlist (history st) run ! i)"
      if "i < length (hlist (history st) run)" for i
      using ok that record_ok_grows [OF _ grows rs rs2 rs1(2)] by (simp add: records_ok_def)
    have lists: "hlist (history st2) run = hlist (history st) run @ [event]"
      "hlist (history_records st2) run = hlist (history_records st) run @ [entry]"
      using st2'(1,2) books by (simp_all add: same_books_def hlist_def)
    from ok have len: "length (hlist (history_records st) run) = length (hlist (history st) run)"
      by (simp add: records_ok_def)
    show ?thesis
      unfolding records_ok_def lists using old new len by (auto simp: nth_append less_Suc_eq)
  qed
qed

lemma owned_run_ok:
  assumes hex: "digest_hex E" and ok: "run_ok E st run rs" and rs: "hget (runs st) run = Some rs"
    and owner: "event_owner st event = Ok (Some run)"
    and io: "io_references E st run event (current_cluster_id st) = Ok io"
    and st1: "evolve st event = Ok st1" and rs1: "hget (runs st1) run = Some rs1"
    and st2: "append_event E st1 run event cmd actor ms io = Ok st2"
  shows "run_ok E st2 run rs1"
proof -
  have grows: "grows st st2"
    by (rule grows_trans [OF evolve_grows [OF st1] append_event_grows [OF st2]])
  have books: "same_books st st1" by (rule evolve_same_books [OF st1])
  from evolve_runs [OF st1, of run] rs rs1 have pins: "same_pins rs rs1"
    and policy: "rs_policy rs1 = rs_policy rs \<or> is_admission run event"
    by (auto simp: keeps_run_def)
  from ok have "records_ok E st run rs" by (simp add: run_ok_def)
  note records = owned_records_ok [OF hex this rs io st1 rs1 pins st2]
  have published: "pinned_verify E p (rs_definition rs1) (rs_catalog rs1) = Ok ()" if "rs_published rs1 = Some p" for p
    using ok pins that by (simp add: run_ok_def same_pins_def)
  from st2 show ?thesis
  proof (rule append_event_Ok)
    fix entry payload required
    assume required: "append_dependencies E st1 run event = Ok required"
      and st2': "history st2 = hput run (hlist (history st1) run @ [event]) (history st1)"
        "history_dependencies st2 = (case required of Some r \<Rightarrow> hput run r (history_dependencies st1)
                                     | None \<Rightarrow> history_dependencies st1)"
        "current_cluster_id st1 \<in> artifact_origins st2"
    from required show ?thesis
    proof (cases rule: append_dependencies_cases)
      case (admits rs' d)
      with rs1 have "required_capture E rs1 (current_cluster_id st1) = Ok d" by simp
      from captured_deps_ok [OF hex this st2'(3) published] admits(3) st2'(2) records published
      show ?thesis by (simp add: run_ok_def)
    next
      case plain
      with policy have "rs_policy rs1 = rs_policy rs" by blast
      note deps = deps_ok_grows [OF _ grows pins this]
      have "history_dependencies st2 = history_dependencies st"
        using plain(1) st2'(2) books by (simp add: same_books_def)
      moreover have "admitted st2 run \<longleftrightarrow> admitted st run"
        using plain(2) st2'(1) books by (simp add: admitted_def same_books_def hlist_def)
      ultimately show ?thesis using ok records published deps by (simp add: run_ok_def)
    qed
  qed
qed

lemma apply_event_history_ok:
  assumes hex: "digest_hex E" and ok: "history_ok E st"
    and applied: "apply_event E cmd actor time st event = Ok st'"
  shows "history_ok E st'"
  using applied
proof (cases rule: apply_event_Ok)
  case unowned
  have "rel_option same_run (hget (runs st) run) (hget (runs st') run)" for run
    using evolve_runs [OF unowned(2), of run] unowned(1)
    by (cases event) (auto simp: keeps_run_def same_run_def elim!: option.rel_mono_strong)
  with ok evolve_grows [OF unowned(2)] evolve_same_books [OF unowned(2)] show ?thesis
    by (intro history_ok_frame [of E st st']) (auto simp: same_books_def)
next
  case (owned run io st1)
  note books = evolve_same_books [OF owned(3), unfolded same_books_def]
  have grows: "grows st st'"
    by (rule grows_trans [OF evolve_grows [OF owned(3)] append_event_grows [OF owned(4)]])
  from owned(2) obtain rs where rs: "hget (runs st) run = Some rs"
    by (auto simp: io_references_def res_simps)
  from owned(4) show ?thesis
  proof (rule append_event_Ok)
    fix entry payload required
    assume st': "history st' = hput run (hlist (history st1) run @ [event]) (history st1)"
        "history_records st' = hput run (hlist (history_records st1) run @ [entry]) (history_records st1)"
        "history_dependencies st' = (case required of Some r \<Rightarrow> hput run r (history_dependencies st1)
                                     | None \<Rightarrow> history_dependencies st1)"
        "runs st' = runs st1" "current_cluster_id st' = current_cluster_id st1"
        "current_cluster_id st1 \<in> artifact_origins st'"
    have others: "retained_ok E st' r" for r
    proof (cases "r = run")
      case True
      from evolve_runs [OF owned(3), of run] rs obtain rs1 where rs1: "hget (runs st1) run = Some rs1"
        by (auto simp: keeps_run_def option_rel_Some1)
      from ok rs have "run_ok E st run rs" by (auto simp: history_ok_def retained_ok_def dest!: spec [of _ run])
      from owned_run_ok [OF hex this rs owned(1,2,3) rs1 owned(4)] True rs1 st'(4) show ?thesis by (simp add: retained_ok_def)
    next
      case False
      then have same: "hget (history st') r = hget (history st) r"
        "hget (history_records st') r = hget (history_records st) r"
        "hget (history_dependencies st') r = hget (history_dependencies st) r"
        using st' books by (simp_all split: option.splits)
      have "\<not> is_admission r event"
        using owned(1) False by (cases event) auto
      with evolve_runs [OF owned(3), of r] st'(4)
      have "rel_option same_run (hget (runs st) r) (hget (runs st') r)"
        by (auto simp: keeps_run_def same_run_def elim!: option.rel_mono_strong)
      with ok same run_ok_frame [OF _ grows _ _ _ _ same] show ?thesis
        by (cases "hget (runs st) r"; cases "hget (runs st') r")
           (auto simp: history_ok_def retained_ok_def same_run_def dest!: spec [of _ r])
    qed
    have "origin_known E st' (tb_payload t)" if "t \<in> set (hvals (signal_tombstones st'))" for t
      using append_event_tombstones [OF owned(4) that] ok books origin_known_grows [OF _ grows]
        captured_origin [OF hex _ st'(6)]
      by (auto simp: history_ok_def)
    with others st'(5,6) show ?thesis by (simp add: history_ok_def)
  qed
qed

section \<open>Every step\<close>

lemma history_ok_same:
  assumes "history_ok E a" and "grows a b" and "runs b = runs a" and "history b = history a"
    "history_records b = history_records a" "history_dependencies b = history_dependencies a"
    "signal_tombstones b = signal_tombstones a"
  shows "history_ok E b"
  using assms by (intro history_ok_frame [of E a b]) (auto simp: same_run_def option.rel_refl)

lemma set_terminal_history_ok:
  assumes "history_ok E st"
  shows "history_ok E (set_terminal now st event)"
proof (rule history_ok_frame [OF assms])
  show "grows st (set_terminal now st event)" by (rule exec_step_grows [OF terminates])
  show "rel_option same_run (hget (runs st) run) (hget (runs (set_terminal now st event)) run)" for run
    by (cases "hget (runs st) run")
       (auto simp: set_terminal_def same_run_def same_pins_def split: option.splits)
qed (auto simp: set_terminal_def split: option.splits)

lemma exec_step_history_ok:
  assumes "exec_step E a b" and "digest_hex E" and "history_ok E a"
  shows "history_ok E b"
  using assms(1)
proof cases
  case (applies cmd actor time event)
  then show ?thesis by (rule apply_event_history_ok [OF assms(2,3)])
next
  case (terminates now event)
  then show ?thesis using set_terminal_history_ok [OF assms(3)] by simp
next
  case (receipts cid now events actor external_id digest wdigest)
  with assms(3) exec_step_grows [OF assms(1)] show ?thesis
    by (intro history_ok_same [of E a b]) (auto simp: record_receipt_def res_simps)
qed (use assms(3) exec_step_grows [OF assms(1)] in \<open>auto intro: history_ok_same\<close>)

lemma admits_history_ok:
  assumes ok: "history_ok E st" and fresh: "hget (runs st) run = None"
    and pinned: "\<And>p. published = Some p \<Longrightarrow> pinned_verify E p d c = Ok ()"
  shows "history_ok E (insert_run run (fresh_run run d c published) st)" (is "history_ok E ?st")
proof -
  have grows: "grows st ?st" by (rule step_grows [OF admits [OF fresh pinned]])
  have "retained_ok E ?st r" for r
  proof (cases "r = run")
    case True
    from ok fresh have "hget (history st) run = None" "hget (history_records st) run = None"
      "hget (history_dependencies st) run = None"
      by (auto simp: history_ok_def retained_ok_def dest!: spec [of _ run])
    with True pinned show ?thesis
      by (simp add: retained_ok_def insert_run_def run_ok_def records_ok_def admitted_def hlist_def fresh_run_def)
  next
    case False
    with ok show ?thesis
      using run_ok_frame [where run = r, OF _ grows]
      by (cases "hget (runs st) r") (auto simp: history_ok_def retained_ok_def insert_run_def dest!: spec [of _ r])
  qed
  moreover have "signal_tombstones ?st = signal_tombstones st" "current_cluster_id ?st = current_cluster_id st"
    "artifact_origins ?st = artifact_origins st"
    by (simp_all add: insert_run_def)
  ultimately show ?thesis using ok origin_known_grows [OF _ grows] by (auto simp: history_ok_def)
qed

lemma removes_history_ok:
  assumes ok: "history_ok E st" and grows: "grows st (remove_run_data rid st)"
  shows "history_ok E (remove_run_data rid st)" (is "history_ok E ?st")
proof -
  have gone: "hget (runs ?st) r = (if r = rid then None else hget (runs st) r)"
    "hget (history ?st) r = (if r = rid then None else hget (history st) r)"
    "hget (history_records ?st) r = (if r = rid then None else hget (history_records st) r)"
    "hget (history_dependencies ?st) r = (if r = rid then None else hget (history_dependencies st) r)" for r
    by (simp_all add: remove_run_data_def Let_def delete_conv)
  have "retained_ok E ?st r" for r
    using ok run_ok_frame [where run = r, OF _ grows]
    by (cases "hget (runs st) r") (auto simp: history_ok_def retained_ok_def gone dest!: spec [of _ r])
  moreover have "signal_tombstones ?st = signal_tombstones st" "current_cluster_id ?st = current_cluster_id st"
    "artifact_origins ?st = artifact_origins st"
    by (simp_all add: remove_run_data_def Let_def)
  ultimately show ?thesis using ok origin_known_grows [OF _ grows] by (auto simp: history_ok_def)
qed

lemma remove_run_data_grows: "grows st (remove_run_data rid st)"
  by (rule grows_frame) (simp_all add: remove_run_data_def Let_def)

lemma step_history_ok:
  assumes step: "step E a b" and hex: "digest_hex E" and ok: "history_ok E a"
  shows "history_ok E b"
  using step
proof cases
  case executes
  then show ?thesis by (rule exec_step_history_ok [OF _ hex ok])
next
  case (admits run published d c)
  then show ?thesis using admits_history_ok [OF ok] by simp
next
  case (removes rid run summary)
  let ?st = "a\<lparr>terminal_summaries := hput rid summary (terminal_summaries a)\<rparr>"
  have "grows a ?st" by (rule grows_frame) simp_all
  with ok have "history_ok E ?st" by (rule history_ok_same) simp_all
  from removes_history_ok [OF this remove_run_data_grows] removes(1) show ?thesis by simp
next
  case (forgets_summary rid)
  with ok step_grows [OF step] show ?thesis
    by (intro history_ok_frame [of E a b])
       (auto simp: forget_summary_def hkeep_def hvals_def same_run_def option.rel_refl)
qed (rule history_ok_same [OF ok step_grows [OF step]]; simp add: put_definition_def put_start_key_def
       forget_commands_def drop_event_def Let_def)+

lemma entry_step_history_ok:
  "entry_step E a b \<Longrightarrow> digest_hex E \<longrightarrow> history_ok E a \<Longrightarrow> digest_hex E \<longrightarrow> history_ok E b"
proof (induction rule: entry_step.induct)
  case (formats st cmd roster log_id actor policy receipts r)
  from formats_grows [OF formats(1)] formats(2) show ?case
    by (auto intro: history_ok_same)
qed (blast intro: step_history_ok)

lemma genesis_history_ok: "history_ok E (bind_genesis cluster state_default)"
  by (simp add: history_ok_def retained_ok_def bind_genesis_def state_default_def hvals_def)

interpretation retained: step_invariant E "\<lambda>st. digest_hex E \<longrightarrow> history_ok E st" for E
  by unfold_locales (use entry_step_history_ok genesis_history_ok in blast)+

section \<open>The check of a run\<close>

lemma records_ok_aligned:
  assumes "records_ok E st run rs"
  shows "records_aligned run (hlist (history_records st) run)"
  using assms by (auto simp: records_ok_def record_ok_def records_aligned_def list_all_iff in_set_enumerate_eq)

text \<open>The schema that the last grant of an activation, among some events, gives for its output.\<close>

definition last_grant :: "domain_event list \<Rightarrow> activation_id \<Rightarrow> claim_grant option" where
  "last_grant events activation = find (\<lambda>g. cg_activation g = activation) (rev (grants_in events))"

definition granted_schema :: "externals \<Rightarrow> state \<Rightarrow> run_id \<Rightarrow> domain_event list \<Rightarrow> activation_id \<Rightarrow> string option" where
  "granted_schema E st run events activation =
     (case last_grant events activation of
        None \<Rightarrow> None
      | Some g \<Rightarrow>
          (case activity_schema_identity E st run (cg_handler g) (cg_handler_version g) (cg_role g) of
             Ok (_, schema) \<Rightarrow> Some schema
           | _ \<Rightarrow> None))"

definition result_granted ::
    "externals \<Rightarrow> state \<Rightarrow> run_id \<Rightarrow> domain_event list \<Rightarrow> history_entry list \<Rightarrow> nat \<Rightarrow> bool" where
  "result_granted E st run events records i \<longleftrightarrow>
     (case result_of (events ! i) of
        None \<Rightarrow> True
      | Some activation \<Rightarrow>
          (case he_output_ref (records ! i) of
             None \<Rightarrow> False
           | Some r \<Rightarrow> granted_schema E st run (take i events) activation = Some (ar_schema r)))"

definition tracks ::
    "externals \<Rightarrow> state \<Rightarrow> run_id \<Rightarrow> domain_event list \<Rightarrow> (activation_id, string) hmap \<Rightarrow> bool" where
  "tracks E st run seen claimed \<longleftrightarrow> (\<forall>a. hget claimed a = granted_schema E st run seen a)"

lemma last_grant_snoc:
  "last_grant (seen @ [ClaimGranted g]) a = (if cg_activation g = a then Some g else last_grant seen a)"
  "grants_in [event] = [] \<Longrightarrow> last_grant (seen @ [event]) a = last_grant seen a"
  using grants_in_claim(2) [of "[g]"] by (simp_all add: last_grant_def grants_in_append)

lemma tracks_snoc:
  assumes "tracks E st run seen claimed" and "check_event_schema E st run rs claimed entry event = Ok claimed'"
  shows "tracks E st run (seen @ [event]) claimed'"
  using assms
  by (cases event rule: result_of.cases)
     (auto simp: tracks_def granted_schema_def last_grant_snoc grants_in_def map_filter_simps check_event_schema_def
        check_result_schema_def res_simps)

lemma check_event_result:
  assumes "result_of event = Some activation"
  shows "check_event_schema E st run rs claimed entry event = check_result_schema claimed activation (he_output_ref entry)"
  using assms by (cases event rule: result_of.cases) (simp_all add: check_event_schema_def)

lemma check_result_schema_Ok:
  "check_result_schema claimed activation reference = Ok claimed' \<longleftrightarrow>
     claimed' = claimed \<and> (\<exists>r. reference = Some r \<and> hget claimed activation = Some (ar_schema r))"
  by (auto simp: check_result_schema_def check_schema_def res_simps split: option.splits if_splits)

lemma check_records_iff:
  assumes "length entries = length events" and "length records = length seen"
    and "\<And>i. i < length events \<Longrightarrow> record_ok E st run rs (n + i) (entries ! i) (events ! i)"
    and "tracks E st run seen claimed"
  shows "check_records E st run rs claimed (zip entries events) = Ok () \<longleftrightarrow>
    (\<forall>i<length events. result_granted E st run (seen @ events) (records @ entries) (length seen + i))"
  using assms
proof (induction entries events arbitrary: n claimed seen records rule: list_induct2)
  case (Cons entry entries event events)
  from Cons.prems(2) [of 0] have ok: "record_ok E st run rs n entry event" by simp
  then have checked: "check_record E st entry event = Ok ()"
    by (simp add: check_record_def record_ok_def origin_known_verify ref_ok_check)
  let ?seen = "seen @ [event]" and ?records = "records @ [entry]"
  have rest: "check_records E st run rs c (zip entries events) = Ok () \<longleftrightarrow>
      (\<forall>i<length events. result_granted E st run (seen @ event # events) (records @ entry # entries) (length seen + Suc i))"
    if "check_event_schema E st run rs claimed entry event = Ok c" for c
    using Cons.IH [of ?records ?seen "Suc n" c] Cons.prems(1) Cons.prems(2) [of "Suc i" for i]
      tracks_snoc [OF Cons.prems(3) that] by simp
  have first: "(\<exists>c. check_event_schema E st run rs claimed entry event = Ok c)
      \<longleftrightarrow> result_granted E st run (seen @ event # events) (records @ entry # entries) (length seen)"
  proof (cases "result_of event")
    case None
    with ok Cons.prems(1) show ?thesis by (auto simp: record_ok_def schema_ok_def result_granted_def nth_append)
  next
    case (Some activation)
    with Cons.prems(1,3) show ?thesis
      by (auto simp: check_event_result [OF Some] check_result_schema_Ok result_granted_def nth_append tracks_def
          split: option.splits)
  qed
  show ?case
  proof (cases "\<exists>c. check_event_schema E st run rs claimed entry event = Ok c")
    case True
    with first rest checked show ?thesis by (auto simp: All_less_Suc2)
  next
    case False
    with first checked show ?thesis by (auto simp: res_simps)
  qed
qed simp

lemma check_result_schema_errors:
  "check_result_schema claimed activation reference = Err e \<Longrightarrow>
     e \<in> {no_claim_schema, precondition ''activity output does not use its pinned schema''}"
  by (cases "hget claimed activation")
     (auto simp: check_result_schema_def check_schema_def res_simps split: if_splits)

text \<open>The walk over the records can only stop at the schema of an activity result.\<close>

lemma check_records_errors:
  assumes "length entries = length events"
    and "\<And>i. i < length events \<Longrightarrow> record_ok E st run rs (n + i) (entries ! i) (events ! i)"
  shows "check_records E st run rs claimed (zip entries events) \<in> {Ok (), Err no_claim_schema,
           Err (precondition ''activity output does not use its pinned schema'')}"
  using assms
proof (induction entries events arbitrary: n claimed rule: list_induct2)
  case (Cons entry entries event events)
  from Cons.prems [of 0] have ok: "record_ok E st run rs n entry event" by simp
  then have "check_record E st entry event = Ok ()"
    by (simp add: check_record_def record_ok_def origin_known_verify ref_ok_check)
  moreover have rest: "check_records E st run rs c (zip entries events) \<in> {Ok (), Err no_claim_schema,
      Err (precondition ''activity output does not use its pinned schema'')}" for c
    using Cons.prems [of "Suc i" for i] by (intro Cons.IH [of "Suc n"]) simp
  moreover have "(\<exists>c. check_event_schema E st run rs claimed entry event = Ok c)
      \<or> (\<exists>e\<in>{no_claim_schema, precondition ''activity output does not use its pinned schema''}.
           check_event_schema E st run rs claimed entry event = Err e)"
  proof (cases "result_of event")
    case (Some activation)
    have "check_result_schema claimed activation (he_output_ref entry) \<noteq> Panic"
      by (auto simp: check_result_schema_def check_schema_def ok_or_def split: option.splits)
    then show ?thesis unfolding check_event_result [OF Some]
      by (cases "check_result_schema claimed activation (he_output_ref entry)")
         (auto dest: check_result_schema_errors)
  qed (use ok in \<open>auto simp: record_ok_def schema_ok_def\<close>)
  ultimately show ?case using rest by (elim disjE exE bexE) simp_all
qed simp


text \<open>A life in which the claimed activity reports its result, and one in which it is reported without a
  claim.\<close>

definition sample_charge :: activation_id where
  "sample_charge = [CHR 0x00, CHR 0x00, CHR 0x00, CHR 0x01] @ ''10-dnammoc-t''"

definition sample_reported :: "nat \<Rightarrow> command_body \<Rightarrow> member" where
  "sample_reported n body = snd (apply_entries sample_ext (sample_life n)
     [\<lparr>en_log_id = sample_position 6, en_payload = Normal 4 (sample_command ''report-012345678'' 40 body)\<rparr>])"

lemma sample_reported_reachable: "reachable sample_ext (sample_reported n body)"
  unfolding sample_reported_def by (rule reachable_entries [OF sample_life_reachable])

definition sample_result :: member where
  "sample_result = sample_reported 5 (CmdReportAssigned ''run-0123456789ab'' sample_charge (VInt 7) ''worker'' 1 1)"

lemma sample_result_facts:
  "let m = sample_result; st = state_of m; run = ''run-0123456789ab'' in
     hhas (runs st) run \<and> hhas (history st) run \<and> hhas (history_records st) run \<and> \<not> hhas (checkpoints (mb_replica m)) run
     \<and> admitted_run (hlist (history st) run) = Some run
     \<and> list_ex (\<lambda>event. result_of event = Some sample_charge) (hlist (history st) run)
     \<and> list_all (result_granted sample_ext st run (hlist (history st) run) (hlist (history_records st) run))
         [0..<length (hlist (history st) run)]"
  by code_simp


text \<open>A result that is accepted without a claim leaves a history that the check refuses.\<close>

lemma unclaimed_result_refused:
  "validate_history_store sample_ext
     (mb_replica (sample_reported 3 (CmdReportLeaf ''run-0123456789ab'' sample_charge (VInt 7)))) = Err no_claim_schema"
  by code_simp

end
