(* ===== verification/Published_Check.thy ===== *)
theory Published_Check
  imports History_Check
begin

text \<open>The published part of the check a store is opened with: every catalog, every definition and
  every publication result that the log put into a member passes \<open>validate_history_store\<close>
  (\<open>storage.rs\<close>) when the member reopens.\<close>

section \<open>Published content\<close>

definition published_ok :: "externals \<Rightarrow> state \<Rightarrow> bool" where
  "published_ok E st \<longleftrightarrow>
     (\<forall>item\<in>set (published_catalogs st). check_catalog E item = Ok ())
     \<and> (\<forall>(workflow, versions)\<in>set (published_definitions st).
          \<forall>item\<in>set versions. check_definition E st workflow item = Ok ())
     \<and> (\<forall>item\<in>set (command_results st). check_result E item = Ok ())"

lemma check_definition_grows:
  assumes "check_definition E a workflow item = Ok ()"
    and "map_of (published_catalogs a) \<subseteq>\<^sub>m map_of (published_catalogs b)"
  shows "check_definition E b workflow item = Ok ()"
proof -
  obtain version p where item: "item = (version, p)" by (cases item)
  from assms obtain c where "map_of (published_catalogs a) (pd_catalog_version p) = Some c"
    by (auto simp: check_definition_def item Let_def res_simps split: if_splits)
  with assms(2) have "map_of (published_catalogs b) (pd_catalog_version p) = Some c"
    by (auto simp: map_le_def dom_def)
  with assms(1) show ?thesis
    by (auto simp: check_definition_def item Let_def res_simps split: if_splits)
qed

lemma put_definition_entries:
  assumes "(workflow, versions) \<in> set (published_definitions (put_definition p st))" and "item \<in> set versions"
  shows "workflow = def_id (pd_definition p) \<and> item = (def_version (pd_definition p), p)
    \<or> (\<exists>old. (workflow, old) \<in> set (published_definitions st) \<and> item \<in> set old)"
  using assms
  by (auto simp: put_definition_def Let_def split: option.splits dest!: bput_entries dest: map_of_SomeD)

lemma publishes_definition_ok:
  assumes ok: "published_ok E st" and "definition_verify E p = Ok ()"
    and "validate_definition (pd_definition p) = Ok ()"
    and "map_of (published_catalogs st) (pd_catalog_version p) \<noteq> None"
  shows "published_ok E (put_definition p st)" (is "published_ok E ?st")
proof -
  have same: "published_catalogs ?st = published_catalogs st" "command_results ?st = command_results st"
    by (simp_all add: put_definition_def Let_def)
  have "check_definition E ?st workflow item = Ok ()"
    if "(workflow, versions) \<in> set (published_definitions ?st)" "item \<in> set versions" for workflow versions item
    using put_definition_entries [OF that]
  proof
    assume "workflow = def_id (pd_definition p) \<and> item = (def_version (pd_definition p), p)"
    with assms(2-4) same(1) show ?thesis by (auto simp: check_definition_def Let_def)
  next
    assume "\<exists>old. (workflow, old) \<in> set (published_definitions st) \<and> item \<in> set old"
    with ok have "check_definition E st workflow item = Ok ()" by (auto simp: published_ok_def)
    then show ?thesis by (rule check_definition_grows) (simp add: same(1))
  qed
  with ok same show ?thesis by (auto simp: published_ok_def)
qed

lemma set_hdel_all: "set (hdel_all keys m) \<subseteq> set m"
  unfolding hdel_all_def
proof (induction keys arbitrary: m)
  case (Cons k keys)
  have "set (AList.delete k m) \<subseteq> set m" by (auto simp: AList.delete_eq)
  with Cons [of "AList.delete k m"] show ?case by auto
qed simp

text \<open>Every other step leaves the published content and the results of publications alone.\<close>

definition same_published :: "state \<Rightarrow> state \<Rightarrow> bool" where
  "same_published a b \<longleftrightarrow> published_catalogs b = published_catalogs a
     \<and> published_definitions b = published_definitions a \<and> command_results b = command_results a"

lemma check_definition_catalogs:
  "published_catalogs b = published_catalogs a \<Longrightarrow> check_definition E b = check_definition E a"
  unfolding check_definition_def by (elim ssubst) (rule refl)

lemma same_published_ok: "published_ok E a \<Longrightarrow> same_published a b \<Longrightarrow> published_ok E b"
  using check_definition_catalogs [of b a E] by (simp add: published_ok_def same_published_def)

lemma exec_step_published: "exec_step E a b \<Longrightarrow> same_published a b"
proof (induction rule: exec_step.induct)
  case (applies cmd actor time st event st')
  then show ?case
  proof (cases rule: apply_event_Ok)
    case unowned
    then show ?thesis using evolve_same_books by (auto simp: same_books_def same_published_def)
  next
    case (owned run rs st1)
    then show ?thesis using evolve_same_books [of st event st1]
      by (auto simp: same_books_def same_published_def append_event_def Let_def res_simps)
  qed
next
  case (receipts cid now events actor external_id digest wdigest st st')
  then show ?case by (auto simp: same_published_def record_receipt_def res_simps)
next
  case (terminates st now event)
  then show ?case by (auto simp: same_published_def set_terminal_def split: option.splits)
qed (auto simp: same_published_def)

lemma step_published_ok: "step E a b \<Longrightarrow> published_ok E a \<Longrightarrow> published_ok E b"
proof (induction rule: step.induct)
  case (executes st st')
  then show ?case by (blast intro: same_published_ok exec_step_published)
next
  case (publishes_catalog st version p)
  then have "map_of (published_catalogs st) \<subseteq>\<^sub>m map_of (bput version p (published_catalogs st))"
    by (auto simp: map_le_def)
  with publishes_catalog show ?case
    by (fastforce simp: published_ok_def check_catalog_def dest!: bput_entries intro: check_definition_grows [of E st])
next
  case (publishes_definition st p)
  then show ?case by (intro publishes_definition_ok)
next
  case (results st skey r)
  let ?st = "st\<lparr>command_results := bput skey r (command_results st)\<rparr>"
  from results have "check_result E item = Ok ()" if "item \<in> set (command_results ?st)" for item
    using that by (auto simp: published_ok_def check_result_def ensure_format_def dest!: bput_entries)
  with results(4) check_definition_catalogs [of ?st st E] show ?case by (simp add: published_ok_def)
next
  case (forgets_results st keys)
  let ?st = "st\<lparr>command_results := hdel_all keys (command_results st)\<rparr>"
  from forgets_results check_definition_catalogs [of ?st st E] set_hdel_all [of keys "command_results st"]
  show ?case by (auto simp: published_ok_def)
qed (erule same_published_ok, simp add: same_published_def insert_run_def put_start_key_def forget_commands_def
       drop_event_def remove_run_data_def forget_summary_def Let_def)+

lemma entry_step_published_ok: "entry_step E a b \<Longrightarrow> published_ok E a \<Longrightarrow> published_ok E b"
  by (induction rule: entry_step.induct)
     (auto intro: step_published_ok same_published_ok simp: same_published_def)

lemma genesis_published_ok: "published_ok E (bind_genesis cluster state_default)"
  by (simp add: published_ok_def bind_genesis_def state_default_def)

interpretation published: step_invariant E "published_ok E" for E
  by unfold_locales (auto intro: entry_step_published_ok genesis_published_ok)



end
