(* ===== verification/Typing.thy ===== *)
theory Typing
  imports Published_Check
begin

text \<open>
  The type of the state: every table is a map whose values carry their own key, the counters stay
  in the range of their Rust type, and an activity owes at most one compensation.
\<close>

section \<open>Tables\<close>

definition typed :: "('k \<Rightarrow> 'v \<Rightarrow> bool) \<Rightarrow> ('k, 'v) hmap \<Rightarrow> bool" where
  "typed P m \<longleftrightarrow> distinct (map fst m) \<and> (\<forall>(k, v)\<in>set m. P k v)"

named_theorems typed_intros

lemma typed_empty [typed_intros]: "typed P []"
  by (simp add: typed_def)

lemma typed_update [typed_intros]:
  assumes "typed P m" and "P k v"
  shows "typed P (hput k v m)"
proof -
  have "set (hput k v m) \<subseteq> insert (k, v) (set m)" by (induction m) auto
  with assms distinct_update [of m k v] show ?thesis by (auto simp: typed_def)
qed

lemma typed_map_entry [typed_intros]:
  assumes "typed P m" and "\<And>k v. P k v \<Longrightarrow> P k (f v)"
  shows "typed P (hmod key f m)"
proof -
  have "set (hmod key f m) \<subseteq> set m \<union> (\<lambda>(k, v). (k, f v)) ` set m" by (induction m) auto
  with assms show ?thesis by (fastforce simp: typed_def)
qed

lemma typed_hmap_vals [typed_intros]:
  assumes "typed P m" and "\<And>k v. P k v \<Longrightarrow> P k (f v)"
  shows "typed P (hmap_vals f m)"
  using assms unfolding typed_def hmap_vals_keys by (auto simp: hmap_vals_def)

lemma typed_hkeep [typed_intros]: "typed P m \<Longrightarrow> typed P (hkeep Q m)"
  by (auto simp: typed_def hkeep_def distinct_map_filter)

lemma typed_delete [typed_intros]: "typed P m \<Longrightarrow> typed P (AList.delete k m)"
  by (auto simp: typed_def AList.delete_eq distinct_map_filter)

lemma typed_hdel_all [typed_intros]: "typed P m \<Longrightarrow> typed P (hdel_all keys m)"
  unfolding hdel_all_def by (induction keys arbitrary: m) (simp_all add: typed_delete)

lemma sorted_hdel_all: "sorted_wrt (<) (map fst m) \<Longrightarrow> sorted_wrt (<) (map fst (hdel_all keys m))"
  for m :: "('k::linorder \<times> 'v) list"
  unfolding hdel_all_def
  by (induction keys arbitrary: m) (simp_all add: AList.delete_eq sorted_wrt_map sorted_wrt_filter)

lemma typed_get: "typed P m \<Longrightarrow> hget m k = Some v \<Longrightarrow> P k v"
  by (auto simp: typed_def dest: map_of_SomeD)

section \<open>The type of a state\<close>

definition typed_run :: "run_id \<Rightarrow> run_state \<Rightarrow> bool" where
  "typed_run k r \<longleftrightarrow> rs_id r = k \<and> rs_next_ready_order r \<le> u64_max \<and> rs_next_sequence r \<le> u64_max"

definition typed_activation :: "activation_id \<Rightarrow> activation_state \<Rightarrow> bool" where
  "typed_activation k act \<longleftrightarrow> act_id act = k \<and> act_attempts act \<le> u32_max"

definition typed_state :: "state \<Rightarrow> bool" where
  "typed_state st \<longleftrightarrow>
     typed typed_run (runs st) \<and> typed (\<lambda>k s. sc_id s = k) (scopes st)
     \<and> typed typed_activation (activations st) \<and> typed (\<lambda>k w. wt_id w = k) (waits st)
     \<and> typed (\<lambda>k w. ws_id w = k) (sessions st)
     \<and> typed (\<lambda>_ _. True) (command_times st) \<and> sorted_wrt (<) (map fst (command_results st))
     \<and> distinct (map ob_forward (obligations st)) \<and> next_generation st \<le> u64_max"

lemma typed_run_updates [simp]:
  "typed_run k (r\<lparr>rs_input := a\<rparr>) = typed_run k r" "typed_run k (r\<lparr>rs_root := b\<rparr>) = typed_run k r"
  "typed_run k (r\<lparr>rs_policy := c\<rparr>) = typed_run k r" "typed_run k (r\<lparr>rs_status := d\<rparr>) = typed_run k r"
  "typed_run k (r\<lparr>rs_admitted_ms := n\<rparr>) = typed_run k r" "typed_run k (r\<lparr>rs_terminal_ms := n\<rparr>) = typed_run k r"
  by (simp_all add: typed_run_def)

lemma typed_run_counters:
  "typed_run k r \<Longrightarrow> typed_run k (r\<lparr>rs_next_ready_order := sat_add64 n m\<rparr>)"
  "typed_run k r \<Longrightarrow> typed_run k (r\<lparr>rs_next_sequence := wrap64 n\<rparr>)"
  using sat_add64_le [of n m] by (simp_all add: typed_run_def wrap64_def u64_max_def)

lemma typed_activation_updates [simp]:
  "typed_activation k (act\<lparr>act_status := a\<rparr>) = typed_activation k act"
  "typed_activation k (act\<lparr>act_claim := c\<rparr>) = typed_activation k act"
  "typed_activation k (set_act_status a act) = typed_activation k act"
  by (simp_all add: typed_activation_def set_act_status_def)

lemma typed_activation_new:
  "typed_activation k (new_activation run scope k node status role order)"
  "typed_activation k act \<Longrightarrow> typed_activation k (grant_claim g act)"
  by (simp_all add: typed_activation_def new_activation_def grant_claim_def sat_add32_def)

lemma update_first_forward:
  "(\<And>x. ob_forward (f x) = ob_forward x) \<Longrightarrow> map ob_forward (update_first P f xs) = map ob_forward xs"
  by (induction xs) auto

lemma evolve_obligations:
  assumes "evolve st event = Ok st'" and "distinct (map ob_forward (obligations st))"
  shows "distinct (map ob_forward (obligations st'))"
proof -
  have "distinct (map ob_forward (map (\<lambda>item. if Q item then item\<lparr>ob_status := s\<rparr> else item) (obligations st)))" for Q s
    using assms(2) by (simp add: o_def if_distrib cong: if_cong)
  with assms show ?thesis
    by (cases event)
       (auto simp: Let_def res_simps bump_ready_order_def set_obligation_status_def settle_wait_def complete_role_def
          has_obligation_def list_ex_iff update_first_forward
          split: option.splits scope_role.splits if_splits)
qed

lemmas evolve_parts =
  Let_def res_simps bump_ready_order_def set_obligation_status_def settle_wait_def complete_role_def

lemma evolve_typed_runs:
  "evolve st event = Ok st' \<Longrightarrow> typed typed_run (runs st) \<Longrightarrow> typed typed_run (runs st')"
  by (cases event)
     (auto simp: evolve_parts split: option.splits scope_role.splits if_splits intro!: typed_intros typed_run_counters)

lemma evolve_typed_scopes:
  "evolve st event = Ok st' \<Longrightarrow> typed (\<lambda>k s. sc_id s = k) (scopes st) \<Longrightarrow> typed (\<lambda>k s. sc_id s = k) (scopes st')"
  by (cases event)
     (auto simp: evolve_parts split: option.splits scope_role.splits if_splits intro!: typed_intros)

lemma evolve_typed_activations:
  "evolve st event = Ok st' \<Longrightarrow> typed typed_activation (activations st) \<Longrightarrow> typed typed_activation (activations st')"
  by (cases event)
     (auto simp: evolve_parts split: option.splits scope_role.splits if_splits intro!: typed_intros typed_activation_new)

lemma evolve_typed_waits:
  "evolve st event = Ok st' \<Longrightarrow> typed (\<lambda>k w. wt_id w = k) (waits st) \<Longrightarrow> typed (\<lambda>k w. wt_id w = k) (waits st')"
  by (cases event)
     (auto simp: evolve_parts split: option.splits scope_role.splits if_splits intro!: typed_intros)

lemma evolve_typed_sessions:
  "evolve st event = Ok st' \<Longrightarrow> typed (\<lambda>k w. ws_id w = k) (sessions st) \<Longrightarrow> typed (\<lambda>k w. ws_id w = k) (sessions st')"
  by (cases event)
     (auto simp: evolve_parts split: option.splits scope_role.splits if_splits intro!: typed_intros)

lemma evolve_typed:
  assumes "evolve st event = Ok st'" and "typed_state st"
  shows "typed_state st'"
  using assms(2) evolve_typed_runs [OF assms(1)] evolve_typed_scopes [OF assms(1)]
    evolve_typed_activations [OF assms(1)] evolve_typed_waits [OF assms(1)] evolve_typed_sessions [OF assms(1)]
    evolve_obligations [OF assms(1)] evolve_generation [OF assms(1)] evolve_same_books [OF assms(1)]
  by (auto simp: typed_state_def same_books_def sat_add64_le)

section \<open>Every entry keeps the type\<close>

lemma append_event_typed: "append_event E st run event cmd actor ms io = Ok st' \<Longrightarrow> typed_state st \<Longrightarrow> typed_state st'"
  by (auto simp: append_event_def typed_state_def Let_def res_simps)

lemma exec_step_typed: "exec_step E a b \<Longrightarrow> typed_state a \<Longrightarrow> typed_state b"
proof (induction rule: exec_step.induct)
  case (applies cmd actor time st event st')
  from applies(1) show ?case
    by (cases rule: apply_event_Ok) (use applies(2) in \<open>blast intro: evolve_typed append_event_typed\<close>)+
next
  case (receipts cid now events actor external_id digest wdigest st st')
  then show ?case by (auto simp: typed_state_def record_receipt_def res_simps intro!: typed_intros)
next
  case (terminates st now event)
  then show ?case by (auto simp: typed_state_def set_terminal_def split: option.splits intro!: typed_intros)
qed (auto simp: typed_state_def)

lemma step_typed: "step E a b \<Longrightarrow> typed_state a \<Longrightarrow> typed_state b"
proof (induction rule: step.induct)
  case (executes st st')
  then show ?case by (rule exec_step_typed)
next
  case (admits st run published d c)
  then show ?case
    by (auto simp: typed_state_def insert_run_def typed_run_def fresh_run_def u64_max_def intro!: typed_intros)
next
  case (removes st rid run summary)
  then show ?case
    by (auto simp: typed_state_def remove_run_data_def Let_def distinct_map_filter intro!: typed_intros)
qed (auto simp: typed_state_def put_definition_def put_start_key_def forget_commands_def drop_event_def
       forget_summary_def bput_sorted sorted_hdel_all Let_def intro!: typed_intros)

lemma entry_step_typed: "entry_step E a b \<Longrightarrow> typed_state a \<Longrightarrow> typed_state b"
  by (induction rule: entry_step.induct) (erule (1) step_typed, simp add: typed_state_def)

lemma genesis_typed: "typed_state (bind_genesis cluster state_default)"
  by (simp add: typed_state_def bind_genesis_def state_default_def typed_empty)

interpretation typing: step_invariant E typed_state for E
  by unfold_locales (auto intro: entry_step_typed genesis_typed)

text \<open>Property C10: the state keeps its type. In every reachable state the runs, scopes, activations,
  waits and sessions are maps without repeated keys whose values carry the key they are stored
  under, the ready order, the event sequence, the attempt counter and the owner generation are in the
  range of their integer type, and no activity has two compensation obligations.\<close>

theorem reachable_typed:
  assumes "reachable E m"
  shows "typed_state (state_of m)"
  by (rule typing.invariant_reachable [OF assms])

theorem reachable_typed_witness:
  "\<exists>rs. hget (runs (state_of (sample_life 5))) ''run-0123456789ab'' = Some rs \<and> rs_id rs = ''run-0123456789ab''
     \<and> rs_next_ready_order rs \<le> u64_max"
proof -
  have "hhas (runs (state_of (sample_life 5))) ''run-0123456789ab''"
    using sample_life_facts by (simp add: Let_def)
  then obtain rs where rs: "hget (runs (state_of (sample_life 5))) ''run-0123456789ab'' = Some rs"
    by (auto simp: hhas_def)
  from reachable_typed [OF sample_life_reachable [of 5]] have "typed typed_run (runs (state_of (sample_life 5)))"
    by (simp add: typed_state_def)
  from typed_get [OF this rs] rs show ?thesis by (auto simp: typed_run_def)
qed

end
