(* ===== verification/Pruning.thy ===== *)
theory Pruning
  imports Typing "HOL-Library.Multiset"
begin

text \<open>
  What pruning selects and what it spares (\<open>earliest_due\<close> and \<open>prune\<close> of history.rs): the
  bounded heap keeps exactly the earliest candidates, one command removes no more than its limit,
  and a run that is active or still in its retention is left alone.
\<close>

section \<open>The bounded heap\<close>

lemma sort_split: "sort (x # zs) = filter (\<lambda>y. y \<le> x) (sort zs) @ x # filter (\<lambda>y. x < y) (sort zs)"
  for x :: "'a::linorder"
proof (rule properties_for_sort)
  have "mset (sort zs) = mset (filter (\<lambda>y. y \<le> x) (sort zs)) + mset (filter (\<lambda>y. x < y) (sort zs))"
    using multiset_partition [of "mset (sort zs)" "\<lambda>y. y \<le> x"] by (simp add: not_le)
  then show "mset (filter (\<lambda>y. y \<le> x) (sort zs) @ x # filter (\<lambda>y. x < y) (sort zs)) = mset (x # zs)"
    by simp
  show "sorted (filter (\<lambda>y. y \<le> x) (sort zs) @ x # filter (\<lambda>y. x < y) (sort zs))"
    by (auto simp: sorted_append intro: sorted_wrt_filter order_trans)
qed

lemma sort_partition: "sort zs = filter (\<lambda>y. y \<le> x) (sort zs) @ filter (\<lambda>y. x < y) (sort zs)"
  for x :: "'a::linorder"
proof -
  have "mset (sort zs) = mset (filter (\<lambda>y. y \<le> x) (sort zs)) + mset (filter (\<lambda>y. x < y) (sort zs))"
    using multiset_partition [of "mset (sort zs)" "\<lambda>y. y \<le> x"] by (simp add: not_le)
  then have "sort zs = filter (\<lambda>y. y \<le> x) (sort zs) @ filter (\<lambda>y. x < y) (sort zs)"
    by (intro properties_for_sort) (auto simp: sorted_append intro: sorted_wrt_filter)
  then show ?thesis .
qed

text \<open>A candidate behind \<open>n\<close> others is not among the first \<open>n\<close>.\<close>

lemma take_sort_drop:
  fixes x :: "'a::linorder"
  assumes "n \<le> length (filter (\<lambda>y. y \<le> x) zs)"
  shows "take n (sort (x # zs)) = take n (sort zs)"
proof -
  have "mset (filter (\<lambda>y. y \<le> x) (sort zs)) = mset (filter (\<lambda>y. y \<le> x) zs)" by simp
  then have "length (filter (\<lambda>y. y \<le> x) (sort zs)) = length (filter (\<lambda>y. y \<le> x) zs)"
    by (rule mset_eq_length)
  with assms have n: "n \<le> length (filter (\<lambda>y. y \<le> x) (sort zs))" by simp
  then have "take n (sort (x # zs)) = take n (filter (\<lambda>y. y \<le> x) (sort zs))"
    unfolding sort_split by (simp only: take_append) simp
  moreover have "take n (sort zs) = take n (filter (\<lambda>y. y \<le> x) (sort zs))"
    using n by (subst sort_partition [of zs x]) (simp only: take_append, simp)
  ultimately show ?thesis by simp
qed

lemma sort_cong: "mset xs = mset ys \<Longrightarrow> sort xs = sort ys"
  for xs :: "'a::linorder list"
  by (simp add: properties_for_sort)

lemma heap_select_take:
  fixes selected :: "'a::linorder list"
  assumes "sorted selected" and "length selected \<le> limit" and "0 < limit"
  shows "heap_select limit cs selected = take limit (sort (selected @ cs))"
  using assms
proof (induction limit cs selected rule: heap_select.induct)
  case (1 limit selected)
  then show ?case by (simp add: sorted_sort_id)
next
  case (2 limit c cs selected)
  consider (room) "length selected < limit" | (full) "length selected = limit" "selected \<noteq> []"
    using "2.prems" by fastforce
  then show ?case
  proof cases
    case room
    with 2 have "heap_select limit (c # cs) selected = take limit (sort (insort c selected @ cs))"
      by (simp add: sorted_insort)
    also have "sort (insort c selected @ cs) = sort (selected @ c # cs)" by (rule sort_cong) simp
    finally show ?thesis .
  next
    case full
    let ?x = "last selected"
    have split: "selected = butlast selected @ [?x]" using full(2) by simp
    have "sorted (butlast selected @ [?x])" using "2.prems"(1) split by simp
    then have below: "y \<le> ?x" if "y \<in> set (butlast selected @ [?x])" for y
      using that by (auto simp: sorted_append)
    show ?thesis
    proof (cases "c < ?x")
      case True
      let ?kept = "insort c (butlast selected)"
      have "sorted (butlast selected)" using \<open>sorted (butlast selected @ [?x])\<close> by (simp add: sorted_append)
      have kept_below: "filter (\<lambda>y. y \<le> ?x) ?kept = ?kept"
        using True below by (auto simp: filter_id_conv set_insort_key)
      from 2 full True \<open>sorted (butlast selected)\<close> have "heap_select limit (c # cs) selected = take limit (sort (?kept @ cs))"
        by (simp add: sorted_insort)
      also have "\<dots> = take limit (sort (?x # ?kept @ cs))"
        by (rule sym, rule take_sort_drop)
           (use full True below in \<open>simp add: kept_below\<close>)
      also have "sort (?x # ?kept @ cs) = sort (selected @ c # cs)"
      proof (rule sort_cong)
        have "mset selected = mset (butlast selected @ [?x])" using full(2) by simp
        then show "mset (?x # ?kept @ cs) = mset (selected @ c # cs)" by simp
      qed
      finally show ?thesis .
    next
      case False
      from below False split have all_below: "filter (\<lambda>y. y \<le> c) selected = selected"
        by (subst filter_id_conv) (metis not_le_imp_less order.trans)
      from 2 full False have "heap_select limit (c # cs) selected = take limit (sort (selected @ cs))" by simp
      also have "\<dots> = take limit (sort (c # selected @ cs))"
        by (rule sym, rule take_sort_drop)
           (use full False in \<open>simp add: all_below\<close>)
      also have "sort (c # selected @ cs) = sort (selected @ c # cs)" by (rule sort_cong) simp
      finally show ?thesis .
    qed
  qed
qed

lemma earliest_due_take: "earliest_due candidates limit = map snd (take limit (sort candidates))"
  using heap_select_take [of "[]" limit candidates] by (simp add: earliest_due_def)

lemma earliest_due_length: "length (earliest_due candidates limit) \<le> limit"
  by (simp add: earliest_due_take)

lemma earliest_due_in: "k \<in> set (earliest_due candidates limit) \<Longrightarrow> \<exists>due. (due, k) \<in> set candidates"
  by (auto simp: earliest_due_take dest!: in_set_takeD)

text \<open>Property C13: the bounded heap selects the earliest records. What \<open>earliest_due\<close> keeps while
  it streams over the candidates is what sorting all of them by due time and key and cutting at the
  limit gives.\<close>

theorem earliest_due_sorted:
  "earliest_due candidates limit = map snd (take limit (sort candidates))"
  by (rule earliest_due_take)

section \<open>What a prune spares\<close>

lemma hget_delete: "hget (AList.delete k m) k' = (if k' = k then None else hget m k')"
  by (simp add: delete_conv')

lemma drop_event_runs: "runs (drop_event run event_id st) = runs st"
  by (simp add: drop_event_def)

lemma checkpoint_state:
  "checkpoint_after_command E rep run time = Ok rep' \<Longrightarrow>
     rep_state rep' = rep_state rep
     \<or> rep_state rep' = (rep_state rep)\<lparr>artifact_origins := insert (current_cluster_id (rep_state rep))
                            (artifact_origins (rep_state rep))\<rparr>"
  by (auto simp: checkpoint_after_command_def Let_def res_simps split: option.splits if_splits)

lemma prune_event_runs:
  assumes "prune_event E cmd time rep item = Ok (rep', events)"
  shows "runs (rep_state rep') = runs (rep_state rep) \<and> length events \<le> 1"
  using assms
proof (cases rule: prune_event_Ok)
  case (expires run event_id st1)
  from expires(1) have "runs st1 = runs (rep_state rep)"
    by (auto simp: apply_event_def append_event_def Let_def res_simps)
  with checkpoint_state [OF expires(2)] expires(3) show ?thesis by auto
qed (auto simp: drop_event_runs)

lemma prune_events_runs:
  "prune_events E cmd time rep items = Ok (rep', events) \<Longrightarrow>
     runs (rep_state rep') = runs (rep_state rep) \<and> length events \<le> length items"
  by (induction items arbitrary: rep rep' events) (fastforce simp: res_simps dest!: prune_event_runs)+

lemma prune_runs_get:
  "prune_runs rep rids = Ok rep' \<Longrightarrow>
     hget (runs (rep_state rep')) run = (if run \<in> set rids then None else hget (runs (rep_state rep)) run)"
proof (induction rids arbitrary: rep)
  case (Cons rid rids)
  then show ?case
    by (auto simp: Let_def res_simps remove_run_data_def hget_delete)
qed simp

lemma forget_summaries_runs: "runs (fold forget_summary rids st) = runs st"
  by (induction rids arbitrary: st) (simp_all add: forget_summary_def)



section \<open>How much a prune removes\<close>

lemma length_delete: "distinct (map fst m) \<Longrightarrow> length m \<le> Suc (length (AList.delete k m))"
  by (induction m) (auto simp: delete_notin_dom)

lemma length_hdel_all:
  "distinct (map fst m) \<Longrightarrow> length m \<le> length (hdel_all keys m) + length keys"
  unfolding hdel_all_def
proof (induction keys arbitrary: m)
  case (Cons k keys)
  then show ?case
    using length_delete [OF Cons.prems, of k] Cons.IH [OF distinct_delete [OF Cons.prems, of k]] by simp
qed simp

lemma prune_event_times:
  assumes "prune_event E cmd time rep item = Ok (rep', events)"
  shows "command_times (rep_state rep') = command_times (rep_state rep)
    \<and> command_results (rep_state rep') = command_results (rep_state rep)"
  using assms
proof (cases rule: prune_event_Ok)
  case (expires run event_id st1)
  from expires(1) have "command_times st1 = command_times (rep_state rep) \<and> command_results st1 = command_results (rep_state rep)"
    by (auto simp: apply_event_def append_event_def Let_def res_simps)
  with checkpoint_state [OF expires(2)] show ?thesis by auto
qed (simp add: drop_event_def)

lemma prune_events_times:
  "prune_events E cmd time rep items = Ok (rep', events) \<Longrightarrow>
     command_times (rep_state rep') = command_times (rep_state rep)
     \<and> command_results (rep_state rep') = command_results (rep_state rep)"
  by (induction items arbitrary: rep rep' events) (fastforce simp: res_simps dest!: prune_event_times)+

lemma prune_runs_times:
  assumes "prune_runs rep rids = Ok rep'" and "distinct (map fst (runs (rep_state rep)))"
  shows "command_times (rep_state rep') = command_times (rep_state rep)
     \<and> command_results (rep_state rep') = command_results (rep_state rep)
     \<and> length (runs (rep_state rep)) \<le> length (runs (rep_state rep')) + length rids"
  using assms
proof (induction rids arbitrary: rep)
  case (Cons rid rids)
  then obtain rep1 where "prune_runs rep1 rids = Ok rep'"
      and rep1: "runs (rep_state rep1) = AList.delete rid (runs (rep_state rep))"
        "command_times (rep_state rep1) = command_times (rep_state rep)"
        "command_results (rep_state rep1) = command_results (rep_state rep)"
    by (auto simp: Let_def res_simps remove_run_data_def)
  moreover have "distinct (map fst (runs (rep_state rep1)))"
    unfolding rep1 by (rule distinct_delete [OF Cons.prems(2)])
  ultimately show ?case
    using Cons.IH [of rep1] length_delete [OF Cons.prems(2), of rid] by simp
qed simp

lemma forget_summaries_times:
  "command_times (fold forget_summary rids st) = command_times st
   \<and> command_results (fold forget_summary rids st) = command_results st"
  by (induction rids arbitrary: st) (simp_all add: forget_summary_def)

lemma prune_parts:
  assumes "prune E rep cmd now limit = Ok (rep', events)"
  obtains keys1 keys2 items rids rids' rep3 rep4 where
    "prune_events E cmd now (rep\<lparr>rep_state := forget_commands keys2
       ((rep_state rep)\<lparr>command_results := hdel_all keys1 (command_results (rep_state rep))\<rparr>)\<rparr>)
       items = Ok (rep3, events)"
    and "prune_runs rep3 rids = Ok rep4"
    and "rep' = rep4\<lparr>rep_state := fold forget_summary rids' (rep_state rep4)\<rparr>"
    and "length keys1 + length keys2 + length items + length rids \<le> limit"
proof -
  define keys1 where "keys1 = earliest_due (due_results (rep_state rep) now) limit"
  define st1 where "st1 = (rep_state rep)\<lparr>command_results := hdel_all keys1 (command_results (rep_state rep))\<rparr>"
  define keys2 where "keys2 = earliest_due (due_commands st1 now) (limit - length keys1)"
  define items where "items = earliest_due (due_events (forget_commands keys2 st1) now) (limit - length keys1 - length keys2)"
  define left where "left = limit - length keys1 - length keys2 - length items"
  from assms obtain rep3 rep4 rids' where
      "prune_events E cmd now (rep\<lparr>rep_state := forget_commands keys2 st1\<rparr>) items = Ok (rep3, events)"
      and "prune_runs rep3 (earliest_due (due_runs (rep_state rep3) now) left) = Ok rep4"
      and "rep' = rep4\<lparr>rep_state := fold forget_summary rids' (rep_state rep4)\<rparr>"
    unfolding prune_def Let_def keys1_def [symmetric] st1_def [symmetric] keys2_def [symmetric] items_def [symmetric]
      left_def [symmetric]
    by (auto simp: res_simps)
  moreover have "length keys1 \<le> limit" "length keys2 \<le> limit - length keys1"
    "length items \<le> limit - length keys1 - length keys2"
    "length (earliest_due (due_runs (rep_state rep3) now) left) \<le> left"
    unfolding keys1_def keys2_def items_def by (rule earliest_due_length)+
  ultimately show ?thesis using that [of keys2 keys1 items] unfolding st1_def left_def by simp
qed

text \<open>Property C15: a prune is bounded. The results and the command receipts it forgets, the events
  it expires and the runs it removes are together no more than the limit of the command.\<close>

theorem prune_bounded:
  assumes "prune E rep cmd now limit = Ok (rep', events)" and "typed_state (rep_state rep)"
  shows "(length (command_results (rep_state rep)) - length (command_results (rep_state rep')))
    + (length (command_times (rep_state rep)) - length (command_times (rep_state rep')))
    + length events + (length (runs (rep_state rep)) - length (runs (rep_state rep'))) \<le> limit"
  using assms(1)
proof (rule prune_parts)
  fix keys1 keys2 items rids rids' rep3 rep4
  assume rep3: "prune_events E cmd now (rep\<lparr>rep_state := forget_commands keys2
       ((rep_state rep)\<lparr>command_results := hdel_all keys1 (command_results (rep_state rep))\<rparr>)\<rparr>)
       items = Ok (rep3, events)"
    and rep4: "prune_runs rep3 rids = Ok rep4"
    and rep': "rep' = rep4\<lparr>rep_state := fold forget_summary rids' (rep_state rep4)\<rparr>"
    and bound: "length keys1 + length keys2 + length items + length rids \<le> limit"
  let ?st = "rep_state rep"
  from assms(2) have distinct: "distinct (map fst (runs ?st))" "distinct (map fst (command_times ?st))"
    "distinct (map fst (command_results ?st))"
    by (auto simp: typed_state_def typed_def strict_sorted_iff)
  from prune_events_runs [OF rep3] prune_events_times [OF rep3]
  have "runs (rep_state rep3) = runs ?st" "length events \<le> length items"
    "command_times (rep_state rep3) = hdel_all keys2 (command_times ?st)"
    "command_results (rep_state rep3) = hdel_all keys1 (command_results ?st)"
    by (simp_all add: forget_commands_def)
  with prune_runs_times [OF rep4] rep' bound distinct length_hdel_all [OF distinct(3), of keys1]
    length_hdel_all [OF distinct(2), of keys2]
  show ?thesis by (simp add: forget_summaries_runs forget_summaries_times) linarith
qed

theorem prune_bounded_witness:
  "\<exists>rep' events. prune sample_ext (mb_replica (sample_life 5)) ''prune'' (2 * DAY_MS) 2 = Ok (rep', events)
     \<and> length events \<le> 2"
proof -
  let ?rep = "mb_replica (sample_life 5)"
  have "rmap (\<lambda>(rep, events). length (command_times (rep_state rep))) (prune sample_ext ?rep ''prune'' (2 * DAY_MS) 2)
      = Ok 1"
    using sample_life_facts by (simp add: Let_def)
  then obtain rep' events where prune: "prune sample_ext ?rep ''prune'' (2 * DAY_MS) 2 = Ok (rep', events)"
    by (auto simp: res_simps)
  from prune_bounded [OF prune typing.invariant_reachable [OF sample_life_reachable]] prune
  show ?thesis by (intro exI [of _ rep'] exI [of _ events]) simp
qed

end
