(* ===== verification/Replay.thy ===== *)
theory Replay
  imports Pruning
begin

text \<open>
  Reconstruction with and without a checkpoint (\<open>reconstruct_at\<close> and \<open>checkpoint_after_command\<close> of
  history.rs). A checkpoint is the projection of a prefix of the events with its books cleared; the
  events do not read the books nor the publication of the run, so replaying the rest on the
  checkpoint gives what replaying everything gives.
\<close>

section \<open>What evolving reads\<close>

definition unpublish :: "run_id \<Rightarrow> (run_id, run_state) hmap \<Rightarrow> (run_id, run_state) hmap" where
  "unpublish run m = hmod run (\<lambda>r. r\<lparr>rs_published := None\<rparr>) m"

text \<open>Two states that differ in their books and in the publication of one run.\<close>

definition alike :: "run_id \<Rightarrow> state \<Rightarrow> state \<Rightarrow> bool" where
  "alike run a b \<longleftrightarrow>
     scopes b = scopes a \<and> activations b = activations a \<and> waits b = waits a \<and> inbox b = inbox a
     \<and> loop_carry b = loop_carry a \<and> foreach_items b = foreach_items a \<and> foreach_done b = foreach_done a
     \<and> parallel_done b = parallel_done a \<and> obligations b = obligations a \<and> saga_errors b = saga_errors a
     \<and> next_generation b = next_generation a \<and> fair_cursor b = fair_cursor a
     \<and> interventions b = interventions a \<and> recovery b = recovery a
     \<and> format_policy b = format_policy a \<and> format_receipts b = format_receipts a
     \<and> current_cluster_id b = current_cluster_id a \<and> artifact_origins b = artifact_origins a
     \<and> engine_time_watermark_ms b = engine_time_watermark_ms a
     \<and> unpublish run (runs b) = unpublish run (runs a)"

lemma hget_unpublish:
  "hget (unpublish run m) k = (if k = run then map_option (\<lambda>r. r\<lparr>rs_published := None\<rparr>) (hget m k) else hget m k)"
  by (auto simp: unpublish_def map_of_map_entry split: option.splits)

lemma lookup_region_reads:
  assumes "lookup_region a scope = Some region"
    and "scopes b = scopes a" and "activations b = activations a"
    and "\<And>k. map_option rs_definition (hget (runs b) k) = map_option rs_definition (hget (runs a) k)"
  shows "lookup_region b scope = Some region"
  using assms
proof (induction rule: lookup_region.raw_induct [rotated, consumes 1, case_names step])
  case (step lookup st scope region)
  from step(2) obtain scope_state r where scope: "hget (scopes st) scope = Some scope_state"
    and run: "hget (runs st) (sc_run scope_state) = Some r"
    by (auto split: option.splits)
  from run step.prems(3) [of "sc_run scope_state"] obtain r' where
    run': "hget (runs b) (sc_run scope_state) = Some r'" "rs_definition r' = rs_definition r"
    by auto
  have "lookup_region b s = Some y" if "lookup st s = Some y" for s y
    using step(1) [OF that] step.prems by simp
  then show ?case
    using step.hyps scope run run' step.prems(1,2)
    by (subst lookup_region.simps) (auto split: option.splits bind_splits)
qed

lemma unpublish_get:
  assumes "unpublish run m' = unpublish run m"
  shows "map_option (\<lambda>r. r\<lparr>rs_published := None\<rparr>) (hget m' k) = map_option (\<lambda>r. r\<lparr>rs_published := None\<rparr>) (hget m k)"
proof -
  have "hget (unpublish run m') k = hget (unpublish run m) k" by (simp add: assms)
  then show ?thesis by (simp add: hget_unpublish split: if_splits)
qed

lemma alike_get:
  assumes "alike run a b" and "\<And>r. f (r\<lparr>rs_published := None\<rparr>) = f r"
  shows "map_option f (hget (runs b) k) = map_option f (hget (runs a) k)"
proof -
  from assms(1) have "unpublish run (runs b) = unpublish run (runs a)" by (simp add: alike_def)
  from arg_cong [OF unpublish_get [OF this, of k], of "map_option f"] show ?thesis
    by (simp add: option.map_comp o_def assms(2))
qed

lemma alike_sym: "alike run a b \<Longrightarrow> alike run b a"
  by (simp add: alike_def)

lemma lookup_region_alike: "alike run a b \<Longrightarrow> lookup_region b scope = lookup_region a scope"
proof -
  assume alike: "alike run a b"
  from alike_get [OF alike, of rs_definition] alike
  have "lookup_region b scope = Some region \<longleftrightarrow> lookup_region a scope = Some region" for region
    using lookup_region_reads [of b scope region a] lookup_region_reads [of a scope region b]
    by (auto simp: alike_def)
  then show ?thesis by (metis option.exhaust)
qed

lemma saga_owner_from_scope_reads:
  assumes "saga_owner_from_scope a scope skip = Some saga"
    and "scopes b = scopes a" and "activations b = activations a"
  shows "saga_owner_from_scope b scope skip = Some saga"
  using assms
proof (induction rule: saga_owner_from_scope.raw_induct [rotated, consumes 1, case_names step])
  case (step owner st scope skip saga)
  have "saga_owner_from_scope b s k = Some y" if "owner st s k = Some y" for s k y
    using step(1) [OF that] step.prems by simp
  then show ?case
    using step.hyps step.prems
    by (subst saga_owner_from_scope.simps) (auto split: option.splits if_splits)
qed

lemma saga_owner_alike: "alike run a b \<Longrightarrow> saga_owner b forward = saga_owner a forward"
proof -
  assume "alike run a b"
  then have "saga_owner_from_scope b scope skip = Some saga \<longleftrightarrow> saga_owner_from_scope a scope skip = Some saga"
    for scope skip saga
    using saga_owner_from_scope_reads [of b scope skip saga a] saga_owner_from_scope_reads [of a scope skip saga b]
    by (auto simp: alike_def)
  then have "saga_owner_from_scope b scope skip = saga_owner_from_scope a scope skip" for scope skip
    by (metis option.exhaust)
  with \<open>alike run a b\<close> show ?thesis by (simp add: saga_owner_def alike_def split: option.split)
qed

lemma unpublish_hmod:
  assumes "\<And>r. f (r\<lparr>rs_published := None\<rparr>) = (f r)\<lparr>rs_published := None\<rparr>"
  shows "unpublish run (hmod k f m) = hmod k f (unpublish run m)"
  unfolding unpublish_def using assms by (induction m) auto

lemma unpublish_idem: "unpublish run (unpublish run m) = unpublish run m"
  unfolding unpublish_def by (induction m) auto

section \<open>Evolving alike states\<close>

lemma alike_bump:
  assumes "alike run a b"
  shows "rel_res (rel_prod (=) (alike run)) (bump_ready_order a k) (bump_ready_order b k)"
proof -
  from alike_get [OF assms, of rs_next_ready_order k] show ?thesis
    using assms
    by (cases "hget (runs a) k"; cases "hget (runs b) k")
       (auto simp: bump_ready_order_def res_simps Let_def alike_def unpublish_hmod)
qed

lemma alike_sequence:
  assumes "alike run a b"
  shows "(case hget (runs b) k of Some r \<Rightarrow> rs_next_sequence r | None \<Rightarrow> 0)
    = (case hget (runs a) k of Some r \<Rightarrow> rs_next_sequence r | None \<Rightarrow> 0)"
  using alike_get [OF assms, of rs_next_sequence k] by (auto split: option.splits)

lemma alike_settle: "alike run a b \<Longrightarrow> alike run (settle_wait wait status a) (settle_wait wait status b)"
  by (auto simp: settle_wait_def alike_def Let_def split: option.splits)

lemma alike_complete: "alike run a b \<Longrightarrow> alike run (complete_role role output a) (complete_role role output b)"
  by (cases role) (auto simp: complete_role_def alike_def Let_def)

lemma evolve_alike:
  assumes "alike run a b"
  shows "rel_res (alike run) (evolve a event) (evolve b event)"
proof (cases event)
  case (ActivationOpened r scope activation node)
  with assms alike_bump [OF assms, of r] show ?thesis
    by (cases "bump_ready_order a r"; cases "bump_ready_order b r")
       (auto simp: is_activity_node_def lookup_region_alike [OF assms] alike_def Let_def)
next
  case (CompensationStarted r saga forward activation handler version input error)
  let ?s = "\<lambda>st. set_obligation_status forward (ObCompensating activation) (st\<lparr>saga_errors := hput saga error (saga_errors st)\<rparr>)"
  have "alike run (?s a) (?s b)" using assms by (simp add: alike_def set_obligation_status_def)
  with assms alike_bump [OF this, of r] show ?thesis
    unfolding CompensationStarted
    by (cases "bump_ready_order (?s a) r"; cases "bump_ready_order (?s b) r")
       (auto simp: alike_def Let_def split: option.splits)
next
  case (ScopeCompleted r scope out)
  let ?acts = "hmap_vals (\<lambda>act. if act_scope act = scope then set_act_status ActSucceeded act else act) (activations a)"
  let ?done = "hmod scope (\<lambda>s. s\<lparr>sc_status := ScopeDone out\<rparr>) (scopes a)"
  have "alike run (a\<lparr>activations := ?acts, scopes := ?done\<rparr>) (b\<lparr>activations := ?acts, scopes := ?done\<rparr>)"
    "alike run (a\<lparr>activations := ?acts\<rparr>) (b\<lparr>activations := ?acts\<rparr>)"
    and "scopes b = scopes a" "activations b = activations a"
    using assms by (simp_all add: alike_def)
  then show ?thesis
    unfolding ScopeCompleted by (cases "hget (scopes a) scope") (simp_all add: Let_def alike_complete)
qed (insert assms saga_owner_alike [OF assms] alike_sequence [OF assms] alike_settle [OF assms],
     auto simp: alike_def Let_def unpublish_hmod wait_run_def has_obligation_def owner_or_self_def set_obligation_status_def
       split: scope_role.splits)

section \<open>Replaying\<close>

lemma alike_modify:
  assumes "alike run a b" and "\<And>r. f (r\<lparr>rs_published := None\<rparr>) = (f r)\<lparr>rs_published := None\<rparr>"
  shows "rel_res (alike run) (modify_run k f a) (modify_run k f b)"
  using alike_get [OF assms(1), of rs_id k] assms
  by (cases "hget (runs a) k"; cases "hget (runs b) k")
     (auto simp: modify_run_def res_simps alike_def unpublish_hmod)

lemma rel_res_bind:
  "rel_res R x y \<Longrightarrow> (\<And>a b. R a b \<Longrightarrow> rel_res S (f a) (g b)) \<Longrightarrow> rel_res S (rbind x f) (rbind y g)"
  by (cases x; cases y) auto

lemma replay_alike: "alike run a b \<Longrightarrow> rel_res (alike run) (replay run a entries) (replay run b entries)"
proof (induction entries arbitrary: a b)
  case (Cons entry entries)
  obtain r event where entry: "entry = (r, event)" by (cases entry)
  let ?bind = "\<lambda>st. st\<lparr>current_cluster_id := ar_cluster_id (he_payload r),
                artifact_origins := insert (ar_cluster_id (he_payload r)) (artifact_origins st)\<rparr>"
  from Cons.prems have "alike run (?bind a) (?bind b)" by (simp add: alike_def)
  note evolved = evolve_alike [OF this, of event]
  show ?case
    unfolding entry replay.simps Let_def
    by (rule rel_res_bind [OF evolved], rule rel_res_bind [where R = "alike run"])
       (auto intro: alike_modify Cons.IH)
qed simp

lemma replay_append: "replay run st (xs @ ys) = rbind (replay run st xs) (\<lambda>p. replay run p ys)"
proof (induction xs arbitrary: st)
  case (Cons entry xs)
  obtain r event where "entry = (r, event)" by (cases entry)
  with Cons.IH show ?case by (simp add: Let_def rbind_assoc)
qed simp

text \<open>The whole replay of some events, from the admission on.\<close>

definition replay_all ::
    "externals \<Rightarrow> run_id \<Rightarrow> run_state \<Rightarrow> (history_entry \<times> domain_event) list \<Rightarrow> state res" where
  "replay_all E run source entries =
     rbind (replay_base E source entries None) (\<lambda>(base, first). replay run base (drop first entries))"

lemma replay_base_first: "replay_base E source entries None = Ok (base, first) \<Longrightarrow> first = 1"
  by (auto simp: replay_base_def res_simps split: list.splits domain_event.splits)

lemma replay_base_take:
  "0 < n \<Longrightarrow> replay_base E source (take n entries) None = replay_base E source entries None"
  by (cases entries; cases n) (simp_all add: replay_base_def)

lemma replay_all_continue:
  assumes "replay_all E run source (take c entries) = Ok p" and "0 < c" and "c \<le> length entries"
  shows "replay_all E run source entries = replay run p (drop c entries)"
proof -
  from assms(1) obtain base first where base: "replay_base E source (take c entries) None = Ok (base, first)"
    and p: "replay run base (drop first (take c entries)) = Ok p"
    by (auto simp: replay_all_def res_simps)
  from replay_base_first [OF base] have first: "first = 1" .
  have "drop 1 entries = drop 1 (take c entries) @ drop c entries"
    using assms(2,3) drop_append [of 1 "take c entries" "drop c entries"] by (simp add: min_def)
  then show ?thesis
    using base p first assms(2) by (simp add: replay_all_def replay_base_take replay_append)
qed

section \<open>Sound checkpoints\<close>

definition entries_of :: "state \<Rightarrow> run_id \<Rightarrow> (history_entry \<times> domain_event) list" where
  "entries_of st run = zip (hlist (history_records st) run) (hlist (history st) run)"

text \<open>A checkpoint is sound when its projection is, up to books and publication, the replay of the
  events it covers.\<close>

definition checkpoint_sound :: "externals \<Rightarrow> state \<Rightarrow> run_id \<Rightarrow> run_state \<Rightarrow> run_checkpoint \<Rightarrow> bool" where
  "checkpoint_sound E st run source cp \<longleftrightarrow>
     (let c = cp_through_run_sequence cp in
      0 < c \<and> c \<le> length (entries_of st run)
      \<and> (\<exists>p. replay_all E run source (take c (entries_of st run)) = Ok p \<and> alike run p (cp_projection cp)))"

definition finish :: "run_id \<Rightarrow> run_state \<Rightarrow> (history_entry \<times> domain_event) list \<Rightarrow> state \<Rightarrow> state res" where
  "finish run source entries projection =
     rbind (modify_run run (\<lambda>r. r\<lparr>rs_published := rs_published source\<rparr>) projection) (\<lambda>projection1.
       Ok (projection1\<lparr>history := hput run (map snd entries) (history projection1),
                       history_records := hput run (map fst entries) (history_records projection1)\<rparr>))"

lemma check_entry_id: "check_entry E run sequence entry = Ok x \<Longrightarrow> x = entry"
  by (auto simp: check_entry_def res_simps split: prod.splits if_splits)

lemma rseq_check_id:
  "rseq (map (\<lambda>(index, entry). check_entry E run (start + index) entry) (enumerate n xs)) = Ok ys \<Longrightarrow> ys = xs"
  by (induction xs arbitrary: n ys) (auto simp: res_simps dest!: check_entry_id)

lemma validated_entries_Ok:
  assumes "validated_entries E st run 1 through = Ok entries" and "through \<le> u64_max" and "0 < through"
  shows "entries = take through (entries_of st run)"
proof -
  have "sat_add64 (through - 1) 1 = through" using assms(2,3) by (simp add: sat_add64_def)
  with assms(1) show ?thesis
    by (auto simp: validated_entries_def entries_of_def hlist_def Let_def res_simps split: if_splits
        dest!: rseq_check_id [where start = 1, simplified])
qed

lemma reconstruct_at_Ok:
  assumes "reconstruct_at E rep run through now = Ok result" and "through \<le> u64_max"
  obtains source available entries base first projection where
    "hget (runs (rep_state rep)) run = Some source"
    and "retained E (rep_state rep) run now = Ok (source, available)" and "0 < through" and "through \<le> available"
    and "validated_entries E (rep_state rep) run 1 through = Ok entries"
    and "entries = take through (entries_of (rep_state rep) run)"
    and "replay_base E source entries
           (case hget (checkpoints rep) run of
              Some cp \<Rightarrow> if cp_through_run_sequence cp \<le> through then Some cp else None | None \<Rightarrow> None) = Ok (base, first)"
    and "replay run base (drop first entries) = Ok projection"
    and "finish run source entries projection = Ok result"
proof -
  from assms(1) obtain source available where retained: "retained E (rep_state rep) run now = Ok (source, available)"
    by (cases "retained E (rep_state rep) run now") (auto simp: reconstruct_at_def)
  have range: "0 < through" "through \<le> available"
    by (rule ccontr, use assms(1) retained in \<open>simp add: reconstruct_at_def\<close>)+
  with assms(1) retained obtain entries base first projection where
      entries: "validated_entries E (rep_state rep) run 1 through = Ok entries"
    and replayed: "replay_base E source entries
           (case hget (checkpoints rep) run of
              Some cp \<Rightarrow> if cp_through_run_sequence cp \<le> through then Some cp else None | None \<Rightarrow> None) = Ok (base, first)"
      "replay run base (drop first entries) = Ok projection" "finish run source entries projection = Ok result"
    unfolding reconstruct_at_def finish_def [symmetric] Let_def by (simp add: res_simps) blast
  from retained have source: "hget (runs (rep_state rep)) run = Some source"
    by (auto simp: retained_def Let_def res_simps split: option.splits if_splits)
  show ?thesis
    by (rule that [OF source retained range entries validated_entries_Ok [OF entries assms(2) range(1)] replayed])
qed

lemma reconstruct_plain:
  assumes "hget (checkpoints rep) run = None"
    and "retained E (rep_state rep) run now = Ok (source, available)" and "0 < through" and "through \<le> available"
    and "validated_entries E (rep_state rep) run 1 through = Ok entries"
  shows "reconstruct_at E rep run through now = rbind (replay_all E run source entries) (finish run source entries)"
  using assms
  by (simp add: reconstruct_at_def replay_all_def finish_def [abs_def] rbind_assoc case_prod_unfold)

text \<open>The two reconstructions agree on what they project.\<close>

definition same_projection :: "run_id \<Rightarrow> state \<Rightarrow> state \<Rightarrow> bool" where
  "same_projection run a b \<longleftrightarrow>
     clear_projection a = clear_projection b \<and> hget (history a) run = hget (history b) run
     \<and> hget (history_records a) run = hget (history_records b) run"

lemma unpublish_set:
  assumes "unpublish run m' = unpublish run m"
  shows "hmod run (\<lambda>r. r\<lparr>rs_published := p\<rparr>) m' = hmod run (\<lambda>r. r\<lparr>rs_published := p\<rparr>) m"
proof -
  have "hmod run (\<lambda>r. r\<lparr>rs_published := p\<rparr>) (unpublish run n) = hmod run (\<lambda>r. r\<lparr>rs_published := p\<rparr>) n" for n
    unfolding unpublish_def by (induction n) auto
  with assms show ?thesis by metis
qed

lemma unpublish_set_published: "unpublish run (hmod run (\<lambda>r. r\<lparr>rs_published := p\<rparr>) m) = unpublish run m"
  unfolding unpublish_def by (induction m) auto

lemma finish_alike:
  assumes "alike run a b" and "finish run source entries a = Ok x" and "finish run source entries b = Ok y"
  shows "same_projection run x y"
proof -
  from assms(1) have "unpublish run (runs b) = unpublish run (runs a)" by (simp add: alike_def)
  from unpublish_set [OF this] assms show ?thesis
    by (auto simp: same_projection_def finish_def modify_run_def clear_projection_def alike_def res_simps)
qed

lemma finish_exists:
  assumes "alike run a b" and "finish run source entries a = Ok x"
  shows "\<exists>y. finish run source entries b = Ok y"
proof -
  from alike_get [OF assms(1), of rs_id run] assms(2) show ?thesis
    by (cases "hget (runs b) run") (auto simp: finish_def modify_run_def res_simps unwrap_opt_def split: option.splits)
qed

lemma reconstruct_replays:
  assumes ok: "reconstruct_at E rep run through now = Ok a" and "through \<le> u64_max"
    and sound: "\<And>cp source. hget (checkpoints rep) run = Some cp \<Longrightarrow> hget (runs (rep_state rep)) run = Some source
                  \<Longrightarrow> checkpoint_sound E (rep_state rep) run source cp"
  obtains source available entries projection p where
    "hget (runs (rep_state rep)) run = Some source"
    and "retained E (rep_state rep) run now = Ok (source, available)" and "0 < through" and "through \<le> available"
    and "validated_entries E (rep_state rep) run 1 through = Ok entries"
    and "entries = take through (entries_of (rep_state rep) run)"
    and "finish run source entries projection = Ok a"
    and "replay_all E run source entries = Ok p" and "alike run projection p"
proof -
  from ok assms(2) obtain source available entries base first projection where
      source: "hget (runs (rep_state rep)) run = Some source"
    and retained: "retained E (rep_state rep) run now = Ok (source, available)" "0 < through" "through \<le> available"
      "validated_entries E (rep_state rep) run 1 through = Ok entries"
    and entries: "entries = take through (entries_of (rep_state rep) run)"
    and base: "replay_base E source entries
           (case hget (checkpoints rep) run of
              Some cp \<Rightarrow> if cp_through_run_sequence cp \<le> through then Some cp else None | None \<Rightarrow> None) = Ok (base, first)"
    and projection: "replay run base (drop first entries) = Ok projection"
    and a: "finish run source entries projection = Ok a"
    by (rule reconstruct_at_Ok)
  have "\<exists>p. replay_all E run source entries = Ok p \<and> alike run projection p"
  proof (cases "\<exists>cp. hget (checkpoints rep) run = Some cp \<and> cp_through_run_sequence cp \<le> through")
    case True
    then obtain cp where cp: "hget (checkpoints rep) run = Some cp" "cp_through_run_sequence cp \<le> through" by blast
    let ?c = "cp_through_run_sequence cp"
    from sound [OF cp(1) source] obtain p where
        c: "0 < ?c" "?c \<le> length (entries_of (rep_state rep) run)"
      and p: "replay_all E run source (take ?c (entries_of (rep_state rep) run)) = Ok p" "alike run p (cp_projection cp)"
      by (auto simp: checkpoint_sound_def Let_def)
    have "take ?c entries = take ?c (entries_of (rep_state rep) run)" using cp(2) by (simp add: entries min_def)
    with p(1) replay_all_continue [of E run source ?c entries p] c cp(2)
    have "replay_all E run source entries = replay run p (drop ?c entries)" by (simp add: entries)
    moreover from base cp have "base = cp_projection cp" "first = ?c" by (auto simp: replay_base_def)
    ultimately show ?thesis
      using replay_alike [OF p(2), of "drop ?c entries"] projection
      by (cases "replay run p (drop ?c entries)") (auto intro: alike_sym)
  next
    case False
    then have "(case hget (checkpoints rep) run of
        Some cp \<Rightarrow> if cp_through_run_sequence cp \<le> through then Some cp else None | None \<Rightarrow> None) = None"
      by (auto split: option.split)
    with base projection have "replay_all E run source entries = Ok projection" by (simp add: replay_all_def)
    then show ?thesis by (auto simp: alike_def)
  qed
  with that source retained entries a show ?thesis by blast
qed

lemma alike_trans: "alike run a b \<Longrightarrow> alike run b c \<Longrightarrow> alike run a c"
  by (simp add: alike_def)

lemma finish_keeps: "finish run source entries a = Ok x \<Longrightarrow> alike run a x"
  by (auto simp: finish_def modify_run_def alike_def unpublish_set_published res_simps)

lemma clear_keeps: "alike run a (clear_projection a)"
  by (simp add: alike_def clear_projection_def)

text \<open>Property C11: a checkpoint changes nothing but the work. When the checkpoint of a run is the
  replay of the events it covers, the run reconstructed from it at any sequence is the run
  reconstructed from its first event: the same projection, the same events and the same records.\<close>

theorem reconstruct_checkpoint:
  assumes "reconstruct_at E rep run through now = Ok a" and "through \<le> u64_max"
    and "hget (checkpoints rep) run = Some cp" and "hget (runs (rep_state rep)) run = Some source"
    and "checkpoint_sound E (rep_state rep) run source cp"
  shows "\<exists>b. reconstruct_at E (rep\<lparr>checkpoints := AList.delete run (checkpoints rep)\<rparr>) run through now = Ok b
    \<and> same_projection run a b"
proof -
  have "checkpoint_sound E (rep_state rep) run src c"
    if "hget (checkpoints rep) run = Some c" "hget (runs (rep_state rep)) run = Some src" for c src
    using that assms(3-5) by simp
  with assms(1,2) obtain src available entries projection p where
      retained: "retained E (rep_state rep) run now = Ok (src, available)" "0 < through" "through \<le> available"
      "validated_entries E (rep_state rep) run 1 through = Ok entries"
    and a: "finish run src entries projection = Ok a"
    and p: "replay_all E run src entries = Ok p" "alike run projection p"
    by (rule reconstruct_replays)
  let ?plain = "rep\<lparr>checkpoints := AList.delete run (checkpoints rep)\<rparr>"
  have "reconstruct_at E ?plain run through now = rbind (replay_all E run src entries) (finish run src entries)"
    by (rule reconstruct_plain) (use retained in \<open>simp_all add: hget_delete\<close>)
  moreover from finish_exists [OF p(2) a] obtain b where b: "finish run src entries p = Ok b" by blast
  ultimately show ?thesis using p(1) finish_alike [OF p(2) a b] by auto
qed

lemma validated_length:
  "validated_entries E st run start through = Ok entries \<Longrightarrow>
     length (entries_of st run) = length (hlist (history st) run)"
  by (auto simp: validated_entries_def entries_of_def hlist_def res_simps split: if_splits)

lemma checkpoint_after_command_sound:
  assumes "checkpoint_after_command E rep run time = Ok rep'"
    and "length (hlist (history (rep_state rep)) run) \<le> u64_max"
    and "hget (runs (rep_state rep)) run = Some source"
    and "\<And>cp. hget (checkpoints rep) run = Some cp \<Longrightarrow> checkpoint_sound E (rep_state rep) run source cp"
    and "hget (checkpoints rep') run = Some cp'"
  shows "checkpoint_sound E (rep_state rep') run source cp'"
proof (cases "checkpoint_due rep run source")
  case False
  with assms show ?thesis by (simp add: checkpoint_after_command_def Let_def)
next
  case True
  let ?through = "length (hlist (history (rep_state rep)) run)"
  from assms(1,3) True obtain a where a: "reconstruct_at E rep run ?through time = Ok a"
    and cp': "cp_through_run_sequence (the (hget (checkpoints rep') run)) = ?through"
      "cp_projection (the (hget (checkpoints rep') run)) = clear_projection a"
    and entries_of: "entries_of (rep_state rep') run = entries_of (rep_state rep) run"
    by (auto simp: checkpoint_after_command_def entries_of_def Let_def res_simps)
  have "checkpoint_sound E (rep_state rep) run src c"
    if "hget (checkpoints rep) run = Some c" "hget (runs (rep_state rep)) run = Some src" for c src
    using that assms(3,4) by simp
  with a assms(2) obtain src available entries projection p where src: "hget (runs (rep_state rep)) run = Some src"
    and range: "0 < ?through" "validated_entries E (rep_state rep) run 1 ?through = Ok entries"
    and entries: "entries = take ?through (entries_of (rep_state rep) run)"
    and fin: "finish run src entries projection = Ok a"
    and p: "replay_all E run src entries = Ok p" "alike run projection p"
    by (rule reconstruct_replays)
  have "alike run p (clear_projection a)"
    using alike_trans [OF alike_sym [OF p(2)] alike_trans [OF finish_keeps [OF fin] clear_keeps]] .
  with p(1) src assms(3,5) range validated_length [OF range(2)] cp' entries_of entries show ?thesis
    by (auto simp: checkpoint_sound_def Let_def)
qed

lemma checkpoint_after_command_through:
  assumes "checkpoint_after_command E rep run time = Ok rep'" and "hget (runs (rep_state rep)) run = Some source"
    and "hget (checkpoints rep') run = Some cp'"
  shows "if checkpoint_due rep run source then cp_through_run_sequence cp' = length (hlist (history (rep_state rep')) run)
    else rep' = rep"
  using assms by (auto simp: checkpoint_after_command_def Let_def res_simps)

text \<open>Property C12: every checkpoint that is taken is sound. When a checkpoint of a run is due after a
  command, the one that is stored goes through the last event of the run and its projection is the replay
  of all the run's events, provided the checkpoint it starts from was sound; when none is due, nothing
  changes.\<close>

theorem checkpoint_taken_sound:
  assumes "checkpoint_after_command E rep run time = Ok rep'"
    and "length (hlist (history (rep_state rep)) run) \<le> u64_max"
    and "hget (runs (rep_state rep)) run = Some source"
    and "\<And>cp. hget (checkpoints rep) run = Some cp \<Longrightarrow> checkpoint_sound E (rep_state rep) run source cp"
    and "hget (checkpoints rep') run = Some cp'"
  shows "checkpoint_sound E (rep_state rep') run source cp'
    \<and> (if checkpoint_due rep run source
       then cp_through_run_sequence cp' = length (hlist (history (rep_state rep')) run) else rep' = rep)"
  using checkpoint_after_command_sound [OF assms] checkpoint_after_command_through [OF assms(1,3,5)] by blast

section \<open>A sample checkpoint\<close>

text \<open>The sample run with a checkpoint after every event.\<close>

definition sample_eager :: replica where
  "sample_eager =
     (let rep = mb_replica (sample_life 3); st = rep_state rep in
      rep\<lparr>rep_state := st\<lparr>runs :=
        hmod ''run-0123456789ab'' (\<lambda>r. r\<lparr>rs_policy := (rs_policy r)\<lparr>checkpoint_event_cadence := 1\<rparr>\<rparr>) (runs st)\<rparr>\<rparr>)"

lemma sample_checkpoint_facts:
  "let rep = sample_eager; run = ''run-0123456789ab'' in
     rmap (\<lambda>rep'. hhas (checkpoints rep') run \<and> hhas (runs (rep_state rep')) run
             \<and> is_ok (reconstruct_at sample_ext rep' run 2 50))
       (checkpoint_after_command sample_ext rep run 40) = Ok True
     \<and> \<not> hhas (checkpoints rep) run \<and> hhas (runs (rep_state rep)) run
     \<and> length (hlist (history (rep_state rep)) run) < 100"
  by code_simp

lemma sample_checkpoint:
  obtains rep' source cp a where
    "checkpoint_after_command sample_ext sample_eager ''run-0123456789ab'' 40 = Ok rep'"
    and "hget (runs (rep_state sample_eager)) ''run-0123456789ab'' = Some source"
    and "hget (checkpoints sample_eager) ''run-0123456789ab'' = None"
    and "hget (checkpoints rep') ''run-0123456789ab'' = Some cp"
    and "reconstruct_at sample_ext rep' ''run-0123456789ab'' 2 50 = Ok a"
    and "length (hlist (history (rep_state sample_eager)) ''run-0123456789ab'') \<le> u64_max"
  using sample_checkpoint_facts
  by (auto simp: Let_def res_simps hhas_def is_ok_iff u64_max_def)

theorem checkpoint_taken_sound_witness:
  "\<exists>rep' source cp. checkpoint_after_command sample_ext sample_eager ''run-0123456789ab'' 40 = Ok rep'
     \<and> hget (checkpoints rep') ''run-0123456789ab'' = Some cp
     \<and> checkpoint_sound sample_ext (rep_state rep') ''run-0123456789ab'' source cp
     \<and> cp_through_run_sequence cp = length (hlist (history (rep_state rep')) ''run-0123456789ab'')"
proof (rule sample_checkpoint)
  fix rep' source cp a
  assume taken: "checkpoint_after_command sample_ext sample_eager ''run-0123456789ab'' 40 = Ok rep'"
    and source: "hget (runs (rep_state sample_eager)) ''run-0123456789ab'' = Some source"
    and none: "hget (checkpoints sample_eager) ''run-0123456789ab'' = None"
    and cp: "hget (checkpoints rep') ''run-0123456789ab'' = Some cp"
    and len: "length (hlist (history (rep_state sample_eager)) ''run-0123456789ab'') \<le> u64_max"
  have "rep' \<noteq> sample_eager" using none cp by auto
  with checkpoint_taken_sound [OF taken len source _ cp] none taken cp show ?thesis by (auto split: if_splits)
qed

lemma checkpoint_keeps_runs:
  "checkpoint_after_command E rep run time = Ok rep' \<Longrightarrow> runs (rep_state rep') = runs (rep_state rep)"
  by (auto dest: checkpoint_state)

theorem reconstruct_checkpoint_witness:
  "\<exists>rep' a b. checkpoint_after_command sample_ext sample_eager ''run-0123456789ab'' 40 = Ok rep'
     \<and> reconstruct_at sample_ext rep' ''run-0123456789ab'' 2 50 = Ok a
     \<and> reconstruct_at sample_ext (rep'\<lparr>checkpoints := AList.delete ''run-0123456789ab'' (checkpoints rep')\<rparr>)
         ''run-0123456789ab'' 2 50 = Ok b
     \<and> same_projection ''run-0123456789ab'' a b"
proof (rule sample_checkpoint)
  fix rep' source cp a
  assume taken: "checkpoint_after_command sample_ext sample_eager ''run-0123456789ab'' 40 = Ok rep'"
    and source: "hget (runs (rep_state sample_eager)) ''run-0123456789ab'' = Some source"
    and none: "hget (checkpoints sample_eager) ''run-0123456789ab'' = None"
    and cp: "hget (checkpoints rep') ''run-0123456789ab'' = Some cp"
    and a: "reconstruct_at sample_ext rep' ''run-0123456789ab'' 2 50 = Ok a"
    and len: "length (hlist (history (rep_state sample_eager)) ''run-0123456789ab'') \<le> u64_max"
  from none have "checkpoint_sound sample_ext (rep_state rep') ''run-0123456789ab'' source cp"
    by (intro checkpoint_after_command_sound [OF taken len source _ cp]) simp
  from reconstruct_checkpoint [OF a _ cp _ this] source taken a show ?thesis
    by (auto simp: checkpoint_keeps_runs u64_max_def)
qed

end
