(* ===== verification/Cycles.thy ===== *)
theory Cycles
  imports Analysis Sample
begin

text \<open>
  The cycle check of a region (\<open>detect_cycle\<close> of compiler.rs) accepts a start node exactly when no
  node on a cycle can be reached from it, and the scans of a region only accept what their
  conditions say. A node is done when it was seen and is off the stack of the search.
\<close>

definition edge :: "nodes \<Rightarrow> string \<Rightarrow> string \<Rightarrow> bool" where
  "edge ns a b \<longleftrightarrow> b \<in> set (targets ns a)"

definition finished :: "string list \<Rightarrow> string list \<Rightarrow> string set" where
  "finished on_stack seen = set seen - set on_stack"

definition search_ok :: "nodes \<Rightarrow> string list \<Rightarrow> string list \<Rightarrow> bool" where
  "search_ok ns on_stack seen \<longleftrightarrow>
     set on_stack \<subseteq> set seen
     \<and> (\<forall>a b. a \<in> finished on_stack seen \<longrightarrow> edge ns a b \<longrightarrow> b \<in> finished on_stack seen)
     \<and> (\<forall>a\<in>finished on_stack seen. \<not> (edge ns)\<^sup>+\<^sup>+ a a)"

lemma closed_reach:
  assumes "(edge ns)\<^sup>*\<^sup>* a b" and "a \<in> B" and "\<And>a b. a \<in> B \<Longrightarrow> edge ns a b \<Longrightarrow> b \<in> B"
  shows "b \<in> B"
  using assms(1)
proof (induction rule: rtranclp_induct)
  case (step b c)
  then show ?case using assms(3) [of b c] by simp
qed (rule assms(2))

lemma search_okD:
  assumes "search_ok ns os seen"
  shows "set os \<subseteq> set seen" and "a \<in> finished os seen \<Longrightarrow> edge ns a b \<Longrightarrow> b \<in> finished os seen"
    and "a \<in> finished os seen \<Longrightarrow> \<not> (edge ns)\<^sup>+\<^sup>+ a a"
  using assms unfolding search_ok_def by blast+

text \<open>Popping a node whose targets are all done.\<close>

lemma search_ok_pop:
  assumes ok: "search_ok ns (key # os) seen" and "key \<notin> set os"
    and targets: "set (targets ns key) \<subseteq> finished (key # os) seen"
  shows "search_ok ns os seen \<and> finished os seen = insert key (finished (key # os) seen)"
proof -
  let ?B = "finished (key # os) seen"
  have B: "finished os seen = insert key ?B"
    using search_okD(1) [OF ok] assms(2) by (auto simp: finished_def)
  note closed = search_okD(2) [OF ok]
  have "\<not> (edge ns)\<^sup>+\<^sup>+ key key"
  proof
    assume "(edge ns)\<^sup>+\<^sup>+ key key"
    from tranclpD [OF this] obtain s where "edge ns key s" "(edge ns)\<^sup>*\<^sup>* s key" by blast
    then have "s \<in> ?B" using targets by (auto simp: edge_def [of ns key s])
    then have "key \<in> ?B" by (rule closed_reach [OF \<open>(edge ns)\<^sup>*\<^sup>* s key\<close> _ closed])
    then show False by (simp add: finished_def)
  qed
  moreover have "b \<in> finished os seen" if "a \<in> finished os seen" "edge ns a b" for a b
  proof (cases "a = key")
    case True
    with that(2) targets B show ?thesis by (auto simp: edge_def [of ns key b])
  next
    case False
    with that(1) B have "a \<in> ?B" by simp
    from closed [OF this that(2)] B show ?thesis by simp
  qed
  moreover have "set os \<subseteq> set seen" using search_okD(1) [OF ok] by simp
  moreover have "\<not> (edge ns)\<^sup>+\<^sup>+ a a" if "a \<in> ?B" for a by (rule search_okD(3) [OF ok that])
  ultimately have "search_ok ns os seen" unfolding search_ok_def using B by simp
  with B show ?thesis by simp
qed

lemma search_ok_push: "search_ok ns os seen \<Longrightarrow> key \<notin> set seen \<Longrightarrow>
    search_ok ns (key # os) (key # seen) \<and> finished (key # os) (key # seen) = finished os seen"
proof -
  assume "search_ok ns os seen" "key \<notin> set seen"
  moreover from this have "finished (key # os) (key # seen) = finished os seen"
    by (auto simp: finished_def)
  ultimately show ?thesis unfolding search_ok_def by simp blast
qed

lemma visit_sound:
  "visit ns os seen key = Ok seen' \<Longrightarrow> search_ok ns os seen \<Longrightarrow>
     search_ok ns os seen' \<and> finished os seen \<subseteq> finished os seen' \<and> key \<in> finished os seen' \<and> set seen \<subseteq> set seen'"
  "visit_all ns os seen ts = Ok seen' \<Longrightarrow> search_ok ns os seen \<Longrightarrow>
     search_ok ns os seen' \<and> finished os seen \<subseteq> finished os seen' \<and> set ts \<subseteq> finished os seen' \<and> set seen \<subseteq> set seen'"
proof (induction ns os seen key and ns os seen ts arbitrary: seen' and seen' rule: visit_visit_all.induct)
  case (1 ns os seen key)
  show ?case
  proof (cases "key \<in> set seen")
    case True
    with 1 show ?thesis by (auto simp: visit.simps [of ns os seen key] finished_def split: if_splits)
  next
    case False
    with "1.prems" have off: "key \<notin> set os"
      and rest: "visit_all ns (key # os) (key # seen) (targets ns key) = Ok seen'"
      using search_okD(1) [OF "1.prems"(2)] by (auto simp: visit.simps [of ns os seen key] split: if_splits)
    note push = search_ok_push [OF "1.prems"(2) False]
    from "1.IH" [OF off False rest] push
    have "search_ok ns (key # os) seen'" "finished os seen \<subseteq> finished (key # os) seen'"
      "set (targets ns key) \<subseteq> finished (key # os) seen'" "set seen \<subseteq> set seen'"
      by auto
    with search_ok_pop [OF this(1) off this(3)] show ?thesis by auto
  qed
next
  case (3 ns os seen target ts)
  from "3.prems"(1) obtain seen1 where first: "visit ns os seen target = Ok seen1"
    and rest: "visit_all ns os seen1 ts = Ok seen'"
    by (auto simp: visit_all.simps res_simps)
  from "3.IH"(1) [OF first "3.prems"(2)] "3.IH"(2) [OF first rest] show ?case by auto
qed auto

lemma visit_complete:
  "visit ns os seen key = Err e \<Longrightarrow> (\<And>x. x \<in> set os \<Longrightarrow> (edge ns)\<^sup>+\<^sup>+ x key) \<Longrightarrow>
     \<exists>k. (edge ns)\<^sup>*\<^sup>* key k \<and> (edge ns)\<^sup>+\<^sup>+ k k"
  "visit_all ns os seen ts = Err e \<Longrightarrow> (\<And>x t. x \<in> set os \<Longrightarrow> t \<in> set ts \<Longrightarrow> (edge ns)\<^sup>+\<^sup>+ x t) \<Longrightarrow>
     \<exists>t\<in>set ts. \<exists>k. (edge ns)\<^sup>*\<^sup>* t k \<and> (edge ns)\<^sup>+\<^sup>+ k k"
proof (induction ns os seen key and ns os seen ts rule: visit_visit_all.induct)
  case (1 ns os seen key)
  show ?case
  proof (cases "key \<in> set os")
    case True
    with "1.prems"(2) show ?thesis by blast
  next
    case False
    with "1.prems"(1) have new: "key \<notin> set seen"
      and rest: "visit_all ns (key # os) (key # seen) (targets ns key) = Err e"
      by (auto simp: visit.simps [of ns os seen key] split: if_splits)
    have "\<exists>t\<in>set (targets ns key). \<exists>k. (edge ns)\<^sup>*\<^sup>* t k \<and> (edge ns)\<^sup>+\<^sup>+ k k"
    proof (rule "1.IH" [OF False new rest])
      fix x t
      assume "x \<in> set (key # os)" "t \<in> set (targets ns key)"
      then have "edge ns key t" and "x = key \<or> (edge ns)\<^sup>+\<^sup>+ x key" using "1.prems"(2) [of x] by (auto simp: edge_def [of ns key t])
      then show "(edge ns)\<^sup>+\<^sup>+ x t" by (auto intro: tranclp.r_into_trancl tranclp.trancl_into_trancl)
    qed
    then obtain t k where "edge ns key t" "(edge ns)\<^sup>*\<^sup>* t k" "(edge ns)\<^sup>+\<^sup>+ k k" by (auto simp: edge_def)
    then show ?thesis by (blast intro: converse_rtranclp_into_rtranclp)
  qed
next
  case (3 ns os seen target ts)
  show ?case
  proof (cases "visit ns os seen target")
    case (Ok seen1)
    with "3.prems" "3.IH"(2) [OF Ok] show ?thesis by (auto simp: visit_all.simps)
  next
    case (Err e')
    with "3.prems" "3.IH"(1) show ?thesis by (auto simp: visit_all.simps)
  next
    case Panic
    with "3.prems" show ?thesis by (simp add: visit_all.simps)
  qed
qed (simp_all add: visit_all.simps)

lemma visit_no_panic: "visit ns os seen key \<noteq> Panic" "visit_all ns os seen ts \<noteq> Panic"
proof (induction ns os seen key and ns os seen ts rule: visit_visit_all.induct)
  case (1 ns os seen key)
  then show ?case by (simp add: visit.simps [of ns os seen key])
next
  case (3 ns os seen target ts)
  then show ?case by (cases "visit ns os seen target") (auto simp: visit_all.simps)
qed (simp add: visit_all.simps)

text \<open>Property C19: the cycle check is exact. It accepts a start node if and only if no node on a
  cycle of the region's edges can be reached from it, and it always ends with one of the two
  answers.\<close>

theorem detect_cycle_exact:
  "(detect_cycle ns start = Ok () \<longleftrightarrow> \<not> (\<exists>k. (edge ns)\<^sup>*\<^sup>* start k \<and> (edge ns)\<^sup>+\<^sup>+ k k))
   \<and> detect_cycle ns start \<noteq> Panic"
proof (cases "visit ns [] [] start")
  case (Ok seen)
  have "search_ok ns [] []" by (simp add: search_ok_def finished_def)
  with visit_sound(1) [OF Ok] have ok: "search_ok ns [] seen" and start: "start \<in> finished [] seen" by simp_all
  have "\<not> (edge ns)\<^sup>+\<^sup>+ k k" if "(edge ns)\<^sup>*\<^sup>* start k" for k
  proof (rule search_okD(3) [OF ok])
    show "k \<in> finished [] seen" by (rule closed_reach [OF that start]) (rule search_okD(2) [OF ok])
  qed
  with Ok show ?thesis by (auto simp: detect_cycle_def)
next
  case (Err e)
  with visit_complete(1) [OF Err] show ?thesis by (auto simp: detect_cycle_def)
next
  case Panic
  with visit_no_panic(1) show ?thesis by metis
qed

end
