(* ===== verification/Execution.thy ===== *)
theory Execution
  imports Decide
begin

text \<open>
  Rules of execution over \<open>decide\<close> and \<open>evolve\<close> (domain.rs): a worker's result is fenced by its
  claim, a renewal extends the lease and nothing else, a saga compensates in reverse order of
  completion and fails only when everything it owns is settled, and a loop over items opens the
  next item within its window.
\<close>

section \<open>Fencing\<close>

text \<open>The claim a worker's command names: run, activation, session, generation and revision.\<close>

fun fence_of ::
    "command_body \<Rightarrow> (run_id \<times> activation_id \<times> worker_session_id \<times> owner_generation \<times> lease_revision) option" where
  "fence_of (CmdReportAssigned run activation _ session generation revision) =
     Some (run, activation, session, generation, revision)"
| "fence_of (CmdReportWorker run activation session generation revision _ _) =
     Some (run, activation, session, generation, revision)"
| "fence_of (CmdReconcile run activation session generation revision _ _) =
     Some (run, activation, session, generation, revision)"
| "fence_of (CmdReconcileWorker run activation session generation revision _ _) =
     Some (run, activation, session, generation, revision)"
| "fence_of _ = None"

definition holds_claim ::
    "state \<Rightarrow> run_id \<Rightarrow> activation_id \<Rightarrow> worker_session_id \<Rightarrow> owner_generation \<Rightarrow> lease_revision \<Rightarrow> engine_time
     \<Rightarrow> bool" where
  "holds_claim st run activation session generation revision time \<longleftrightarrow>
     (\<exists>act claim worker. hget (activations st) activation = Some act \<and> act_run act = run
        \<and> act_status act = ActReady \<and> act_claim act = Some claim
        \<and> cl_session claim = session \<and> cl_generation claim = generation \<and> cl_revision claim = revision
        \<and> hget (sessions st) session = Some worker
        \<and> time < ws_expires_ms worker \<and> time < cl_lease_expiry_ms claim \<and> time < cl_attempt_deadline_ms claim)"

lemma validate_claim_owner_holds:
  "validate_claim_owner st run activation session generation revision time = Ok claim \<Longrightarrow>
     holds_claim st run activation session generation revision time"
  by (auto simp: validate_claim_owner_def holds_claim_def res_simps split: if_splits)

lemma fenced_decisions:
  assumes "decide_body E st time ids body = Ok result"
    and "fence_of body = Some (run, activation, session, generation, revision)"
  shows "holds_claim st run activation session generation revision time"
proof -
  from assms obtain claim where
    "validate_claim_owner st run activation session generation revision time = Ok claim"
    by (cases body rule: fence_of.cases)
       (auto simp: decide_report_assigned_def decide_report_worker_def decide_reconcile_def
          decide_reconcile_worker_def res_simps split: if_splits)
  then show ?thesis by (rule validate_claim_owner_holds)
qed


definition sample_owned :: state where
  "sample_owned = sample_state\<lparr>activations := [(''act'', sample_activation\<lparr>act_claim := Some
     \<lparr>cl_session = ''worker'', cl_generation = 1, cl_revision = 1, cl_lease_expiry_ms = 30000,
      cl_attempt_deadline_ms = 60000, cl_effect_key = ''e'', cl_role = Forward, cl_probes = 0,
      cl_unknown_reported = False\<rparr>\<rparr>)]\<rparr>"

definition sample_report :: command_body where
  "sample_report = CmdReportAssigned ''run'' ''act'' (VInt 7) ''worker'' 1 1"



definition sample_regrant :: claim_grant where
  "sample_regrant =
     \<lparr>cg_run = ''run'', cg_scope = ''root'', cg_activation = ''act'', cg_handler = ''charge'',
      cg_handler_version = 1, cg_input = VInt 5, cg_attempt = 2, cg_session = ''worker'',
      cg_generation = 2, cg_revision = 1, cg_lease_expiry_ms = 60100, cg_attempt_deadline_ms = 90100,
      cg_effect_key = ''e'', cg_role = Forward\<rparr>"


section \<open>Renewal\<close>



section \<open>Sagas\<close>

definition owes :: "activation_id \<Rightarrow> obligation \<Rightarrow> bool" where
  "owes saga item \<longleftrightarrow> ob_owner item = saga \<and> ob_status item = ObOpen"

lemma rev_filter_Cons:
  assumes "rev (filter P xs) = x # rest"
  shows "\<exists>ys zs. xs = ys @ x # zs \<and> P x \<and> (\<forall>z\<in>set zs. \<not> P z)"
proof -
  from assms have "filter P (rev xs) = x # rest" by (simp add: rev_filter)
  then obtain us vs where "rev xs = us @ x # vs" "\<forall>u\<in>set us. \<not> P u" "P x"
    by (auto simp: filter_eq_Cons_iff)
  then have "xs = rev vs @ x # rev us" by (metis append.assoc append_Cons append_Nil rev.simps(2) rev_append rev_rev_ident)
  with \<open>P x\<close> \<open>\<forall>u\<in>set us. \<not> P u\<close> show ?thesis by (intro exI [of _ "rev vs"] exI [of _ "rev us"]) simp
qed

lemma fail_scope_no_compensation:
  "fail_scope st scope error = Ok events \<Longrightarrow> CompensationStarted r s f a h v i e \<notin> set events"
  by (auto simp: fail_scope_def close_pending_waits_def close_wait_def res_simps split: if_splits option.splits)

lemma output_and_next_no_compensation:
  "output_and_next E st run act output ids = Ok (events, ids') \<Longrightarrow> CompensationStarted r s f a h v i e \<notin> set events"
  by (auto simp: output_and_next_def follow_next_def open_node_def Let_def res_simps case_prod_unfold split: option.splits)

lemma compensate_or_fail_order:
  assumes "compensate_or_fail E st saga error ids = Ok (events, ids')"
    and "CompensationStarted run owner forward activation handler version input err \<in> set events"
  shows "owner = saga \<and> (\<exists>older item newer. obligations st = older @ item # newer \<and> ob_forward item = forward
           \<and> ob_handler item = handler \<and> ob_handler_version item = version \<and> ob_input item = input
           \<and> owes saga item \<and> (\<forall>later\<in>set newer. \<not> owes saga later))"
proof (cases "rev (pending_obligations st saga)")
  case Nil
  with assms show ?thesis
    by (auto simp: compensate_or_fail_def res_simps fail_scope_no_compensation split: if_splits)
next
  case (Cons item rest)
  with assms have "owner = saga \<and> ob_forward item = forward \<and> ob_handler item = handler
      \<and> ob_handler_version item = version \<and> ob_input item = input"
    by (auto simp: compensate_or_fail_def res_simps split: if_splits prod.splits)
  moreover from Cons have "rev (filter (owes saga) (obligations st)) = item # rest"
    by (simp add: pending_obligations_def owes_def [abs_def])
  note rev_filter_Cons [OF this]
  ultimately show ?thesis by blast
qed


text \<open>A saga around the sample activity that owes two compensations, the newer one for \<open>b\<close>.\<close>

definition sample_debt :: "activation_id \<Rightarrow> obligation_status \<Rightarrow> obligation" where
  "sample_debt forward status =
     \<lparr>ob_forward = forward, ob_run = ''run'', ob_owner = ''act'', ob_handler = ''refund'', ob_handler_version = 1,
      ob_input = VInt 5, ob_status = status\<rparr>"

definition sample_saga :: "obligation_status \<Rightarrow> state" where
  "sample_saga status =
     sample_state\<lparr>activations := [(''act'', sample_activation\<lparr>act_status := ActOpen\<rparr>)],
       obligations := [sample_debt ''a'' status, sample_debt ''b'' status],
       saga_errors := [(''act'', \<lparr>fe_code = ''late'', fe_message = ''too late''\<rparr>)]\<rparr>"


lemma open_parts_no_failure:
  "output_and_next E st run act output ids = Ok (events, ids') \<Longrightarrow> ScopeFailed r s e \<notin> set events"
  by (auto simp: output_and_next_def follow_next_def open_node_def Let_def res_simps case_prod_unfold split: option.splits)



section \<open>Loops over items\<close>

lemma free_index_search:
  "(\<forall>k. i \<le> k \<longrightarrow> k < free_index fuel taken i \<longrightarrow> k \<in> set taken) \<and> i \<le> free_index fuel taken i
   \<and> (card (set taken \<inter> {i..}) \<le> fuel \<longrightarrow> free_index fuel taken i \<notin> set taken)"
proof (induction fuel taken i rule: free_index.induct)
  case (1 taken i)
  then show ?case by auto
next
  case (2 fuel taken i)
  show ?case
  proof (cases "i \<in> set taken")
    case True
    have "set taken \<inter> {i..} = insert i (set taken \<inter> {i + 1..})" using True by (auto simp: not_less_eq_eq)
    then have "card (set taken \<inter> {i..}) = Suc (card (set taken \<inter> {i + 1..}))" by simp
    moreover have "k \<in> set taken" if "i \<le> k" "k < free_index fuel taken (i + 1)" for k
      using that "2.IH" [OF True] True by (cases "k = i") auto
    ultimately show ?thesis using "2.IH" [OF True] True by auto
  qed auto
qed

definition index_taken :: "state \<Rightarrow> activation_id \<Rightarrow> (nat \<times> val) list \<Rightarrow> nat \<Rightarrow> bool" where
  "index_taken st activation recorded index \<longleftrightarrow>
     (\<exists>child\<in>set (children_of st activation). \<exists>owner. sc_role child = RoleForeachItem owner index)
     \<or> foreach_has recorded index"

lemma next_item_index_spec:
  "\<not> index_taken st activation recorded (next_item_index st activation recorded)
   \<and> (\<forall>k < next_item_index st activation recorded. index_taken st activation recorded k)"
proof -
  define of_child where "of_child = (\<lambda>child :: scope_state. case sc_role child of RoleForeachItem _ index \<Rightarrow> Some index | _ \<Rightarrow> None)"
  define taken where "taken = List.map_filter of_child (children_of st activation) @ map fst recorded"
  have role: "of_child child = Some k \<longleftrightarrow> (\<exists>owner. sc_role child = RoleForeachItem owner k)" for child k
    by (cases "sc_role child") (auto simp: of_child_def)
  have taken: "k \<in> set taken \<longleftrightarrow> index_taken st activation recorded k" for k
    by (auto simp: taken_def index_taken_def foreach_has_def list_ex_iff in_map_filter role intro: rev_image_eqI)
  have "card (set taken \<inter> {0..}) \<le> length taken"
    using card_length [of taken] by (simp add: atLeast_0)
  with free_index_search [of 0 "length taken" taken] taken show ?thesis
    by (simp add: next_item_index_def Let_def taken_def [symmetric] of_child_def [symmetric])
qed

text \<open>Property C20: the search for the next item ends at the least free index. The loop counts up past
  the indices that have a child scope or a recorded result; it stops at the first one that has
  neither.\<close>

theorem next_item_index_least:
  "\<not> index_taken st activation recorded (next_item_index st activation recorded)
   \<and> (\<forall>k. index_taken st activation recorded k \<or> next_item_index st activation recorded \<le> k)"
  using next_item_index_spec [of st activation recorded] by (auto simp: not_less [symmetric])

end
