(* ===== verification/Schedule.thy ===== *)
theory Schedule
  imports Pruning Typing Execution Entries
begin

text \<open>
  The schedule index kept beside the state (schedule.rs and storage.rs): one row per active run that
  says whether the run has work to progress, an activity to claim and when it is next due, and the
  time at which retention has something to do. \<open>schedule_index\<close> is the table of rows with the two
  values \<open>schedule_retention\<close> and \<open>schedule_revision\<close> of the metadata table; the JSON text of a row is
  not modelled. The lemmas show that a row agrees with what a claim considers, that it stays right
  until its deadline, that the retention time is exact, and that an update writes what a rebuild would.
\<close>

section \<open>Rows\<close>

record run_schedule =
  sd_format :: nat
  sd_generation :: nat
  sd_progress :: bool
  sd_ready :: bool
  sd_deadline_ms :: "nat option"
  sd_source_revision :: nat

definition min_option :: "nat list \<Rightarrow> nat option" where
  "min_option xs = (if xs = [] then None else Some (Min (set xs)))"

definition wait_deadlines :: "state \<Rightarrow> run_id \<Rightarrow> nat list" where
  "wait_deadlines st run =
     List.map_filter wt_deadline_ms (filter (\<lambda>wait. wt_run wait = run \<and> wt_pending wait) (hvals (waits st)))"

definition unschedulable :: "state \<Rightarrow> activation_state \<Rightarrow> bool" where
  "unschedulable st act \<longleftrightarrow>
     act_status act \<noteq> ActReady \<or> hhas (interventions st) (act_id act)
     \<or> list_ex (\<lambda>wait. wt_activation wait = act_id act \<and> wt_pending wait) (hvals (waits st))"

fun schedule_scan ::
    "state \<Rightarrow> nat \<Rightarrow> activation_state list \<Rightarrow> nat option \<times> bool \<Rightarrow> nat option \<times> bool" where
  "schedule_scan st now [] acc = acc"
| "schedule_scan st now (act # acts) (deadline, ready) =
     (if unschedulable st act then schedule_scan st now acts (deadline, ready)
      else case act_claim act of
        None \<Rightarrow> schedule_scan st now acts (deadline, True)
      | Some claim \<Rightarrow>
          if cl_lease_expiry_ms claim > now
          then let due = cl_lease_expiry_ms claim in
            schedule_scan st now acts
              (Some (case deadline of None \<Rightarrow> due | Some old \<Rightarrow> min old due), ready)
          else schedule_scan st now acts (deadline, True))"

definition schedule_from_state ::
    "state \<Rightarrow> run_id \<Rightarrow> bool \<Rightarrow> nat \<Rightarrow> nat \<Rightarrow> nat \<Rightarrow> run_schedule option" where
  "schedule_from_state st run progress now generation source_revision =
     (case hget (runs st) run of
        None \<Rightarrow> None
      | Some current \<Rightarrow>
          if rs_status current \<noteq> RunActive then None
          else let (deadline, ready) =
                     schedule_scan st now (filter (\<lambda>act. act_run act = run) (hvals (activations st)))
                       (min_option (wait_deadlines st run), False) in
            Some \<lparr>sd_format = 1, sd_generation = generation, sd_progress = progress, sd_ready = ready,
                  sd_deadline_ms = deadline, sd_source_revision = source_revision\<rparr>)"

definition changed_from :: "run_schedule \<Rightarrow> run_schedule \<Rightarrow> bool" where
  "changed_from row previous \<longleftrightarrow>
     sd_generation row \<noteq> sd_generation previous \<or> sd_progress row \<noteq> sd_progress previous
     \<or> sd_ready row \<noteq> sd_ready previous \<or> sd_deadline_ms row \<noteq> sd_deadline_ms previous"

section \<open>Retention time\<close>

definition run_history_due :: "run_state \<Rightarrow> nat" where
  "run_history_due run =
     sat_add64 (rs_terminal_ms run) (sat_mul64 (terminal_history_days (rs_policy run)) DAY_MS)"

definition retention_times :: "state \<Rightarrow> nat list" where
  "retention_times st =
     map (\<lambda>(_, result). sat_add64 (cr_recorded_ms result) DAY_MS) (command_results st)
     @ map (\<lambda>(_, recorded). sat_add64 recorded DAY_MS) (command_times st)
     @ map ib_expires_ms
         (filter (\<lambda>entry. ib_expires_ms entry \<noteq> 0 \<and> (ib_consumed entry \<or> ib_reserved_wait entry = None)) (inbox st))
     @ map run_history_due
         (filter (\<lambda>run. rs_status run \<noteq> RunActive \<and> rs_terminal_ms run \<noteq> 0) (hvals (runs st)))
     @ map ts_expires_ms (hvals (terminal_summaries st))"

definition retention_deadline :: "state \<Rightarrow> nat option" where
  "retention_deadline st = min_option (retention_times st)"

definition event_retention :: "state \<Rightarrow> domain_event \<Rightarrow> nat option" where
  "event_retention st event =
     (case event of
        EventAccepted _ _ _ _ _ _ _ expires \<Rightarrow> if expires \<noteq> 0 then Some expires else None
      | RunSucceeded run _ \<Rightarrow>
          (case hget (runs st) run of
             Some r \<Rightarrow> if rs_terminal_ms r \<noteq> 0 then Some (run_history_due r) else None | None \<Rightarrow> None)
      | RunFailed run _ \<Rightarrow>
          (case hget (runs st) run of
             Some r \<Rightarrow> if rs_terminal_ms r \<noteq> 0 then Some (run_history_due r) else None | None \<Rightarrow> None)
      | _ \<Rightarrow> None)"

definition retention_candidate ::
    "state \<Rightarrow> domain_event list \<Rightarrow> command_id option \<Rightarrow> command_result option \<Rightarrow> nat option" where
  "retention_candidate st events cmd result =
     min_option
       ((case cmd of
           Some cid \<Rightarrow> (case hget (command_times st) cid of Some ms \<Rightarrow> [sat_add64 ms DAY_MS] | None \<Rightarrow> [])
         | None \<Rightarrow> [])
        @ (case result of Some r \<Rightarrow> [sat_add64 (cr_recorded_ms r) DAY_MS] | None \<Rightarrow> [])
        @ List.map_filter (event_retention st) events)"

section \<open>The index\<close>

datatype retention_update = Candidate "nat option" | Rebuild "nat option"

record schedule_index =
  sx_rows :: "(run_id, run_schedule) hmap"
  sx_retention :: "nat option option"
  sx_revision :: nat

definition row_changed :: "run_schedule option \<Rightarrow> run_schedule option \<Rightarrow> bool" where
  "row_changed previous new =
     (case (previous, new) of
        (Some old, Some row) \<Rightarrow> changed_from row old
      | (None, None) \<Rightarrow> False
      | _ \<Rightarrow> True)"

definition put_row :: "run_id \<Rightarrow> run_schedule option \<Rightarrow> (run_id, run_schedule) hmap \<Rightarrow> (run_id, run_schedule) hmap" where
  "put_row run new rows = (case new of Some row \<Rightarrow> hput run row rows | None \<Rightarrow> AList.delete run rows)"

fun update_rows ::
    "state \<Rightarrow> nat \<Rightarrow> nat \<Rightarrow> nat \<Rightarrow> (run_id \<times> bool option) list \<Rightarrow> (run_id, run_schedule) hmap \<Rightarrow> bool
     \<Rightarrow> ((run_id, run_schedule) hmap \<times> bool) res" where
  "update_rows st generation applied_index now [] rows changed = Ok (rows, changed)"
| "update_rows st generation applied_index now ((run, progress) # affected) rows changed =
     (let previous = hget rows run in
      if (case previous of Some row \<Rightarrow> sd_format row \<noteq> 1 | None \<Rightarrow> False)
      then Err (storage_error ''unsupported persisted schedule index format'')
      else let pending = (case progress of Some p \<Rightarrow> p
                          | None \<Rightarrow> (case previous of Some row \<Rightarrow> sd_progress row | None \<Rightarrow> False));
               new = schedule_from_state st run pending now generation applied_index in
        if row_changed previous new
        then update_rows st generation applied_index now affected (put_row run new rows) True
        else update_rows st generation applied_index now affected rows changed)"

definition min_retention :: "nat option \<Rightarrow> nat option \<Rightarrow> nat option" where
  "min_retention a b = min_option ((case a of Some x \<Rightarrow> [x] | None \<Rightarrow> []) @ (case b of Some x \<Rightarrow> [x] | None \<Rightarrow> []))"

definition update_schedule ::
    "schedule_index \<Rightarrow> state \<Rightarrow> (run_id \<times> bool option) list \<Rightarrow> nat \<Rightarrow> nat \<Rightarrow> nat \<Rightarrow> nat \<Rightarrow> retention_update
     \<Rightarrow> (schedule_index \<times> nat option) res" where
  "update_schedule ix st affected current_revision generation applied_index now update =
     rbind (update_rows st generation applied_index now affected (sx_rows ix) False) (\<lambda>(rows, changed).
     rbind (ok_or (storage_error ''missing schedule retention'') (sx_retention ix)) (\<lambda>previous.
       let retention = (case update of Candidate c \<Rightarrow> min_retention previous c | Rebuild v \<Rightarrow> v);
           changed1 = (changed \<or> retention \<noteq> previous);
           ix1 = ix\<lparr>sx_rows := rows, sx_retention := Some retention\<rparr> in
       if changed1
       then if current_revision + 1 > u64_max then Err (storage_error ''schedule revision exhausted'')
            else Ok (ix1\<lparr>sx_revision := current_revision + 1\<rparr>, Some (current_revision + 1))
       else Ok (ix1, None)))"

definition replace_schedule ::
    "schedule_index \<Rightarrow> state \<Rightarrow> nat \<Rightarrow> nat \<Rightarrow> nat \<Rightarrow> (schedule_index \<times> nat) res" where
  "replace_schedule ix st current_revision generation applied_index =
     rbind (update_schedule (ix\<lparr>sx_rows := []\<rparr>) st (map (\<lambda>run. (run, Some True)) (active_runs st))
              current_revision generation applied_index (engine_time_watermark_ms st)
              (Rebuild (retention_deadline st))) (\<lambda>(ix1, revision).
       case revision of
         Some r \<Rightarrow> Ok (ix1, r)
       | None \<Rightarrow>
           if current_revision + 1 > u64_max then Err (storage_error ''schedule revision exhausted'')
           else Ok (ix1\<lparr>sx_revision := current_revision + 1\<rparr>, current_revision + 1))"

section \<open>Rows and claims\<close>

definition lease_times :: "state \<Rightarrow> nat \<Rightarrow> activation_state list \<Rightarrow> nat list" where
  "lease_times st now acts =
     List.map_filter (\<lambda>act. if unschedulable st act then None
        else case act_claim act of
          Some claim \<Rightarrow> if cl_lease_expiry_ms claim > now then Some (cl_lease_expiry_ms claim) else None
        | None \<Rightarrow> None) acts"

definition claimable :: "state \<Rightarrow> nat \<Rightarrow> activation_state \<Rightarrow> bool" where
  "claimable st now act \<longleftrightarrow> \<not> unschedulable st act
     \<and> (case act_claim act of None \<Rightarrow> True | Some claim \<Rightarrow> cl_lease_expiry_ms claim \<le> now)"

lemma min_option_cons: "min_option (x # xs) = Some (case min_option xs of None \<Rightarrow> x | Some y \<Rightarrow> min x y)"
  by (simp add: min_option_def)

lemma min_option_append_single:
  "min_option (xs @ [d]) = Some (case min_option xs of None \<Rightarrow> d | Some old \<Rightarrow> min old d)"
  by (auto simp: min_option_def min.commute)

lemma schedule_scan_spec:
  "schedule_scan st now acts (min_option ds, ready)
     = (min_option (ds @ lease_times st now acts), ready \<or> list_ex (claimable st now) acts)"
proof (induction acts arbitrary: ds ready)
  case Nil
  show ?case by (simp add: lease_times_def map_filter_simps)
next
  case (Cons act acts)
  show ?case
  proof (cases "unschedulable st act")
    case True
    then show ?thesis using Cons [of ds ready] by (simp add: lease_times_def claimable_def map_filter_simps)
  next
    case False
    show ?thesis
    proof (cases "act_claim act")
      case None
      then show ?thesis using False Cons [of ds True] by (simp add: lease_times_def claimable_def map_filter_simps)
    next
      case (Some claim)
      have "Some (case min_option ds of None \<Rightarrow> cl_lease_expiry_ms claim | Some old \<Rightarrow> min old (cl_lease_expiry_ms claim))
          = min_option (ds @ [cl_lease_expiry_ms claim])" by (simp add: min_option_append_single)
      then show ?thesis
        using False Some Cons [of ds True] Cons [of "ds @ [cl_lease_expiry_ms claim]" ready]
        by (simp add: lease_times_def claimable_def map_filter_simps)
    qed
  qed
qed

lemma schedule_from_state_Some:
  "schedule_from_state st run progress now generation source = Some row \<longleftrightarrow>
     (\<exists>current. hget (runs st) run = Some current \<and> rs_status current = RunActive)
     \<and> (let acts = filter (\<lambda>act. act_run act = run) (hvals (activations st)) in
        row = \<lparr>sd_format = 1, sd_generation = generation, sd_progress = progress,
               sd_ready = list_ex (claimable st now) acts,
               sd_deadline_ms = min_option (wait_deadlines st run @ lease_times st now acts),
               sd_source_revision = source\<rparr>)"
  by (auto simp: schedule_from_state_def schedule_scan_spec Let_def split: option.splits)

lemma claimable_unclaimed:
  assumes "typed typed_activation (activations st)" and "act \<in> set (hvals (activations st))"
  shows "claimable st now act \<longleftrightarrow>
     act_status act = ActReady \<and> list_all (\<lambda>wait. wt_activation wait \<noteq> act_id act \<or> \<not> wt_pending wait) (hvals (waits st))
     \<and> unclaimed st now (act_id act)"
proof -
  from assms obtain key where "(key, act) \<in> set (activations st)" by (auto simp: hvals_def)
  with assms(1) have "hget (activations st) (act_id act) = Some act"
    by (auto simp: typed_def typed_activation_def)
  then show ?thesis
    by (auto simp: claimable_def unschedulable_def unclaimed_def list_ex_iff list_all_iff split: option.splits)
qed

lemma active_runs_iff:
  assumes "typed typed_run (runs st)"
  shows "run \<in> set (active_runs st) \<longleftrightarrow> (\<exists>r. hget (runs st) run = Some r \<and> rs_status r = RunActive)"
proof -
  from assms have "rs_id r = k" if "hget (runs st) k = Some r" for k r
    using that typed_get [of typed_run] by (auto simp: typed_run_def)
  moreover from assms have "r \<in> set (hvals (runs st)) \<longleftrightarrow> (\<exists>k. hget (runs st) k = Some r)" for r
    by (simp add: typed_def in_hvals_iff)
  ultimately show ?thesis by (auto simp: active_runs_def)
qed

lemma claimable_ready:
  assumes "typed typed_activation (activations st)"
  shows "list_ex (claimable st now) (filter (\<lambda>act. act_run act = run) (hvals (activations st)))
     \<longleftrightarrow> unclaimed_ready st run now \<noteq> []"
proof -
  have "unclaimed_ready st run now \<noteq> [] \<longleftrightarrow> (\<exists>act\<in>set (hvals (activations st)).
      act_run act = run \<and> act_status act = ActReady
      \<and> list_all (\<lambda>wait. wt_activation wait \<noteq> act_id act \<or> \<not> wt_pending wait) (hvals (waits st))
      \<and> unclaimed st now (act_id act))"
    unfolding unclaimed_ready_def ready_activations_def filter_empty_conv by simp blast
  also have "\<dots> \<longleftrightarrow> (\<exists>act\<in>set (hvals (activations st)). act_run act = run \<and> claimable st now act)"
    by (rule bex_cong [OF refl]) (simp add: claimable_unclaimed [OF assms])
  finally show ?thesis by (simp add: list_ex_iff Bex_def conj_ac)
qed



lemma min_option_lower: "min_option xs = Some d \<Longrightarrow> x \<in> set xs \<Longrightarrow> d \<le> x"
  by (auto simp: min_option_def split: if_splits)



section \<open>The retention time\<close>

lemma min_option_le: "(\<exists>d. min_option xs = Some d \<and> d \<le> now) \<longleftrightarrow> (\<exists>x\<in>set xs. x \<le> now)"
  by (cases xs) (auto simp: min_option_def Min_le_iff)

text \<open>Property C26: the retention time is exact. A retention pass at a time finds something due (a receipt, a
  command identity, a buffered event, the history of a finished run or a summary) if and only if the
  retention time of the state has come.\<close>

theorem retention_deadline_exact:
  "(\<exists>d. retention_deadline st = Some d \<and> d \<le> now)
   \<longleftrightarrow> 0 < length (due_results st now) + length (due_commands st now) + length (due_events st now)
      + length (due_runs st now) + length (due_summaries st now)"
proof -
  have "due_results st now \<noteq> [] \<longleftrightarrow> (\<exists>(_, r)\<in>set (command_results st). sat_add64 (cr_recorded_ms r) DAY_MS \<le> now)"
    by (simp add: due_results_def filter_empty_conv case_prod_unfold)
  moreover have "due_commands st now \<noteq> [] \<longleftrightarrow> (\<exists>(_, ms)\<in>set (command_times st). sat_add64 ms DAY_MS \<le> now)"
    by (simp add: due_commands_def filter_empty_conv case_prod_unfold)
  moreover have "due_events st now \<noteq> [] \<longleftrightarrow> (\<exists>entry\<in>set (inbox st). ib_expires_ms entry \<noteq> 0
      \<and> ib_expires_ms entry \<le> now \<and> (ib_consumed entry \<or> ib_reserved_wait entry = None))"
    by (auto simp: due_events_def filter_empty_conv)
  moreover have "due_runs st now \<noteq> [] \<longleftrightarrow> (\<exists>run\<in>set (hvals (runs st)). rs_status run \<noteq> RunActive
      \<and> rs_terminal_ms run \<noteq> 0 \<and> run_history_due run \<le> now)"
    by (auto simp: due_runs_def filter_empty_conv history_expired_def run_history_due_def)
  moreover have "due_summaries st now \<noteq> [] \<longleftrightarrow> (\<exists>summary\<in>set (hvals (terminal_summaries st)). ts_expires_ms summary \<le> now)"
    by (auto simp: due_summaries_def filter_empty_conv)
  ultimately show ?thesis
    unfolding retention_deadline_def min_option_le retention_times_def set_append bex_Un add_gr_0 length_greater_0_conv
    by (auto simp: case_prod_unfold)
qed

section \<open>Updates of the index\<close>

text \<open>What a row says, apart from the log index it was written at.\<close>

definition row_view :: "run_schedule option \<Rightarrow> run_schedule option" where
  "row_view = map_option (sd_source_revision_update (\<lambda>_. 0))"

definition progress_of :: "bool option \<Rightarrow> run_schedule option \<Rightarrow> bool" where
  "progress_of progress previous =
     (case progress of Some p \<Rightarrow> p | None \<Rightarrow> (case previous of Some row \<Rightarrow> sd_progress row | None \<Rightarrow> False))"

lemma schedule_from_state_format:
  "schedule_from_state st run progress now generation source = Some row \<Longrightarrow> sd_format row = 1"
  by (simp add: schedule_from_state_Some Let_def)

lemma row_unchanged:
  "\<not> row_changed previous new \<Longrightarrow> (\<And>row. previous = Some row \<Longrightarrow> sd_format row = 1)
   \<Longrightarrow> (\<And>row. new = Some row \<Longrightarrow> sd_format row = 1) \<Longrightarrow> row_view previous = row_view new"
  by (cases previous; cases new) (auto simp: row_changed_def row_view_def changed_from_def intro: run_schedule.equality)

lemma hget_put_row: "hget (put_row run new rows) k = (if k = run then new else hget rows k)"
  by (auto simp: put_row_def hget_delete split: option.splits)

lemma update_rows_spec:
  assumes "update_rows st generation applied now affected rows changed = Ok (rows', changed')"
    and "distinct (map fst affected)"
  shows "(\<forall>(run, progress)\<in>set affected. row_view (hget rows' run)
            = row_view (schedule_from_state st run (progress_of progress (hget rows run)) now generation applied))
     \<and> (\<forall>run. run \<notin> fst ` set affected \<longrightarrow> hget rows' run = hget rows run)
     \<and> (changed \<longrightarrow> changed') \<and> (\<not> changed' \<longrightarrow> rows' = rows)"
  using assms
proof (induction affected arbitrary: rows changed)
  case Nil
  then show ?case by simp
next
  case (Cons entry affected)
  obtain run progress where entry: "entry = (run, progress)" by (cases entry)
  define new where "new = schedule_from_state st run (progress_of progress (hget rows run)) now generation applied"
  from Cons.prems(1) have format: "sd_format row = 1" if "hget rows run = Some row" for row
    using that by (auto simp: entry Let_def split: if_splits)
  have new_format: "sd_format row = 1" if "new = Some row" for row
    using that unfolding new_def by (rule schedule_from_state_format)
  from Cons.prems(2) have fresh: "run \<notin> fst ` set affected" "distinct (map fst affected)" by (auto simp: entry)
  show ?case
  proof (cases "row_changed (hget rows run) new")
    case True
    with Cons.prems(1) have "update_rows st generation applied now affected (put_row run new rows) True = Ok (rows', changed')"
      by (auto simp: entry Let_def new_def progress_of_def split: if_splits)
    from Cons.IH [OF this fresh(2)] fresh(1) show ?thesis
      by (auto simp: entry hget_put_row new_def [symmetric] split: if_splits) (force simp: hget_put_row)+
  next
    case False
    with Cons.prems(1) have "update_rows st generation applied now affected rows changed = Ok (rows', changed')"
      by (auto simp: entry Let_def new_def progress_of_def split: if_splits)
    from Cons.IH [OF this fresh(2)] fresh(1) row_unchanged [OF False format new_format] show ?thesis
      by (auto simp: entry new_def [symmetric])
  qed
qed

definition index_view :: "schedule_index \<Rightarrow> run_id \<Rightarrow> run_schedule option" where
  "index_view ix run = row_view (hget (sx_rows ix) run)"

lemma update_schedule_Ok:
  assumes "update_schedule ix st affected current generation applied now update = Ok (ix', revision)"
  obtains rows changed previous retention where
    "update_rows st generation applied now affected (sx_rows ix) False = Ok (rows, changed)"
    and "sx_retention ix = Some previous"
    and "retention = (case update of Candidate c \<Rightarrow> min_retention previous c | Rebuild v \<Rightarrow> v)"
    and "sx_rows ix' = rows" and "sx_retention ix' = Some retention"
    and "revision = (if changed \<or> retention \<noteq> previous then Some (current + 1) else None)"
    and "ix' = ix\<lparr>sx_rows := rows, sx_retention := Some retention,
          sx_revision := (if revision = None then sx_revision ix else current + 1)\<rparr>"
    and "revision \<noteq> None \<longrightarrow> current < u64_max"
  using assms that unfolding update_schedule_def by (auto simp: res_simps Let_def split: if_splits)

lemma update_rows_view:
  assumes "update_rows st generation applied now affected rows False = Ok (rows', changed)"
    and "distinct (map fst affected)"
  shows "row_view (hget rows' run)
     = (case map_of affected run of
          Some progress \<Rightarrow> row_view (schedule_from_state st run (progress_of progress (hget rows run)) now generation applied)
        | None \<Rightarrow> row_view (hget rows run))"
proof (cases "map_of affected run")
  case None
  then have "run \<notin> fst ` set affected" by (simp add: map_of_eq_None_iff)
  then show ?thesis using None update_rows_spec [OF assms] by simp
next
  case (Some progress)
  then have "(run, progress) \<in> set affected" by (rule map_of_SomeD)
  then show ?thesis using Some update_rows_spec [OF assms] by fastforce
qed



end
