(* ===== verification/Framing.thy ===== *)
theory Framing
  imports Domain_State
begin

text \<open>
  The framing of snapshot files (snapshot_framing.rs). A file is the magic text, the length and bytes of
  the encoded manifest, the payload in frames of at most one mebibyte, each with its length and its
  SHA-256, a zero length, and the SHA-256 of everything before it. Files are byte lists; the source of
  a payload is the list of the chunks that successive reads return; \<open>sha\<close> is the hash, \<open>enc\<close> and \<open>dec\<close>
  the protobuf encoding of a manifest, all three external to the source. A hash that is fed in pieces
  is the hash of their concatenation. The lemmas show that a written file is read back and that a file
  that is accepted carries the payload it declares under the digest it ends in.
\<close>

section \<open>Results\<close>

datatype io_error = InvalidData string | UnexpectedEof

type_synonym 'a io = "io_error + 'a"

fun io_bind :: "'a io \<Rightarrow> ('a \<Rightarrow> 'b io) \<Rightarrow> 'b io" where
  "io_bind (Inl e) f = Inl e"
| "io_bind (Inr x) f = f x"

lemma io_bind_eq_Inr: "io_bind x f = Inr y \<longleftrightarrow> (\<exists>a. x = Inr a \<and> f a = Inr y)"
  by (cases x) auto

lemma case_sum_eq_Inr:
  "(case x of Inl e \<Rightarrow> Inl (g e) | Inr a \<Rightarrow> f a) = Inr y \<longleftrightarrow> (\<exists>a. x = Inr a \<and> f a = Inr y)"
  by (cases x) auto

definition read_exact :: "nat \<Rightarrow> bytes \<Rightarrow> (bytes \<times> bytes) io" where
  "read_exact n input = (if length input < n then Inl UnexpectedEof else Inr (take n input, drop n input))"

fun u32_from_le_bytes :: "bytes \<Rightarrow> nat" where
  "u32_from_le_bytes [] = 0"
| "u32_from_le_bytes (b # bs) = of_char b + 256 * u32_from_le_bytes bs"

section \<open>Manifest\<close>

record snapshot_manifest =
  snm_framing_version :: nat
  snm_generation :: nat
  snm_applied_json :: bytes
  snm_membership_json :: bytes
  snm_payload_bytes :: nat
  snm_record_formats :: "string list"
  snm_record_count :: nat
  snm_artifact_origin_ids :: "string list"

definition MAGIC :: bytes where
  "MAGIC = ''graphrun.snapshot/v1'' @ [CHR 0x00]"

definition FRAME_BYTES :: nat where
  "FRAME_BYTES = 1024 * 1024"

definition MAX_SNAPSHOT_BYTES :: nat where
  "MAX_SNAPSHOT_BYTES = 128 * 1024 * 1024 * 1024"

text \<open>The manifest, the bytes hashed so far and the rest of the input.\<close>

definition read_manifest ::
    "(bytes \<Rightarrow> string + snapshot_manifest) \<Rightarrow> bytes \<Rightarrow> (snapshot_manifest \<times> bytes \<times> bytes) io" where
  "read_manifest dec input =
     io_bind (read_exact (length MAGIC) input) (\<lambda>(magic, input1).
       if magic \<noteq> MAGIC then Inl (InvalidData ''unknown snapshot framing version'')
       else io_bind (read_exact 4 input1) (\<lambda>(size, input2).
         let len = u32_from_le_bytes size in
         if len = 0 \<or> len > FRAME_BYTES then Inl (InvalidData ''snapshot manifest exceeds framing limit'')
         else io_bind (read_exact len input2) (\<lambda>(bytes, input3).
           case dec bytes of
             Inl err \<Rightarrow> Inl (InvalidData err)
           | Inr manifest \<Rightarrow>
               if snm_framing_version manifest \<noteq> 1 \<or> snm_payload_bytes manifest > MAX_SNAPSHOT_BYTES
               then Inl (InvalidData ''unsupported or oversized snapshot'')
               else Inr (manifest, MAGIC @ size @ bytes, input3))))"

section \<open>Writing\<close>

fun write_frames :: "(bytes \<Rightarrow> bytes) \<Rightarrow> nat \<Rightarrow> bytes list \<Rightarrow> nat \<Rightarrow> bytes \<Rightarrow> (nat \<times> bytes) io" where
  "write_frames sha declared [] transferred file = Inr (transferred, file)"
| "write_frames sha declared (chunk # chunks) transferred file =
     (if chunk = [] then Inr (transferred, file)
      else if transferred + length chunk > u64_max then Inl (InvalidData ''snapshot length overflow'')
      else if transferred + length chunk > declared
      then Inl (InvalidData ''snapshot exceeds declared payload length'')
      else write_frames sha declared chunks (transferred + length chunk)
             (file @ le_bytes 4 (length chunk) @ chunk @ sha chunk))"

definition write_snapshot ::
    "(bytes \<Rightarrow> bytes) \<Rightarrow> (snapshot_manifest \<Rightarrow> bytes) \<Rightarrow> bytes list \<Rightarrow> snapshot_manifest \<Rightarrow> (bytes \<times> bytes) io" where
  "write_snapshot sha enc source manifest =
     (if snm_framing_version manifest \<noteq> 1 \<or> snm_payload_bytes manifest > MAX_SNAPSHOT_BYTES
      then Inl (InvalidData ''unsupported or oversized snapshot'')
      else let metadata = enc manifest in
        if metadata = [] \<or> length metadata > FRAME_BYTES
        then Inl (InvalidData ''snapshot manifest exceeds framing limit'')
        else io_bind (write_frames sha (snm_payload_bytes manifest) source 0
                        (MAGIC @ le_bytes 4 (length metadata) @ metadata)) (\<lambda>(transferred, file).
          if transferred \<noteq> snm_payload_bytes manifest
          then Inl (InvalidData ''snapshot payload is shorter than its manifest'')
          else let file1 = file @ le_bytes 4 0; footer = sha file1 in
            Inr (file1 @ footer, footer)))"

section \<open>Reading\<close>

text \<open>The frames up to the zero length, with what is written to the output on the way: a frame is
  written once its own digest is checked, so output can precede a failure.\<close>

function inspect_frames ::
    "(bytes \<Rightarrow> bytes) \<Rightarrow> nat \<Rightarrow> nat \<Rightarrow> bytes \<Rightarrow> bytes \<Rightarrow> bytes \<Rightarrow> (nat \<times> bytes \<times> bytes) io \<times> bytes" where
  "inspect_frames sha declared transferred hashed output input =
     (case read_exact 4 input of
        Inl e \<Rightarrow> (Inl e, output)
      | Inr (len, input1) \<Rightarrow>
          let size = u32_from_le_bytes len in
          if size = 0 then (Inr (transferred, hashed @ len, input1), output)
          else if size > FRAME_BYTES then (Inl (InvalidData ''snapshot frame exceeds 1 MiB''), output)
          else case read_exact size input1 of
            Inl e \<Rightarrow> (Inl e, output)
          | Inr (data, input2) \<Rightarrow>
              (case read_exact 32 input2 of
                 Inl e \<Rightarrow> (Inl e, output)
               | Inr (checksum, input3) \<Rightarrow>
                   if sha data \<noteq> checksum then (Inl (InvalidData ''snapshot frame checksum mismatch''), output)
                   else if transferred + size > u64_max
                   then (Inl (InvalidData ''snapshot payload length overflow''), output)
                   else if transferred + size > declared
                   then (Inl (InvalidData ''snapshot payload exceeds manifest''), output)
                   else inspect_frames sha declared (transferred + size) (hashed @ len @ data @ checksum)
                          (output @ data) input3))"
  by pat_completeness auto
termination
  by (relation "measure (\<lambda>(sha, declared, transferred, hashed, output, input). length input)")
    (auto simp: read_exact_def split: if_splits)

definition inspect_snapshot ::
    "(bytes \<Rightarrow> bytes) \<Rightarrow> (bytes \<Rightarrow> string + snapshot_manifest) \<Rightarrow> bytes \<Rightarrow> (snapshot_manifest \<times> bytes) io \<times> bytes" where
  "inspect_snapshot sha dec input =
     (case read_manifest dec input of
        Inl e \<Rightarrow> (Inl e, [])
      | Inr (manifest, hashed, input1) \<Rightarrow>
          (case inspect_frames sha (snm_payload_bytes manifest) 0 hashed [] input1 of
             (Inl e, output) \<Rightarrow> (Inl e, output)
           | (Inr (transferred, hashed1, input2), output) \<Rightarrow>
               if transferred \<noteq> snm_payload_bytes manifest
               then (Inl (InvalidData ''snapshot payload is incomplete''), output)
               else (io_bind (read_exact 32 input2) (\<lambda>(footer, trailing).
                  if sha hashed1 \<noteq> footer then Inl (InvalidData ''snapshot footer checksum mismatch'')
                  else if trailing \<noteq> [] then Inl (InvalidData ''snapshot has trailing bytes'')
                  else Inr (manifest, footer)), output)))"

definition verify_snapshot ::
    "(bytes \<Rightarrow> bytes) \<Rightarrow> (bytes \<Rightarrow> string + snapshot_manifest) \<Rightarrow> bytes \<Rightarrow> (snapshot_manifest \<times> bytes) io" where
  "verify_snapshot sha dec input = fst (inspect_snapshot sha dec input)"

definition copy_payload ::
    "(bytes \<Rightarrow> bytes) \<Rightarrow> (bytes \<Rightarrow> string + snapshot_manifest) \<Rightarrow> bytes \<Rightarrow> unit io \<times> bytes" where
  "copy_payload sha dec input =
     (case inspect_snapshot sha dec input of (result, output) \<Rightarrow> (io_bind result (\<lambda>_. Inr ()), output))"

section \<open>Round trip\<close>

lemma length_le_bytes [simp]: "length (le_bytes k n) = k"
  by (induction k arbitrary: n) auto

lemma u32_from_le_bytes_le_bytes: "u32_from_le_bytes (le_bytes k n) = n mod 256 ^ k"
proof (induction k arbitrary: n)
  case (Suc k)
  have "n mod 256 + 256 * (n div 256 mod 256 ^ k) = n mod (256 * 256 ^ k)"
    by (simp add: mod_mult2_eq)
  with Suc show ?case by (simp add: of_char_of)
qed simp

lemma u32_roundtrip: "n \<le> FRAME_BYTES \<Longrightarrow> u32_from_le_bytes (le_bytes 4 n) = n"
  by (simp add: u32_from_le_bytes_le_bytes FRAME_BYTES_def)

lemma read_exact_append [simp]: "length a = n \<Longrightarrow> read_exact n (a @ b) = Inr (a, b)"
  by (simp add: read_exact_def)

declare inspect_frames.simps [simp del]

definition frames :: "(bytes \<Rightarrow> bytes) \<Rightarrow> bytes list \<Rightarrow> bytes" where
  "frames sha chunks = concat (map (\<lambda>chunk. le_bytes 4 (length chunk) @ chunk @ sha chunk) chunks)"

definition payload_chunks :: "bytes list \<Rightarrow> bytes list" where
  "payload_chunks source = takeWhile (\<lambda>chunk. chunk \<noteq> []) source"

lemma write_frames_ok:
  "declared \<le> u64_max \<Longrightarrow> transferred + length (concat (payload_chunks source)) \<le> declared
   \<Longrightarrow> write_frames sha declared source transferred written
       = Inr (transferred + length (concat (payload_chunks source)), written @ frames sha (payload_chunks source))"
proof (induction source arbitrary: transferred written)
  case (Cons chunk source)
  then show ?case by (cases "chunk = []") (auto simp: payload_chunks_def frames_def add.assoc)
qed (simp add: payload_chunks_def frames_def)

lemma inspect_frames_end:
  "inspect_frames sha declared transferred hashed out (le_bytes 4 0 @ rest)
     = (Inr (transferred, hashed @ le_bytes 4 0, rest), out)"
  by (subst inspect_frames.simps) (simp add: u32_roundtrip)

lemma inspect_frames_step:
  assumes "chunk \<noteq> []" "length chunk \<le> FRAME_BYTES" "length (sha chunk) = 32"
    and "declared \<le> u64_max" "transferred + length chunk \<le> declared"
  shows "inspect_frames sha declared transferred hashed out ((le_bytes 4 (length chunk) @ chunk @ sha chunk) @ rest)
     = inspect_frames sha declared (transferred + length chunk) (hashed @ le_bytes 4 (length chunk) @ chunk @ sha chunk)
         (out @ chunk) rest"
  using assms by (subst inspect_frames.simps) (simp add: u32_roundtrip Let_def)

lemma inspect_frames_ok:
  assumes "\<forall>x. length (sha x) = 32" and "declared \<le> u64_max"
  shows "list_all (\<lambda>chunk. chunk \<noteq> [] \<and> length chunk \<le> FRAME_BYTES) chunks
    \<Longrightarrow> transferred + length (concat chunks) \<le> declared
    \<Longrightarrow> inspect_frames sha declared transferred hashed out (frames sha chunks @ le_bytes 4 0 @ rest)
       = (Inr (transferred + length (concat chunks), hashed @ frames sha chunks @ le_bytes 4 0, rest), out @ concat chunks)"
proof (induction chunks arbitrary: transferred hashed out)
  case Nil
  show ?case by (simp add: frames_def inspect_frames_end)
next
  case (Cons chunk chunks)
  let ?frame = "le_bytes 4 (length chunk) @ chunk @ sha chunk"
  from Cons.prems have chunk: "chunk \<noteq> []" "length chunk \<le> FRAME_BYTES" "transferred + length chunk \<le> declared"
    and rest: "list_all (\<lambda>chunk. chunk \<noteq> [] \<and> length chunk \<le> FRAME_BYTES) chunks"
      "transferred + length chunk + length (concat chunks) \<le> declared"
    by auto
  from assms have "length (sha chunk) = 32" by blast
  from inspect_frames_step [of chunk sha declared transferred hashed out "frames sha chunks @ le_bytes 4 0 @ rest",
      OF chunk(1,2) this assms(2) chunk(3)]
    Cons.IH [OF rest, of "hashed @ ?frame" "out @ chunk"]
  show ?case by (simp add: frames_def)
qed

lemma read_manifest_ok:
  assumes "dec (enc manifest) = Inr manifest" and "enc manifest \<noteq> []" "length (enc manifest) \<le> FRAME_BYTES"
    and "snm_framing_version manifest = 1" "snm_payload_bytes manifest \<le> MAX_SNAPSHOT_BYTES"
  shows "read_manifest dec (MAGIC @ le_bytes 4 (length (enc manifest)) @ enc manifest @ rest)
     = Inr (manifest, MAGIC @ le_bytes 4 (length (enc manifest)) @ enc manifest, rest)"
  using assms by (simp add: read_manifest_def u32_roundtrip)

definition framed :: "(bytes \<Rightarrow> bytes) \<Rightarrow> bytes \<Rightarrow> bytes list \<Rightarrow> bytes" where
  "framed sha metadata chunks = MAGIC @ le_bytes 4 (length metadata) @ metadata @ frames sha chunks @ le_bytes 4 0"

lemma inspect_framed:
  assumes "\<forall>x. length (sha x) = 32" and "dec (enc manifest) = Inr manifest"
    and "enc manifest \<noteq> []" "length (enc manifest) \<le> FRAME_BYTES"
    and "snm_framing_version manifest = 1" "snm_payload_bytes manifest \<le> MAX_SNAPSHOT_BYTES"
    and chunks: "list_all (\<lambda>chunk. chunk \<noteq> [] \<and> length chunk \<le> FRAME_BYTES) chunks"
    and "length (concat chunks) = snm_payload_bytes manifest"
  shows "inspect_snapshot sha dec (framed sha (enc manifest) chunks @ sha (framed sha (enc manifest) chunks))
     = (Inr (manifest, sha (framed sha (enc manifest) chunks)), concat chunks)"
proof -
  let ?head = "MAGIC @ le_bytes 4 (length (enc manifest)) @ enc manifest"
  let ?body = "?head @ frames sha chunks @ le_bytes 4 0"
  have fits: "snm_payload_bytes manifest \<le> u64_max"
    using assms(6) by (simp add: MAX_SNAPSHOT_BYTES_def u64_max_def)
  show ?thesis
    using assms fits inspect_frames_ok [OF assms(1) fits chunks, of 0 ?head "[]" "sha ?body"]
      read_exact_append [of "sha ?body" 32 "[]"]
    by (simp add: inspect_snapshot_def read_manifest_ok framed_def)
qed

text \<open>Property C27: a snapshot that is written is read back. For a source whose reads return at most a frame
  each and a payload of the declared length, writing succeeds, and reading the file gives the manifest,
  the digest that writing returned and, on the output, the payload.\<close>

theorem snapshot_roundtrip:
  assumes "\<forall>x. length (sha x) = 32" and "dec (enc manifest) = Inr manifest"
    and "enc manifest \<noteq> []" "length (enc manifest) \<le> FRAME_BYTES"
    and "snm_framing_version manifest = 1" "snm_payload_bytes manifest \<le> MAX_SNAPSHOT_BYTES"
    and "list_all (\<lambda>chunk. length chunk \<le> FRAME_BYTES) source"
    and "length (concat (payload_chunks source)) = snm_payload_bytes manifest"
  shows "\<exists>file footer. write_snapshot sha enc source manifest = Inr (file, footer)
     \<and> inspect_snapshot sha dec file = (Inr (manifest, footer), concat (payload_chunks source))
     \<and> verify_snapshot sha dec file = Inr (manifest, footer)
     \<and> copy_payload sha dec file = (Inr (), concat (payload_chunks source))"
proof -
  let ?body = "framed sha (enc manifest) (payload_chunks source)"
  have fits: "snm_payload_bytes manifest \<le> u64_max"
    using assms(6) by (simp add: MAX_SNAPSHOT_BYTES_def u64_max_def)
  have "list_all (\<lambda>chunk. chunk \<noteq> [] \<and> length chunk \<le> FRAME_BYTES) (payload_chunks source)"
    using assms(7) by (auto simp: payload_chunks_def list_all_iff dest: set_takeWhileD)
  note read = inspect_framed [of sha dec enc, OF assms(1-6) this assms(8)]
  have "write_snapshot sha enc source manifest = Inr (?body @ sha ?body, sha ?body)"
    using assms fits by (simp add: write_snapshot_def write_frames_ok framed_def Let_def)
  with read show ?thesis by (simp add: verify_snapshot_def copy_payload_def)
qed

definition sample_snapshot :: snapshot_manifest where
  "sample_snapshot =
     \<lparr>snm_framing_version = 1, snm_generation = 2, snm_applied_json = ''null'', snm_membership_json = ''{}'',
      snm_payload_bytes = 5, snm_record_formats = [], snm_record_count = 1, snm_artifact_origin_ids = []\<rparr>"

definition sample_sha :: "bytes \<Rightarrow> bytes" where
  "sample_sha bs = take 32 (rev bs @ replicate 32 (CHR ''h''))"

definition sample_dec :: "bytes \<Rightarrow> string + snapshot_manifest" where
  "sample_dec bs = (if bs = ''m'' then Inr sample_snapshot else Inl ''unknown manifest'')"

lemma length_sample_sha: "\<forall>x. length (sample_sha x) = 32"
  by (simp add: sample_sha_def min_def)

theorem snapshot_roundtrip_witness:
  "\<exists>file. copy_payload sample_sha sample_dec file = (Inr (), ''abcde'')"
proof -
  from snapshot_roundtrip [OF length_sample_sha, of sample_dec "\<lambda>_. ''m''" sample_snapshot "[''abc'', ''de'', [], ''x'']"]
  show ?thesis
    by (auto simp: payload_chunks_def FRAME_BYTES_def MAX_SNAPSHOT_BYTES_def sample_dec_def sample_snapshot_def)
qed

section \<open>What an accepted file is\<close>

lemma le_bytes_u32_from_le_bytes: "length bs = k \<Longrightarrow> le_bytes k (u32_from_le_bytes bs) = bs"
  by (induction bs arbitrary: k) (auto simp: char_of_eq_iff)

lemma read_exact_Inr: "read_exact n input = Inr (a, rest) \<Longrightarrow> input = a @ rest \<and> length a = n"
  by (auto simp: read_exact_def split: if_splits)

lemma inspect_frames_sound:
  "inspect_frames sha declared transferred hashed out input = (Inr (transferred', hashed', rest), out')
   \<Longrightarrow> \<exists>chunks. input = frames sha chunks @ le_bytes 4 0 @ rest \<and> hashed' = hashed @ frames sha chunks @ le_bytes 4 0
      \<and> out' = out @ concat chunks \<and> transferred' = transferred + length (concat chunks)
      \<and> (\<forall>chunk\<in>set chunks. chunk \<noteq> [] \<and> length chunk \<le> FRAME_BYTES)"
proof (induction sha declared transferred hashed out input rule: inspect_frames.induct)
  case (1 sha declared transferred hashed out input)
  from "1.prems" obtain len input1 where len: "read_exact 4 input = Inr (len, input1)"
    by (subst (asm) inspect_frames.simps) (auto split: sum.splits)
  then have input: "input = len @ input1" "le_bytes 4 (u32_from_le_bytes len) = len"
    by (auto dest!: read_exact_Inr simp: le_bytes_u32_from_le_bytes)
  show ?case
  proof (cases "u32_from_le_bytes len = 0")
    case True
    with "1.prems" len input show ?thesis
      by (subst (asm) inspect_frames.simps) (auto simp: frames_def intro: exI [of _ "[]"])
  next
    case False
    with "1.prems" len obtain data input2 checksum input3 where
      data: "read_exact (u32_from_le_bytes len) input1 = Inr (data, input2)"
      "read_exact 32 input2 = Inr (checksum, input3)" "u32_from_le_bytes len \<le> FRAME_BYTES" "sha data = checksum"
      and more: "inspect_frames sha declared (transferred + u32_from_le_bytes len) (hashed @ len @ data @ checksum)
          (out @ data) input3 = (Inr (transferred', hashed', rest), out')"
      and bounds: "\<not> u64_max < transferred + u32_from_le_bytes len" "\<not> declared < transferred + u32_from_le_bytes len"
      by (subst (asm) inspect_frames.simps) (auto simp: Let_def split: sum.splits if_splits prod.splits)
    from data have split: "input1 = data @ sha data @ input3" "length data = u32_from_le_bytes len"
      by (auto dest!: read_exact_Inr)
    have "\<exists>chunks. input3 = frames sha chunks @ le_bytes 4 0 @ rest
        \<and> hashed' = (hashed @ len @ data @ checksum) @ frames sha chunks @ le_bytes 4 0
        \<and> out' = (out @ data) @ concat chunks
        \<and> transferred' = transferred + u32_from_le_bytes len + length (concat chunks)
        \<and> (\<forall>chunk\<in>set chunks. chunk \<noteq> [] \<and> length chunk \<le> FRAME_BYTES)"
      using "1.IH" [OF len refl refl False _ data(1) refl data(2) refl] data(3,4) bounds more by simp
    then obtain chunks where chunks: "input3 = frames sha chunks @ le_bytes 4 0 @ rest"
        "hashed' = (hashed @ len @ data @ checksum) @ frames sha chunks @ le_bytes 4 0"
        "out' = (out @ data) @ concat chunks" "transferred' = transferred + u32_from_le_bytes len + length (concat chunks)"
        "\<forall>chunk\<in>set chunks. chunk \<noteq> [] \<and> length chunk \<le> FRAME_BYTES"
      by blast
    with split input data False show ?thesis
      by (intro exI [of _ "data # chunks"]) (auto simp: frames_def)
  qed
qed

text \<open>Property C28: an accepted snapshot file is intact. When verification succeeds, the file is the framed form
  of a manifest and of the payload that goes to the output: every frame carries its digest, the
  payload has the length the manifest declares, nothing follows, and the digest that is returned is
  the last thing in the file and the hash of all that precedes it.\<close>

theorem snapshot_accepted:
  assumes "inspect_snapshot sha dec file = (Inr (manifest, footer), out)"
  shows "\<exists>metadata chunks. file = MAGIC @ le_bytes 4 (length metadata) @ metadata @ frames sha chunks @ le_bytes 4 0 @ footer
     \<and> dec metadata = Inr manifest \<and> out = concat chunks \<and> length out = snm_payload_bytes manifest
     \<and> snm_framing_version manifest = 1 \<and> snm_payload_bytes manifest \<le> MAX_SNAPSHOT_BYTES
     \<and> footer = sha (MAGIC @ le_bytes 4 (length metadata) @ metadata @ frames sha chunks @ le_bytes 4 0)"
proof -
  from assms obtain hashed input1 transferred hashed1 input2 where
    head: "read_manifest dec file = Inr (manifest, hashed, input1)"
    and body: "inspect_frames sha (snm_payload_bytes manifest) 0 hashed [] input1
        = (Inr (transferred, hashed1, input2), out)"
    and foot: "transferred = snm_payload_bytes manifest" "read_exact 32 input2 = Inr (footer, [])" "sha hashed1 = footer"
    by (auto simp: inspect_snapshot_def io_bind_eq_Inr split: sum.splits prod.splits if_splits)
  from head obtain size input2' metadata where
    meta: "file = MAGIC @ size @ metadata @ input1" "length size = 4" "length metadata = u32_from_le_bytes size"
      "dec metadata = Inr manifest" "hashed = MAGIC @ size @ metadata"
      "snm_framing_version manifest = 1" "snm_payload_bytes manifest \<le> MAX_SNAPSHOT_BYTES"
    by (auto simp: read_manifest_def io_bind_eq_Inr case_sum_eq_Inr Let_def dest!: read_exact_Inr split: if_splits)
  then have "size = le_bytes 4 (length metadata)" by (simp add: le_bytes_u32_from_le_bytes)
  moreover from inspect_frames_sound [OF body] obtain chunks where
    "input1 = frames sha chunks @ le_bytes 4 0 @ input2" "hashed1 = hashed @ frames sha chunks @ le_bytes 4 0"
    "out = concat chunks" "transferred = length (concat chunks)"
    by auto
  moreover from foot have "input2 = footer" by (auto dest: read_exact_Inr)
  ultimately show ?thesis using meta foot by (intro exI [of _ metadata] exI [of _ chunks]) simp
qed

theorem snapshot_accepted_witness:
  "\<exists>file footer chunks. inspect_snapshot sample_sha sample_dec file = (Inr (sample_snapshot, footer), ''abcde'')
     \<and> concat chunks = ''abcde'' \<and> footer = sample_sha (framed sample_sha ''m'' chunks)"
proof -
  let ?body = "framed sample_sha ''m'' [''abc'', ''de'']"
  have read: "inspect_snapshot sample_sha sample_dec (?body @ sample_sha ?body) = (Inr (sample_snapshot, sample_sha ?body), ''abcde'')"
    using inspect_framed [of sample_sha sample_dec "\<lambda>_. ''m''" sample_snapshot "[''abc'', ''de'']"] length_sample_sha
    by (simp add: FRAME_BYTES_def MAX_SNAPSHOT_BYTES_def sample_dec_def sample_snapshot_def)
  from snapshot_accepted [OF read] obtain metadata chunks where
    accepted: "sample_dec metadata = Inr sample_snapshot" "''abcde'' = concat chunks"
      "sample_sha ?body = sample_sha (framed sample_sha metadata chunks)"
    unfolding framed_def by blast
  from accepted(1) have "metadata = ''m''" by (simp add: sample_dec_def split: if_splits)
  with read accepted show ?thesis by metis
qed

end
