(* ===== verification/Clock.thy ===== *)
theory Clock
  imports Formats
begin

text \<open>
  The clock authority of a member (clock.rs): a monitor that compares the wall clock, the boot clock and
  the committed watermark and latches a fault, the acknowledgement that clears it, and the check that
  a voting quorum has healthy clocks. What a host or a peer answers (the clocks, the watermark, whether
  a flag could be stored, the memberships and the probes) are arguments; the waiting and the channel
  that tells subscribers are reduced to the value they end with. The lemmas show that a latched fault
  fences the member until a justified acknowledgement and that two quorums share a voter.
\<close>

section \<open>Monitor\<close>

definition QUORUM_REFRESH_MS :: nat where "QUORUM_REFRESH_MS = 5000"
definition QUORUM_EXPIRY_MS :: nat where "QUORUM_EXPIRY_MS = 10000"

record monitor =
  mo_previous :: "(nat \<times> nat) option"
  mo_faulted :: bool
  mo_fault_recorded :: bool
  mo_healthy_since :: "nat option"
  mo_fault_reason :: "string option"

fun delta_reason :: "clock_delta_fault_kind \<Rightarrow> string" where
  "delta_reason BootReversed = ''boot clock reversed''"
| "delta_reason (WatchdogGap elapsed) = ''watchdog gap '' @ show_nat elapsed @ '' ms exceeds 2000 ms''"
| "delta_reason (WallBootSkew discrepancy elapsed) =
     ''wall/boot delta differs by '' @ show_nat discrepancy @ '' ms over '' @ show_nat elapsed @ '' ms''"

definition observed_fault :: "monitor \<Rightarrow> nat \<Rightarrow> nat \<Rightarrow> nat \<Rightarrow> string option" where
  "observed_fault mo wall boot watermark =
     (let behind = (if sat_add64 wall 2000 < watermark
                    then Some (''persisted watermark '' @ show_nat watermark @ '' ms is ahead of wall '' @ show_nat wall
                               @ '' ms by more than 2 s'')
                    else None) in
      case mo_previous mo of
        None \<Rightarrow> behind
      | Some (previous_wall, previous_boot) \<Rightarrow>
          (case clock_delta_fault previous_wall previous_boot wall boot of
             None \<Rightarrow> behind
           | Some delta \<Rightarrow> Some (delta_reason delta)))"

definition observe :: "monitor \<Rightarrow> nat \<Rightarrow> nat \<Rightarrow> nat \<Rightarrow> monitor \<times> bool" where
  "observe mo wall boot watermark =
     (let fault = observed_fault mo wall boot watermark;
          mo1 = mo\<lparr>mo_previous := Some (wall, boot)\<rparr> in
      case fault of
        Some reason \<Rightarrow>
          (mo1\<lparr>mo_faulted := True, mo_healthy_since := None, mo_fault_reason := Some reason\<rparr>, True)
      | None \<Rightarrow>
          (if mo_healthy_since mo1 = None then mo1\<lparr>mo_healthy_since := Some boot\<rparr> else mo1, False))"

section \<open>Texts of errors\<close>

fun kind_name :: "error_kind \<Rightarrow> string" where
  "kind_name InvalidArgument = ''InvalidArgument''"
| "kind_name AlreadyExists = ''AlreadyExists''"
| "kind_name FailedPrecondition = ''FailedPrecondition''"
| "kind_name Unauthenticated = ''Unauthenticated''"
| "kind_name PermissionDenied = ''PermissionDenied''"
| "kind_name NotFound = ''NotFound''"
| "kind_name Unavailable = ''Unavailable''"
| "kind_name ResourceExhausted = ''ResourceExhausted''"
| "kind_name DeadlineExceeded = ''DeadlineExceeded''"

definition error_display :: "error \<Rightarrow> string" where
  "error_display e =
     (case (err_path e, err_line e, err_column e) of
        (Some path, Some line, Some column) \<Rightarrow>
          kind_name (err_kind e) @ '' at '' @ path @ '':'' @ show_nat line @ '':'' @ show_nat column @ '': '' @ err_message e
      | (Some path, _, _) \<Rightarrow> kind_name (err_kind e) @ '' at '' @ path @ '': '' @ err_message e
      | (None, Some line, Some column) \<Rightarrow>
          kind_name (err_kind e) @ '' at '' @ show_nat line @ '':'' @ show_nat column @ '': '' @ err_message e
      | _ \<Rightarrow> kind_name (err_kind e) @ '': '' @ err_message e)"

section \<open>Authority\<close>

datatype clock_fault_state = ClockHealthy | ClockLatched string

record voter_quorum =
  vq_membership_log_id :: "position option"
  vq_sampled_voters :: "nat set"
  vq_checked_boot_ms :: nat
  vq_voter_configs :: "nat list list"

text \<open>\<open>ck_persisted\<close> is the fault flag in the store.\<close>

record clock_authority =
  ck_monitor :: monitor
  ck_last_quorum :: "voter_quorum option"
  ck_fault_signal :: clock_fault_state
  ck_persisted :: bool

definition clock_new :: "bool \<Rightarrow> clock_authority" where
  "clock_new faulted =
     (let reason = ''clock fault persisted from previous process'' in
      \<lparr>ck_monitor = \<lparr>mo_previous = None, mo_faulted = faulted, mo_fault_recorded = faulted, mo_healthy_since = None,
         mo_fault_reason = (if faulted then Some reason else None)\<rparr>,
       ck_last_quorum = None, ck_fault_signal = (if faulted then ClockLatched reason else ClockHealthy),
       ck_persisted = faulted\<rparr>)"

text \<open>What one sampling reads: the host clocks, the cached watermark and whether storing a fault works.\<close>

record readings =
  rd_wall :: "nat res"
  rd_boot :: "nat res"
  rd_watermark :: nat
  rd_persist :: "unit res"

definition record_fault :: "clock_authority \<Rightarrow> unit res \<Rightarrow> clock_authority \<times> unit res" where
  "record_fault ck persist =
     (if mo_faulted (ck_monitor ck) \<and> \<not> mo_fault_recorded (ck_monitor ck)
      then (case persist of
              Ok _ \<Rightarrow> (ck\<lparr>ck_monitor := (ck_monitor ck)\<lparr>mo_fault_recorded := True\<rparr>, ck_persisted := True\<rparr>, Ok ())
            | _ \<Rightarrow> (ck, persist))
      else (ck, Ok ()))"

definition sample_failed :: "clock_authority \<Rightarrow> error \<Rightarrow> unit res \<Rightarrow> clock_authority \<times> (nat \<times> nat) res" where
  "sample_failed ck error persist =
     (let mo = ck_monitor ck;
          ck1 = ck\<lparr>ck_monitor := mo\<lparr>mo_faulted := True, mo_healthy_since := None,
                                  mo_fault_reason := Some (error_display error)\<rparr>,
                   ck_fault_signal := (if mo_faulted mo then ck_fault_signal ck else ClockLatched (error_display error))\<rparr> in
      case record_fault ck1 persist of (ck2, stored) \<Rightarrow> (ck2, rbind stored (\<lambda>_. Err error)))"

definition clock_sample :: "clock_authority \<Rightarrow> readings \<Rightarrow> clock_authority \<times> (nat \<times> nat) res" where
  "clock_sample ck rd =
     (case (rd_wall rd, rd_boot rd) of
        (Ok wall, Ok boot) \<Rightarrow>
          (let was_faulted = mo_faulted (ck_monitor ck);
               mo = fst (observe (ck_monitor ck) wall boot (rd_watermark rd));
               reason = (case mo_fault_reason mo of Some r \<Rightarrow> r | None \<Rightarrow> ''unknown'');
               ck1 = ck\<lparr>ck_monitor := mo,
                        ck_fault_signal := (if mo_faulted mo \<and> \<not> was_faulted then ClockLatched reason
                                            else ck_fault_signal ck)\<rparr> in
           case record_fault ck1 (rd_persist rd) of (ck2, stored) \<Rightarrow>
             (ck2, rbind stored (\<lambda>_.
                if mo_faulted (ck_monitor ck2)
                then Err (precondition (''clock unsafe ('' @ reason
                       @ ''); explicit acknowledgement after ten healthy seconds required''))
                else Ok (wall, boot))))
      | (Err error, _) \<Rightarrow> sample_failed ck error (rd_persist rd)
      | (_, Err error) \<Rightarrow> sample_failed ck error (rd_persist rd)
      | _ \<Rightarrow> (ck, Panic))"

definition clock_acknowledge ::
    "clock_authority \<Rightarrow> string \<Rightarrow> nat res \<Rightarrow> nat res \<Rightarrow> nat res \<Rightarrow> unit res \<Rightarrow> clock_authority \<times> unit res" where
  "clock_acknowledge ck reason wall_now boot_now watermark_now persist =
     (if blank reason then (ck, Err (invalid ''clock acknowledgement requires a reason''))
      else if \<not> mo_faulted (ck_monitor ck) then (ck, Err (precondition ''no clock fault to acknowledge''))
      else if \<not> mo_fault_recorded (ck_monitor ck)
      then (ck, Err (unavailable ''clock fault must be persisted before acknowledgement''))
      else case rbind wall_now (\<lambda>wall. rbind boot_now (\<lambda>boot. rmap (\<lambda>watermark. (wall, boot, watermark)) watermark_now)) of
        Err e \<Rightarrow> (ck, Err e)
      | Panic \<Rightarrow> (ck, Panic)
      | Ok (wall, boot, watermark) \<Rightarrow>
          (let (mo, fault) = observe (ck_monitor ck) wall boot watermark;
               ck1 = ck\<lparr>ck_monitor := mo\<rparr> in
           if fault \<or> boot - (case mo_healthy_since mo of Some since \<Rightarrow> since | None \<Rightarrow> boot) < 10000
              \<or> wall - 1000 < watermark
           then (ck1, Err (precondition ''clock must be healthy for ten seconds and catch up to the committed watermark''))
           else case persist of
             Ok _ \<Rightarrow>
               (ck1\<lparr>ck_monitor := mo\<lparr>mo_faulted := False, mo_fault_recorded := False, mo_fault_reason := None\<rparr>,
                    ck_last_quorum := None, ck_fault_signal := ClockHealthy, ck_persisted := False\<rparr>, Ok ())
           | _ \<Rightarrow> (ck1, persist)))"

section \<open>Quorums\<close>

definition joint_quorum :: "nat list list \<Rightarrow> nat set \<Rightarrow> bool" where
  "joint_quorum configs healthy \<longleftrightarrow>
     configs \<noteq> [] \<and> list_all (\<lambda>voters. voters \<noteq> [] \<and> card (set voters \<inter> healthy) > card (set voters) div 2) configs"

definition voter_ids :: "roster \<Rightarrow> nat list" where
  "voter_ids r = remdups (sort (concat (ro_configs r)))"

text \<open>Peers are asked in turn until the healthy ones are a quorum.\<close>

fun probe_voters ::
    "roster \<Rightarrow> (nat \<Rightarrow> unit res) \<Rightarrow> nat list \<Rightarrow> nat set \<Rightarrow> string list \<Rightarrow> nat set \<times> string list" where
  "probe_voters r probe [] healthy failures = (healthy, failures)"
| "probe_voters r probe (member # members) healthy failures =
     (if member \<notin> set (ro_nodes r)
      then probe_voters r probe members healthy
             (failures @ [''member '' @ show_nat member @ '': not in committed roster''])
      else case probe member of
        Ok _ \<Rightarrow> if joint_quorum (ro_configs r) (insert member healthy) then (insert member healthy, failures)
                else probe_voters r probe members (insert member healthy) failures
      | Err e \<Rightarrow> probe_voters r probe members healthy
                   (failures @ [''member '' @ show_nat member @ '': '' @ error_display e])
      | Panic \<Rightarrow> (healthy, failures))"

text \<open>What a quorum check sees: its two samplings, the membership of the consensus layer before and
  after, the applied membership once it is there, whether the network is set, and the probes.\<close>

record quorum_view =
  qv_first :: readings
  qv_second :: readings
  qv_self :: nat
  qv_membership :: roster
  qv_applied :: "roster res"
  qv_after :: roster
  qv_network :: bool
  qv_probe :: "nat \<Rightarrow> unit res"

definition cached_quorum :: "clock_authority \<Rightarrow> roster \<Rightarrow> nat \<Rightarrow> nat \<Rightarrow> voter_quorum option" where
  "cached_quorum ck r boot window =
     (case ck_last_quorum ck of
        Some q \<Rightarrow>
          if vq_membership_log_id q = ro_log_id r \<and> vq_voter_configs q = ro_configs r
             \<and> boot - vq_checked_boot_ms q < window
          then Some q else None
      | None \<Rightarrow> None)"

definition quorum_of :: "roster \<Rightarrow> nat set \<Rightarrow> nat \<Rightarrow> voter_quorum" where
  "quorum_of r sampled boot =
     \<lparr>vq_membership_log_id = ro_log_id r, vq_sampled_voters = sampled, vq_checked_boot_ms = boot,
      vq_voter_configs = ro_configs r\<rparr>"

definition probe_quorum :: "clock_authority \<Rightarrow> quorum_view \<Rightarrow> bool \<Rightarrow> clock_authority \<times> voter_quorum res" where
  "probe_quorum ck view allow_cached =
     (let r = qv_membership view;
          (healthy, failures) =
            probe_voters r (qv_probe view) (filter (\<lambda>m. m \<noteq> qv_self view) (voter_ids r)) {qv_self view} [] in
      case clock_sample ck (qv_second view) of
        (ck1, Ok (_, after_boot)) \<Rightarrow>
          if qv_after view \<noteq> r then (ck1, Err (unavailable ''voting membership changed during clock probes''))
          else if joint_quorum (ro_configs r) healthy
          then let q = quorum_of r healthy after_boot in (ck1\<lparr>ck_last_quorum := Some q\<rparr>, Ok q)
          else (case (if allow_cached then cached_quorum ck1 r after_boot QUORUM_EXPIRY_MS else None) of
                  Some q \<Rightarrow> (ck1, Ok q)
                | None \<Rightarrow> (ck1, Err (unavailable (''clock-health voting quorum unavailable (''
                                   @ join_with ''; '' failures @ '')''))))
      | (ck1, Err e) \<Rightarrow> (ck1, Err e)
      | (ck1, Panic) \<Rightarrow> (ck1, Panic))"

definition sample_quorum :: "clock_authority \<Rightarrow> quorum_view \<Rightarrow> bool \<Rightarrow> clock_authority \<times> voter_quorum res" where
  "sample_quorum ck view allow_cached =
     (let r = qv_membership view; voters = voter_ids r in
      case clock_sample ck (qv_first view) of
        (ck1, Ok (_, before_boot)) \<Rightarrow>
          if ro_configs r = [] \<or> voters = [] then (ck1, Err (unavailable ''committed voting membership unavailable''))
          else if length voters = 1
          then if \<not> joint_quorum (ro_configs r) {qv_self view}
               then (ck1, Err (unavailable ''local member is not the voting quorum''))
               else (ck1, Ok (quorum_of r {qv_self view} before_boot))
          else (case (if allow_cached then cached_quorum ck1 r before_boot QUORUM_REFRESH_MS else None) of
                  Some q \<Rightarrow> (ck1, Ok q)
                | None \<Rightarrow>
                    (case qv_applied view of
                       Err e \<Rightarrow> (ck1, Err e)
                     | Panic \<Rightarrow> (ck1, Panic)
                     | Ok applied \<Rightarrow>
                         if applied \<noteq> r
                         then (ck1, Err (unavailable ''applied voting membership differs from Raft membership''))
                         else if qv_self view \<notin> set voters
                         then (ck1, Err (unavailable ''local member is not a committed voter''))
                         else if \<not> qv_network view
                         then (ck1, Err (unavailable ''cluster clock network unavailable''))
                         else probe_quorum ck1 view allow_cached))
      | (ck1, Err e) \<Rightarrow> (ck1, Err e)
      | (ck1, Panic) \<Rightarrow> (ck1, Panic))"

section \<open>The latch\<close>

lemma observe_faulted: "mo_faulted (fst (observe mo wall boot watermark)) \<longleftrightarrow>
    mo_faulted mo \<or> observed_fault mo wall boot watermark \<noteq> None"
  by (auto simp: observe_def Let_def split: option.splits)

lemma record_fault_latch: "record_fault ck persist = (ck', stored)
    \<Longrightarrow> mo_faulted (ck_monitor ck') = mo_faulted (ck_monitor ck) \<and> ck_fault_signal ck' = ck_fault_signal ck
      \<and> mo_healthy_since (ck_monitor ck') = mo_healthy_since (ck_monitor ck)
      \<and> (stored = Ok () \<longrightarrow> mo_faulted (ck_monitor ck) \<longrightarrow> mo_fault_recorded (ck_monitor ck'))"
  by (auto simp: record_fault_def split: if_splits res.splits)

text \<open>What a member goes through without an acknowledgement that is accepted.\<close>

inductive clock_reach :: "clock_authority \<Rightarrow> clock_authority \<Rightarrow> bool" where
  start: "clock_reach ck ck"
| sampled: "clock_reach ck ck' \<Longrightarrow> clock_sample ck' rd = (ck'', result) \<Longrightarrow> clock_reach ck ck''"
| refused: "clock_reach ck ck' \<Longrightarrow> clock_acknowledge ck' reason wall boot watermark persist = (ck'', Err e)
    \<Longrightarrow> clock_reach ck ck''"

lemma sample_latched:
  assumes "clock_sample ck rd = (ck', result)" and "mo_faulted (ck_monitor ck)"
  shows "mo_faulted (ck_monitor ck') \<and> \<not> is_ok result"
proof -
  have failed: "mo_faulted (ck_monitor ck') \<and> \<not> is_ok result"
    if "sample_failed ck error persist = (ck', result)" for error persist
    using that by (auto simp: sample_failed_def Let_def is_ok_iff res_simps split: prod.splits dest!: record_fault_latch)
  from assms failed show ?thesis
    by (auto simp: clock_sample_def Let_def observe_faulted is_ok_iff res_simps
        split: res.splits prod.splits if_splits dest!: record_fault_latch)
qed

lemma acknowledge_refused_latched:
  assumes "clock_acknowledge ck reason wall boot watermark persist = (ck', Err e)" and "mo_faulted (ck_monitor ck)"
  shows "mo_faulted (ck_monitor ck')"
proof -
  have "mo_faulted mo" if "observe (ck_monitor ck) w b wm = (mo, fault)" for w b wm mo fault
    using observe_faulted [of "ck_monitor ck" w b wm] assms(2) that by simp
  with assms show ?thesis
    by (auto simp: clock_acknowledge_def Let_def split: res.splits prod.splits if_splits)
qed

text \<open>Property C29: a clock fault stays latched. Once the monitor is faulted, no sequence of samplings and
  refused acknowledgements clears it, and every sampling on the way is refused, however healthy the
  clocks have become.\<close>

theorem clock_fault_latched:
  assumes "clock_reach ck ck'" and "mo_faulted (ck_monitor ck)"
  shows "mo_faulted (ck_monitor ck') \<and> \<not> is_ok (snd (clock_sample ck' rd))"
proof -
  from assms have "mo_faulted (ck_monitor ck')"
    by (induction rule: clock_reach.induct) (auto dest: sample_latched acknowledge_refused_latched)
  with sample_latched [of ck' rd] show ?thesis by (cases "clock_sample ck' rd") auto
qed

definition sample_readings :: "nat \<Rightarrow> readings" where
  "sample_readings t = \<lparr>rd_wall = Ok t, rd_boot = Ok t, rd_watermark = 100, rd_persist = Ok ()\<rparr>"

theorem clock_fault_latched_witness:
  "\<not> is_ok (snd (clock_sample (fst (clock_sample (clock_new True) (sample_readings 1000))) (sample_readings 2000)))"
proof -
  have "clock_reach (clock_new True) (fst (clock_sample (clock_new True) (sample_readings 1000)))"
    by (rule clock_reach.sampled [OF clock_reach.start]) (rule prod.collapse [symmetric])
  from clock_fault_latched [OF this, of "sample_readings 2000"] show ?thesis
    by (simp add: clock_new_def Let_def)
qed

section \<open>Quorums that count\<close>

lemma majorities_meet:
  assumes "finite V" and "card (V \<inter> A) > card V div 2" and "card (V \<inter> B) > card V div 2"
  shows "V \<inter> A \<inter> B \<noteq> {}"
proof
  assume "V \<inter> A \<inter> B = {}"
  then have "(V \<inter> A) \<inter> (V \<inter> B) = {}" by blast
  then have "card (V \<inter> A) + card (V \<inter> B) = card ((V \<inter> A) \<union> (V \<inter> B))"
    using assms(1) by (simp add: card_Un_disjoint)
  also have "\<dots> \<le> card V" by (rule card_mono) (use assms(1) in auto)
  finally show False using assms(2,3) by linarith
qed



lemma sample_Ok_healthy: "clock_sample ck rd = (ck', Ok boots) \<Longrightarrow> \<not> mo_faulted (ck_monitor ck')"
  by (auto simp: clock_sample_def sample_failed_def Let_def res_simps split: res.splits prod.splits if_splits)

lemma probe_voters_answered:
  "probe_voters r probe members healthy failures = (healthy', failures')
   \<Longrightarrow> \<forall>m\<in>healthy'. m \<in> healthy \<or> m \<in> set members \<and> probe m = Ok ()"
  by (induction members arbitrary: healthy failures) (fastforce split: if_splits res.splits)+

lemma sample_quorum_sampled:
  assumes "sample_quorum ck view cached = (ck', Ok q)"
  obtains ck1 wall boot where "clock_sample ck (qv_first view) = (ck1, Ok (wall, boot))"
proof (cases "clock_sample ck (qv_first view)")
  case (Pair ck1 result)
  with assms that show ?thesis by (cases result) (auto simp: sample_quorum_def Let_def)
qed

lemma probe_quorum_sound:
  assumes "probe_quorum ck view False = (ck', Ok q)"
  shows "joint_quorum (ro_configs (qv_membership view)) (vq_sampled_voters q)
     \<and> (\<forall>member\<in>vq_sampled_voters q. member = qv_self view \<or> qv_probe view member = Ok ())
     \<and> \<not> mo_faulted (ck_monitor ck')"
proof -
  obtain healthy failures where
    asked: "probe_voters (qv_membership view) (qv_probe view)
      (filter (\<lambda>m. m \<noteq> qv_self view) (voter_ids (qv_membership view))) {qv_self view} [] = (healthy, failures)"
    by (rule prod.exhaust)
  obtain ck2 result where second: "clock_sample ck (qv_second view) = (ck2, result)" by (rule prod.exhaust)
  with assms asked obtain wall boot where result: "result = Ok (wall, boot)"
    by (cases result) (auto simp: probe_quorum_def Let_def)
  with assms asked second have "joint_quorum (ro_configs (qv_membership view)) healthy"
      "ck' = ck2\<lparr>ck_last_quorum := Some q\<rparr>" "q = quorum_of (qv_membership view) healthy boot"
    by (auto simp: probe_quorum_def Let_def split: if_splits)
  with sample_Ok_healthy [OF second [unfolded result]] probe_voters_answered [OF asked] show ?thesis
    by (auto simp: quorum_of_def)
qed

text \<open>Property C31: an uncached quorum check means what it says. When it succeeds, the members it sampled
  are a majority of every voter set of the current membership, each of them is this member or
  answered its probe, and this member's clock is healthy at the end.\<close>

theorem fresh_quorum_sound:
  assumes "sample_quorum ck view False = (ck', Ok q)"
  shows "joint_quorum (ro_configs (qv_membership view)) (vq_sampled_voters q)
     \<and> (\<forall>member\<in>vq_sampled_voters q. member = qv_self view \<or> qv_probe view member = Ok ())
     \<and> \<not> mo_faulted (ck_monitor ck')"
proof -
  obtain ck1 wall boot where first: "clock_sample ck (qv_first view) = (ck1, Ok (wall, boot))"
    using assms by (rule sample_quorum_sampled)
  show ?thesis
  proof (cases "length (voter_ids (qv_membership view)) = 1")
    case True
    with assms first have "ck' = ck1" "q = quorum_of (qv_membership view) {qv_self view} boot"
      "joint_quorum (ro_configs (qv_membership view)) {qv_self view}"
      by (simp_all add: sample_quorum_def Let_def split: if_splits)
    with sample_Ok_healthy [OF first] show ?thesis by (simp add: quorum_of_def)
  next
    case False
    with assms first have "probe_quorum ck1 view False = (ck', Ok q)"
      by (cases "qv_applied view") (simp_all add: sample_quorum_def Let_def split: if_splits)
    then show ?thesis by (rule probe_quorum_sound)
  qed
qed

definition sample_view :: quorum_view where
  "sample_view =
     \<lparr>qv_first = sample_readings 1000, qv_second = sample_readings 1100, qv_self = 1,
      qv_membership = \<lparr>ro_log_id = None, ro_nodes = [1, 2, 3], ro_configs = [[1, 2, 3]]\<rparr>,
      qv_applied = Ok \<lparr>ro_log_id = None, ro_nodes = [1, 2, 3], ro_configs = [[1, 2, 3]]\<rparr>,
      qv_after = \<lparr>ro_log_id = None, ro_nodes = [1, 2, 3], ro_configs = [[1, 2, 3]]\<rparr>, qv_network = True,
      qv_probe = (\<lambda>m. if m = 3 then Ok () else Err (unavailable ''down''))\<rparr>"

theorem fresh_quorum_sound_witness:
  "\<exists>ck' q. sample_quorum (clock_new False) sample_view False = (ck', Ok q) \<and> joint_quorum [[1, 2, 3]] (vq_sampled_voters q)"
proof -
  have "rmap vq_checked_boot_ms (snd (sample_quorum (clock_new False) sample_view False)) = Ok 1100" by code_simp
  then obtain ck' q where ok: "sample_quorum (clock_new False) sample_view False = (ck', Ok q)"
    by (cases "sample_quorum (clock_new False) sample_view False") (auto simp: res_simps)
  from fresh_quorum_sound [OF ok] ok show ?thesis by (auto simp: sample_view_def)
qed

end
