(* ===== verification/Yaml.thy ===== *)
theory Yaml
  imports Policies Bindings
begin

text \<open>
  Workflow documents (yaml.rs): the tree of a YAML text with its positions, how it is built from the
  events of the scanner, and how schema references, bindings, conditions and node keys are read from it.
  The scanner (the yaml-rust2 crate) is an argument that turns a text into tokens, and \<open>show_event\<close> is
  the debug text of an event. A mapping is a list sorted by key. The lemmas show that reading always
  ends and that every mapping it yields has each key once.
\<close>

section \<open>Documents\<close>

datatype spanned = Spanned (sp_line: nat) (sp_column: nat) (sp_doc: doc)
and doc =
    DNull
  | DBool bool
  | DInt int
  | DString string
  | DArray "spanned list"
  | DMap "(string \<times> spanned) list"

type_synonym fields = "(string \<times> spanned) list"

definition fail_at :: "spanned \<Rightarrow> string \<Rightarrow> 'a res" where
  "fail_at node message = Err (at_span (invalid message) (sp_line node) (sp_column node))"

definition as_map :: "spanned \<Rightarrow> fields res" where
  "as_map node = (case sp_doc node of DMap m \<Rightarrow> Ok m | _ \<Rightarrow> fail_at node ''expected a mapping'')"

definition doc_as_str :: "spanned \<Rightarrow> string res" where
  "doc_as_str node = (case sp_doc node of DString s \<Rightarrow> Ok s | _ \<Rightarrow> fail_at node ''expected a string'')"

definition doc_as_u32 :: "spanned \<Rightarrow> nat res" where
  "doc_as_u32 node =
     (case sp_doc node of
        DInt v \<Rightarrow> if 0 \<le> v \<and> v \<le> int u32_max then Ok (nat v) else fail_at node ''expected a non-negative integer''
      | _ \<Rightarrow> fail_at node ''expected a non-negative integer'')"

definition doc_as_i64 :: "spanned \<Rightarrow> int res" where
  "doc_as_i64 node = (case sp_doc node of DInt v \<Rightarrow> Ok v | _ \<Rightarrow> fail_at node ''expected an integer'')"

fun to_value :: "spanned \<Rightarrow> val"
and doc_value :: "doc \<Rightarrow> val" where
  "to_value (Spanned _ _ d) = doc_value d"
| "doc_value DNull = VNull"
| "doc_value (DBool b) = VBool b"
| "doc_value (DInt v) = VInt v"
| "doc_value (DString s) = VStr s"
| "doc_value (DArray items) = VArr (map to_value items)"
| "doc_value (DMap m) = VObj (map (\<lambda>(k, v). (k, to_value v)) m)"

section \<open>Events\<close>

text \<open>A scalar has its text, whether it is plain, its anchor and its tag; a tag is the text of its handle
  and suffix.\<close>

datatype yaml_event =
    EvScalar string bool nat "string option"
  | EvSequenceStart nat "string option"
  | EvSequenceEnd
  | EvMappingStart nat "string option"
  | EvMappingEnd
  | EvAlias
  | EvStreamStart
  | EvStreamEnd
  | EvDocumentStart
  | EvDocumentEnd
  | EvNothing

datatype token = Token yaml_event nat nat | ScanError string

text \<open>The next event with its line and its column; the columns of the scanner count from zero.\<close>

fun next_token :: "token list \<Rightarrow> ((yaml_event \<times> nat \<times> nat) \<times> token list) res" where
  "next_token [] = Ok ((EvStreamEnd, 0, 1), [])"
| "next_token (Token event line col # ts) = Ok ((event, line, col + 1), ts)"
| "next_token (ScanError message # ts) = Err (invalid message)"

definition reject_anchor_tag :: "nat \<Rightarrow> string option \<Rightarrow> nat \<Rightarrow> nat \<Rightarrow> unit res" where
  "reject_anchor_tag anchor tag line column =
     (if anchor \<noteq> 0 then Err (at_span (invalid ''YAML anchors are not allowed'') line column)
      else case tag of
        Some t \<Rightarrow> Err (at_span (invalid (''YAML tags are not allowed ('' @ t @ '')'')) line column)
      | None \<Rightarrow> Ok ())"

definition parse_i64 :: "string \<Rightarrow> int option" where
  "parse_i64 s =
     (case s of
        c # cs \<Rightarrow>
          if c = CHR ''-''
          then if cs \<noteq> [] \<and> list_all is_ascii_digit cs \<and> digits_val 0 cs \<le> 2 ^ 63
               then Some (- int (digits_val 0 cs)) else None
          else map_option int (parse_uint (2 ^ 63 - 1) s)
      | [] \<Rightarrow> None)"

definition parse_scalar :: "string \<Rightarrow> bool \<Rightarrow> doc" where
  "parse_scalar s plain =
     (if \<not> plain then DString s
      else if s \<in> {'''', ''null'', ''Null'', ''NULL'', ''~''} then DNull
      else if s \<in> {''true'', ''True'', ''TRUE''} then DBool True
      else if s \<in> {''false'', ''False'', ''FALSE''} then DBool False
      else case parse_i64 s of Some v \<Rightarrow> DInt v | None \<Rightarrow> DString s)"

text \<open>Reading a node. The fuel bounds the depth of the calls; \<open>parse_yaml\<close> gives more than can be used
  (\<open>parse_node_total\<close>), and running out of it is \<open>Panic\<close>.\<close>

fun parse_node :: "(yaml_event \<Rightarrow> string) \<Rightarrow> nat \<Rightarrow> token list \<Rightarrow> (spanned \<times> token list) res"
and parse_items :: "(yaml_event \<Rightarrow> string) \<Rightarrow> nat \<Rightarrow> token list \<Rightarrow> spanned list \<Rightarrow> (spanned list \<times> token list) res"
and parse_fields :: "(yaml_event \<Rightarrow> string) \<Rightarrow> nat \<Rightarrow> token list \<Rightarrow> fields \<Rightarrow> (fields \<times> token list) res" where
  "parse_node show_event 0 ts = Panic"
| "parse_node show_event (Suc fuel) ts =
     rbind (next_token ts) (\<lambda>((event, line, column), ts1).
       case event of
         EvScalar s plain anchor tag \<Rightarrow>
           rbind (reject_anchor_tag anchor tag line column) (\<lambda>_. Ok (Spanned line column (parse_scalar s plain), ts1))
       | EvSequenceStart anchor tag \<Rightarrow>
           rbind (reject_anchor_tag anchor tag line column) (\<lambda>_.
           rbind (parse_items show_event fuel ts1 []) (\<lambda>(items, ts2). Ok (Spanned line column (DArray items), ts2)))
       | EvMappingStart anchor tag \<Rightarrow>
           rbind (reject_anchor_tag anchor tag line column) (\<lambda>_.
           rbind (parse_fields show_event fuel ts1 []) (\<lambda>(m, ts2). Ok (Spanned line column (DMap m), ts2)))
       | EvAlias \<Rightarrow> Err (at_span (invalid ''YAML aliases are not allowed'') line column)
       | other \<Rightarrow> Err (at_span (invalid (''unexpected YAML event '' @ show_event other)) line column))"
| "parse_items show_event 0 ts items = Panic"
| "parse_items show_event (Suc fuel) ts items =
     rbind (next_token ts) (\<lambda>((event, line, column), ts1).
       if event = EvSequenceEnd then Ok (items, ts1)
       else if event = EvStreamEnd then Err (at_span (invalid ''unterminated sequence'') line column)
       else rbind (parse_node show_event fuel ts) (\<lambda>(item, ts2). parse_items show_event fuel ts2 (items @ [item])))"
| "parse_fields show_event 0 ts m = Panic"
| "parse_fields show_event (Suc fuel) ts m =
     rbind (next_token ts) (\<lambda>((event, line, column), ts1).
       if event = EvMappingEnd then Ok (m, ts1)
       else if event = EvAlias then Err (at_span (invalid ''YAML aliases are not allowed'') line column)
       else rbind (parse_node show_event fuel ts) (\<lambda>(key, ts2).
           rbind (doc_as_str key) (\<lambda>key_text.
             if map_of m key_text \<noteq> None then fail_at key (''duplicate key '' @ key_text)
             else rbind (parse_node show_event fuel ts2) (\<lambda>(value, ts3).
               parse_fields show_event fuel ts3 (bput key_text value m)))))"

definition expect_event ::
    "(yaml_event \<Rightarrow> string) \<Rightarrow> yaml_event \<Rightarrow> token list \<Rightarrow> token list res" where
  "expect_event show_event expected ts =
     rbind (next_token ts) (\<lambda>((event, line, column), ts1).
       if event = expected then Ok ts1
       else Err (at_span (invalid (''unexpected YAML event '' @ show_event event)) line column))"

definition MAX_YAML_BYTES :: nat where "MAX_YAML_BYTES = 256 * 1024"

definition parse_tokens :: "(yaml_event \<Rightarrow> string) \<Rightarrow> token list \<Rightarrow> spanned res" where
  "parse_tokens show_event ts =
     rbind (expect_event show_event EvStreamStart ts) (\<lambda>ts1.
     rbind (expect_event show_event EvDocumentStart ts1) (\<lambda>ts2.
     rbind (parse_node show_event (2 * length ts2 + 1) ts2) (\<lambda>(doc, ts3).
     rbind (expect_event show_event EvDocumentEnd ts3) (\<lambda>ts4.
     rbind (next_token ts4) (\<lambda>((event, line, column), _).
       if event = EvStreamEnd then Ok doc
       else if event = EvDocumentStart
       then Err (at_span (invalid ''multiple YAML documents are not allowed'') line column)
       else Err (at_span (invalid (''unexpected YAML event '' @ show_event event)) line column))))))"

definition parse_yaml :: "(yaml_event \<Rightarrow> string) \<Rightarrow> (string \<Rightarrow> token list) \<Rightarrow> string \<Rightarrow> spanned res" where
  "parse_yaml show_event scan s =
     (if length s > MAX_YAML_BYTES then Err (invalid ''YAML exceeds 256 KiB'')
      else parse_tokens show_event (scan s))"

section \<open>Fields\<close>

definition required :: "fields \<Rightarrow> string \<Rightarrow> spanned \<Rightarrow> spanned res" where
  "required m key owner =
     (case map_of m key of Some node \<Rightarrow> Ok node | None \<Rightarrow> fail_at owner (''missing field '' @ key))"

definition reject_unknown :: "fields \<Rightarrow> string list \<Rightarrow> spanned \<Rightarrow> unit res" where
  "reject_unknown m allowed owner =
     (case find (\<lambda>(key, _). key \<notin> set allowed) m of
        Some (key, _) \<Rightarrow> fail_at owner (''unknown field '' @ key)
      | None \<Rightarrow> Ok ())"

definition yaml_node_key :: "spanned \<Rightarrow> node_key res" where
  "yaml_node_key node =
     rbind (doc_as_str node) (\<lambda>s. case node_key_parse s of Inl e \<Rightarrow> Err (invalid e) | Inr key \<Rightarrow> Ok key)"

lemma size_entry: "sp_doc node = DMap m \<Longrightarrow> (k, v) \<in> set m \<Longrightarrow> size v < size node"
proof -
  have "(k, v) \<in> set m \<Longrightarrow> size v \<le> size_list (size_prod (\<lambda>_. 0) size) m"
    by (induction m) auto
  then show "sp_doc node = DMap m \<Longrightarrow> (k, v) \<in> set m \<Longrightarrow> size v < size node" by (cases node) simp
qed

lemma size_field: "sp_doc node = DMap m \<Longrightarrow> map_of m k = Some v \<Longrightarrow> size v < size node"
  by (rule size_entry) (auto dest: map_of_SomeD)

lemma size_item: "sp_doc node = DArray items \<Longrightarrow> v \<in> set items \<Longrightarrow> size v < size node"
proof -
  have "v \<in> set items \<Longrightarrow> size v \<le> size_list size items" by (induction items) auto
  then show "sp_doc node = DArray items \<Longrightarrow> v \<in> set items \<Longrightarrow> size v < size node" by (cases node) simp
qed

lemma size_field_item:
  "sp_doc node = DMap m \<Longrightarrow> map_of m k = Some w \<Longrightarrow> sp_doc w = DArray items \<Longrightarrow> v \<in> set items \<Longrightarrow> size v < size node"
  using size_field [of node m k w] size_item [of w items v] by simp

lemma size_field_entry:
  "sp_doc node = DMap m \<Longrightarrow> map_of m k = Some w \<Longrightarrow> sp_doc w = DMap m' \<Longrightarrow> (k', v) \<in> set m' \<Longrightarrow> size v < size node"
  using size_field [of node m k w] size_entry [of w m' k' v] by simp

lemmas size_parts = size_field size_field_item size_field_entry

lemma as_map_Ok: "as_map node = Ok m \<longleftrightarrow> sp_doc node = DMap m"
  by (auto simp: as_map_def fail_at_def split: doc.splits)

lemma required_Ok: "required m key owner = Ok v \<longleftrightarrow> map_of m key = Some v"
  by (auto simp: required_def fail_at_def split: option.splits)

section \<open>Schemas, bindings and conditions\<close>

function parse_schema_ref :: "spanned \<Rightarrow> schema_ref res" where
  "parse_schema_ref node =
     (case sp_doc node of
        DString s \<Rightarrow> rmap SNamed (schema_key_parse s)
      | DMap m \<Rightarrow>
          if length m \<noteq> 1 then fail_at node ''schema constructor must have exactly one field''
          else (case map_of m ''array'' of
            Some element \<Rightarrow> rmap SArray (parse_schema_ref element)
          | None \<Rightarrow>
              (case map_of m ''tuple'' of
                 Some elements \<Rightarrow>
                   (case sp_doc elements of
                      DArray items \<Rightarrow> rbind (rseq (map parse_schema_ref items)) schema_ref_tuple
                    | _ \<Rightarrow> fail_at elements ''tuple schema requires an array'')
               | None \<Rightarrow> fail_at node ''unknown schema constructor''))
      | _ \<Rightarrow> fail_at node ''schema reference must be a string or constructor'')"
  by pat_completeness auto
termination
  by (relation "measure size") (auto intro: size_parts)

function parse_binding :: "spanned \<Rightarrow> binding res" where
  "parse_binding node =
     (case sp_doc node of
        DMap m \<Rightarrow>
          if map_of m ''from'' \<noteq> None then
            rbind (reject_unknown m [''from'', ''path''] node) (\<lambda>_.
            rbind (required m ''from'' node) (\<lambda>f.
            rbind (doc_as_str f) (\<lambda>s.
            rbind (reference_parse s) (\<lambda>reference.
              case map_of m ''path'' of
                Some path \<Rightarrow> rmap (\<lambda>p. BFrom reference (Some p)) (doc_as_str path)
              | None \<Rightarrow> Ok (BFrom reference None)))))
          else if map_of m ''literal'' \<noteq> None then
            rbind (reject_unknown m [''literal''] node) (\<lambda>_.
              rmap (\<lambda>v. BLiteral (to_value v)) (required m ''literal'' node))
          else (case map_of m ''object'' of
            Some fields_node \<Rightarrow>
              rbind (reject_unknown m [''object''] node) (\<lambda>_.
                case sp_doc fields_node of
                  DMap entries \<Rightarrow> rmap BObject (rseq (map (\<lambda>(key, v). rmap (Pair key) (parse_binding v)) entries))
                | _ \<Rightarrow> fail_at fields_node ''expected a mapping'')
          | None \<Rightarrow>
              (case map_of m ''array'' of
                 Some items_node \<Rightarrow>
                   rbind (reject_unknown m [''array''] node) (\<lambda>_.
                     case sp_doc items_node of
                       DArray items \<Rightarrow> rmap BArray (rseq (map parse_binding items))
                     | _ \<Rightarrow> fail_at items_node ''array binding requires a sequence'')
               | None \<Rightarrow> fail_at node ''binding must be from, literal, object, or array''))
      | _ \<Rightarrow> fail_at node ''expected a mapping'')"
  by pat_completeness auto
termination
  by (relation "measure size") (auto intro: size_parts)

definition parse_comparison :: "string \<Rightarrow> spanned \<Rightarrow> condition res" where
  "parse_comparison op value =
     (case sp_doc value of
        DArray [l, r] \<Rightarrow>
          rbind (parse_binding l) (\<lambda>left.
          rbind (parse_binding r) (\<lambda>right.
            Ok (if op = ''eq'' then CEq left right
                else if op = ''ne'' then CNe left right
                else if op = ''lt'' then CLt left right
                else if op = ''le'' then CLe left right
                else if op = ''gt'' then CGt left right
                else CGe left right)))
      | _ \<Rightarrow> fail_at value ''comparison expects two bindings'')"

function parse_condition :: "spanned \<Rightarrow> condition res" where
  "parse_condition node =
     (case sp_doc node of
        DMap m \<Rightarrow>
          if length m \<noteq> 1 then fail_at node ''condition must have exactly one operator''
          else (case hd m of (op, operand) \<Rightarrow>
            if op \<in> {''eq'', ''ne'', ''lt'', ''le'', ''gt'', ''ge''} then parse_comparison op operand
            else if op = ''all'' \<or> op = ''any'' then
              (case sp_doc operand of
                 DArray items \<Rightarrow>
                   if items = [] then fail_at operand ''all/any requires at least one condition''
                   else rmap (if op = ''all'' then CAll else CAny) (rseq (map parse_condition items))
               | _ \<Rightarrow> fail_at operand ''all/any expects a nonempty sequence'')
            else if op = ''not'' then rmap CNot (parse_condition operand)
            else if op = ''exists'' then rmap CExists (parse_binding operand)
            else fail_at node (''unknown condition operator '' @ op))
      | _ \<Rightarrow> fail_at node ''expected a mapping'')"
  by pat_completeness auto
termination
proof (relation "measure size", goal_cases)
  case (2 node m op operand items item)
  from 2(1-3) have "size operand < size node" by (intro size_entry [of node m op]) (cases m; simp)+
  moreover from 2(6) have "size item < size operand" if "item \<in> set items"
    using that by (rule size_item)
  ultimately show ?case using 2 by simp
next
  case (3 node m op operand)
  from 3(1-3) have "size operand < size node" by (intro size_entry [of node m op]) (cases m; simp)+
  then show ?case by simp
qed simp

declare parse_schema_ref.simps [simp del] parse_binding.simps [simp del] parse_condition.simps [simp del]

section \<open>Reading ends and yields maps\<close>

lemma next_token_shrinks: "next_token ts = Ok (e, ts') \<Longrightarrow> e \<noteq> (EvStreamEnd, 0, 1) \<Longrightarrow> length ts' < length ts"
  by (induction ts rule: next_token.induct) auto

lemma next_token_no_panic: "next_token ts \<noteq> Panic"
  by (induction ts rule: next_token.induct) auto

lemma next_token_Nil: "next_token [] = Ok (e, ts') \<Longrightarrow> e = (EvStreamEnd, 0, 1)"
  by simp

lemma token_shrinks: "next_token ts = Ok ((event, line, column), ts') \<Longrightarrow> event \<noteq> EvStreamEnd \<Longrightarrow> length ts' < length ts"
  using next_token_shrinks [of ts] by auto

text \<open>Every mapping of a document is sorted by key without repetitions.\<close>

fun wf_spanned :: "spanned \<Rightarrow> bool"
and wf_doc :: "doc \<Rightarrow> bool" where
  "wf_spanned (Spanned _ _ d) = wf_doc d"
| "wf_doc (DArray items) = list_all wf_spanned items"
| "wf_doc (DMap m) = (sorted_wrt (<) (map fst m) \<and> list_all (\<lambda>(k, v). wf_spanned v) m)"
| "wf_doc _ = True"

text \<open>What the three readers do with a given fuel, and one step of each.\<close>

definition reads_node :: "(yaml_event \<Rightarrow> string) \<Rightarrow> nat \<Rightarrow> bool" where
  "reads_node f fuel \<longleftrightarrow>
     (\<forall>ts node ts'. parse_node f fuel ts = Ok (node, ts') \<longrightarrow> length ts' < length ts \<and> wf_spanned node)"

definition reads_items :: "(yaml_event \<Rightarrow> string) \<Rightarrow> nat \<Rightarrow> bool" where
  "reads_items f fuel \<longleftrightarrow>
     (\<forall>ts items items' ts'. parse_items f fuel ts items = Ok (items', ts') \<longrightarrow> list_all wf_spanned items
        \<longrightarrow> length ts' < length ts \<and> list_all wf_spanned items')"

definition reads_fields :: "(yaml_event \<Rightarrow> string) \<Rightarrow> nat \<Rightarrow> bool" where
  "reads_fields f fuel \<longleftrightarrow>
     (\<forall>ts m m' ts'. parse_fields f fuel ts m = Ok (m', ts') \<longrightarrow> wf_doc (DMap m)
        \<longrightarrow> length ts' < length ts \<and> wf_doc (DMap m'))"

lemma wf_parse_scalar: "wf_doc (parse_scalar s plain)"
  by (simp add: parse_scalar_def split: option.split)

lemma reads_node_step:
  assumes "reads_items f fuel" and "reads_fields f fuel"
  shows "reads_node f (Suc fuel)"
  unfolding reads_node_def
proof (intro allI impI)
  fix ts node ts'
  assume ok: "parse_node f (Suc fuel) ts = Ok (node, ts')"
  then obtain event line column ts1 where tok: "next_token ts = Ok ((event, line, column), ts1)"
    by (auto simp: res_simps)
  show "length ts' < length ts \<and> wf_spanned node"
  proof (cases event)
    case (EvScalar s plain anchor tag)
    with ok tok token_shrinks [OF tok] show ?thesis by (auto simp: res_simps wf_parse_scalar)
  next
    case (EvSequenceStart anchor tag)
    with ok tok obtain items where items: "parse_items f fuel ts1 [] = Ok (items, ts')" "node = Spanned line column (DArray items)"
      by (auto simp: res_simps)
    with assms(1) have "length ts' < length ts1 \<and> list_all wf_spanned items" unfolding reads_items_def by force
    with token_shrinks [OF tok] items(2) EvSequenceStart show ?thesis by simp
  next
    case (EvMappingStart anchor tag)
    with ok tok obtain m where m: "parse_fields f fuel ts1 [] = Ok (m, ts')" "node = Spanned line column (DMap m)"
      by (auto simp: res_simps)
    with assms(2) have "length ts' < length ts1 \<and> wf_doc (DMap m)" unfolding reads_fields_def by force
    with token_shrinks [OF tok] m(2) EvMappingStart show ?thesis by simp
  qed (use ok tok in \<open>auto simp: res_simps\<close>)
qed

lemma reads_items_step:
  assumes "reads_node f fuel" and "reads_items f fuel"
  shows "reads_items f (Suc fuel)"
  unfolding reads_items_def
proof (intro allI impI)
  fix ts items items' ts'
  assume ok: "parse_items f (Suc fuel) ts items = Ok (items', ts')" and wf: "list_all wf_spanned items"
  then obtain event line column ts1 where tok: "next_token ts = Ok ((event, line, column), ts1)"
    by (auto simp: res_simps)
  show "length ts' < length ts \<and> list_all wf_spanned items'"
  proof (cases "event = EvSequenceEnd")
    case True
    with ok tok wf token_shrinks [OF tok] show ?thesis by simp
  next
    case False
    with ok tok obtain item ts2 where item: "parse_node f fuel ts = Ok (item, ts2)"
      and rest: "parse_items f fuel ts2 (items @ [item]) = Ok (items', ts')"
      by (auto simp: res_simps split: if_splits)
    from item assms(1) have "length ts2 < length ts" "wf_spanned item" unfolding reads_node_def by blast+
    moreover from rest assms(2) \<open>wf_spanned item\<close> wf have "length ts' < length ts2 \<and> list_all wf_spanned items'"
      unfolding reads_items_def by force
    ultimately show ?thesis by simp
  qed
qed

lemma reads_fields_step:
  assumes "reads_node f fuel" and "reads_fields f fuel"
  shows "reads_fields f (Suc fuel)"
  unfolding reads_fields_def
proof (intro allI impI)
  fix ts m m' ts'
  assume ok: "parse_fields f (Suc fuel) ts m = Ok (m', ts')" and wf: "wf_doc (DMap m)"
  then obtain event line column ts1 where tok: "next_token ts = Ok ((event, line, column), ts1)"
    by (auto simp: res_simps)
  show "length ts' < length ts \<and> wf_doc (DMap m')"
  proof (cases "event = EvMappingEnd")
    case True
    with ok tok wf token_shrinks [OF tok] show ?thesis by simp
  next
    case False
    with ok tok obtain key ts2 name v ts3 where key: "parse_node f fuel ts = Ok (key, ts2)"
      and v: "parse_node f fuel ts2 = Ok (v, ts3)"
      and rest: "parse_fields f fuel ts3 (bput name v m) = Ok (m', ts')"
      by (auto simp: res_simps fail_at_def split: if_splits)
    from key v assms(1) have shrinks: "length ts2 < length ts" "length ts3 < length ts2" "wf_spanned v"
      unfolding reads_node_def by blast+
    with wf have "wf_doc (DMap (bput name v m))"
      by (auto simp: bput_sorted list_all_iff dest: bput_entries)
    with rest assms(2) have "length ts' < length ts3 \<and> wf_doc (DMap m')" unfolding reads_fields_def by blast
    with shrinks show ?thesis by simp
  qed
qed

lemma reads_all: "reads_node f fuel \<and> reads_items f fuel \<and> reads_fields f fuel"
proof (induction fuel)
  case 0
  show ?case by (simp add: reads_node_def reads_items_def reads_fields_def)
next
  case (Suc fuel)
  then show ?case by (simp add: reads_node_step reads_items_step reads_fields_step)
qed

lemma parse_node_shrinks: "parse_node f fuel ts = Ok (node, ts') \<Longrightarrow> length ts' < length ts \<and> wf_spanned node"
  using reads_all [of f fuel] by (auto simp: reads_node_def)

lemma reject_anchor_tag_no_panic: "reject_anchor_tag anchor tag line column \<noteq> Panic"
  by (simp add: reject_anchor_tag_def split: option.split)

lemma doc_as_str_no_panic: "doc_as_str node \<noteq> Panic"
  by (simp add: doc_as_str_def fail_at_def split: doc.split)

lemma parse_node_step_total:
  assumes "\<And>ts items. 2 * length ts + 2 \<le> fuel \<Longrightarrow> parse_items f fuel ts items \<noteq> Panic"
    and "\<And>ts m. 2 * length ts + 2 \<le> fuel \<Longrightarrow> parse_fields f fuel ts m \<noteq> Panic"
    and "2 * length ts + 1 \<le> Suc fuel"
  shows "parse_node f (Suc fuel) ts \<noteq> Panic"
proof (cases "next_token ts")
  case (Ok token)
  then obtain event line column ts1 where tok: "next_token ts = Ok ((event, line, column), ts1)" by (cases token) auto
  then have "event \<noteq> EvStreamEnd \<Longrightarrow> 2 * length ts1 + 2 \<le> fuel" using token_shrinks [OF tok] assms(3) by linarith
  with assms(1,2) tok show ?thesis
    by (cases event) (auto simp: rbind_eq_Panic reject_anchor_tag_no_panic)
qed (use next_token_no_panic in auto)

lemma parse_items_step_total:
  assumes "\<And>ts. 2 * length ts + 1 \<le> fuel \<Longrightarrow> parse_node f fuel ts \<noteq> Panic"
    and "\<And>ts items. 2 * length ts + 2 \<le> fuel \<Longrightarrow> parse_items f fuel ts items \<noteq> Panic"
    and "2 * length ts + 2 \<le> Suc fuel"
  shows "parse_items f (Suc fuel) ts items \<noteq> Panic"
proof (cases "next_token ts")
  case (Ok token)
  have "parse_items f fuel ts2 items' \<noteq> Panic" if "parse_node f fuel ts = Ok (item, ts2)" for item ts2 items'
    using parse_node_shrinks [OF that] assms(3) by (intro assms(2)) linarith
  moreover have "parse_node f fuel ts \<noteq> Panic" using assms(3) by (intro assms(1)) linarith
  ultimately show ?thesis using Ok by (auto simp: rbind_eq_Panic split: prod.splits)
qed (use next_token_no_panic in auto)

lemma parse_fields_step_total:
  assumes "\<And>ts. 2 * length ts + 1 \<le> fuel \<Longrightarrow> parse_node f fuel ts \<noteq> Panic"
    and "\<And>ts m. 2 * length ts + 2 \<le> fuel \<Longrightarrow> parse_fields f fuel ts m \<noteq> Panic"
    and "2 * length ts + 2 \<le> Suc fuel"
  shows "parse_fields f (Suc fuel) ts m \<noteq> Panic"
proof (cases "next_token ts")
  case (Ok token)
  have v: "parse_node f fuel ts2 \<noteq> Panic" if "parse_node f fuel ts = Ok (key, ts2)" for key ts2
    using parse_node_shrinks [OF that] assms(3) by (intro assms(1)) linarith
  have rest: "parse_fields f fuel ts3 m' \<noteq> Panic"
    if "parse_node f fuel ts = Ok (key, ts2)" "parse_node f fuel ts2 = Ok (v, ts3)" for key ts2 v ts3 m'
    using parse_node_shrinks [OF that(1)] parse_node_shrinks [OF that(2)] assms(3) by (intro assms(2)) linarith
  have "parse_node f fuel ts \<noteq> Panic" using assms(3) by (intro assms(1)) linarith
  with v rest Ok show ?thesis
    by (auto simp: rbind_eq_Panic doc_as_str_no_panic fail_at_def split: prod.splits)
qed (use next_token_no_panic in auto)

lemma parse_total:
  "(\<forall>ts. 2 * length ts + 1 \<le> fuel \<longrightarrow> parse_node f fuel ts \<noteq> Panic)
   \<and> (\<forall>ts items. 2 * length ts + 2 \<le> fuel \<longrightarrow> parse_items f fuel ts items \<noteq> Panic)
   \<and> (\<forall>ts m. 2 * length ts + 2 \<le> fuel \<longrightarrow> parse_fields f fuel ts m \<noteq> Panic)"
proof (induction fuel)
  case (Suc fuel)
  then show ?case
    using parse_node_step_total [of fuel f] parse_items_step_total [of fuel f] parse_fields_step_total [of fuel f] by blast
qed simp

lemma expect_event_Ok: "expect_event f expected ts = Ok ts' \<Longrightarrow> expected \<noteq> EvStreamEnd \<Longrightarrow> length ts' < length ts"
  by (auto simp: expect_event_def res_simps split: if_splits dest: token_shrinks)

lemma expect_event_no_panic: "expect_event f expected ts \<noteq> Panic"
  by (auto simp: expect_event_def rbind_eq_Panic next_token_no_panic split: prod.splits)

text \<open>Property C32: reading a workflow text ends with a document or an error, whatever the scanner
  delivers, and every mapping of the document, at any depth, has its keys in order and each of them
  once.\<close>

theorem parse_yaml_total:
  "parse_yaml show_event scan s \<noteq> Panic
   \<and> list_all wf_spanned (case parse_yaml show_event scan s of Ok node \<Rightarrow> [node] | _ \<Rightarrow> [])"
proof -
  have node: "parse_node show_event (Suc (2 * length ts)) ts \<noteq> Panic" for ts
    using parse_total [of "Suc (2 * length ts)" show_event] by (simp del: parse_node.simps)
  have "parse_tokens show_event ts \<noteq> Panic" for ts
    by (auto simp: parse_tokens_def rbind_eq_Panic expect_event_no_panic node next_token_no_panic
        simp del: parse_node.simps split: prod.splits if_splits)
  moreover have "wf_spanned node" if "parse_tokens show_event ts = Ok node" for ts node
    using that by (auto simp: parse_tokens_def res_simps simp del: parse_node.simps split: if_splits
        dest!: parse_node_shrinks)
  ultimately show ?thesis by (auto simp: parse_yaml_def split: res.splits)
qed

end
