(* ===== verification/Spec2Isabelle.thy ===== *)
theory Spec2Isabelle
  imports Replay Cycles Execution Schedule Framing Clock Yaml
begin

text \<open>
  A verification development for graphrun, an embedded durable workflow engine (src/graphrun/src).

  \<^bold>\<open>The program.\<close> A workflow is a definition: a tree of regions of nodes (activities, choices, timers,
  signal waits, loops, parallel branches, sagas) over a catalog of schemas and activity contracts. Clients
  submit commands; a Raft log (the openraft crate) orders them; every member applies each committed entry to
  its copy of the state. Applying a command means: check its identity against the receipts, \<open>decide\<close> the events
  it leads to, \<open>evolve\<close> the state by each event and append the event to the history of its run. Workers open
  sessions, claim ready activities under a lease and report results, which are fenced by session, owner
  generation and lease revision. Histories are retained, checkpointed, read back and pruned. Catalogs and
  definitions are published under immutable versions, and the format in which commands are written is raised
  only when every member can read it.

  \<^bold>\<open>How the theories model it\<close> (file names are those of src/graphrun/src):
  \<^item> Prelude: \<open>Error\<close> and \<open>Result\<close> of error.rs, as \<open>error\<close> and \<open>'a res\<close> with the outcomes \<open>Ok\<close>, \<open>Err\<close> and
    \<open>Panic\<close> (an \<open>unwrap\<close>, \<open>expect\<close> or \<open>unreachable!\<close>), saturating and wrapping arithmetic at its width, hash
    maps as association lists and B-tree maps as sorted ones, and the lemmas shared by all theories.
  \<^item> Values, Ids, Bindings, Policies, Ir: the data of value.rs, ids.rs, schema.rs, binding.rs, policy.rs,
    limits.rs, time.rs, ir.rs, catalog.rs and worker_contract.rs, with parsers, printers and validation.
  \<^item> Yaml: documents and their readers (yaml.rs). Analysis: the graph checks of compiler.rs
    (\<open>analyze_tree\<close>, \<open>analyze_region\<close>, \<open>detect_cycle\<close>). Cycles: what the cycle check decides.
  \<^item> Domain_State: the replicated state (a record), the events and the commands of domain.rs, history.rs,
    publication.rs and format_upgrade.rs. Evaluation: region lookup and binding evaluation. Evolve: \<open>evolve\<close>,
    one equation per event. History: artifacts and \<open>append\<close>, and \<open>apply_events_with_cause\<close>.
  \<^item> Scopes, Sagas, Signals, Claims, Reports, Progress, Decide: the decisions of domain.rs, one function per
    function of the source; \<open>decide\<close> dispatches on every command.
  \<^item> Retention: pages, reconstruction, checkpoints and \<open>prune\<close> of history.rs. Apply, Publication, Commit:
    receipts and command identity, publication.rs, and \<open>commit_command\<close>.
  \<^item> Formats, Store_Check, Entries: format_upgrade.rs and the store manifest, \<open>validate_history_store\<close>, and
    \<open>apply_one_entry\<close>, \<open>apply_entries\<close> and \<open>prepare_format_readers\<close> of storage.rs over a member record.
  \<^item> Schedule: schedule.rs and the schedule index of storage.rs. Framing: snapshot_framing.rs over byte lists.
    Clock: clock.rs.
  \<^item> Steps gives the meaning of a committed command as a sequence of primitive steps; a relation or an
    invariant kept by each step is kept by every command and every log. The locales \<open>commit_order\<close>,
    \<open>step_order\<close> and \<open>step_invariant\<close> of Entries state this once and are interpreted by the theories below.

  \<^bold>\<open>What is shown.\<close> Claims: grants are sound, fair and maximal (Claims). Receipts: a retried command answers with
  what was recorded and changes nothing (Receipts, Formats). Growth: time, generations, publications and
  formats only move forward. Opening, History_Check, Published_Check: every reachable member passes the checks
  its store is opened with. Typing: the state keeps its type. Replay: reconstruction from a checkpoint agrees
  with reconstruction from the whole history, and the checkpoints that are taken are sound. Pruning: retention
  takes the earliest due records, at most the limit, and no run that is still retained. Execution: fencing of
  reports, renewal, the reverse order of compensation, when a saga may fail, and the least free item of a
  fan-out. Schedule: the index agrees with what claims and retention do. Framing: the round trip of snapshot
  files and what an accepted file is. Clock: the latch and the quorum. Yaml: reading ends and yields maps.
  Sample and Scenario hold a concrete installation and a short log on which the theorems are applied.

  \<^bold>\<open>Parameters.\<close> Code outside the repository is an argument: SHA-256, hexadecimal, the serde and protobuf
  encoders, JSON Schema validation (the records \<open>ext\<close> and \<open>externals\<close>), the YAML scanner, and what hosts and
  peers answer. The theorems name the laws they use of them (for instance the length of a digest and that
  decoding inverts encoding in Framing).

  \<^bold>\<open>Fuel and partiality.\<close> Region lookup and the search for the saga of a scope follow parent links, which need not
  be well founded in an arbitrary state; they are partial functions whose \<open>None\<close> is not returning.
  \<open>free_index\<close> has as much fuel as there are taken indices (\<open>next_item_index_spec\<close>), and the YAML reader twice the
  number of tokens (\<open>parse_total\<close>); both are proved to be enough. Everything else is total.

  \<^bold>\<open>Not modelled.\<close> The key-value tables, transactions and rows of storage.rs and record_store.rs beyond the
  effect of an entry, the store check and the schedule index: input and output of the redb crate. Consensus,
  networking, certificates and generated messages (cluster.rs, rpc.rs, tls.rs apart from the identity segments,
  client.rs, write.rs, generated). The asynchronous drivers (engine.rs, worker.rs, provider.rs, handlers.rs),
  whose commands go through the modelled core. The translation of documents and of the typed builder into
  definitions (the \<open>compile_\<close> functions of compiler.rs, builder.rs, flow.rs). The command line tool, the samples
  and the test programs. Iteration over hash maps follows the order of the association list; a theorem that
  mentions an order holds for any order of the list.
\<close>

end
